(* ===== verification/Prelude.thy ===== *)
theory Prelude
  imports Complex_Main "HOL-Library.Word" "HOL-Library.AList" "HOL-Library.Multiset"
begin

text \<open>
  Shared vocabulary of the development: Rust's machine integers as words, the integer
  operations of the standard library that the crates use, hash tables as association
  lists, decimal rendering for the \<open>Display\<close> implementations, and the generic lemmas
  on words, association lists and sums that the component theories rely on.

  \<^bold>\<open>Integers.\<close> Plain \<open>+\<close>, \<open>-\<close> and \<open>*\<close> are the wrapping operations of a release build
  (the workspace sets no \<open>overflow-checks\<close>); \<open>checked_add\<close> and \<open>saturating_sub\<close> are written
  out. A build with debug assertions panics where a release build wraps.

  \<^bold>\<open>Hash tables.\<close> A \<open>HashMap\<close> is an association list with distinct keys whose list order is
  the order in which the table would be iterated. Rust leaves this order unspecified, so
  the results that depend on an iteration are proved independent of it.
\<close>

section \<open>Collections of rewrite rules\<close>

named_theorems rust_arith \<open>value of the integer operations as natural numbers\<close>
named_theorems hm_simps \<open>hash table look-up after an update\<close>

section \<open>Machine integers\<close>

type_synonym u8 = "8 word"
type_synonym u32 = "32 word"
type_synonym u64 = "64 word"
type_synonym u128 = "128 word"
type_synonym usize = "64 word"

abbreviation u64_MAX :: u64 where
  "u64_MAX \<equiv> - 1"

definition checked_add :: "'a::len word \<Rightarrow> 'a word \<Rightarrow> 'a word option" where
  "checked_add a b = (if unat a + unat b < 2 ^ LENGTH('a) then Some (a + b) else None)"

definition saturating_sub :: "'a::len word \<Rightarrow> 'a word \<Rightarrow> 'a word" where
  "saturating_sub a b = (if b \<le> a then a - b else 0)"

text \<open>Rust's \<open>as\<close> casts from \<open>u64\<close>: widening to \<open>u128\<close>, truncation to \<open>u32\<close>.\<close>

definition as_u128 :: "u64 \<Rightarrow> u128" where
  "as_u128 x = ucast x"

definition as_u32 :: "u64 \<Rightarrow> u32" where
  "as_u32 x = ucast x"

definition usize_of_nat :: "nat \<Rightarrow> usize" where
  "usize_of_nat n = of_nat n"

definition sum_u128 :: "u128 list \<Rightarrow> u128" where
  "sum_u128 xs = foldl (+) 0 xs"

lemma unat_u64_less: "unat (x :: u64) < 18446744073709551616"
  using unsigned_less [of x, where ?'a = nat] by simp

lemma unat_u64_MAX [simp]: "unat (u64_MAX :: u64) = 18446744073709551615"
  by (simp add: unsigned_minus_1_eq_mask mask_eq_exp_minus_1)

lemma checked_add_Some_iff:
  "checked_add a b = Some c \<longleftrightarrow> c = a + b \<and> unat a + unat b < 2 ^ LENGTH('a)"
  for a b :: "'a::len word"
  by (auto simp: checked_add_def)

lemma unat_checked_add [rust_arith]:
  "checked_add a b = Some c \<Longrightarrow> unat c = unat a + unat b"
  for a b :: "'a::len word"
  by (auto simp: checked_add_Some_iff unat_word_ariths)

lemma checked_add_one_eq:
  "checked_add r 1 = (if r = u64_MAX then None else Some (r + 1))" for r :: u64
proof -
  have "unat r + 1 < 2 ^ 64 \<longleftrightarrow> r \<noteq> u64_MAX"
  proof
    assume "unat r + 1 < 2 ^ 64"
    then show "r \<noteq> u64_MAX" by auto
  next
    assume "r \<noteq> u64_MAX"
    then have "unat r \<noteq> unat (u64_MAX :: u64)" by (metis word_eq_iff_unsigned)
    then show "unat r + 1 < 2 ^ 64"
      using unat_u64_less [of r] unat_u64_MAX by simp
  qed
  then show ?thesis by (simp add: checked_add_def)
qed

lemma unat_plus_one [rust_arith]:
  "r \<noteq> u64_MAX \<Longrightarrow> unat (r + 1) = unat r + 1" for r :: u64
  using unat_checked_add [of r 1 "r + 1"] by (simp add: checked_add_one_eq)

lemma plus_one_greater: "r \<noteq> u64_MAX \<Longrightarrow> r < r + 1" for r :: u64
  by (simp add: word_less_nat_alt unat_plus_one)

lemma plus_one_le_iff: "r \<noteq> u64_MAX \<Longrightarrow> r + 1 \<le> s \<longleftrightarrow> r < s" for r s :: u64
  by (simp add: word_less_nat_alt word_le_nat_alt unat_plus_one Suc_le_eq)

lemma less_plus_one_iff: "s \<noteq> u64_MAX \<Longrightarrow> r < s + 1 \<longleftrightarrow> r \<le> s" for r s :: u64
  by (simp add: word_less_nat_alt word_le_nat_alt unat_plus_one less_Suc_eq_le)

lemma le_u64_MAX [simp]: "r \<le> (u64_MAX :: u64)"
  using unat_u64_less [of r] by (simp add: word_le_nat_alt)

lemma saturating_sub_one_plus_one: "0 < r \<Longrightarrow> saturating_sub r 1 + 1 = r" for r :: u64
  by (auto simp: saturating_sub_def word_le_nat_alt word_less_nat_alt)

lemma saturating_sub_zero [simp]: "saturating_sub 0 b = 0"
  by (simp add: saturating_sub_def)

lemma unat_saturating_sub [rust_arith]: "unat (saturating_sub a b) = unat a - unat b"
  by (auto simp: saturating_sub_def unat_sub word_le_nat_alt)

lemma saturating_sub_le [simp]: "saturating_sub a b \<le> a"
  by (simp add: word_le_nat_alt unat_saturating_sub)

lemma saturating_sub_one_neq_MAX [simp]: "saturating_sub r 1 \<noteq> u64_MAX" for r :: u64
proof
  assume "saturating_sub r 1 = u64_MAX"
  then have "unat r - 1 = 18446744073709551615"
    using unat_saturating_sub [of r 1] by simp
  then show False using unat_u64_less [of r] by linarith
qed

lemma unat_as_u128 [rust_arith]: "unat (as_u128 x) = unat x"
proof -
  have "unat x < 2 ^ 128" using unat_u64_less [of x] by simp
  then show ?thesis by (simp add: as_u128_def unsigned_ucast_eq take_bit_nat_eq_self)
qed

subsection \<open>Sums that do not overflow\<close>

text \<open>
  A sum of \<open>u64\<close> values accumulated in a \<open>u128\<close> agrees with the exact sum as long as the
  exact sum is below \<open>2 ^ 128\<close>, which holds for every list of fewer than \<open>2 ^ 64\<close> values.
\<close>

lemma foldl_plus_u128:
  "unat a + (\<Sum>x\<leftarrow>xs. unat x) < 2 ^ 128 \<Longrightarrow>
   unat (foldl (+) a xs) = unat a + (\<Sum>x\<leftarrow>xs. unat x)" for a :: u128
proof (induction xs arbitrary: a)
  case Nil
  then show ?case by simp
next
  case (Cons x xs)
  from Cons.prems have "unat (a + x) = unat a + unat x"
    by (simp add: unat_word_ariths)
  with Cons.IH [of "a + x"] Cons.prems show ?case by simp
qed

lemma unat_sum_u128 [rust_arith]:
  "(\<Sum>x\<leftarrow>xs. unat x) < 2 ^ 128 \<Longrightarrow> unat (sum_u128 xs) = (\<Sum>x\<leftarrow>xs. unat x)"
  using foldl_plus_u128 [of 0 xs] by (simp add: sum_u128_def)

lemma sum_u64_bound: "(\<Sum>x\<leftarrow>xs. unat (x :: u64)) \<le> length xs * (2 ^ 64 - 1)"
proof (induction xs)
  case (Cons x xs)
  with unat_u64_less [of x] show ?case by simp
qed simp

lemma foldl_plus_eq_sum_list: "foldl (+) a xs = a + sum_list xs"
  for a :: "'a::monoid_add"
  by (induction xs arbitrary: a) (simp_all add: add.assoc)

lemma sum_u128_eq_sum_list: "sum_u128 xs = sum_list xs"
  by (simp add: sum_u128_def foldl_plus_eq_sum_list)

lemma sum_u128_perm: "mset xs = mset ys \<Longrightarrow> sum_u128 xs = sum_u128 ys"
  by (metis sum_mset_sum_list sum_u128_eq_sum_list)

section \<open>Vectors\<close>

text \<open>\<open>Vec::get\<close>: the element at an index, \<open>None\<close> out of range.\<close>

definition vec_get :: "'a list \<Rightarrow> usize \<Rightarrow> 'a option" where
  "vec_get xs i = (if unat i < length xs then Some (xs ! unat i) else None)"

lemma unat_usize_of_nat [rust_arith]: "n < 2 ^ 64 \<Longrightarrow> unat (usize_of_nat n) = n"
  by (simp add: usize_of_nat_def unsigned_of_nat take_bit_nat_eq_self)

lemma vec_get_mod:
  assumes "xs \<noteq> []" "length xs < 2 ^ 64"
  shows "vec_get xs (i mod usize_of_nat (length xs)) = Some (xs ! (unat i mod length xs))"
proof -
  have "unat (i mod usize_of_nat (length xs)) = unat i mod length xs"
    by (simp add: unat_mod_distrib unat_usize_of_nat [OF assms(2)])
  then show ?thesis using assms(1) by (simp add: vec_get_def)
qed

text \<open>A full turn around a list, from any starting point, visits every position once.\<close>

lemma mset_turn: "mset (map (\<lambda>i. xs ! ((k + i) mod length xs)) [0..<length xs]) = mset xs"
proof -
  have "map (\<lambda>i. xs ! ((k + i) mod length xs)) [0..<length xs] = rotate k xs"
    by (rule nth_equalityI) (simp_all add: nth_rotate)
  moreover have "mset (rotate k xs) = mset xs"
    by (metis append_take_drop_id mset_append rotate_drop_take union_commute)
  ultimately show ?thesis by simp
qed

section \<open>Hash tables\<close>

type_synonym ('k, 'v) hashmap = "('k \<times> 'v) list"

definition hm_empty :: "('k, 'v) hashmap" where
  "hm_empty = []"

definition hm_get :: "('k, 'v) hashmap \<Rightarrow> 'k \<Rightarrow> 'v option" where
  "hm_get m k = map_of m k"

definition hm_contains_key :: "('k, 'v) hashmap \<Rightarrow> 'k \<Rightarrow> bool" where
  "hm_contains_key m k = (hm_get m k \<noteq> None)"

definition hm_insert :: "'k \<Rightarrow> 'v \<Rightarrow> ('k, 'v) hashmap \<Rightarrow> ('k, 'v) hashmap" where
  "hm_insert k v m = AList.update k v m"

definition hm_remove :: "'k \<Rightarrow> ('k, 'v) hashmap \<Rightarrow> ('k, 'v) hashmap" where
  "hm_remove k m = AList.delete k m"

definition hm_retain :: "('k \<Rightarrow> 'v \<Rightarrow> bool) \<Rightarrow> ('k, 'v) hashmap \<Rightarrow> ('k, 'v) hashmap" where
  "hm_retain P m = filter (\<lambda>(k, v). P k v) m"

definition hm_keys :: "('k, 'v) hashmap \<Rightarrow> 'k list" where
  "hm_keys m = map fst m"

definition hm_values :: "('k, 'v) hashmap \<Rightarrow> 'v list" where
  "hm_values m = map snd m"

definition hm_wf :: "('k, 'v) hashmap \<Rightarrow> bool" where
  "hm_wf m = distinct (map fst m)"

text \<open>Collecting an iterator of pairs: a later pair replaces an earlier one.\<close>

definition hm_collect :: "('k \<times> 'v) list \<Rightarrow> ('k, 'v) hashmap" where
  "hm_collect kvs = foldl (\<lambda>m (k, v). hm_insert k v m) hm_empty kvs"

lemma hm_get_empty [simp, hm_simps]: "hm_get hm_empty k = None"
  by (simp add: hm_get_def hm_empty_def)

lemma hm_get_insert [simp, hm_simps]:
  "hm_get (hm_insert k v m) k' = (if k' = k then Some v else hm_get m k')"
  by (simp add: hm_get_def hm_insert_def update_conv')

lemma hm_get_remove [simp, hm_simps]:
  "hm_get (hm_remove k m) k' = (if k' = k then None else hm_get m k')"
  by (simp add: hm_get_def hm_remove_def delete_conv')

lemma hm_contains_insert [simp]:
  "hm_contains_key (hm_insert k v m) k' = (k' = k \<or> hm_contains_key m k')"
  by (simp add: hm_contains_key_def)

lemma hm_contains_iff: "hm_contains_key m k \<longleftrightarrow> k \<in> set (hm_keys m)"
  by (auto simp: hm_contains_key_def hm_get_def hm_keys_def map_of_eq_None_iff)

lemma hm_get_retain:
  "hm_wf m \<Longrightarrow> hm_get (hm_retain P m) k =
     (case hm_get m k of None \<Rightarrow> None | Some v \<Rightarrow> if P k v then Some v else None)"
proof (induction m)
  case (Cons a m)
  then show ?case
    by (cases a)
      (auto simp: hm_retain_def hm_get_def hm_wf_def map_of_eq_None_iff image_iff
        split: option.splits if_splits)
qed (simp add: hm_retain_def hm_get_def)

lemma hm_wf_empty [simp, intro]: "hm_wf hm_empty"
  by (simp add: hm_wf_def hm_empty_def)

lemma hm_wf_insert [simp, intro]: "hm_wf m \<Longrightarrow> hm_wf (hm_insert k v m)"
  by (simp add: hm_wf_def hm_insert_def distinct_update)

lemma hm_wf_remove [simp, intro]: "hm_wf m \<Longrightarrow> hm_wf (hm_remove k m)"
  by (simp add: hm_wf_def hm_remove_def distinct_delete)

lemma hm_wf_retain [simp, intro]: "hm_wf m \<Longrightarrow> hm_wf (hm_retain P m)"
  by (simp add: hm_wf_def hm_retain_def distinct_map_filter)

lemma hm_get_in_set: "hm_get m k = Some v \<Longrightarrow> (k, v) \<in> set m"
  by (simp add: hm_get_def map_of_SomeD)

lemma hm_get_iff_in_set: "hm_wf m \<Longrightarrow> hm_get m k = Some v \<longleftrightarrow> (k, v) \<in> set m"
  by (simp add: hm_get_def hm_wf_def)

lemma hm_insert_new: "hm_get m k = None \<Longrightarrow> hm_insert k v m = m @ [(k, v)]"
proof (induction m)
  case (Cons a m)
  then show ?case by (cases a) (auto simp: hm_get_def hm_insert_def split: if_splits)
qed (simp add: hm_insert_def)

lemma hm_length_insert:
  "length (hm_insert k v m) = (if hm_contains_key m k then length m else Suc (length m))"
proof (induction m)
  case (Cons a m)
  then show ?case
    by (cases a) (auto simp: hm_contains_key_def hm_get_def hm_insert_def)
qed (simp add: hm_contains_key_def hm_get_def hm_insert_def)

lemma hm_wf_distinct_keys: "hm_wf m \<Longrightarrow> distinct (hm_keys m)"
  by (simp add: hm_wf_def hm_keys_def)

lemma hm_wf_mset: "hm_wf m \<Longrightarrow> hm_wf m' \<Longrightarrow> hm_get m = hm_get m' \<Longrightarrow> mset m = mset m'"
  by (metis distinct_map hm_get_def hm_wf_def ext map_of_eqI set_eq_iff_mset_eq_distinct
      map_of_inject_set)

lemma hm_wf_foldl_insert: "hm_wf m \<Longrightarrow> hm_wf (foldl (\<lambda>m (k, v). hm_insert k v m) m kvs)"
  by (induction kvs arbitrary: m) (auto simp: case_prod_beta)

lemma hm_wf_collect [simp]: "hm_wf (hm_collect kvs)"
  by (simp add: hm_collect_def hm_wf_foldl_insert)

lemma hm_get_foldl_insert:
  "hm_get (foldl (\<lambda>m (k, v). hm_insert k v m) m kvs) k =
     (case map_of (rev kvs) k of None \<Rightarrow> hm_get m k | Some v \<Rightarrow> Some v)"
  by (induction kvs arbitrary: m) (auto simp: map_add_def case_prod_beta split: option.splits)

lemma hm_get_collect [hm_simps]: "hm_get (hm_collect kvs) k = map_of (rev kvs) k"
  by (simp add: hm_collect_def hm_get_foldl_insert split: option.splits)

section \<open>Decimal rendering\<close>

text \<open>\<open>Display\<close> and \<open>Debug\<close> of the integers, options and strings used in messages.\<close>

definition digit_char :: "nat \<Rightarrow> char" where
  "digit_char d = char_of (48 + d)"

fun show_nat :: "nat \<Rightarrow> string" where
  "show_nat n = (if n < 10 then [digit_char n] else show_nat (n div 10) @ [digit_char (n mod 10)])"

declare show_nat.simps [simp del]

definition show_u64 :: "u64 \<Rightarrow> string" where
  "show_u64 w = show_nat (unat w)"

definition show_u128 :: "u128 \<Rightarrow> string" where
  "show_u128 w = show_nat (unat w)"

definition show_u64_option :: "u64 option \<Rightarrow> string" where
  "show_u64_option x = (case x of None \<Rightarrow> ''None'' | Some w \<Rightarrow> ''Some('' @ show_u64 w @ '')'')"

definition read_digits :: "string \<Rightarrow> nat" where
  "read_digits cs = foldl (\<lambda>n c. 10 * n + (of_char c - 48)) 0 cs"

lemma read_show_nat: "read_digits (show_nat n) = n"
proof (induction n rule: show_nat.induct)
  case (1 n)
  show ?case
  proof (cases "n < 10")
    case True
    then show ?thesis by (simp add: show_nat.simps [of n] read_digits_def digit_char_def)
  next
    case False
    with 1 show ?thesis
      by (simp add: show_nat.simps [of n] read_digits_def digit_char_def)
  qed
qed

lemma show_u64_inject: "show_u64 a = show_u64 b \<longleftrightarrow> a = b"
  by (metis read_show_nat show_u64_def word_eq_iff_unsigned)

end
