(* ===== verification/Base_Types.thy ===== *)
theory Base_Types
  imports Prelude
begin

text \<open>
  Models \<open>consensus-core/src/types.rs\<close> and the error type of the crates. An
  \<open>anyhow::Error\<close> is the message it displays; a panic (a failed \<open>assert!\<close>, an
  \<open>unwrap\<close> on \<open>None\<close>, a remainder by zero) is a separate constructor, which no code of the
  crates catches. A \<open>Result<T, Error>\<close> is the sum type \<open>'a res\<close>, a \<open>f64\<close> is a value of a
  type \<open>'f\<close> with the operations of \<open>f64_ops\<close>.
\<close>

datatype error = Msg string | Panic string

type_synonym 'a res = "error + 'a"

definition is_ok :: "'e + 'a \<Rightarrow> bool" where
  "is_ok r = (case r of Inl _ \<Rightarrow> False | Inr _ \<Rightarrow> True)"

fun to_string :: "error \<Rightarrow> string" where
  "to_string (Msg m) = m"
| "to_string (Panic m) = m"

lemma is_ok_simps [simp]: "is_ok (Inr x)" "\<not> is_ok (Inl e)"
  by (simp_all add: is_ok_def)

lemma is_ok_iff: "is_ok r \<longleftrightarrow> (\<exists>x. r = Inr x)"
  by (cases r) auto

section \<open>Rounds, epochs and vote status\<close>

type_synonym round = u64
type_synonym epoch = u64

definition GENESIS_ROUND :: round where
  "GENESIS_ROUND = 0"

definition GENESIS_EPOCH :: epoch where
  "GENESIS_EPOCH = 0"

datatype timeout_reason = NoQuorum | SlowLeader | NetworkDelay | ResourceConstraints

fun timeout_reason_fmt :: "timeout_reason \<Rightarrow> string" where
  "timeout_reason_fmt NoQuorum = ''no_quorum''"
| "timeout_reason_fmt SlowLeader = ''slow_leader''"
| "timeout_reason_fmt NetworkDelay = ''network_delay''"
| "timeout_reason_fmt ResourceConstraints = ''resource_constraints''"

datatype vote_status =
    VS_Accepted
  | VS_Rejected
  | VS_QuorumCompleted
  | VS_OldRound
  | VS_FutureRound

section \<open>Durations and the clock\<close>

text \<open>
  A \<open>Duration\<close> is its number of nanoseconds. A reading of \<open>SystemTime::now()\<close> is an argument
  of the operations that take one: its distance from the Unix epoch in nanoseconds, negative
  before the epoch, where \<open>duration_since\<close> fails and the callers use zero.
\<close>

type_synonym duration = nat
type_synonym clock = int

definition from_millis :: "u64 \<Rightarrow> duration" where
  "from_millis ms = unat ms * 1000000"

text \<open>\<open>Duration::as_millis\<close> followed by the cast of its \<open>u128\<close> to \<open>u64\<close>.\<close>

definition as_millis_u64 :: "duration \<Rightarrow> u64" where
  "as_millis_u64 d = of_nat (d div 1000000)"

definition as_secs :: "duration \<Rightarrow> u64" where
  "as_secs d = of_nat (d div 1000000000)"

definition duration_since_epoch :: "clock \<Rightarrow> duration option" where
  "duration_since_epoch now = (if now < 0 then None else Some (nat now))"

definition now_secs :: "clock \<Rightarrow> u64" where
  "now_secs now = (case duration_since_epoch now of Some d \<Rightarrow> as_secs d | None \<Rightarrow> 0)"

definition now_millis :: "clock \<Rightarrow> u64" where
  "now_millis now = (case duration_since_epoch now of Some d \<Rightarrow> as_millis_u64 d | None \<Rightarrow> 0)"

section \<open>Floating point\<close>

text \<open>
  The operations on \<open>f64\<close> that the crates use. Rust leaves the precision of \<open>powf\<close>
  unspecified, so the operations are an argument of every definition that computes with
  them; \<open>fl_lit\<close> gives the double nearest to a decimal literal.
\<close>

record 'f f64_ops =
  fl_lit :: "rat \<Rightarrow> 'f"
  fl_of_u64 :: "u64 \<Rightarrow> 'f"
  fl_of_u32 :: "u32 \<Rightarrow> 'f"
  fl_add :: "'f \<Rightarrow> 'f \<Rightarrow> 'f"
  fl_mul :: "'f \<Rightarrow> 'f \<Rightarrow> 'f"
  fl_powf :: "'f \<Rightarrow> 'f \<Rightarrow> 'f"
  fl_ceil :: "'f \<Rightarrow> 'f"
  fl_lt :: "'f \<Rightarrow> 'f \<Rightarrow> bool"
  fl_le :: "'f \<Rightarrow> 'f \<Rightarrow> bool"
  fl_to_u64 :: "'f \<Rightarrow> u64"

text \<open>\<open>f64::clamp\<close>: a NaN is returned unchanged, since both comparisons are false.\<close>

definition fl_clamp :: "'f f64_ops \<Rightarrow> 'f \<Rightarrow> 'f \<Rightarrow> 'f \<Rightarrow> 'f" where
  "fl_clamp F x lo hi = (if fl_lt F x lo then lo else if fl_lt F hi x then hi else x)"

text \<open>
  The same operations on exact rationals, with natural exponents: the values agree with
  double precision wherever the latter is exact. Used to evaluate examples.
\<close>

definition rat_f64 :: "rat f64_ops" where
  "rat_f64 =
     \<lparr>fl_lit = id,
      fl_of_u64 = (\<lambda>w. of_nat (unat w)),
      fl_of_u32 = (\<lambda>w. of_nat (unat w)),
      fl_add = (+),
      fl_mul = (*),
      fl_powf = (\<lambda>b e. b ^ nat \<lfloor>e\<rfloor>),
      fl_ceil = (\<lambda>x. of_int \<lceil>x\<rceil>),
      fl_lt = (<),
      fl_le = (\<le>),
      fl_to_u64 = (\<lambda>x. if x < 0 then 0 else if 2 ^ 64 \<le> x then u64_MAX else of_nat (nat \<lfloor>x\<rfloor>))\<rparr>"

lemma timeout_reason_fmt_inject: "timeout_reason_fmt a = timeout_reason_fmt b \<longleftrightarrow> a = b"
  by (cases a; cases b) simp_all

end
