(* ===== verification/Traits.thy ===== *)
theory Traits
  imports Base_Types
begin

text \<open>
  Models the crate \<open>consensus-traits\<close>. A type that implements a trait is seen by the
  consensus code only through the trait's methods, so
  \<^item> a trait of plain accessors (block, metadata, vote, certificate, ledger info) is a
    record with one field per accessor, and its default methods are definitions;
  \<^item> a trait whose methods compute or change state (\<open>ValidatorVerifier\<close>, \<open>SafetyRules\<close>,
    \<open>ProposerElection\<close>, \<open>ConsensusStorage\<close>) is a record of functions, passed as an argument
    to the definitions that are generic over it.
  The associated types are type variables: \<open>'n\<close> node ids, \<open>'h\<close> hashes, \<open>'s\<close> signatures,
  \<open>'g\<close> aggregated signatures. The hash types of blocks, votes and certificates are one
  type, as the comment in \<open>PendingVotes::add_vote\<close> expects.
\<close>

section \<open>core.rs\<close>

datatype verify_error =
    UnknownAuthor
  | TooLittleVotingPower u128 u128
  | InvalidSignature
  | InvalidAggregatedSignature

fun verify_error_fmt :: "verify_error \<Rightarrow> string" where
  "verify_error_fmt UnknownAuthor = ''Author is unknown''"
| "verify_error_fmt (TooLittleVotingPower p e) =
     ''The voting power ('' @ show_u128 p @ '') is less than expected ('' @ show_u128 e @ '')''"
| "verify_error_fmt InvalidSignature = ''Signature verification failed''"
| "verify_error_fmt InvalidAggregatedSignature = ''Aggregated signature is invalid''"

text \<open>The conversion the \<open>?\<close> operator applies to a \<open>VerifyError\<close>.\<close>

definition verify_error_into :: "verify_error + 'a \<Rightarrow> 'a res" where
  "verify_error_into r = (case r of Inl e \<Rightarrow> Inl (Msg (verify_error_fmt e)) | Inr x \<Rightarrow> Inr x)"

text \<open>
  What the crates know of a node id, a hash, a signature and a public key: the conversions
  from and to bytes, and for signatures verification and aggregation.
\<close>

record 'n node_id_ops =
  nid_from_bytes :: "u8 list \<Rightarrow> 'n res"
  nid_as_bytes :: "'n \<Rightarrow> u8 list"

record 'h hash_ops =
  hash_zero :: 'h
  hash_from_bytes :: "u8 list \<Rightarrow> 'h res"
  hash_as_bytes :: "'h \<Rightarrow> u8 list"

record ('s, 'k, 'g) signature_ops =
  sig_verify :: "'s \<Rightarrow> u8 list \<Rightarrow> 'k \<Rightarrow> unit res"
  sig_to_bytes :: "'s \<Rightarrow> u8 list"
  sig_from_bytes :: "u8 list \<Rightarrow> 's res"
  sig_aggregate :: "'s list \<Rightarrow> 'g res"

record 'k public_key_ops =
  pk_to_bytes :: "'k \<Rightarrow> u8 list"
  pk_from_bytes :: "u8 list \<Rightarrow> 'k res"

section \<open>block.rs\<close>

record 'h transaction =
  tx_hash :: 'h
  tx_size :: usize

record ('n, 'h) block_metadata =
  bm_epoch :: u64
  bm_round :: u64
  bm_author :: 'n
  bm_parent_id :: 'h
  bm_timestamp :: u64

record ('n, 'h) quorum_cert =
  qc_certified_block :: "('n, 'h) block_metadata"
  qc_block_id :: 'h

definition qc_epoch :: "('n, 'h) quorum_cert \<Rightarrow> u64" where
  "qc_epoch qc = bm_epoch (qc_certified_block qc)"

definition qc_round :: "('n, 'h) quorum_cert \<Rightarrow> u64" where
  "qc_round qc = bm_round (qc_certified_block qc)"

record ('n, 'h, 's) block =
  blk_id :: 'h
  blk_metadata :: "('n, 'h) block_metadata"
  blk_transactions :: "'h transaction list"
  blk_signature :: "'s option"
  blk_parent_id :: 'h
  blk_is_genesis :: bool
  blk_is_nil :: bool

abbreviation blk_round :: "('n, 'h, 's) block \<Rightarrow> u64" where
  "blk_round b \<equiv> bm_round (blk_metadata b)"

record ('n, 'h) vote_data =
  vd_proposed_block :: "('n, 'h) block_metadata"
  vd_parent_block :: "('n, 'h) block_metadata"

record 'h commit_info =
  ci_block_id :: 'h
  ci_round :: u64
  ci_epoch :: u64
  ci_version :: u64
  ci_timestamp :: u64

record 'h ledger_info =
  li_commit_info :: "'h commit_info"
  li_epoch :: u64
  li_round :: u64
  li_accumulated_state :: 'h

record ('n, 'h, 's) vote =
  vote_vote_data :: "('n, 'h) vote_data"
  vote_author :: 'n
  vote_ledger_info :: "'h ledger_info"
  vote_signature :: 's
  vote_block_id :: 'h
  vote_round :: u64

record ('n, 'h, 's, 'g) validator_verifier =
  vv_verify_vote :: "('n, 'h, 's) vote \<Rightarrow> unit res"
  vv_verify_block :: "('n, 'h, 's) block \<Rightarrow> unit res"
  vv_get_voting_power :: "'n \<Rightarrow> u64 option"
  vv_total_voting_power :: u128
  vv_quorum_voting_power :: u128
  vv_check_voting_power :: "'n list \<Rightarrow> bool \<Rightarrow> verify_error + unit"
  vv_aggregate_signatures :: "'s list \<Rightarrow> 'g res"

text \<open>
  The trait methods that a host chain implements and that compute: \<open>Block::verify_signature\<close>,
  \<open>Vote::verify\<close> and \<open>QuorumCertificate::from_votes\<close>.
\<close>

record ('n, 'h, 's, 'g) chain =
  ch_verify_signature :: "('n, 'h, 's) block \<Rightarrow> unit res"
  ch_vote_verify :: "('n, 'h, 's) vote \<Rightarrow> ('n, 'h, 's, 'g) validator_verifier \<Rightarrow> unit res"
  ch_from_votes :: "('n, 'h, 's) vote list \<Rightarrow> 'g \<Rightarrow> ('n, 'h) quorum_cert res"

section \<open>safety.rs\<close>

record safety_state =
  st_epoch :: u64
  st_last_voted_round :: u64
  st_one_chain_round :: u64
  st_preferred_round :: u64
  st_highest_timeout_round :: u64

record ('r, 'tc, 'n, 'h, 's) safety_rules =
  srt_safe_to_vote :: "'r \<Rightarrow> ('n, 'h, 's) block \<Rightarrow> 'tc option \<Rightarrow> unit res"
  srt_safe_to_timeout :: "'r \<Rightarrow> u64 \<Rightarrow> u64 \<Rightarrow> 'tc option \<Rightarrow> unit res"
  srt_observe_qc :: "'r \<Rightarrow> ('n, 'h) quorum_cert \<Rightarrow> unit res \<times> 'r"
  srt_observe_tc :: "'r \<Rightarrow> 'tc \<Rightarrow> unit res \<times> 'r"
  srt_state :: "'r \<Rightarrow> safety_state"
  srt_should_commit :: "'r \<Rightarrow> ('n, 'h, 's) block \<Rightarrow> 'h option"
  srt_record_vote :: "'r \<Rightarrow> u64 \<Rightarrow> unit res \<times> 'r"
  srt_record_timeout :: "'r \<Rightarrow> u64 \<Rightarrow> 'r"

datatype 'h commit_decision = NoCommit | Commit 'h

fun committed_id :: "'h commit_decision \<Rightarrow> 'h option" where
  "committed_id NoCommit = None"
| "committed_id (Commit i) = Some i"

fun is_commit :: "'h commit_decision \<Rightarrow> bool" where
  "is_commit NoCommit = False"
| "is_commit (Commit _) = True"

lemma is_commit_iff: "is_commit d \<longleftrightarrow> committed_id d \<noteq> None"
  by (cases d) simp_all

section \<open>proposer.rs\<close>

record ('a, 'f) proposer_election =
  pe_get_valid_proposer :: "u64 \<Rightarrow> 'a option res"
  pe_participation_ratio :: "u64 \<Rightarrow> 'f"

record ('a, 'f) proposer_info =
  pi_proposer :: "'a option"
  pi_participation_ratio :: 'f

definition pi_new :: "'a option \<Rightarrow> 'f \<Rightarrow> ('a, 'f) proposer_info" where
  "pi_new p ratio = \<lparr>pi_proposer = p, pi_participation_ratio = ratio\<rparr>"

definition pi_has_proposer :: "('a, 'f) proposer_info \<Rightarrow> bool" where
  "pi_has_proposer i = (pi_proposer i \<noteq> None)"

definition pi_is_healthy :: "'f f64_ops \<Rightarrow> ('a, 'f) proposer_info \<Rightarrow> bool" where
  "pi_is_healthy F i = fl_le F (fl_lit F (2 / 3)) (pi_participation_ratio i)"

definition pe_is_valid_proposer :: "('a, 'f) proposer_election \<Rightarrow> 'a \<Rightarrow> u64 \<Rightarrow> bool res" where
  "pe_is_valid_proposer PE author rnd =
     (case pe_get_valid_proposer PE rnd of
        Inl e \<Rightarrow> Inl e
      | Inr p \<Rightarrow> Inr (p = Some author))"

definition pe_get_proposer_info ::
    "('a, 'f) proposer_election \<Rightarrow> u64 \<Rightarrow> ('a, 'f) proposer_info res" where
  "pe_get_proposer_info PE rnd =
     (case pe_get_valid_proposer PE rnd of
        Inl e \<Rightarrow> Inl e
      | Inr p \<Rightarrow> Inr \<lparr>pi_proposer = p, pi_participation_ratio = pe_participation_ratio PE rnd\<rparr>)"

text \<open>The trait \<open>ReputationTracker\<close>, over trackers \<open>'t\<close>.\<close>

record ('t, 'a, 'f) reputation_ops =
  rpo_record_success :: "'t \<Rightarrow> 'a \<Rightarrow> 't"
  rpo_record_failure :: "'t \<Rightarrow> 'a \<Rightarrow> 't"
  rpo_get_reputation :: "'t \<Rightarrow> 'a \<Rightarrow> 'f"
  rpo_reset :: "'t \<Rightarrow> 't"

section \<open>storage.rs\<close>

text \<open>
  A storage \<open>'st\<close> for blocks \<open>'b\<close>, certificates \<open>'q\<close> under hashes \<open>'h\<close> and a safety state of a
  type \<open>'d\<close>. A storage error is the message it displays; awaiting a method of the
  asynchronous traits is calling it.
\<close>

record ('st, 'b, 'q, 'h, 'd) consensus_storage =
  cst_save_block :: "'st \<Rightarrow> 'b \<Rightarrow> (string + unit) \<times> 'st"
  cst_get_block :: "'st \<Rightarrow> 'h \<Rightarrow> string + 'b option"
  cst_save_quorum_cert :: "'st \<Rightarrow> 'q \<Rightarrow> (string + unit) \<times> 'st"
  cst_get_quorum_cert :: "'st \<Rightarrow> 'h \<Rightarrow> string + 'q option"
  cst_prune :: "'st \<Rightarrow> u64 \<Rightarrow> (string + unit) \<times> 'st"
  cst_save_safety_state :: "'st \<Rightarrow> 'd \<Rightarrow> (string + unit) \<times> 'st"
  cst_get_safety_state :: "'st \<Rightarrow> string + 'd option"

text \<open>
  The execution layer, on a state \<open>'st\<close> that its methods may change behind the shared
  reference, with ledger infos \<open>'l\<close>; no code of the crates implements or calls it.
\<close>

record ('st, 'b, 'l) state_computer =
  sc_execute_block :: "'st \<Rightarrow> 'b \<Rightarrow> 'l \<Rightarrow> (string + 'l) \<times> 'st"
  sc_new_epoch :: "'st \<Rightarrow> u64 \<Rightarrow> 'l \<Rightarrow> (string + 'l) \<times> 'st"
  sc_sync_to_target :: "'st \<Rightarrow> 'l \<Rightarrow> (string + 'l) \<times> 'st"
  sc_sync_for_duration :: "'st \<Rightarrow> u64 \<Rightarrow> (string + 'l) \<times> 'st"
  sc_start_epoch :: "'st \<Rightarrow> u64 \<Rightarrow> 'st"
  sc_end_epoch :: "'st \<Rightarrow> 'st"

record state_view =
  svw_get :: "u8 list \<Rightarrow> string + u8 list option"
  svw_get_multi :: "u8 list list \<Rightarrow> string + u8 list option list"

section \<open>network.rs\<close>

record ('n, 'k) validator_info =
  vi_id :: 'n
  vi_public_key :: 'k
  vi_voting_power :: u64

record ('n, 'v) validator_set_view =
  vsv_validators :: "'v list"
  vsv_get_validator :: "'n \<Rightarrow> 'v option"
  vsv_total_voting_power :: u64
  vsv_quorum_threshold :: u64

record block_request =
  br_block_id :: "u8 list"

record 'b block_response =
  bresp_block :: "'b option"

datatype ('b, 'v) consensus_message =
    CM_Proposal 'b
  | CM_Vote 'v
  | CM_BlockRequest block_request
  | CM_BlockResponse "'b block_response"
  | CM_NewRound u64

text \<open>A network endpoint with state \<open>'st\<close>; receiving takes the next message out of it.\<close>

record ('st, 'n, 'b, 'v) consensus_network =
  net_send_proposal :: "'st \<Rightarrow> 'n \<Rightarrow> 'b \<Rightarrow> (string + unit) \<times> 'st"
  net_broadcast_proposal :: "'st \<Rightarrow> 'b \<Rightarrow> (string + unit) \<times> 'st"
  net_send_vote :: "'st \<Rightarrow> 'n \<Rightarrow> 'v \<Rightarrow> (string + unit) \<times> 'st"
  net_broadcast_vote :: "'st \<Rightarrow> 'v \<Rightarrow> (string + unit) \<times> 'st"
  net_receive_message :: "'st \<Rightarrow> (string + ('b, 'v) consensus_message) \<times> 'st"
  net_validator_peers :: "'st \<Rightarrow> 'n list"

section \<open>dag.rs\<close>

datatype node_status = NS_Unordered | NS_Ordered | NS_Committed

datatype 'c order_decision = OD_Ordered 'c | OD_Pending | OD_Invalid string

datatype dag_error =
    NodeNotFound
  | InvalidNodeStructure
  | InvalidParents
  | CertificateVerificationFailed
  | InsufficientVotingPower
  | InvalidRound
  | NodeAlreadyExists

fun dag_error_fmt :: "dag_error \<Rightarrow> string" where
  "dag_error_fmt NodeNotFound = ''Node not found in DAG''"
| "dag_error_fmt InvalidNodeStructure = ''Invalid node structure''"
| "dag_error_fmt InvalidParents = ''Invalid parent certificates''"
| "dag_error_fmt CertificateVerificationFailed = ''Certificate verification failed''"
| "dag_error_fmt InsufficientVotingPower = ''Insufficient voting power for quorum''"
| "dag_error_fmt InvalidRound = ''Invalid round number''"
| "dag_error_fmt NodeAlreadyExists = ''Node already exists''"

lemma dag_error_fmt_inject: "dag_error_fmt a = dag_error_fmt b \<longleftrightarrow> a = b"
  by (cases a; cases b) simp_all

lemma is_ok_verify_error_into [simp]: "is_ok (verify_error_into r) = is_ok r"
  by (cases r) (simp_all add: verify_error_into_def)

end
