(* ===== verification/Codec.thy ===== *)
theory Codec
  imports Traits
begin

text \<open>
  The implementations of the byte traits of \<open>consensus-traits/src/core.rs\<close> and of the traits
  of \<open>network.rs\<close> and \<open>storage.rs\<close> that the repository has: the 32-byte ids and hashes, the
  validator set and the state view beside the traits, and the one-byte hashes, signatures
  and keys of \<open>testing/mock_types.rs\<close> and \<open>dag/testing.rs\<close>. The locale \<open>byte_codec\<close> states what a
  conversion to bytes and back promises, \<open>fixed_width_codec\<close> what the documentation of
  \<open>NodeId\<close> and \<open>Hash\<close> adds: exactly the slices of one length are accepted.
\<close>

section \<open>What a byte conversion promises\<close>

locale byte_codec =
  fixes to_bytes :: "'a \<Rightarrow> u8 list" and from_bytes :: "u8 list \<Rightarrow> 'a res"
  assumes from_to: "from_bytes (to_bytes x) = Inr x"
begin

lemma to_bytes_eq_iff: "to_bytes x = to_bytes y \<longleftrightarrow> x = y"
  by (metis from_to sum.inject(2))

lemma from_bytes_surj: "\<exists>bs. from_bytes bs = Inr x"
  by (metis from_to)

end

locale fixed_width_codec = byte_codec +
  fixes n :: nat
  assumes accepts_iff: "is_ok (from_bytes bs) \<longleftrightarrow> length bs = n"
    and to_from: "from_bytes bs = Inr x \<Longrightarrow> to_bytes x = bs"
begin

lemma length_to_bytes: "length (to_bytes x) = n"
  using accepts_iff [of "to_bytes x"] from_to [of x] by simp

lemma from_bytes_iff: "from_bytes bs = Inr x \<longleftrightarrow> bs = to_bytes x"
  using from_to to_from by metis

lemma decode_unique: "length bs = n \<Longrightarrow> \<exists>!x. to_bytes x = bs"
  using accepts_iff [of bs] to_from to_bytes_eq_iff by (metis is_ok_iff)

end

section \<open>32-byte ids and hashes (core.rs)\<close>

text \<open>The array type \<open>[u8; 32]\<close>.\<close>

typedef array32 = "{bs :: u8 list. length bs = 32}"
  morphisms array32_list array32_of
  by (rule exI [of _ "replicate 32 0"]) simp

lemma array32_abstype [code abstype]: "array32_of (array32_list a) = a"
  by (rule array32_list_inverse)

instantiation array32 :: equal
begin

definition equal_array32 :: "array32 \<Rightarrow> array32 \<Rightarrow> bool" where
  "equal_array32 a b = (array32_list a = array32_list b)"

instance
  by standard (simp add: equal_array32_def array32_list_inject)

end

text \<open>\<open>[b; 32]\<close>, and \<open>copy_from_slice\<close> into a zeroed array: the callers have checked the
  length, without which it panics.\<close>

definition array32_replicate :: "u8 \<Rightarrow> array32" where
  "array32_replicate b = array32_of (replicate 32 b)"

definition copy_from_slice :: "u8 list \<Rightarrow> array32" where
  "copy_from_slice bs = array32_of (if length bs = 32 then bs else replicate 32 0)"

lemma array32_replicate_list [simp, code abstract]:
  "array32_list (array32_replicate b) = replicate 32 b"
  by (simp add: array32_replicate_def array32_of_inverse)

lemma array32_replicate_eq_iff [simp]: "array32_replicate a = array32_replicate b \<longleftrightarrow> a = b"
  by (metis array32_replicate_list hd_replicate zero_neq_numeral)

lemma copy_from_slice_code [code abstract]:
  "array32_list (copy_from_slice bs) = (if length bs = 32 then bs else replicate 32 0)"
  by (simp add: copy_from_slice_def array32_of_inverse)

definition th_zero :: array32 where
  "th_zero = array32_replicate 0"

definition th_from_bytes :: "u8 list \<Rightarrow> array32 res" where
  "th_from_bytes bs =
     (if length bs \<noteq> 32 then Inl (Msg ''Invalid length'') else Inr (copy_from_slice bs))"

definition th_as_bytes :: "array32 \<Rightarrow> u8 list" where
  "th_as_bytes h = array32_list h"

definition test_hash_ops :: "array32 hash_ops" where
  "test_hash_ops = \<lparr>hash_zero = th_zero, hash_from_bytes = th_from_bytes, hash_as_bytes = th_as_bytes\<rparr>"

definition tni_from_bytes :: "u8 list \<Rightarrow> array32 res" where
  "tni_from_bytes bs =
     (if length bs \<noteq> 32 then Inl (Msg ''Invalid length'') else Inr (copy_from_slice bs))"

definition tni_as_bytes :: "array32 \<Rightarrow> u8 list" where
  "tni_as_bytes i = array32_list i"

definition test_node_id_ops :: "array32 node_id_ops" where
  "test_node_id_ops = \<lparr>nid_from_bytes = tni_from_bytes, nid_as_bytes = tni_as_bytes\<rparr>"

lemma length_array32_list [simp]: "length (array32_list a) = 32"
  using array32_list [of a] by simp

lemma copy_from_slice_list [simp]: "copy_from_slice (array32_list a) = a"
  by (simp add: copy_from_slice_def array32_list_inverse)

lemma list_copy_from_slice [simp]: "length bs = 32 \<Longrightarrow> array32_list (copy_from_slice bs) = bs"
  by (simp add: copy_from_slice_code)

interpretation th: fixed_width_codec
  "hash_as_bytes test_hash_ops" "hash_from_bytes test_hash_ops" 32
  by unfold_locales (auto simp: test_hash_ops_def th_as_bytes_def th_from_bytes_def split: if_splits)

interpretation tni: fixed_width_codec
  "nid_as_bytes test_node_id_ops" "nid_from_bytes test_node_id_ops" 32
  by unfold_locales
    (auto simp: test_node_id_ops_def tni_as_bytes_def tni_from_bytes_def split: if_splits)

section \<open>A validator set and a state view (network.rs, storage.rs)\<close>

text \<open>A public key of the tests is its bytes.\<close>

definition test_public_key_ops :: "u8 list public_key_ops" where
  "test_public_key_ops = \<lparr>pk_to_bytes = (\<lambda>k. k), pk_from_bytes = Inr\<rparr>"

interpretation tpk: byte_codec "pk_to_bytes test_public_key_ops" "pk_from_bytes test_public_key_ops"
  by unfold_locales (simp add: test_public_key_ops_def)

type_synonym test_validator = "(array32, u8 list) validator_info"

definition tvs_get_validator :: "test_validator list \<Rightarrow> array32 \<Rightarrow> test_validator option" where
  "tvs_get_validator vs i = List.find (\<lambda>v. vi_id v = i) vs"

definition tvs_total_voting_power :: "test_validator list \<Rightarrow> u64" where
  "tvs_total_voting_power vs = sum_list (map vi_voting_power vs)"

definition tvs_quorum_threshold :: "test_validator list \<Rightarrow> u64" where
  "tvs_quorum_threshold vs = tvs_total_voting_power vs * 2 div 3 + 1"

definition test_validator_set :: "test_validator list \<Rightarrow> (array32, test_validator) validator_set_view" where
  "test_validator_set vs =
     \<lparr>vsv_validators = vs, vsv_get_validator = tvs_get_validator vs,
      vsv_total_voting_power = tvs_total_voting_power vs,
      vsv_quorum_threshold = tvs_quorum_threshold vs\<rparr>"

definition mock_state_view :: state_view where
  "mock_state_view =
     \<lparr>svw_get = (\<lambda>_. Inr None), svw_get_multi = (\<lambda>keys. Inr (replicate (length keys) None))\<rparr>"

text \<open>The two look-ups of a state view agree: the one for many keys is that for one, repeated.\<close>

locale state_view_laws =
  fixes V :: state_view
  assumes get_multi_get:
    "svw_get_multi V keys = Inr rs \<Longrightarrow> map Inr rs = map (svw_get V) keys"
begin

lemma length_get_multi: "svw_get_multi V keys = Inr rs \<Longrightarrow> length rs = length keys"
  using get_multi_get map_eq_imp_length_eq by blast

lemma get_multi_nth:
  assumes "svw_get_multi V keys = Inr rs" "i < length keys"
  shows "svw_get V (keys ! i) = Inr (rs ! i)"
  using get_multi_get [OF assms(1)] assms(2) length_get_multi [OF assms(1)]
  by (metis nth_map)

end

interpretation msv: state_view_laws mock_state_view
  by unfold_locales (auto simp: mock_state_view_def map_replicate_const)

lemma tvs_get_validator_id:
  "tvs_get_validator vs i = Some v \<Longrightarrow> v \<in> set vs \<and> vi_id v = i"
  by (auto simp: tvs_get_validator_def find_Some_iff)

text \<open>Below half of the range of \<open>u64\<close> the threshold is two thirds of the exact total, plus one.\<close>

lemma unat_sum_list_u64:
  "(\<Sum>x\<leftarrow>xs. unat x) < 2 ^ 64 \<Longrightarrow> unat (sum_list xs) = (\<Sum>x\<leftarrow>xs. unat x)" for xs :: "u64 list"
  by (induction xs) (simp_all add: unat_word_ariths)

lemma tvs_quorum_threshold_exact:
  assumes "(\<Sum>v\<leftarrow>vs. unat (vi_voting_power v)) < 2 ^ 63"
  shows "unat (tvs_quorum_threshold vs) = (\<Sum>v\<leftarrow>vs. unat (vi_voting_power v)) * 2 div 3 + 1"
proof -
  let ?n = "\<Sum>v\<leftarrow>vs. unat (vi_voting_power v)"
  have "unat (tvs_total_voting_power vs) = ?n"
    using unat_sum_list_u64 [of "map vi_voting_power vs"] assms
    by (simp add: tvs_total_voting_power_def o_def)
  with assms show ?thesis
    by (simp add: tvs_quorum_threshold_def unat_word_ariths unat_div)
qed

section \<open>One-byte test doubles (testing/mock\_types.rs)\<close>

text \<open>A \<open>MockHash\<close>, which is also the \<open>MockNodeId\<close>, and a \<open>MockSignature\<close> are their byte.\<close>

definition mock_hash_from_bytes :: "u8 list \<Rightarrow> u8 res" where
  "mock_hash_from_bytes bs = (case bs of [] \<Rightarrow> Inl (Msg ''Empty bytes'') | b # _ \<Rightarrow> Inr b)"

definition mock_hash_as_bytes :: "u8 \<Rightarrow> u8 list" where
  "mock_hash_as_bytes _ = []"

definition mock_hash_inner :: "u8 \<Rightarrow> u8" where
  "mock_hash_inner h = h"

definition mock_hash_ops :: "u8 hash_ops" where
  "mock_hash_ops =
     \<lparr>hash_zero = 0, hash_from_bytes = mock_hash_from_bytes, hash_as_bytes = mock_hash_as_bytes\<rparr>"

definition mock_node_id_ops :: "u8 node_id_ops" where
  "mock_node_id_ops =
     \<lparr>nid_from_bytes = (\<lambda>bs. case bs of [] \<Rightarrow> Inl (Msg ''Empty bytes'') | b # _ \<Rightarrow> Inr b),
      nid_as_bytes = (\<lambda>_. [])\<rparr>"

definition mock_sig_from_bytes :: "u8 list \<Rightarrow> u8 res" where
  "mock_sig_from_bytes bs = (case bs of [] \<Rightarrow> Inl (Msg ''Empty bytes'') | b # _ \<Rightarrow> Inr b)"

definition mock_signature_ops :: "(u8, unit, unit) signature_ops" where
  "mock_signature_ops =
     \<lparr>sig_verify = (\<lambda>_ _ _. Inr ()), sig_to_bytes = (\<lambda>s. [s]),
      sig_from_bytes = mock_sig_from_bytes, sig_aggregate = (\<lambda>_. Inr ())\<rparr>"

definition mock_public_key_ops :: "unit public_key_ops" where
  "mock_public_key_ops = \<lparr>pk_to_bytes = (\<lambda>_. []), pk_from_bytes = (\<lambda>_. Inr ())\<rparr>"

interpretation mock_sig: byte_codec "sig_to_bytes mock_signature_ops" "sig_from_bytes mock_signature_ops"
  by unfold_locales (simp add: mock_signature_ops_def mock_sig_from_bytes_def)

interpretation mock_pk: byte_codec "pk_to_bytes mock_public_key_ops" "pk_from_bytes mock_public_key_ops"
  by unfold_locales (simp add: mock_public_key_ops_def)

text \<open>The byte form of a mock hash is empty, so that none survives the conversion.\<close>

lemma mock_hash_no_round_trip: "\<not> is_ok (mock_hash_from_bytes (mock_hash_as_bytes h))"
  by (simp add: mock_hash_from_bytes_def mock_hash_as_bytes_def)

section \<open>Rounds, authors and epochs of the DAG tests (dag/testing.rs)\<close>

definition test_round_ops :: "u64 hash_ops" where
  "test_round_ops = \<lparr>hash_zero = 0, hash_from_bytes = (\<lambda>_. Inr 0), hash_as_bytes = (\<lambda>_. [])\<rparr>"

definition test_author_ops :: "u8 hash_ops" where
  "test_author_ops = \<lparr>hash_zero = 0, hash_from_bytes = (\<lambda>_. Inr 0), hash_as_bytes = (\<lambda>_. [])\<rparr>"

definition test_epoch_ops :: "u64 hash_ops" where
  "test_epoch_ops = \<lparr>hash_zero = 0, hash_from_bytes = (\<lambda>_. Inr 0), hash_as_bytes = (\<lambda>_. [])\<rparr>"

text \<open>They decode every slice to zero, and so keep no value but zero.\<close>

lemma test_round_round_trip_iff:
  "hash_from_bytes test_round_ops (hash_as_bytes test_round_ops r) = Inr r \<longleftrightarrow> r = 0"
  by (auto simp: test_round_ops_def)

end
