(* ===== verification/Safety_State.thy ===== *)
theory Safety_State
  imports Traits
begin

text \<open>
  Models \<open>safety_rules/state.rs\<close>: the persistent safety data and its monotone updates.
\<close>

record SafetyStateData =
  ss_epoch :: u64
  ss_last_voted_round :: u64
  ss_preferred_round :: u64
  ss_one_chain_round :: u64
  ss_highest_timeout_round :: u64

definition ss_new :: "u64 \<Rightarrow> u64 \<Rightarrow> u64 \<Rightarrow> u64 \<Rightarrow> u64 \<Rightarrow> SafetyStateData" where
  "ss_new e lv pr oc ht =
     \<lparr>ss_epoch = e, ss_last_voted_round = lv, ss_preferred_round = pr,
      ss_one_chain_round = oc, ss_highest_timeout_round = ht\<rparr>"

definition ss_new_epoch :: "SafetyStateData \<Rightarrow> u64 \<Rightarrow> SafetyStateData" where
  "ss_new_epoch s new_epoch =
     \<lparr>ss_epoch = new_epoch, ss_last_voted_round = 0,
      ss_preferred_round = ss_preferred_round s,
      ss_one_chain_round = 0, ss_highest_timeout_round = 0\<rparr>"

definition can_vote_in_round :: "SafetyStateData \<Rightarrow> u64 \<Rightarrow> bool" where
  "can_vote_in_round s r = (ss_last_voted_round s \<le> r)"

definition update_one_chain_round :: "SafetyStateData \<Rightarrow> u64 \<Rightarrow> bool \<times> SafetyStateData" where
  "update_one_chain_round s new_round =
     (if ss_one_chain_round s < new_round then (True, s\<lparr>ss_one_chain_round := new_round\<rparr>)
      else (False, s))"

definition update_preferred_round :: "SafetyStateData \<Rightarrow> u64 \<Rightarrow> bool \<times> SafetyStateData" where
  "update_preferred_round s new_round =
     (if ss_preferred_round s < new_round then (True, s\<lparr>ss_preferred_round := new_round\<rparr>)
      else (False, s))"

definition update_highest_timeout_round ::
    "SafetyStateData \<Rightarrow> u64 \<Rightarrow> bool \<times> SafetyStateData" where
  "update_highest_timeout_round s new_round =
     (if ss_highest_timeout_round s < new_round
      then (True, s\<lparr>ss_highest_timeout_round := new_round\<rparr>) else (False, s))"

text \<open>The implementation of the trait \<open>SafetyState\<close>.\<close>

definition ss_safety_state :: "SafetyStateData \<Rightarrow> safety_state" where
  "ss_safety_state s =
     \<lparr>st_epoch = ss_epoch s, st_last_voted_round = ss_last_voted_round s,
      st_one_chain_round = ss_one_chain_round s, st_preferred_round = ss_preferred_round s,
      st_highest_timeout_round = ss_highest_timeout_round s\<rparr>"

abbreviation newline :: string where
  "newline \<equiv> [CHR 0x0A]"

abbreviation tab :: string where
  "tab \<equiv> [CHR 0x09]"

definition ss_fmt :: "SafetyStateData \<Rightarrow> string" where
  "ss_fmt s =
     ''SafetyStateData: ['' @ newline @
     tab @ ''epoch = '' @ show_u64 (ss_epoch s) @ '','' @ newline @
     tab @ ''last_voted_round = '' @ show_u64 (ss_last_voted_round s) @ '','' @ newline @
     tab @ ''preferred_round = '' @ show_u64 (ss_preferred_round s) @ '','' @ newline @
     tab @ ''one_chain_round = '' @ show_u64 (ss_one_chain_round s) @ '','' @ newline @
     tab @ ''highest_timeout_round = '' @ show_u64 (ss_highest_timeout_round s) @ newline @
     '']''"

section \<open>The updates keep the maximum\<close>

lemma snd_update_one_chain_round [simp]:
  "snd (update_one_chain_round s r) = s\<lparr>ss_one_chain_round := max (ss_one_chain_round s) r\<rparr>"
  by (auto simp: update_one_chain_round_def max_def)

lemma snd_update_preferred_round [simp]:
  "snd (update_preferred_round s r) = s\<lparr>ss_preferred_round := max (ss_preferred_round s) r\<rparr>"
  by (auto simp: update_preferred_round_def max_def)

lemma snd_update_highest_timeout_round [simp]:
  "snd (update_highest_timeout_round s r) =
     s\<lparr>ss_highest_timeout_round := max (ss_highest_timeout_round s) r\<rparr>"
  by (auto simp: update_highest_timeout_round_def max_def)

lemma fst_update_one_chain_round [simp]:
  "fst (update_one_chain_round s r) \<longleftrightarrow> ss_one_chain_round s < r"
  by (simp add: update_one_chain_round_def)

lemma fst_update_preferred_round [simp]:
  "fst (update_preferred_round s r) \<longleftrightarrow> ss_preferred_round s < r"
  by (simp add: update_preferred_round_def)

lemma fst_update_highest_timeout_round [simp]:
  "fst (update_highest_timeout_round s r) \<longleftrightarrow> ss_highest_timeout_round s < r"
  by (simp add: update_highest_timeout_round_def)

end
