(* ===== verification/Timeout_Cert.thy ===== *)
theory Timeout_Cert
  imports Traits
begin

text \<open>
  Models \<open>timeout/two_chain.rs\<close>: a validator's timeout, the timeout certificate, and
  their consistency checks.
\<close>

record two_chain_timeout =
  to_epoch :: u64
  to_round :: u64
  to_hqc_round :: u64

definition to_default :: two_chain_timeout where
  "to_default = \<lparr>to_epoch = 0, to_round = 0, to_hqc_round = 0\<rparr>"

definition to_new :: "u64 \<Rightarrow> u64 \<Rightarrow> u64 \<Rightarrow> two_chain_timeout" where
  "to_new e r h = \<lparr>to_epoch = e, to_round = r, to_hqc_round = h\<rparr>"

definition to_verify :: "two_chain_timeout \<Rightarrow> unit res" where
  "to_verify t =
     (if to_round t \<le> to_hqc_round t
      then Inl (Msg (''Invalid timeout: hqc_round ('' @ show_u64 (to_hqc_round t) @
                     '') >= round ('' @ show_u64 (to_round t) @ '')''))
      else Inr ())"

record 's two_chain_timeout_cert =
  tc_epoch :: u64
  tc_round :: u64
  tc_hqc_round :: u64
  tc_highest_tc_round :: u64
  tc_timeout :: two_chain_timeout
  tc_aggregated_signature :: 's

definition tc_new ::
    "u64 \<Rightarrow> u64 \<Rightarrow> u64 \<Rightarrow> u64 \<Rightarrow> two_chain_timeout \<Rightarrow> 's \<Rightarrow> 's two_chain_timeout_cert" where
  "tc_new e r h htc t sig =
     \<lparr>tc_epoch = e, tc_round = r, tc_hqc_round = h, tc_highest_tc_round = htc,
      tc_timeout = t, tc_aggregated_signature = sig\<rparr>"

definition tc_verify :: "'s two_chain_timeout_cert \<Rightarrow> unit res" where
  "tc_verify c =
     (case to_verify (tc_timeout c) of
        Inl e \<Rightarrow> Inl e
      | Inr _ \<Rightarrow>
          if tc_round c \<le> tc_hqc_round c
          then Inl (Msg (''Invalid TC: hqc_round ('' @ show_u64 (tc_hqc_round c) @
                         '') >= round ('' @ show_u64 (tc_round c) @ '')''))
          else if tc_round c \<le> tc_highest_tc_round c
          then Inl (Msg (''Invalid TC: highest_tc_round ('' @ show_u64 (tc_highest_tc_round c) @
                         '') >= round ('' @ show_u64 (tc_round c) @ '')''))
          else Inr ())"

definition tc_allows_advance :: "'s two_chain_timeout_cert \<Rightarrow> bool" where
  "tc_allows_advance c =
     (tc_round c = tc_hqc_round c + 1 \<or> tc_round c = tc_highest_tc_round c + 1)"

definition tc_effective_hqc_round :: "'s two_chain_timeout_cert \<Rightarrow> u64" where
  "tc_effective_hqc_round c = max (tc_hqc_round c) (tc_highest_tc_round c)"

section \<open>Consistency of a verified certificate\<close>

lemma to_verify_ok_iff: "to_verify t = Inr () \<longleftrightarrow> to_hqc_round t < to_round t"
  by (auto simp: to_verify_def)

lemma tc_verify_ok_iff:
  "tc_verify c = Inr () \<longleftrightarrow>
     to_hqc_round (tc_timeout c) < to_round (tc_timeout c) \<and>
     tc_hqc_round c < tc_round c \<and> tc_highest_tc_round c < tc_round c"
  by (auto simp: tc_verify_def to_verify_ok_iff split: sum.splits)
     (auto simp: to_verify_def split: if_splits)

text \<open>
  In a verified certificate the additions of \<open>allows_advance\<close> cannot wrap, and the
  certificate allows an advance exactly when its round directly follows the highest round
  it refers to.
\<close>

lemma succ_eq_of_less: "a < r \<Longrightarrow> (r = a + 1 \<longleftrightarrow> unat r = unat a + 1)" for a r :: u64
  by (metis le_u64_MAX not_le unat_plus_one word_eq_iff_unsigned)

lemma tc_allows_advance_iff:
  assumes "tc_verify c = Inr ()"
  shows "tc_allows_advance c \<longleftrightarrow> unat (tc_round c) = unat (tc_effective_hqc_round c) + 1"
  using assms
  by (auto simp: tc_verify_ok_iff tc_allows_advance_def tc_effective_hqc_round_def
      succ_eq_of_less max_def word_less_nat_alt word_le_nat_alt)

section \<open>Properties\<close>

text \<open>In a timeout certificate that passes \<open>verify\<close>, the additions of \<open>allows_advance\<close> do not
  wrap around, and the certificate allows its holder to advance exactly when its round
  directly follows the highest round it refers to, the effective highest certified round.\<close>

theorem timeout_cert_advance:
  assumes "tc_verify c = Inr ()"
  shows "(tc_allows_advance c \<longleftrightarrow> unat (tc_round c) = unat (tc_effective_hqc_round c) + 1) \<and>
         tc_effective_hqc_round c < tc_round c"
  using tc_allows_advance_iff [OF assms] assms
  by (simp add: tc_verify_ok_iff tc_effective_hqc_round_def)

theorem timeout_cert_advance_witness:
  "tc_verify (tc_new 1 10 9 3 (to_new 1 10 9) ()) = Inr () \<and>
   tc_allows_advance (tc_new 1 10 9 3 (to_new 1 10 9) ())"
proof -
  have v: "tc_verify (tc_new 1 10 9 3 (to_new 1 10 9) ()) = Inr ()"
    by (simp add: tc_verify_ok_iff tc_new_def to_new_def)
  with timeout_cert_advance [OF v] show ?thesis
    by (simp add: tc_effective_hqc_round_def tc_new_def)
qed

end
