(* ===== verification/Two_Chain.thy ===== *)
theory Two_Chain
  imports Safety_State Timeout_Cert
begin

text \<open>
  Models \<open>safety_rules/two_chain.rs\<close>: the voting rule, the timeout rule, the commit rule
  and the updates of the safety state, and the laws that a client of the trait
  \<open>SafetyRules\<close> may rely on.
\<close>

record two_chain_rules =
  sr_state :: SafetyStateData

definition sr_new :: "u64 \<Rightarrow> two_chain_rules" where
  "sr_new epoch =
     \<lparr>sr_state = \<lparr>ss_epoch = epoch, ss_last_voted_round = 0, ss_preferred_round = 0,
                   ss_one_chain_round = 0, ss_highest_timeout_round = 0\<rparr>\<rparr>"

definition sr_with_state :: "SafetyStateData \<Rightarrow> two_chain_rules" where
  "sr_with_state s = \<lparr>sr_state = s\<rparr>"

definition next_round :: "u64 \<Rightarrow> u64 res" where
  "next_round r =
     (case checked_add r 1 of
        None \<Rightarrow> Inl (Msg (''Round overflow at '' @ show_u64 r))
      | Some r' \<Rightarrow> Inr r')"

definition safe_to_vote_impl ::
    "two_chain_rules \<Rightarrow> u64 \<Rightarrow> u64 \<Rightarrow> u64 option \<Rightarrow> u64 option \<Rightarrow> unit res" where
  "safe_to_vote_impl sr block_round qcr tcr tch =
     (case next_round qcr of
        Inl e \<Rightarrow> Inl e
      | Inr qc_next \<Rightarrow>
          let normal_progression = (block_round = qc_next);
              with_tc =
                (case (tcr, tch) of
                   (Some tc_r, Some tc_hqc) \<Rightarrow>
                     (case next_round tc_r of
                        Inl e \<Rightarrow> Inl e
                      | Inr tc_next \<Rightarrow> Inr (block_round = tc_next \<and> tc_hqc \<le> qcr))
                 | _ \<Rightarrow> Inr False)
          in case with_tc of
               Inl e \<Rightarrow> Inl e
             | Inr w \<Rightarrow>
                 if normal_progression \<or> w then Inr ()
                 else Inl (Msg
                   (''Not safe to vote: block_round='' @ show_u64 block_round @
                    '', qc_round='' @ show_u64 qcr @
                    '', tc_round='' @ show_u64_option tcr @
                    '', tc_hqc_round='' @ show_u64_option tch @
                    '' - must satisfy: block.round == qc.round + 1 OR (block.round == tc.round + 1 && qc.round >= tc.hqc_round)'')))"

definition safe_to_timeout_impl ::
    "two_chain_rules \<Rightarrow> u64 \<Rightarrow> u64 \<Rightarrow> u64 option \<Rightarrow> unit res" where
  "safe_to_timeout_impl sr rnd qcr tcr =
     (case next_round qcr of
        Inl e \<Rightarrow> Inl e
      | Inr qc_next \<Rightarrow>
          let round_progression =
                (if rnd = qc_next then Inr True
                 else case tcr of
                        None \<Rightarrow> Inr False
                      | Some tc_r \<Rightarrow>
                          (case next_round tc_r of
                             Inl e \<Rightarrow> Inl (Panic (''called `Result::unwrap()` on an `Err` value: '' @
                                                   to_string e))
                           | Inr tc_next \<Rightarrow> Inr (rnd = tc_next)));
              one_chain_safe = (ss_one_chain_round (sr_state sr) \<le> qcr)
          in case round_progression of
               Inl e \<Rightarrow> Inl e
             | Inr p \<Rightarrow>
                 if p \<and> one_chain_safe then Inr ()
                 else Inl (Msg
                   (''Not safe to timeout: round='' @ show_u64 rnd @
                    '', qc_round='' @ show_u64 qcr @
                    '', tc_round='' @ show_u64_option tcr @
                    '', one_chain_round='' @ show_u64 (ss_one_chain_round (sr_state sr)) @
                    '' - must satisfy: (round == qc.round + 1 OR round == tc.round + 1) AND qc.round >= one_chain_round'')))"

definition safe_to_vote ::
    "two_chain_rules \<Rightarrow> ('n, 'h, 's) block \<Rightarrow> 's two_chain_timeout_cert option \<Rightarrow> unit res" where
  "safe_to_vote sr proposal timeout_cert =
     (let block_round = blk_round proposal;
          qcr = saturating_sub block_round 1;
          (tcr, tch) = (case timeout_cert of
                          Some tc \<Rightarrow> (Some (tc_round tc), Some (tc_hqc_round tc))
                        | None \<Rightarrow> (None, None))
      in safe_to_vote_impl sr block_round qcr tcr tch)"

definition safe_to_timeout ::
    "two_chain_rules \<Rightarrow> u64 \<Rightarrow> u64 \<Rightarrow> 's two_chain_timeout_cert option \<Rightarrow> unit res" where
  "safe_to_timeout sr rnd qcr timeout_cert =
     safe_to_timeout_impl sr rnd qcr (map_option tc_round timeout_cert)"

definition observe_qc ::
    "two_chain_rules \<Rightarrow> ('n, 'h) quorum_cert \<Rightarrow> unit res \<times> two_chain_rules" where
  "observe_qc sr qc =
     (let r = qc_round qc;
          s = sr_state sr;
          s1 = (if r = ss_one_chain_round s + 1 then snd (update_preferred_round s r) else s);
          s2 = snd (update_one_chain_round s1 r)
      in (Inr (), sr\<lparr>sr_state := s2\<rparr>))"

definition observe_tc ::
    "two_chain_rules \<Rightarrow> 's two_chain_timeout_cert \<Rightarrow> unit res \<times> two_chain_rules" where
  "observe_tc sr tc =
     (let s1 = snd (update_highest_timeout_round (sr_state sr) (tc_round tc));
          s2 = snd (update_one_chain_round s1 (tc_hqc_round tc))
      in (Inr (), sr\<lparr>sr_state := s2\<rparr>))"

definition should_commit :: "two_chain_rules \<Rightarrow> ('n, 'h, 's) block \<Rightarrow> 'h option" where
  "should_commit sr proposal =
     (let proposal_round = blk_round proposal
      in if 0 < proposal_round \<and> ss_one_chain_round (sr_state sr) = proposal_round - 1
         then Some (blk_parent_id proposal) else None)"

definition record_vote :: "two_chain_rules \<Rightarrow> u64 \<Rightarrow> unit res \<times> two_chain_rules" where
  "record_vote sr rnd =
     (let last = ss_last_voted_round (sr_state sr)
      in if rnd < last
         then (Inl (Msg (''Cannot record vote for round '' @ show_u64 rnd @
                         '': already voted in round '' @ show_u64 last)), sr)
         else if last < rnd
         then (Inr (), sr\<lparr>sr_state := (sr_state sr)\<lparr>ss_last_voted_round := rnd\<rparr>\<rparr>)
         else (Inr (), sr))"

definition record_timeout :: "two_chain_rules \<Rightarrow> u64 \<Rightarrow> two_chain_rules" where
  "record_timeout sr rnd =
     sr\<lparr>sr_state := snd (update_highest_timeout_round (sr_state sr) rnd)\<rparr>"

text \<open>The implementation of the trait \<open>SafetyRules\<close> as the record its clients take.\<close>

definition two_chain ::
    "(two_chain_rules, 's two_chain_timeout_cert, 'n, 'h, 's) safety_rules" where
  "two_chain =
     \<lparr>srt_safe_to_vote = safe_to_vote,
      srt_safe_to_timeout = safe_to_timeout,
      srt_observe_qc = observe_qc,
      srt_observe_tc = observe_tc,
      srt_state = (\<lambda>sr. ss_safety_state (sr_state sr)),
      srt_should_commit = should_commit,
      srt_record_vote = record_vote,
      srt_record_timeout = record_timeout\<rparr>"

section \<open>The rules\<close>

lemma next_round_eq:
  "next_round r = (if r = u64_MAX then Inl (Msg (''Round overflow at '' @ show_u64 r))
                   else Inr (r + 1))"
  by (simp add: next_round_def checked_add_one_eq)

lemma next_round_saturating [simp]:
  "next_round (saturating_sub r 1) = Inr (saturating_sub r 1 + 1)"
  by (simp add: next_round_eq)

text \<open>The voting rule as the documentation states it, over natural numbers.\<close>

definition vote_rule :: "nat \<Rightarrow> nat \<Rightarrow> (nat \<times> nat) option \<Rightarrow> bool" where
  "vote_rule b q tc \<longleftrightarrow>
     b = q + 1 \<or> (case tc of None \<Rightarrow> False | Some (t, h) \<Rightarrow> b = t + 1 \<and> h \<le> q)"

definition timeout_rule :: "nat \<Rightarrow> nat \<Rightarrow> nat option \<Rightarrow> nat \<Rightarrow> bool" where
  "timeout_rule r q tc one \<longleftrightarrow> (r = q + 1 \<or> (\<exists>t. tc = Some t \<and> r = t + 1)) \<and> one \<le> q"

lemma eq_plus_one_iff: "r \<noteq> u64_MAX \<Longrightarrow> (b = r + 1 \<longleftrightarrow> unat b = unat r + 1)" for b r :: u64
  by (metis unat_plus_one word_eq_iff_unsigned)

lemma safe_to_vote_impl_no_tc:
  assumes "q \<noteq> u64_MAX"
  shows "is_ok (safe_to_vote_impl sr b q None None) \<longleftrightarrow> vote_rule (unat b) (unat q) None"
  using assms
  by (simp add: safe_to_vote_impl_def vote_rule_def next_round_eq eq_plus_one_iff)

lemma safe_to_vote_impl_tc:
  assumes "q \<noteq> u64_MAX" and "t \<noteq> u64_MAX"
  shows "is_ok (safe_to_vote_impl sr b q (Some t) (Some h)) \<longleftrightarrow>
         vote_rule (unat b) (unat q) (Some (unat t, unat h))"
  using assms
  by (simp add: safe_to_vote_impl_def vote_rule_def next_round_eq eq_plus_one_iff
      word_le_nat_alt)

lemma plus_one_eq_zero_iff: "r + 1 = 0 \<longleftrightarrow> r = u64_MAX" for r :: u64
  by (simp add: eq_neg_iff_add_eq_0)

lemma eq_saturating_pred_iff: "r = saturating_sub r 1 + 1 \<longleftrightarrow> 0 < r" for r :: u64
proof (cases "r = 0")
  case True
  then show ?thesis by simp
next
  case False
  then have "0 < r" by (simp add: word_greater_zero_iff)
  then show ?thesis using saturating_sub_one_plus_one [of r] by simp
qed

text \<open>
  \<open>safe_to_vote\<close> takes the predecessor of the block's own round for the round of the
  block's certificate, so it accepts every proposal of a positive round, whatever the
  safety state is.
\<close>

lemma safe_to_vote_ok_iff:
  "is_ok (safe_to_vote sr p tc) \<longleftrightarrow>
     0 < blk_round p \<and> (\<forall>c. tc = Some c \<longrightarrow> tc_round c \<noteq> u64_MAX)"
proof (cases tc)
  case None
  then show ?thesis
    by (simp add: safe_to_vote_def safe_to_vote_impl_def eq_saturating_pred_iff Let_def)
next
  case (Some c)
  have "blk_round p = 0 \<Longrightarrow> tc_round c \<noteq> u64_MAX \<Longrightarrow> blk_round p \<noteq> tc_round c + 1"
    using plus_one_eq_zero_iff [of "tc_round c"] by metis
  then show ?thesis
    using Some
    by (cases "tc_round c = u64_MAX"; cases "blk_round p = 0")
      (simp_all add: safe_to_vote_def safe_to_vote_impl_def next_round_eq
        eq_saturating_pred_iff word_greater_zero_iff Let_def)
qed

lemma safe_to_timeout_ok_iff:
  assumes "q \<noteq> u64_MAX" and "\<And>c. tc = Some c \<Longrightarrow> tc_round c \<noteq> u64_MAX"
  shows "is_ok (safe_to_timeout sr r q tc) \<longleftrightarrow>
         timeout_rule (unat r) (unat q) (map_option (\<lambda>c. unat (tc_round c)) tc)
           (unat (ss_one_chain_round (sr_state sr)))"
  using assms
  by (cases tc)
    (auto simp: safe_to_timeout_def safe_to_timeout_impl_def timeout_rule_def next_round_eq
      eq_plus_one_iff word_le_nat_alt Let_def)

lemma safe_to_timeout_None_ok_iff:
  "is_ok (safe_to_timeout sr r q None) \<longleftrightarrow>
     q \<noteq> u64_MAX \<and> r = q + 1 \<and> ss_one_chain_round (sr_state sr) \<le> q"
  by (simp add: safe_to_timeout_def safe_to_timeout_impl_def next_round_eq Let_def)

lemma safe_to_timeout_panics:
  assumes "q \<noteq> u64_MAX" "r \<noteq> q + 1" "tc_round c = u64_MAX"
  shows "\<exists>m. safe_to_timeout sr r q (Some c) = Inl (Panic m)"
  using assms by (simp add: safe_to_timeout_def safe_to_timeout_impl_def next_round_eq)

section \<open>The state updates\<close>

lemma observe_qc_ok [simp]: "fst (observe_qc sr qc) = Inr ()"
  by (simp add: observe_qc_def Let_def)

lemma observe_qc_state:
  "sr_state (snd (observe_qc sr qc)) =
     (sr_state sr)\<lparr>ss_preferred_round :=
         (if qc_round qc = ss_one_chain_round (sr_state sr) + 1
          then max (ss_preferred_round (sr_state sr)) (qc_round qc)
          else ss_preferred_round (sr_state sr)),
       ss_one_chain_round := max (ss_one_chain_round (sr_state sr)) (qc_round qc)\<rparr>"
  by (simp add: observe_qc_def Let_def)

lemma observe_tc_state:
  "sr_state (snd (observe_tc sr tc)) =
     (sr_state sr)\<lparr>ss_highest_timeout_round :=
         max (ss_highest_timeout_round (sr_state sr)) (tc_round tc),
       ss_one_chain_round := max (ss_one_chain_round (sr_state sr)) (tc_hqc_round tc)\<rparr>"
  by (simp add: observe_tc_def Let_def)

lemma record_vote_state:
  "sr_state (snd (record_vote sr r)) =
     (sr_state sr)\<lparr>ss_last_voted_round := max (ss_last_voted_round (sr_state sr)) r\<rparr>"
  by (auto simp: record_vote_def Let_def max_def)

lemma record_vote_ok_iff: "is_ok (fst (record_vote sr r)) \<longleftrightarrow> ss_last_voted_round (sr_state sr) \<le> r"
  by (auto simp: record_vote_def Let_def)

lemma record_timeout_state:
  "sr_state (record_timeout sr r) =
     (sr_state sr)\<lparr>ss_highest_timeout_round := max (ss_highest_timeout_round (sr_state sr)) r\<rparr>"
  by (simp add: record_timeout_def)

lemmas sr_state_simps =
  observe_qc_state observe_tc_state record_vote_state record_timeout_state

lemma should_commit_Some_iff:
  "should_commit sr p = Some h \<longleftrightarrow>
     h = blk_parent_id p \<and> unat (blk_round p) = unat (ss_one_chain_round (sr_state sr)) + 1"
proof -
  let ?o = "ss_one_chain_round (sr_state sr)"
  have "0 < blk_round p \<and> ?o = blk_round p - 1 \<longleftrightarrow> unat (blk_round p) = unat ?o + 1"
  proof
    assume *: "0 < blk_round p \<and> ?o = blk_round p - 1"
    then have "blk_round p = ?o + 1" and "blk_round p \<noteq> 0"
      by (simp_all add: word_greater_zero_iff)
    then have "?o \<noteq> u64_MAX" using plus_one_eq_zero_iff [of ?o] by metis
    then show "unat (blk_round p) = unat ?o + 1"
      using * unat_plus_one [of ?o] by simp
  next
    assume *: "unat (blk_round p) = unat ?o + 1"
    then have "?o \<noteq> u64_MAX" using unat_u64_less [of "blk_round p"] by auto
    with * have "blk_round p = ?o + 1" by (simp add: eq_plus_one_iff)
    then show "0 < blk_round p \<and> ?o = blk_round p - 1"
      using \<open>?o \<noteq> u64_MAX\<close> by (simp add: word_greater_zero_iff plus_one_eq_zero_iff)
  qed
  then show ?thesis by (auto simp: should_commit_def Let_def)
qed

section \<open>Reachable safety states\<close>

text \<open>One event per operation that changes the state; a run is a sequence of events.\<close>

datatype ('n, 'h, 's) sr_event =
    ObserveQc "('n, 'h) quorum_cert"
  | ObserveTc "'s two_chain_timeout_cert"
  | RecordVote u64
  | RecordTimeout u64

fun sr_step :: "two_chain_rules \<Rightarrow> ('n, 'h, 's) sr_event \<Rightarrow> two_chain_rules" where
  "sr_step sr (ObserveQc qc) = snd (observe_qc sr qc)"
| "sr_step sr (ObserveTc tc) = snd (observe_tc sr tc)"
| "sr_step sr (RecordVote r) = snd (record_vote sr r)"
| "sr_step sr (RecordTimeout r) = record_timeout sr r"

fun sr_run :: "two_chain_rules \<Rightarrow> ('n, 'h, 's) sr_event list \<Rightarrow> two_chain_rules" where
  "sr_run sr [] = sr"
| "sr_run sr (ev # evs) = sr_run (sr_step sr ev) evs"

definition ss_le :: "SafetyStateData \<Rightarrow> SafetyStateData \<Rightarrow> bool" where
  "ss_le s t \<longleftrightarrow>
     ss_epoch s = ss_epoch t \<and>
     ss_last_voted_round s \<le> ss_last_voted_round t \<and>
     ss_preferred_round s \<le> ss_preferred_round t \<and>
     ss_one_chain_round s \<le> ss_one_chain_round t \<and>
     ss_highest_timeout_round s \<le> ss_highest_timeout_round t"

lemma ss_le_refl [simp]: "ss_le s s"
  by (simp add: ss_le_def)

lemma ss_le_trans [trans]: "ss_le s t \<Longrightarrow> ss_le t u \<Longrightarrow> ss_le s u"
  by (auto simp: ss_le_def)

lemma sr_step_mono: "ss_le (sr_state sr) (sr_state (sr_step sr ev))"
  by (cases ev) (auto simp: sr_state_simps ss_le_def)

lemma sr_run_mono_aux: "ss_le (sr_state sr) (sr_state (sr_run sr evs))"
proof (induction evs arbitrary: sr)
  case (Cons ev evs)
  have "ss_le (sr_state sr) (sr_state (sr_step sr ev))" by (rule sr_step_mono)
  also have "ss_le (sr_state (sr_step sr ev)) (sr_state (sr_run (sr_step sr ev) evs))"
    by (rule Cons.IH)
  finally show ?case by simp
qed simp

definition sr_inv :: "two_chain_rules \<Rightarrow> bool" where
  "sr_inv sr \<longleftrightarrow> ss_preferred_round (sr_state sr) \<le> ss_one_chain_round (sr_state sr)"

lemma sr_inv_new: "sr_inv (sr_new e)"
  by (simp add: sr_inv_def sr_new_def)

lemma sr_step_inv: "sr_inv sr \<Longrightarrow> sr_inv (sr_step sr ev)"
  by (cases ev) (auto simp: sr_state_simps sr_inv_def max_def)

lemma sr_run_inv: "sr_inv sr \<Longrightarrow> sr_inv (sr_run sr evs)"
  by (induction evs arbitrary: sr) (auto intro: sr_step_inv)

lemma sr_run_append: "sr_run sr (evs @ evs') = sr_run (sr_run sr evs) evs'"
  by (induction evs arbitrary: sr) simp_all

text \<open>The rounds an event certifies: the round of a certificate, and the highest certified round
  that a timeout certificate reports.\<close>

fun certified_rounds :: "('n, 'h, 's) sr_event \<Rightarrow> u64 set" where
  "certified_rounds (ObserveQc qc) = {qc_round qc}"
| "certified_rounds (ObserveTc tc) = {tc_hqc_round tc}"
| "certified_rounds (RecordVote r) = {}"
| "certified_rounds (RecordTimeout r) = {}"

lemma finite_certified_rounds [simp]: "finite (certified_rounds ev)"
  by (cases ev) simp_all

lemma one_chain_step:
  "ss_one_chain_round (sr_state (sr_step sr ev)) =
     Max (insert (ss_one_chain_round (sr_state sr)) (certified_rounds ev))"
  by (cases ev) (simp_all add: sr_state_simps)

lemma one_chain_run:
  "ss_one_chain_round (sr_state (sr_run sr evs)) =
     Max (insert (ss_one_chain_round (sr_state sr)) (\<Union>ev\<in>set evs. certified_rounds ev))"
proof (induction evs arbitrary: sr)
  case (Cons ev evs)
  let ?c = "certified_rounds ev" and ?d = "\<Union>ev\<in>set evs. certified_rounds ev"
    and ?o = "ss_one_chain_round (sr_state sr)"
  have "Max (insert (Max (insert ?o ?c)) ?d) = Max (insert ?o (?c \<union> ?d))"
    by (cases "?d = {}") (simp_all add: Max_Un flip: Un_insert_left)
  then show ?case by (simp add: Cons.IH one_chain_step)
qed simp

section \<open>What a client of the trait may rely on\<close>

text \<open>
  \<open>lv r\<close> and \<open>oc r\<close> below abbreviate the last voted round and the one-chain round of a
  state of the rules, as the trait's \<open>state()\<close> reports them.
\<close>

locale safety_rules_laws =
  fixes SR :: "('r, 'tc, 'n, 'h, 's) safety_rules"
    and lv :: "'r \<Rightarrow> u64" and oc :: "'r \<Rightarrow> u64"
  assumes lv_state: "st_last_voted_round (srt_state SR r) = lv r"
    and oc_state: "st_one_chain_round (srt_state SR r) = oc r"
    and obs_qc_ok: "fst (srt_observe_qc SR r qc) = Inr ()"
    and obs_qc_one_chain: "oc (snd (srt_observe_qc SR r qc)) = max (oc r) (qc_round qc)"
    and obs_qc_voted: "lv (snd (srt_observe_qc SR r qc)) = lv r"
    and rec_vote_ok: "is_ok (fst (srt_record_vote SR r n)) \<longleftrightarrow> lv r \<le> n"
    and rec_vote_voted: "lv (snd (srt_record_vote SR r n)) = max (lv r) n"
    and rec_vote_one_chain: "oc (snd (srt_record_vote SR r n)) = oc r"
    and rec_timeout_voted: "lv (srt_record_timeout SR r n) = lv r"
    and rec_timeout_one_chain: "oc (srt_record_timeout SR r n) = oc r"
    and safe_timeout_None:
      "is_ok (srt_safe_to_timeout SR r n q None) \<longleftrightarrow> q \<noteq> u64_MAX \<and> n = q + 1 \<and> oc r \<le> q"
begin

text \<open>Once a vote of a round is recorded, no vote of an earlier round can be.\<close>

lemma no_vote_backwards:
  "m < n \<Longrightarrow> \<not> is_ok (fst (srt_record_vote SR (snd (srt_record_vote SR r n)) m))"
  by (auto simp: rec_vote_ok rec_vote_voted)

lemma vote_recorded:
  "is_ok (fst (srt_record_vote SR r n)) \<Longrightarrow> lv (snd (srt_record_vote SR r n)) = n"
  by (simp add: rec_vote_ok rec_vote_voted max_def)

lemmas sr_laws =
  lv_state oc_state obs_qc_ok obs_qc_one_chain obs_qc_voted rec_vote_ok rec_vote_voted
  rec_vote_one_chain rec_timeout_voted rec_timeout_one_chain

end

interpretation tcr: safety_rules_laws two_chain
  "\<lambda>sr. ss_last_voted_round (sr_state sr)" "\<lambda>sr. ss_one_chain_round (sr_state sr)"
  by unfold_locales
    (auto simp: two_chain_def ss_safety_state_def sr_state_simps record_vote_ok_iff
      safe_to_timeout_None_ok_iff)

section \<open>Properties\<close>

text \<open>C4: the voting rule: for certificate rounds below the last round, \<open>safe_to_vote_impl\<close> accepts
  exactly when the block's round follows the certificate's, or follows the timeout
  certificate's while the certificate is at least as high as the highest one the timeouts
  report. The rule is the one the module documents, over unbounded numbers.\<close>

theorem voting_rule:
  assumes "q \<noteq> u64_MAX" and "\<forall>t h. tc = Some (t, h) \<longrightarrow> t \<noteq> u64_MAX"
  shows "is_ok (safe_to_vote_impl sr b q (map_option fst tc) (map_option snd tc)) \<longleftrightarrow>
         vote_rule (unat b) (unat q) (map_option (\<lambda>(t, h). (unat t, unat h)) tc)"
  using assms safe_to_vote_impl_no_tc [of q sr b] safe_to_vote_impl_tc [of q _ sr b]
  by (cases tc) auto

theorem voting_rule_witness:
  "is_ok (safe_to_vote_impl (sr_new 1) 8 5 (Some 7) (Some 5)) \<and>
   \<not> is_ok (safe_to_vote_impl (sr_new 1) 8 5 (Some 7) (Some 6))"
  using voting_rule [of 5 "Some (7, 5)" "sr_new 1" 8] voting_rule [of 5 "Some (7, 6)" "sr_new 1" 8]
  by (simp add: vote_rule_def)

text \<open>C38: \<open>safe_to_vote\<close>, which the round manager calls, does not apply that rule to the block's
  certificate: it takes the round before the block's own round instead, so it accepts every
  block of a positive round in every safety state, with or without a timeout certificate
  (one of the last round makes it fail).\<close>

theorem safe_to_vote_accepts_every_round:
  "is_ok (safe_to_vote sr p tc) \<longleftrightarrow>
     0 < blk_round p \<and> (case tc of None \<Rightarrow> True | Some c \<Rightarrow> tc_round c \<noteq> u64_MAX)"
  using safe_to_vote_ok_iff [of sr p tc] by (cases tc) auto

text \<open>C6: the timeout rule: \<open>safe_to_timeout\<close> accepts exactly when the round follows the
  certificate's or the timeout certificate's and the certificate is not below the one-chain
  round. Neither certificate is of the last round, where the sum would overflow.\<close>

theorem timing_out_rule:
  assumes "q \<noteq> u64_MAX" and "\<forall>c. tc = Some c \<longrightarrow> tc_round c \<noteq> u64_MAX"
  shows "is_ok (safe_to_timeout sr r q tc) \<longleftrightarrow>
         timeout_rule (unat r) (unat q) (map_option (\<lambda>c. unat (tc_round c)) tc)
           (unat (ss_one_chain_round (sr_state sr)))"
  using safe_to_timeout_ok_iff [OF assms(1)] assms(2) by blast

theorem timing_out_rule_witness:
  "is_ok (safe_to_timeout (sr_new 1) 4 0 (Some (tc_new 1 3 0 0 (to_new 1 3 0) ()))) \<and>
   \<not> is_ok (safe_to_timeout (sr_new 1) 4 2 (None :: unit two_chain_timeout_cert option))"
  using timing_out_rule [of 0 "Some (tc_new 1 3 0 0 (to_new 1 3 0) ())" "sr_new 1" 4]
    timing_out_rule [of 2 "None :: unit two_chain_timeout_cert option" "sr_new 1" 4]
  by (simp add: timeout_rule_def tc_new_def sr_new_def)

text \<open>C7: no sequence of observed certificates, timeouts and recorded votes lowers any round of the
  safety state or changes its epoch, and from a fresh state the preferred round never
  exceeds the one-chain round.\<close>

theorem safety_state_monotone:
  "ss_le (sr_state sr) (sr_state (sr_run sr evs)) \<and>
   ss_preferred_round (sr_state (sr_run (sr_new e) evs)) \<le>
     ss_one_chain_round (sr_state (sr_run (sr_new e) evs))"
  using sr_run_mono_aux [of sr evs] sr_run_inv [OF sr_inv_new, of e evs] by (simp add: sr_inv_def)

text \<open>C5: the commit rule as the code has it, over histories: after any sequence of observed
  certificates and recorded votes and timeouts, \<open>should_commit\<close> names a block for a proposal
  exactly when the proposal's round directly follows the highest round certified so far, by a
  certificate or by the report of a timeout certificate, and the block is the proposal's
  parent, whether or not the proposal and the parent are certified and whatever the parent's
  round. The documented rule differs, as \<open>commit_without_certificate\<close> and
  \<open>certified_block_commits_nothing\<close> show.\<close>

theorem commit_rule:
  "should_commit (sr_run (sr_new e) evs) p =
     (if unat (blk_round p) = unat (Max (insert 0 (\<Union>ev\<in>set evs. certified_rounds ev))) + 1
      then Some (blk_parent_id p) else None)"
  using should_commit_Some_iff [of "sr_run (sr_new e) evs" p] one_chain_run [of "sr_new e" evs]
  by (cases "should_commit (sr_run (sr_new e) evs) p") (auto simp: sr_new_def)

text \<open>
  The rule that the trait and the README document: \<open>b0\<close> is committed when a certified block \<open>b1\<close>
  extends it and has the round after it.
\<close>

definition documented_commit ::
    "('n, 'h) quorum_cert list \<Rightarrow> ('n, 'h, 's) block \<Rightarrow> ('n, 'h, 's) block \<Rightarrow> bool" where
  "documented_commit qcs b0 b1 \<longleftrightarrow>
     blk_id b1 \<in> qc_block_id ` set qcs \<and> blk_parent_id b1 = blk_id b0 \<and>
     unat (blk_round b1) = unat (blk_round b0) + 1"

text \<open>The code commits the parent of a proposal that no certificate is for, whatever block that
  parent is, as soon as some block of the round before is certified.\<close>

lemma commit_without_certificate:
  assumes "qc_round qc \<noteq> u64_MAX" and "blk_round p = qc_round qc + 1" and "qc_block_id qc \<noteq> blk_id p"
  shows "should_commit (snd (observe_qc (sr_new e) qc)) p = Some (blk_parent_id p)"
    and "\<not> documented_commit [qc] b0 p"
  using assms
  by (simp_all add: should_commit_Some_iff observe_qc_state sr_new_def unat_plus_one documented_commit_def)

text \<open>Once the certificate of \<open>b1\<close> is observed, which is when the documented rule commits \<open>b0\<close>,
  the code commits nothing for \<open>b1\<close>.\<close>

lemma certified_block_commits_nothing:
  assumes "documented_commit [qc] b0 b1" and "qc_round qc = blk_round b1"
  shows "should_commit (snd (observe_qc (sr_new e) qc)) b1 = None"
proof -
  have "should_commit (snd (observe_qc (sr_new e) qc)) b1 \<noteq> Some h" for h
    using assms(2) by (simp add: should_commit_Some_iff observe_qc_state sr_new_def)
  then show ?thesis by (cases "should_commit (snd (observe_qc (sr_new e) qc)) b1") auto
qed

end
