(* ===== verification/Sig_Aggregator.thy ===== *)
theory Sig_Aggregator
  imports Traits
begin

text \<open>
  Models \<open>crypto/signature_aggregator.rs\<close>, and the voting-power arguments behind a quorum:
  what the aggregator relies on in a \<open>ValidatorVerifier\<close>, and why two quorums overlap.
\<close>

section \<open>The aggregator\<close>

record ('n, 's) signature_aggregator =
  sa_signatures :: "('n, 's) hashmap"
  sa_voting_power :: u128
  sa_signer_count :: usize

definition sa_new :: "('n, 's) signature_aggregator" where
  "sa_new = \<lparr>sa_signatures = hm_empty, sa_voting_power = 0, sa_signer_count = 0\<rparr>"

definition sa_default :: "('n, 's) signature_aggregator" where
  "sa_default = sa_new"

definition sa_add_signature ::
    "('n, 's) signature_aggregator \<Rightarrow> 'n \<Rightarrow> 's \<Rightarrow> u64 \<Rightarrow> ('n, 's) signature_aggregator" where
  "sa_add_signature sa validator_id signature voting_power =
     (if \<not> hm_contains_key (sa_signatures sa) validator_id
      then sa\<lparr>sa_voting_power := sa_voting_power sa + as_u128 voting_power,
              sa_signer_count := sa_signer_count sa + 1,
              sa_signatures := hm_insert validator_id signature (sa_signatures sa)\<rparr>
      else sa)"

definition sa_signers :: "('n, 's) signature_aggregator \<Rightarrow> 'n list" where
  "sa_signers sa = hm_keys (sa_signatures sa)"

definition sa_signature_iter :: "('n, 's) signature_aggregator \<Rightarrow> 's list" where
  "sa_signature_iter sa = hm_values (sa_signatures sa)"

definition sa_check_quorum ::
    "('n, 's) signature_aggregator \<Rightarrow> ('n, 'h, 's, 'g) validator_verifier \<Rightarrow> verify_error + unit" where
  "sa_check_quorum sa verifier = vv_check_voting_power verifier (sa_signers sa) True"

definition sa_aggregate ::
    "('n, 's) signature_aggregator \<Rightarrow> ('n, 'h, 's, 'g) validator_verifier \<Rightarrow> 'g res" where
  "sa_aggregate sa verifier = vv_aggregate_signatures verifier (sa_signature_iter sa)"

definition sa_clear :: "('n, 's) signature_aggregator \<Rightarrow> ('n, 's) signature_aggregator" where
  "sa_clear sa = sa\<lparr>sa_signatures := hm_empty, sa_voting_power := 0, sa_signer_count := 0\<rparr>"

definition sa_has_signed :: "('n, 's) signature_aggregator \<Rightarrow> 'n \<Rightarrow> bool" where
  "sa_has_signed sa validator_id = hm_contains_key (sa_signatures sa) validator_id"

definition sa_get_signature :: "('n, 's) signature_aggregator \<Rightarrow> 'n \<Rightarrow> 's option" where
  "sa_get_signature sa validator_id = hm_get (sa_signatures sa) validator_id"

text \<open>
  The loop that \<open>PendingVotes::check_quorum\<close> and \<open>form_quorum_certificate_for_block\<close> run over
  the votes of a block: votes of unknown authors are left out.
\<close>

fun sa_add_votes ::
    "('n, 'h, 's, 'g) validator_verifier \<Rightarrow> ('n, 's) signature_aggregator \<Rightarrow>
     ('n, 'h, 's) vote list \<Rightarrow> ('n, 's) signature_aggregator" where
  "sa_add_votes verifier sa [] = sa"
| "sa_add_votes verifier sa (vote # votes) =
     (let author = vote_author vote
      in case vv_get_voting_power verifier author of
           Some voting_power \<Rightarrow>
             sa_add_votes verifier (sa_add_signature sa author (vote_signature vote) voting_power) votes
         | None \<Rightarrow> sa_add_votes verifier sa votes)"

section \<open>Each validator is counted once\<close>

text \<open>
  The invariant of an aggregator fed with the powers of a verifier: the accumulated power
  is the sum of the signers' powers and the counter is the number of signers.
\<close>

definition sa_inv :: "('n \<Rightarrow> u64 option) \<Rightarrow> ('n, 's) signature_aggregator \<Rightarrow> bool" where
  "sa_inv pw sa \<longleftrightarrow>
     hm_wf (sa_signatures sa) \<and>
     set (sa_signers sa) \<subseteq> dom pw \<and>
     sa_voting_power sa = sum_u128 (map as_u128 (List.map_filter pw (sa_signers sa))) \<and>
     sa_signer_count sa = usize_of_nat (length (sa_signers sa))"

lemma sa_inv_new [simp, intro]: "sa_inv pw sa_new"
  by (simp add: sa_inv_def sa_new_def sa_signers_def hm_keys_def hm_empty_def sum_u128_def
      usize_of_nat_def hm_wf_def)

lemma sa_signers_add:
  "sa_signers (sa_add_signature sa n s p) =
     (if n \<in> set (sa_signers sa) then sa_signers sa else sa_signers sa @ [n])"
proof (cases "hm_get (sa_signatures sa) n")
  case None
  then show ?thesis
    by (simp add: sa_add_signature_def sa_signers_def hm_contains_key_def
        hm_insert_new flip: hm_contains_iff) (simp add: hm_keys_def)
next
  case (Some x)
  then show ?thesis
    by (simp add: sa_add_signature_def sa_signers_def hm_contains_key_def flip: hm_contains_iff)
qed

lemma hm_wf_add_signature [simp]:
  "hm_wf (sa_signatures sa) \<Longrightarrow> hm_wf (sa_signatures (sa_add_signature sa n s p))"
  by (simp add: sa_add_signature_def)

lemma map_filter_append: "List.map_filter f (xs @ ys) = List.map_filter f xs @ List.map_filter f ys"
  by (simp add: List.map_filter_def)

lemma map_filter_single: "List.map_filter f [x] = (case f x of None \<Rightarrow> [] | Some y \<Rightarrow> [y])"
  by (simp add: List.map_filter_simps split: option.splits)

lemma sa_inv_add:
  assumes "sa_inv pw sa" and "pw n = Some p"
  shows "sa_inv pw (sa_add_signature sa n s p)"
proof (cases "n \<in> set (sa_signers sa)")
  case True
  then have "sa_add_signature sa n s p = sa"
    by (simp add: sa_add_signature_def sa_signers_def hm_contains_iff)
  with assms(1) show ?thesis by simp
next
  case False
  then have "sa_voting_power (sa_add_signature sa n s p) = sa_voting_power sa + as_u128 p"
    and "sa_signer_count (sa_add_signature sa n s p) = sa_signer_count sa + 1"
    by (simp_all add: sa_add_signature_def sa_signers_def hm_contains_iff)
  with False assms show ?thesis
    by (auto simp: sa_inv_def sa_signers_add map_filter_append map_filter_single sum_u128_def
        usize_of_nat_def)
qed

lemma sa_inv_add_votes:
  "sa_inv (vv_get_voting_power verifier) sa \<Longrightarrow>
   sa_inv (vv_get_voting_power verifier) (sa_add_votes verifier sa votes)"
  by (induction votes arbitrary: sa) (auto simp: Let_def sa_inv_add split: option.splits)

lemma set_signers_add_votes:
  "set (sa_signers (sa_add_votes verifier sa votes)) =
     set (sa_signers sa) \<union>
     {a \<in> vote_author ` set votes. vv_get_voting_power verifier a \<noteq> None}"
proof (induction votes arbitrary: sa)
  case (Cons v votes)
  then show ?case
    by (cases "vv_get_voting_power verifier (vote_author v)")
      (auto simp: Let_def sa_signers_add)
qed simp

lemma distinct_signers_add_votes:
  "distinct (sa_signers sa) \<Longrightarrow> distinct (sa_signers (sa_add_votes verifier sa votes))"
  by (induction votes arbitrary: sa)
    (auto simp: Let_def sa_signers_add split: option.splits)

lemma sa_signers_new [simp]: "sa_signers sa_new = []"
  by (simp add: sa_signers_def sa_new_def hm_empty_def hm_keys_def)

text \<open>The signatures that are aggregated are those of one vote per signer.\<close>

lemma sa_signatures_add:
  "sa_signatures (sa_add_signature sa n s p) =
     (if n \<in> set (sa_signers sa) then sa_signatures sa else sa_signatures sa @ [(n, s)])"
  by (cases "hm_get (sa_signatures sa) n")
    (simp_all add: sa_add_signature_def sa_signers_def hm_contains_key_def hm_insert_new
      flip: hm_contains_iff)

lemma signatures_add_votes:
  "\<exists>ws. set ws \<subseteq> set votes \<and> sa_signatures (sa_add_votes verifier sa votes) =
     sa_signatures sa @ map (\<lambda>w. (vote_author w, vote_signature w)) ws"
proof (induction votes arbitrary: sa)
  case (Cons v votes)
  have add: "\<exists>us. set us \<subseteq> {v} \<and> sa_signatures (sa_add_signature sa (vote_author v) (vote_signature v) p) =
      sa_signatures sa @ map (\<lambda>w. (vote_author w, vote_signature w)) us" for p
    by (cases "vote_author v \<in> set (sa_signers sa)")
      (auto simp: sa_signatures_add intro: exI [of _ "[]"] exI [of _ "[v]"])
  show ?case
  proof (cases "vv_get_voting_power verifier (vote_author v)")
    case None
    with Cons.IH [of sa] show ?thesis by (auto simp: Let_def)
  next
    case (Some p)
    let ?sa = "sa_add_signature sa (vote_author v) (vote_signature v) p"
    obtain us where "set us \<subseteq> {v}"
      "sa_signatures ?sa = sa_signatures sa @ map (\<lambda>w. (vote_author w, vote_signature w)) us"
      using add by blast
    moreover obtain ws where "set ws \<subseteq> set votes" "sa_signatures (sa_add_votes verifier ?sa votes) =
        sa_signatures ?sa @ map (\<lambda>w. (vote_author w, vote_signature w)) ws"
      using Cons.IH by blast
    ultimately show ?thesis using Some by (intro exI [of _ "us @ ws"]) (auto simp: Let_def)
  qed
qed simp

lemma aggregated_votes:
  obtains ws where "set ws \<subseteq> set votes" "distinct (map vote_author ws)"
    "vote_author ` set ws \<subseteq> dom (vv_get_voting_power verifier)"
    "sa_signers (sa_add_votes verifier sa_new votes) = map vote_author ws"
    "sa_signature_iter (sa_add_votes verifier sa_new votes) = map vote_signature ws"
proof -
  obtain ws where ws: "set ws \<subseteq> set votes" "sa_signatures (sa_add_votes verifier sa_new votes) =
      map (\<lambda>w. (vote_author w, vote_signature w)) ws"
    using signatures_add_votes [of votes verifier sa_new] by (auto simp: sa_new_def hm_empty_def)
  then have s: "sa_signers (sa_add_votes verifier sa_new votes) = map vote_author ws"
    "sa_signature_iter (sa_add_votes verifier sa_new votes) = map vote_signature ws"
    by (simp_all add: sa_signers_def sa_signature_iter_def hm_keys_def hm_values_def comp_def)
  have "distinct (map vote_author ws)"
    using distinct_signers_add_votes [of sa_new verifier votes] s(1) by simp
  moreover have "vote_author ` set ws \<subseteq> dom (vv_get_voting_power verifier)"
    using set_signers_add_votes [of verifier sa_new votes] s(1) by auto
  ultimately show ?thesis using that [OF ws(1)] s by blast
qed

section \<open>What a quorum check relies on\<close>

text \<open>
  A verifier's \<open>check_voting_power(_, true)\<close> succeeds exactly when the powers of the given
  signers that it knows add up to its quorum.
\<close>

locale quorum_check =
  fixes VV :: "('n, 'h, 's, 'g) validator_verifier"
  assumes check_iff:
    "is_ok (vv_check_voting_power VV signers True) \<longleftrightarrow>
       vv_quorum_voting_power VV \<le>
         sum_u128 (map as_u128 (List.map_filter (vv_get_voting_power VV) signers))"
begin

lemma check_perm:
  assumes "mset xs = mset ys"
  shows "is_ok (vv_check_voting_power VV xs True) = is_ok (vv_check_voting_power VV ys True)"
proof -
  have "mset (map as_u128 (List.map_filter (vv_get_voting_power VV) xs)) =
        mset (map as_u128 (List.map_filter (vv_get_voting_power VV) ys))"
    using assms by (simp add: List.map_filter_def mset_filter)
  from sum_u128_perm [OF this] show ?thesis by (simp only: check_iff)
qed

text \<open>The order in which the votes arrive or are iterated does not matter.\<close>

lemma sa_quorum_order:
  assumes "vote_author ` set votes = vote_author ` set votes'"
  shows "is_ok (sa_check_quorum (sa_add_votes VV sa_new votes) VV) =
         is_ok (sa_check_quorum (sa_add_votes VV sa_new votes') VV)"
proof -
  have set_eq: "set (sa_signers (sa_add_votes VV sa_new votes)) =
                set (sa_signers (sa_add_votes VV sa_new votes'))"
    by (simp add: set_signers_add_votes assms)
  have "mset (sa_signers (sa_add_votes VV sa_new votes)) =
        mset (sa_signers (sa_add_votes VV sa_new votes'))"
    using set_eq
    by (metis distinct.simps(1) distinct_signers_add_votes sa_signers_new
        set_eq_iff_mset_eq_distinct)
  from check_perm [OF this] show ?thesis by (simp only: sa_check_quorum_def)
qed

lemma sa_quorum_power:
  assumes "sa_inv (vv_get_voting_power VV) sa"
  shows "is_ok (sa_check_quorum sa VV) \<longleftrightarrow> vv_quorum_voting_power VV \<le> sa_voting_power sa"
  using assms by (simp add: sa_check_quorum_def check_iff sa_inv_def)

end

section \<open>Overlap of quorums\<close>

text \<open>
  Two sets of validators, each with more than two thirds of the total power, share more
  than a third of it; with at most a third of the power faulty, they share a correct
  validator.
\<close>

locale weighted_quorum =
  fixes weight :: "'n \<Rightarrow> nat" and members :: "'n set"
  assumes finite_members: "finite members"
begin

lemma quorum_overlap:
  assumes "A \<subseteq> members" "B \<subseteq> members"
    and A: "2 * sum weight members div 3 + 1 \<le> sum weight A"
    and B: "2 * sum weight members div 3 + 1 \<le> sum weight B"
  shows "sum weight members < 3 * sum weight (A \<inter> B)"
proof -
  have fin: "finite A" "finite B" using assms(1,2) finite_members finite_subset by auto
  have "sum weight (A \<union> B) \<le> sum weight members"
    using assms(1,2) finite_members by (intro sum_mono2) auto
  moreover have "sum weight (A \<union> B) + sum weight (A \<inter> B) = sum weight A + sum weight B"
    using fin by (rule sum.union_inter)
  ultimately show ?thesis using A B by linarith
qed

lemma quorums_share_correct:
  assumes "A \<subseteq> members" "B \<subseteq> members"
    and "2 * sum weight members div 3 + 1 \<le> sum weight A"
    and "2 * sum weight members div 3 + 1 \<le> sum weight B"
    and "F \<subseteq> members" and F: "3 * sum weight F \<le> sum weight members"
  shows "\<exists>n. n \<in> A \<and> n \<in> B \<and> n \<notin> F"
proof (rule ccontr)
  assume "\<not> ?thesis"
  then have "A \<inter> B \<subseteq> F" by blast
  moreover have "finite F" using assms(5) finite_members finite_subset by auto
  ultimately have "sum weight (A \<inter> B) \<le> sum weight F" by (intro sum_mono2) auto
  with quorum_overlap [OF assms(1-4)] F show False by linarith
qed

end

end
