(* ===== verification/Mocks.thy ===== *)
theory Mocks
  imports Sig_Aggregator
begin

text \<open>
  Models the crate's own implementations of the traits, \<open>consensus-core/src/testing\<close>: hashes,
  node ids and signatures are bytes, an aggregated signature carries nothing. They are the
  only concrete verifier, vote and block types of the repository, and the witnesses run the
  generic definitions on them.
\<close>

record mock_validator =
  mv_id :: u8
  mv_voting_power :: u64

definition mv_new :: "u8 \<Rightarrow> u64 \<Rightarrow> mock_validator" where
  "mv_new i p = \<lparr>mv_id = i, mv_voting_power = p\<rparr>"

record mock_validator_set =
  mvs_validators :: "(u8, mock_validator) hashmap"
  mvs_total_voting_power :: u128
  mvs_quorum_threshold :: u128

definition mvs_new :: "mock_validator list \<Rightarrow> mock_validator_set" where
  "mvs_new validators =
     (let (validator_map, total_power) =
            foldl (\<lambda>(m, t) v. (hm_insert (mv_id v) v m, t + as_u128 (mv_voting_power v)))
              (hm_empty, 0) validators
      in \<lparr>mvs_validators = validator_map, mvs_total_voting_power = total_power,
          mvs_quorum_threshold = total_power * 2 div 3 + 1\<rparr>)"

definition mvs_len :: "mock_validator_set \<Rightarrow> usize" where
  "mvs_len s = usize_of_nat (length (mvs_validators s))"

definition mvs_is_empty :: "mock_validator_set \<Rightarrow> bool" where
  "mvs_is_empty s = (mvs_validators s = [])"

definition mvs_get_validator :: "mock_validator_set \<Rightarrow> u8 \<Rightarrow> mock_validator option" where
  "mvs_get_validator s i = hm_get (mvs_validators s) i"

definition mvs_validator_ids :: "mock_validator_set \<Rightarrow> u8 list" where
  "mvs_validator_ids s = hm_keys (mvs_validators s)"

definition mvs_get_voting_power :: "mock_validator_set \<Rightarrow> u8 \<Rightarrow> u64 option" where
  "mvs_get_voting_power s i = map_option mv_voting_power (hm_get (mvs_validators s) i)"

definition mvs_check_voting_power ::
    "mock_validator_set \<Rightarrow> u8 list \<Rightarrow> bool \<Rightarrow> verify_error + unit" where
  "mvs_check_voting_power s signers check_quorum =
     (let p = foldl (\<lambda>p i. case mvs_get_voting_power s i of
                             Some vp \<Rightarrow> p + as_u128 vp | None \<Rightarrow> p) 0 signers
      in if check_quorum \<and> p < mvs_quorum_threshold s
         then Inl (TooLittleVotingPower p (mvs_quorum_threshold s)) else Inr ())"

definition mvs_verifier :: "mock_validator_set \<Rightarrow> (u8, u8, u8, unit) validator_verifier" where
  "mvs_verifier s =
     \<lparr>vv_verify_vote = (\<lambda>v. if hm_contains_key (mvs_validators s) (vote_author v) then Inr ()
                             else Inl (Msg (verify_error_fmt UnknownAuthor))),
      vv_verify_block = (\<lambda>_. Inr ()),
      vv_get_voting_power = mvs_get_voting_power s,
      vv_total_voting_power = mvs_total_voting_power s,
      vv_quorum_voting_power = mvs_quorum_threshold s,
      vv_check_voting_power = mvs_check_voting_power s,
      vv_aggregate_signatures = (\<lambda>_. Inr ())\<rparr>"

definition make_validator_set :: "u64 list \<Rightarrow> mock_validator_set" where
  "make_validator_set voting_powers =
     mvs_new (map (\<lambda>(i, p). mv_new (of_nat i) p) (enumerate 0 voting_powers))"

definition mock_metadata :: "u64 \<Rightarrow> u64 \<Rightarrow> u8 \<Rightarrow> u8 \<Rightarrow> u64 \<Rightarrow> (u8, u8) block_metadata" where
  "mock_metadata e r a p t =
     \<lparr>bm_epoch = e, bm_round = r, bm_author = a, bm_parent_id = p, bm_timestamp = t\<rparr>"

definition mock_genesis_metadata :: "(u8, u8) block_metadata" where
  "mock_genesis_metadata = mock_metadata 0 0 0 0 0"

definition mock_qc_new :: "u8 \<Rightarrow> (u8, u8) quorum_cert" where
  "mock_qc_new b = \<lparr>qc_certified_block = mock_genesis_metadata, qc_block_id = b\<rparr>"

definition mock_qc_with_metadata :: "(u8, u8) block_metadata \<Rightarrow> u8 \<Rightarrow> (u8, u8) quorum_cert" where
  "mock_qc_with_metadata m b = \<lparr>qc_certified_block = m, qc_block_id = b\<rparr>"

definition mock_qc_default :: "(u8, u8) quorum_cert" where
  [simp]: "mock_qc_default = mock_qc_new 0"

definition mock_transaction :: "u8 transaction" where
  "mock_transaction = \<lparr>tx_hash = 0, tx_size = 100\<rparr>"

text \<open>\<open>MockBlock::id\<close> is the low byte of the round, exclusive-or the author.\<close>

definition mock_block :: "u8 transaction list \<Rightarrow> (u8, u8) block_metadata \<Rightarrow> (u8, u8, u8) block" where
  "mock_block txns m =
     \<lparr>blk_id = xor (ucast (bm_round m)) (bm_author m), blk_metadata = m,
      blk_transactions = txns, blk_signature = None, blk_parent_id = bm_parent_id m,
      blk_is_genesis = (bm_epoch m = 0 \<and> bm_round m = 0), blk_is_nil = False\<rparr>"

definition mock_block_genesis :: "(u8, u8, u8) block" where
  "mock_block_genesis = mock_block [] mock_genesis_metadata"

definition mock_vote_data :: "(u8, u8) vote_data" where
  [simp]: "mock_vote_data =
     \<lparr>vd_proposed_block = mock_genesis_metadata, vd_parent_block = mock_genesis_metadata\<rparr>"

definition mock_commit_info :: "u8 commit_info" where
  [simp]: "mock_commit_info =
     \<lparr>ci_block_id = 0, ci_round = 0, ci_epoch = 0, ci_version = 0, ci_timestamp = 0\<rparr>"

definition mock_ledger_info :: "u8 ledger_info" where
  "mock_ledger_info =
     \<lparr>li_commit_info = mock_commit_info, li_epoch = 0, li_round = 0, li_accumulated_state = 0\<rparr>"

definition mock_vote_with_signature :: "u8 \<Rightarrow> u8 \<Rightarrow> u64 \<Rightarrow> u8 \<Rightarrow> (u8, u8, u8) vote" where
  "mock_vote_with_signature author block_id r sig_byte =
     \<lparr>vote_vote_data = mock_vote_data, vote_author = author, vote_ledger_info = mock_ledger_info,
      vote_signature = sig_byte, vote_block_id = block_id, vote_round = r\<rparr>"

definition mock_vote :: "u8 \<Rightarrow> u8 \<Rightarrow> u64 \<Rightarrow> (u8, u8, u8) vote" where
  "mock_vote author block_id r = mock_vote_with_signature author block_id r author"

definition mock_chain :: "(u8, u8, u8, unit) chain" where
  "mock_chain =
     \<lparr>ch_verify_signature = (\<lambda>_. Inr ()), ch_vote_verify = (\<lambda>_ _. Inr ()),
      ch_from_votes = (\<lambda>_ _. Inr mock_qc_default)\<rparr>"

section \<open>The verifier of the mocks checks quorums as its clients expect\<close>

lemma foldl_known_power:
  "foldl (\<lambda>p i. case f i of Some vp \<Rightarrow> p + as_u128 vp | None \<Rightarrow> p) a xs =
     foldl (+) a (map as_u128 (List.map_filter f xs))"
  by (induction xs arbitrary: a) (auto simp: List.map_filter_simps split: option.splits)

interpretation mvs: quorum_check "mvs_verifier s" for s
  by unfold_locales
    (auto simp: mvs_verifier_def mvs_check_voting_power_def Let_def sum_u128_def
      foldl_known_power not_less)

lemma mvs_total_power:
  "mvs_total_voting_power (mvs_new vs) = sum_u128 (map (as_u128 \<circ> mv_voting_power) vs)"
proof -
  have *: "snd (foldl (\<lambda>(m, t) v. (hm_insert (mv_id v) v m, t + as_u128 (mv_voting_power v))) (m, t) vs)
        = foldl (+) t (map (as_u128 \<circ> mv_voting_power) vs)" for m t
    by (induction vs arbitrary: m t) simp_all
  show ?thesis
    using * [of hm_empty 0] by (auto simp: mvs_new_def sum_u128_def Let_def split: prod.splits)
qed

end
