(* ===== verification/Recovery.thy ===== *)
theory Recovery
  imports Two_Chain Mocks
begin

text \<open>
  Models \<open>safety_rules/recovery.rs\<close>: persisting the safety state, loading it after a
  restart and validating what was loaded. The storage is any implementation of
  \<open>ConsensusStorage\<close>; the in-memory one of the module's tests is modelled as well, with the
  \<open>bincode\<close> round trip as an argument.
\<close>

datatype recovery_error =
    NoState
  | Storage string
  | Deserialization string
  | Validation string

fun recovery_error_fmt :: "recovery_error \<Rightarrow> string" where
  "recovery_error_fmt NoState = ''No safety state found in storage''"
| "recovery_error_fmt (Storage m) = ''Storage error: '' @ m"
| "recovery_error_fmt (Deserialization m) = ''Failed to deserialize safety state: '' @ m"
| "recovery_error_fmt (Validation m) = ''Safety state validation failed: '' @ m"

definition validate_safety_state :: "SafetyStateData \<Rightarrow> recovery_error + unit" where
  "validate_safety_state s =
     (if u64_MAX - 1000 < ss_epoch s
      then Inl (Validation (''Invalid epoch: '' @ show_u64 (ss_epoch s)))
      else if ss_preferred_round s < ss_one_chain_round s
      then Inl (Validation (''Invalid state: one_chain_round ('' @ show_u64 (ss_one_chain_round s) @
                            '') > preferred_round ('' @ show_u64 (ss_preferred_round s) @ '')''))
      else if ss_last_voted_round s + 100 < ss_preferred_round s
      then Inl (Validation (''Invalid state: preferred_round ('' @ show_u64 (ss_preferred_round s) @
                            '') far ahead of last_voted_round ('' @
                            show_u64 (ss_last_voted_round s) @ '')''))
      else Inr ())"

definition load_safety_rules ::
    "('st, 'b, 'q, 'h, SafetyStateData) consensus_storage \<Rightarrow> 'st \<Rightarrow> u64 \<Rightarrow> recovery_error + two_chain_rules" where
  "load_safety_rules S storage epoch =
     (case cst_get_safety_state S storage of
        Inr (Some state) \<Rightarrow>
          (case validate_safety_state state of
             Inl e \<Rightarrow> Inl e
           | Inr _ \<Rightarrow> Inr (sr_with_state state))
      | Inr None \<Rightarrow> Inr (sr_new epoch)
      | Inl e \<Rightarrow> Inl (Storage e))"

definition persist_safety_state ::
    "('st, 'b, 'q, 'h, SafetyStateData) consensus_storage \<Rightarrow> 'st \<Rightarrow> SafetyStateData \<Rightarrow>
     (recovery_error + unit) \<times> 'st" where
  "persist_safety_state S storage state =
     (case cst_save_safety_state S storage state of
        (Inl e, storage') \<Rightarrow> (Inl (Storage e), storage')
      | (Inr _, storage') \<Rightarrow> (Inr (), storage'))"

text \<open>The in-memory storage of the module's tests.\<close>

record mock_storage =
  ms_state :: "SafetyStateData option"
  ms_should_fail :: bool

definition ms_new :: mock_storage where
  "ms_new = \<lparr>ms_state = None, ms_should_fail = False\<rparr>"

definition ms_with_state :: "SafetyStateData \<Rightarrow> mock_storage" where
  "ms_with_state state = \<lparr>ms_state = Some state, ms_should_fail = False\<rparr>"

definition ms_with_error :: "mock_storage \<Rightarrow> mock_storage" where
  "ms_with_error st = st\<lparr>ms_should_fail := True\<rparr>"

definition mock_save :: "mock_storage \<Rightarrow> SafetyStateData \<Rightarrow> (string + unit) \<times> mock_storage" where
  "mock_save st d =
     (if ms_should_fail st then (Inl (recovery_error_fmt (Storage ''Storage error'')), st)
      else (Inr (), st\<lparr>ms_state := Some d\<rparr>))"

definition mock_get ::
    "(SafetyStateData \<Rightarrow> string + SafetyStateData) \<Rightarrow> mock_storage \<Rightarrow> string + SafetyStateData option" where
  "mock_get bincode st =
     (if ms_should_fail st then Inl (recovery_error_fmt (Storage ''Storage error''))
      else case ms_state st of
             Some d \<Rightarrow>
               (case bincode d of
                  Inr d' \<Rightarrow> Inr (Some d')
                | Inl e \<Rightarrow> Inl (recovery_error_fmt
                              (Deserialization (''Deserialization failed: '' @ e))))
           | None \<Rightarrow> Inr None)"

text \<open>The trait's methods for blocks and certificates store nothing and find nothing.\<close>

definition mock_consensus_storage ::
    "(SafetyStateData \<Rightarrow> string + SafetyStateData) \<Rightarrow>
     (mock_storage, (u8, u8, u8) block, (u8, u8) quorum_cert, u8, SafetyStateData) consensus_storage" where
  "mock_consensus_storage bincode =
     \<lparr>cst_save_block = (\<lambda>st _. (Inr (), st)),
      cst_get_block = (\<lambda>_ _. Inr None),
      cst_save_quorum_cert = (\<lambda>st _. (Inr (), st)),
      cst_get_quorum_cert = (\<lambda>_ _. Inr None),
      cst_prune = (\<lambda>st _. (Inr (), st)),
      cst_save_safety_state = mock_save,
      cst_get_safety_state = mock_get bincode\<rparr>"

section \<open>Validation\<close>

lemma validate_ok_iff:
  "validate_safety_state s = Inr () \<longleftrightarrow>
     ss_epoch s \<le> u64_MAX - 1000 \<and> ss_one_chain_round s \<le> ss_preferred_round s \<and>
     ss_preferred_round s \<le> ss_last_voted_round s + 100"
  by (auto simp: validate_safety_state_def)

section \<open>A restart\<close>

text \<open>What recovery relies on: a successful save is what the next read returns.\<close>

locale safety_storage =
  fixes S :: "('st, 'b, 'q, 'h, SafetyStateData) consensus_storage"
  assumes get_after_save:
    "cst_save_safety_state S st d = (Inr (), st') \<Longrightarrow> cst_get_safety_state S st' = Inr (Some d)"
begin

lemma load_after_persist:
  assumes "persist_safety_state S st d = (Inr (), st')"
  shows "load_safety_rules S st' e =
           (case validate_safety_state d of Inl err \<Rightarrow> Inl err | Inr _ \<Rightarrow> Inr (sr_with_state d))"
proof -
  have "cst_save_safety_state S st d = (Inr (), st')"
    using assms by (auto simp: persist_safety_state_def split: prod.splits sum.splits)
  from get_after_save [OF this] show ?thesis by (simp add: load_safety_rules_def)
qed

text \<open>
  A state that the safety rules can reach is accepted after a restart exactly when its
  preferred round has caught up with its one-chain round (and the two bounds hold).
\<close>

lemma restart_ok_iff:
  assumes "persist_safety_state S st (sr_state sr) = (Inr (), st')" and "sr_inv sr"
  shows "load_safety_rules S st' e = Inr sr \<longleftrightarrow>
           ss_epoch (sr_state sr) \<le> u64_MAX - 1000 \<and>
           ss_preferred_round (sr_state sr) = ss_one_chain_round (sr_state sr) \<and>
           ss_preferred_round (sr_state sr) \<le> ss_last_voted_round (sr_state sr) + 100"
proof -
  have "load_safety_rules S st' e = Inr sr \<longleftrightarrow> validate_safety_state (sr_state sr) = Inr ()"
    by (auto simp: load_after_persist [OF assms(1)] sr_with_state_def split: sum.splits)
  with assms(2) show ?thesis by (auto simp: validate_ok_iff sr_inv_def)
qed

end

interpretation ms: safety_storage "mock_consensus_storage Inr"
  by unfold_locales
    (auto simp: mock_consensus_storage_def mock_save_def mock_get_def split: if_splits)

section \<open>Properties\<close>

text \<open>C24: a safety state reached from a fresh one, saved and loaded back after a restart, is
  accepted exactly when its preferred round equals its one-chain round (and the bounds on
  the epoch and the last voted round hold). The validation demands that the one-chain round
  is at most the preferred round, which is the reverse of what the rules maintain, so every
  state with a one-chain round ahead is refused.\<close>

theorem restart_accepts_iff:
  assumes "persist_safety_state (mock_consensus_storage Inr) st (sr_state (sr_run (sr_new e) evs)) =
             (Inr (), st')"
  shows "load_safety_rules (mock_consensus_storage Inr) st' e' = Inr (sr_run (sr_new e) evs) \<longleftrightarrow>
           (let s = sr_state (sr_run (sr_new e) evs)
            in ss_epoch s \<le> u64_MAX - 1000 \<and> ss_preferred_round s = ss_one_chain_round s \<and>
               ss_preferred_round s \<le> ss_last_voted_round s + 100)"
  using ms.restart_ok_iff [OF assms sr_run_inv [OF sr_inv_new]] by (simp add: Let_def)

theorem restart_accepts_iff_witness:
  "let sr = sr_run (sr_new 1) [ObserveQc (mock_qc_with_metadata (mock_metadata 1 5 0 0 0) 0) ::
              (u8, u8, u8) sr_event];
       st' = snd (persist_safety_state (mock_consensus_storage Inr)
               \<lparr>ms_state = None, ms_should_fail = False\<rparr> (sr_state sr))
   in load_safety_rules (mock_consensus_storage Inr) st' 1 \<noteq> Inr sr"
proof -
  let ?evs = "[ObserveQc (mock_qc_with_metadata (mock_metadata 1 5 0 0 0) 0)] :: (u8, u8, u8) sr_event list"
  let ?st = "\<lparr>ms_state = None, ms_should_fail = False\<rparr>"
  let ?r = "persist_safety_state (mock_consensus_storage Inr) ?st (sr_state (sr_run (sr_new 1) ?evs))"
  have "?r = (Inr (), snd ?r)"
    by (simp add: persist_safety_state_def mock_consensus_storage_def mock_save_def)
  moreover have "ss_preferred_round (sr_state (sr_run (sr_new 1) ?evs)) = 0"
    "ss_one_chain_round (sr_state (sr_run (sr_new 1) ?evs)) = 5"
    by (simp_all add: observe_qc_state sr_new_def qc_round_def mock_qc_with_metadata_def mock_metadata_def)
  ultimately show ?thesis
    using restart_accepts_iff [of ?st 1 ?evs "snd ?r" 1] by (simp add: Let_def)
qed

end
