(* ===== verification/Round_State.thy ===== *)
theory Round_State
  imports Traits
begin

text \<open>Models \<open>state/round_state.rs\<close>: the current epoch and round, the proposed block and the
  current quorum certificate.\<close>

record round_state_config =
  rsc_initial_epoch :: epoch
  rsc_initial_round :: round
  rsc_max_buffered_rounds :: u64

definition rsc_default :: round_state_config where
  "rsc_default =
     \<lparr>rsc_initial_epoch = GENESIS_EPOCH, rsc_initial_round = GENESIS_ROUND,
      rsc_max_buffered_rounds = 10\<rparr>"

record ('n, 'h, 's) round_state =
  rs_epoch :: epoch
  rs_round :: round
  rs_proposed_block :: "('n, 'h, 's) block option"
  rs_quorum_cert :: "('n, 'h) quorum_cert option"
  rs_config :: round_state_config

definition rs_new :: "round_state_config \<Rightarrow> ('n, 'h, 's) round_state" where
  "rs_new config =
     \<lparr>rs_epoch = rsc_initial_epoch config, rs_round = rsc_initial_round config,
      rs_proposed_block = None, rs_quorum_cert = None, rs_config = config\<rparr>"

definition rs_set_round :: "('n, 'h, 's) round_state \<Rightarrow> round \<Rightarrow> ('n, 'h, 's) round_state" where
  "rs_set_round rs r = rs\<lparr>rs_round := r, rs_proposed_block := None\<rparr>"

definition rs_set_epoch :: "('n, 'h, 's) round_state \<Rightarrow> epoch \<Rightarrow> ('n, 'h, 's) round_state" where
  "rs_set_epoch rs e =
     rs\<lparr>rs_epoch := e, rs_round := rsc_initial_round (rs_config rs),
        rs_proposed_block := None, rs_quorum_cert := None\<rparr>"

definition rs_set_proposed_block ::
    "('n, 'h, 's) round_state \<Rightarrow> ('n, 'h, 's) block \<Rightarrow> ('n, 'h, 's) round_state" where
  "rs_set_proposed_block rs b = rs\<lparr>rs_proposed_block := Some b\<rparr>"

definition rs_set_quorum_cert ::
    "('n, 'h, 's) round_state \<Rightarrow> ('n, 'h) quorum_cert \<Rightarrow> ('n, 'h, 's) round_state" where
  "rs_set_quorum_cert rs qc = rs\<lparr>rs_quorum_cert := Some qc\<rparr>"

definition rs_advance_round :: "('n, 'h, 's) round_state \<Rightarrow> ('n, 'h, 's) round_state" where
  "rs_advance_round rs = rs\<lparr>rs_round := rs_round rs + 1, rs_proposed_block := None\<rparr>"

definition rs_is_current_round :: "('n, 'h, 's) round_state \<Rightarrow> round \<Rightarrow> bool" where
  "rs_is_current_round rs r = (rs_round rs = r)"

definition rs_is_current_epoch :: "('n, 'h, 's) round_state \<Rightarrow> epoch \<Rightarrow> bool" where
  "rs_is_current_epoch rs e = (rs_epoch rs = e)"

definition rs_is_buffered_round :: "('n, 'h, 's) round_state \<Rightarrow> round \<Rightarrow> bool" where
  "rs_is_buffered_round rs r =
     (rs_round rs < r \<and> r \<le> rs_round rs + rsc_max_buffered_rounds (rs_config rs))"

text \<open>The proposed block, when there is one, belongs to the current round.\<close>

definition rs_inv :: "('n, 'h, 's) round_state \<Rightarrow> bool" where
  "rs_inv rs \<longleftrightarrow> (\<forall>b. rs_proposed_block rs = Some b \<longrightarrow> blk_round b = rs_round rs)"

lemma rs_inv_new [simp, intro]: "rs_inv (rs_new config)"
  by (simp add: rs_inv_def rs_new_def)

lemma rs_inv_set_round [simp, intro]: "rs_inv (rs_set_round rs r)"
  by (simp add: rs_inv_def rs_set_round_def)

lemma rs_inv_set_epoch [simp, intro]: "rs_inv (rs_set_epoch rs e)"
  by (simp add: rs_inv_def rs_set_epoch_def)

lemma rs_inv_set_quorum_cert [simp]: "rs_inv (rs_set_quorum_cert rs qc) = rs_inv rs"
  by (simp add: rs_inv_def rs_set_quorum_cert_def)

lemma rs_inv_advance [simp, intro]: "rs_inv (rs_advance_round rs)"
  by (simp add: rs_inv_def rs_advance_round_def)

lemma rs_inv_set_proposed_block:
  "rs_is_current_round rs (blk_round b) \<Longrightarrow> rs_inv (rs_set_proposed_block rs b)"
  by (simp add: rs_inv_def rs_set_proposed_block_def rs_is_current_round_def)

lemma rs_fields [simp]:
  "rs_round (rs_set_round rs r) = r" "rs_epoch (rs_set_round rs r) = rs_epoch rs"
  "rs_round (rs_set_proposed_block rs b) = rs_round rs"
  "rs_epoch (rs_set_proposed_block rs b) = rs_epoch rs"
  "rs_round (rs_set_quorum_cert rs qc) = rs_round rs"
  "rs_epoch (rs_set_quorum_cert rs qc) = rs_epoch rs"
  "rs_quorum_cert (rs_set_quorum_cert rs qc) = Some qc"
  "rs_round (rs_advance_round rs) = rs_round rs + 1"
  "rs_epoch (rs_advance_round rs) = rs_epoch rs"
  "rs_quorum_cert (rs_set_round rs r) = rs_quorum_cert rs"
  "rs_quorum_cert (rs_advance_round rs) = rs_quorum_cert rs"
  "rs_quorum_cert (rs_set_proposed_block rs b) = rs_quorum_cert rs"
  by (simp_all add: rs_set_round_def rs_set_proposed_block_def rs_set_quorum_cert_def
      rs_advance_round_def)

end
