(* ===== verification/Pending_Votes.thy ===== *)
theory Pending_Votes
  imports Sig_Aggregator Mocks
begin

text \<open>
  Models \<open>votes/pending_votes.rs\<close>: the votes received per round and block, keyed by
  signature, the duplicate check and the quorum check.
\<close>

datatype vote_reception_result =
    Accepted
  | Rejected vote_status
  | QuorumCompleted
  | OldRound
  | FutureRound

type_synonym ('n, 'h, 's) vote_table =
  "(round \<times> 'h, ('s, ('n, 'h, 's) vote) hashmap) hashmap"

record ('n, 'h, 's) pending_votes =
  pv_votes :: "('n, 'h, 's) vote_table"
  pv_current_round :: round
  pv_max_rounds :: u64

definition pv_new :: "u64 \<Rightarrow> ('n, 'h, 's) pending_votes" where
  "pv_new max_rounds =
     \<lparr>pv_votes = hm_empty, pv_current_round = 0, pv_max_rounds = max_rounds\<rparr>"

definition cleanup_old_votes :: "('n, 'h, 's) pending_votes \<Rightarrow> ('n, 'h, 's) pending_votes" where
  "cleanup_old_votes pv =
     (let cutoff_round = saturating_sub (pv_current_round pv) (pv_max_rounds pv)
      in pv\<lparr>pv_votes := hm_retain (\<lambda>(r, _) _. cutoff_round \<le> r) (pv_votes pv)\<rparr>)"

definition pv_set_round :: "('n, 'h, 's) pending_votes \<Rightarrow> round \<Rightarrow> ('n, 'h, 's) pending_votes" where
  "pv_set_round pv r = cleanup_old_votes (pv\<lparr>pv_current_round := r\<rparr>)"

definition pv_check_quorum ::
    "('n, 'h, 's) pending_votes \<Rightarrow> round \<times> 'h \<Rightarrow> ('n, 'h, 's, 'g) validator_verifier \<Rightarrow> bool" where
  "pv_check_quorum pv key verifier =
     (case hm_get (pv_votes pv) key of
        Some votes \<Rightarrow>
          is_ok (sa_check_quorum (sa_add_votes verifier sa_new (hm_values votes)) verifier)
      | None \<Rightarrow> False)"

definition pv_add_vote ::
    "('n, 'h, 's) pending_votes \<Rightarrow> ('n, 'h, 's) vote \<Rightarrow> ('n, 'h, 's, 'g) validator_verifier \<Rightarrow>
     vote_reception_result \<times> ('n, 'h, 's) pending_votes" where
  "pv_add_vote pv vote verifier =
     (let r = vote_round vote;
          key = (r, vote_block_id vote);
          signature = vote_signature vote
      in if r < pv_current_round pv then (OldRound, pv)
         else if (case hm_get (pv_votes pv) key of
                    Some round_votes \<Rightarrow> hm_contains_key round_votes signature
                  | None \<Rightarrow> False)
         then (Rejected VS_Rejected, pv)
         else let entry = (case hm_get (pv_votes pv) key of Some m \<Rightarrow> m | None \<Rightarrow> hm_empty);
                  pv' = pv\<lparr>pv_votes :=
                             hm_insert key (hm_insert signature vote entry) (pv_votes pv)\<rparr>
              in if pv_check_quorum pv' key verifier then (QuorumCompleted, pv')
                 else (Accepted, pv'))"

definition pv_get_votes ::
    "('n, 'h, 's) pending_votes \<Rightarrow> round \<Rightarrow> 'h \<Rightarrow> ('n, 'h, 's) vote list" where
  "pv_get_votes pv r block_id =
     (case hm_get (pv_votes pv) (r, block_id) of Some votes \<Rightarrow> hm_values votes | None \<Rightarrow> [])"

definition pv_vote_count :: "('n, 'h, 's) pending_votes \<Rightarrow> round \<Rightarrow> 'h \<Rightarrow> nat" where
  "pv_vote_count pv r block_id =
     (case hm_get (pv_votes pv) (r, block_id) of Some votes \<Rightarrow> length votes | None \<Rightarrow> 0)"

definition pv_remove_round :: "('n, 'h, 's) pending_votes \<Rightarrow> round \<Rightarrow> ('n, 'h, 's) pending_votes" where
  "pv_remove_round pv rnd = pv\<lparr>pv_votes := hm_retain (\<lambda>(r, _) _. r \<noteq> rnd) (pv_votes pv)\<rparr>"

definition pv_total_votes :: "('n, 'h, 's) pending_votes \<Rightarrow> nat" where
  "pv_total_votes pv = sum_list (map length (hm_values (pv_votes pv)))"

definition pv_aggregated_voting_power ::
    "('n, 'h, 's) pending_votes \<Rightarrow> round \<Rightarrow> 'h \<Rightarrow> ('n, 'h, 's, 'g) validator_verifier \<Rightarrow> u128" where
  "pv_aggregated_voting_power pv r block_id verifier =
     (case hm_get (pv_votes pv) (r, block_id) of
        Some votes \<Rightarrow>
          sum_u128 (map as_u128
            (List.map_filter (\<lambda>v. vv_get_voting_power verifier (vote_author v)) (hm_values votes)))
      | None \<Rightarrow> 0)"

definition pv_can_form_quorum ::
    "('n, 'h, 's) pending_votes \<Rightarrow> round \<Rightarrow> 'h \<Rightarrow> ('n, 'h, 's, 'g) validator_verifier \<Rightarrow> bool" where
  "pv_can_form_quorum pv r block_id verifier =
     (vv_quorum_voting_power verifier \<le> pv_aggregated_voting_power pv r block_id verifier)"

section \<open>Well-formed tables\<close>

text \<open>
  Every vote is filed under its own round, block and signature, no bucket is empty, and no
  key occurs twice.
\<close>

definition pv_inv :: "('n, 'h, 's) pending_votes \<Rightarrow> bool" where
  "pv_inv pv \<longleftrightarrow>
     hm_wf (pv_votes pv) \<and>
     (\<forall>key bucket. hm_get (pv_votes pv) key = Some bucket \<longrightarrow>
        hm_wf bucket \<and> bucket \<noteq> [] \<and>
        (\<forall>s v. hm_get bucket s = Some v \<longrightarrow>
           vote_signature v = s \<and> (vote_round v, vote_block_id v) = key))"

lemma pv_inv_bucketD:
  assumes "pv_inv pv" "hm_get (pv_votes pv) key = Some bucket"
  shows "hm_wf bucket" "bucket \<noteq> []"
    "hm_get bucket s = Some v \<Longrightarrow> vote_signature v = s \<and> (vote_round v, vote_block_id v) = key"
  using assms unfolding pv_inv_def by blast+

lemma pv_inv_new [simp, intro]: "pv_inv (pv_new m)"
  by (simp add: pv_inv_def pv_new_def)

lemma pv_inv_retain: "pv_inv pv \<Longrightarrow> pv_inv (pv\<lparr>pv_votes := hm_retain P (pv_votes pv)\<rparr>)"
  by (auto simp: pv_inv_def hm_get_retain split: option.splits if_splits)

lemma pv_inv_set_round [intro]: "pv_inv pv \<Longrightarrow> pv_inv (pv_set_round pv r)"
proof -
  assume "pv_inv pv"
  then have "pv_inv (pv\<lparr>pv_current_round := r\<rparr>)" by (simp add: pv_inv_def)
  from pv_inv_retain [OF this] show ?thesis
    by (simp add: pv_set_round_def cleanup_old_votes_def Let_def)
qed

lemma pv_inv_remove_round [intro]: "pv_inv pv \<Longrightarrow> pv_inv (pv_remove_round pv r)"
  by (simp add: pv_remove_round_def pv_inv_retain)

lemma hm_insert_not_Nil [simp]: "hm_insert k v m \<noteq> []"
  by (cases m) (auto simp: hm_insert_def)

lemma pv_inv_add_vote [intro]:
  assumes "pv_inv pv"
  shows "pv_inv (snd (pv_add_vote pv vote verifier))"
proof -
  have "hm_wf (case hm_get (pv_votes pv) k of Some m \<Rightarrow> m | None \<Rightarrow> hm_empty)" for k
    using pv_inv_bucketD(1) [OF assms] by (auto split: option.splits)
  with assms show ?thesis
    by (auto simp: pv_add_vote_def pv_inv_def Let_def split: option.splits if_splits)
qed

section \<open>The table as a set of votes\<close>

text \<open>
  The abstract view: the set of votes held. Adding a vote inserts it, changing the round and
  removing a round drop votes by their round only.
\<close>

definition pv_abs :: "('n, 'h, 's) pending_votes \<Rightarrow> ('n, 'h, 's) vote set" where
  "pv_abs pv = {v. \<exists>key bucket. hm_get (pv_votes pv) key = Some bucket \<and> v \<in> snd ` set bucket}"

lemma pv_abs_iff:
  assumes "pv_inv pv"
  shows "v \<in> pv_abs pv \<longleftrightarrow>
    (\<exists>bucket. hm_get (pv_votes pv) (vote_round v, vote_block_id v) = Some bucket \<and>
              hm_get bucket (vote_signature v) = Some v)"
proof
  assume "v \<in> pv_abs pv"
  then obtain key bucket s where kb: "hm_get (pv_votes pv) key = Some bucket" "(s, v) \<in> set bucket"
    by (auto simp: pv_abs_def)
  then have "hm_get bucket s = Some v"
    using pv_inv_bucketD(1) [OF assms kb(1)] by (simp add: hm_get_iff_in_set)
  with assms kb show "\<exists>bucket. hm_get (pv_votes pv) (vote_round v, vote_block_id v) = Some bucket \<and>
              hm_get bucket (vote_signature v) = Some v"
    unfolding pv_inv_def by metis
next
  assume "\<exists>bucket. hm_get (pv_votes pv) (vote_round v, vote_block_id v) = Some bucket \<and>
              hm_get bucket (vote_signature v) = Some v"
  then obtain bucket where b: "hm_get (pv_votes pv) (vote_round v, vote_block_id v) = Some bucket"
    and "hm_get bucket (vote_signature v) = Some v" by blast
  then have "v \<in> snd ` set bucket" using hm_get_in_set by force
  with b show "v \<in> pv_abs pv" unfolding pv_abs_def by blast
qed

lemma pv_abs_new [simp]: "pv_abs (pv_new m) = {}"
  by (simp add: pv_abs_def pv_new_def)

text \<open>What happens to a vote, on every branch of \<open>add_vote\<close>.\<close>

definition pv_is_duplicate :: "('n, 'h, 's) pending_votes \<Rightarrow> ('n, 'h, 's) vote \<Rightarrow> bool" where
  "pv_is_duplicate pv v \<longleftrightarrow>
     (\<exists>w \<in> pv_abs pv. vote_round w = vote_round v \<and> vote_block_id w = vote_block_id v \<and>
                      vote_signature w = vote_signature v)"

lemma pv_duplicate_iff:
  assumes "pv_inv pv"
  shows "(case hm_get (pv_votes pv) (vote_round v, vote_block_id v) of
            Some round_votes \<Rightarrow> hm_contains_key round_votes (vote_signature v)
          | None \<Rightarrow> False) \<longleftrightarrow> pv_is_duplicate pv v"
proof
  assume *: "case hm_get (pv_votes pv) (vote_round v, vote_block_id v) of
      Some round_votes \<Rightarrow> hm_contains_key round_votes (vote_signature v) | None \<Rightarrow> False"
  then obtain m w where m: "hm_get (pv_votes pv) (vote_round v, vote_block_id v) = Some m"
    and w: "hm_get m (vote_signature v) = Some w"
    by (auto simp: hm_contains_key_def split: option.splits)
  have "vote_signature w = vote_signature v \<and>
        (vote_round w, vote_block_id w) = (vote_round v, vote_block_id v)"
    using pv_inv_bucketD(3) [OF assms m w] .
  with m w show "pv_is_duplicate pv v"
    by (auto simp: pv_is_duplicate_def pv_abs_iff [OF assms] intro!: bexI [of _ w])
next
  assume "pv_is_duplicate pv v"
  then show "case hm_get (pv_votes pv) (vote_round v, vote_block_id v) of
      Some round_votes \<Rightarrow> hm_contains_key round_votes (vote_signature v) | None \<Rightarrow> False"
    by (auto simp: pv_is_duplicate_def pv_abs_iff [OF assms] hm_contains_key_def)
qed

lemma pv_add_vote_old:
  "vote_round v < pv_current_round pv \<Longrightarrow> pv_add_vote pv v verifier = (OldRound, pv)"
  by (simp add: pv_add_vote_def Let_def)

lemma pv_add_vote_duplicate:
  assumes "pv_inv pv" "pv_current_round pv \<le> vote_round v" "pv_is_duplicate pv v"
  shows "pv_add_vote pv v verifier = (Rejected VS_Rejected, pv)"
  using assms by (simp add: pv_add_vote_def Let_def pv_duplicate_iff)

text \<open>The table with one vote filed under its keys.\<close>

definition pv_file :: "('n, 'h, 's) pending_votes \<Rightarrow> ('n, 'h, 's) vote \<Rightarrow> ('n, 'h, 's) pending_votes" where
  "pv_file pv v =
     pv\<lparr>pv_votes := hm_insert (vote_round v, vote_block_id v)
           (hm_insert (vote_signature v) v
             (case hm_get (pv_votes pv) (vote_round v, vote_block_id v) of
                Some m \<Rightarrow> m | None \<Rightarrow> hm_empty)) (pv_votes pv)\<rparr>"

lemma pv_file_current_round [simp]:
  "pv_current_round (pv_file pv v) = pv_current_round pv"
  "pv_max_rounds (pv_file pv v) = pv_max_rounds pv"
  by (simp_all add: pv_file_def)

lemma hm_get_pv_file:
  "hm_get (pv_votes (pv_file pv v)) key =
     (if key = (vote_round v, vote_block_id v)
      then Some (hm_insert (vote_signature v) v
             (case hm_get (pv_votes pv) key of Some m \<Rightarrow> m | None \<Rightarrow> hm_empty))
      else hm_get (pv_votes pv) key)"
  by (simp add: pv_file_def)

lemma pv_add_vote_new:
  assumes "pv_inv pv" "pv_current_round pv \<le> vote_round v" "\<not> pv_is_duplicate pv v"
  shows "pv_add_vote pv v verifier =
           (if pv_check_quorum (pv_file pv v) (vote_round v, vote_block_id v) verifier
            then QuorumCompleted else Accepted, pv_file pv v)"
  using assms(2,3) pv_duplicate_iff [OF assms(1), of v]
  by (simp add: pv_add_vote_def pv_file_def Let_def not_less)

lemma pv_add_vote_cases:
  assumes "pv_inv pv"
  obtains (old) "vote_round v < pv_current_round pv" "pv_add_vote pv v verifier = (OldRound, pv)"
  | (duplicate) "pv_current_round pv \<le> vote_round v" "pv_is_duplicate pv v"
      "pv_add_vote pv v verifier = (Rejected VS_Rejected, pv)"
  | (quorum) "pv_current_round pv \<le> vote_round v" "\<not> pv_is_duplicate pv v"
      "pv_check_quorum (pv_file pv v) (vote_round v, vote_block_id v) verifier"
      "pv_add_vote pv v verifier = (QuorumCompleted, pv_file pv v)"
  | (pending) "pv_current_round pv \<le> vote_round v" "\<not> pv_is_duplicate pv v"
      "\<not> pv_check_quorum (pv_file pv v) (vote_round v, vote_block_id v) verifier"
      "pv_add_vote pv v verifier = (Accepted, pv_file pv v)"
proof (cases "vote_round v < pv_current_round pv")
  case True
  then show ?thesis using old pv_add_vote_old by blast
next
  case False
  then have r: "pv_current_round pv \<le> vote_round v" by simp
  show ?thesis
  proof (cases "pv_is_duplicate pv v")
    case True
    then show ?thesis using duplicate r pv_add_vote_duplicate [OF assms] by blast
  next
    case False
    then show ?thesis
      using quorum pending r pv_add_vote_new [OF assms r False, of verifier]
      by (cases "pv_check_quorum (pv_file pv v) (vote_round v, vote_block_id v) verifier") auto
  qed
qed

lemma pv_inv_file:
  assumes "pv_inv pv"
  shows "pv_inv (pv_file pv v)"
proof -
  have "hm_wf (case hm_get (pv_votes pv) k of Some m \<Rightarrow> m | None \<Rightarrow> hm_empty)" for k
    using pv_inv_bucketD(1) [OF assms] by (auto split: option.splits)
  with assms show ?thesis
    by (auto simp: pv_file_def pv_inv_def split: option.splits if_splits)
qed

lemma pv_abs_file:
  fixes pv :: "('n, 'h, 's) pending_votes"
  assumes "pv_inv pv" "\<not> pv_is_duplicate pv v"
  shows "pv_abs (pv_file pv v) = insert v (pv_abs pv)"
proof (rule set_eqI)
  fix w :: "('n, 'h, 's) vote"
  let ?kv = "(vote_round v, vote_block_id v)" and ?kw = "(vote_round w, vote_block_id w)"
  have nodup: "w \<notin> pv_abs pv" if "?kw = ?kv" "vote_signature w = vote_signature v"
    using assms(2) that by (auto simp: pv_is_duplicate_def)
  show "w \<in> pv_abs (pv_file pv v) \<longleftrightarrow> w \<in> insert v (pv_abs pv)"
  proof (cases "?kw = ?kv \<and> vote_signature w = vote_signature v")
    case True
    with nodup show ?thesis
      by (auto simp: pv_abs_iff [OF pv_inv_file [OF assms(1)]] hm_get_pv_file)
  next
    case False
    then show ?thesis
      by (auto simp: pv_abs_iff [OF pv_inv_file [OF assms(1)]] pv_abs_iff [OF assms(1)]
          hm_get_pv_file split: option.splits)
  qed
qed

lemma pv_abs_retain:
  assumes "pv_inv pv"
  shows "pv_abs (pv\<lparr>pv_votes := hm_retain (\<lambda>(r, b) _. P r) (pv_votes pv)\<rparr>) =
           {v \<in> pv_abs pv. P (vote_round v)}"
proof (rule set_eqI)
  fix w
  have wf: "hm_wf (pv_votes pv)" using assms by (simp add: pv_inv_def)
  show "w \<in> pv_abs (pv\<lparr>pv_votes := hm_retain (\<lambda>(r, b) _. P r) (pv_votes pv)\<rparr>) \<longleftrightarrow>
        w \<in> {v \<in> pv_abs pv. P (vote_round v)}"
    by (auto simp: pv_abs_iff [OF pv_inv_retain [OF assms]] pv_abs_iff [OF assms]
        hm_get_retain [OF wf] split: option.splits)
qed

lemma pv_abs_set_round:
  assumes "pv_inv pv"
  shows "pv_abs (pv_set_round pv r) =
           {v \<in> pv_abs pv. saturating_sub r (pv_max_rounds pv) \<le> vote_round v}"
proof -
  have "pv_inv (pv\<lparr>pv_current_round := r\<rparr>)" using assms by (simp add: pv_inv_def)
  moreover have "pv_abs (pv\<lparr>pv_current_round := r\<rparr>) = pv_abs pv" by (simp add: pv_abs_def)
  ultimately show ?thesis
    using pv_abs_retain [of "pv\<lparr>pv_current_round := r\<rparr>"
        "\<lambda>x. saturating_sub r (pv_max_rounds pv) \<le> x"]
    by (simp add: pv_set_round_def cleanup_old_votes_def Let_def)
qed

lemma pv_abs_remove_round:
  assumes "pv_inv pv"
  shows "pv_abs (pv_remove_round pv r) = {v \<in> pv_abs pv. vote_round v \<noteq> r}"
  using pv_abs_retain [OF assms, of "\<lambda>x. x \<noteq> r"] by (simp add: pv_remove_round_def)

lemma set_pv_get_votes:
  assumes "pv_inv pv"
  shows "set (pv_get_votes pv r b) = {v \<in> pv_abs pv. vote_round v = r \<and> vote_block_id v = b}"
proof (cases "hm_get (pv_votes pv) (r, b)")
  case None
  then show ?thesis by (auto simp: pv_get_votes_def pv_abs_iff [OF assms])
next
  case (Some m)
  have mem: "hm_get m s = Some v \<longleftrightarrow> (s, v) \<in> set m" for s v
    using pv_inv_bucketD(1) [OF assms Some] by (simp add: hm_get_iff_in_set)
  have own: "hm_get m s = Some v \<Longrightarrow> vote_signature v = s \<and> vote_round v = r \<and> vote_block_id v = b" for s v
    using pv_inv_bucketD(3) [OF assms Some, of s v] by simp
  show ?thesis
  proof (rule set_eqI)
    fix v
    have "v \<in> set (pv_get_votes pv r b) \<longleftrightarrow> (\<exists>s. hm_get m s = Some v)"
      using Some unfolding mem by (force simp: pv_get_votes_def hm_values_def)
    also have "\<dots> \<longleftrightarrow> v \<in> {v \<in> pv_abs pv. vote_round v = r \<and> vote_block_id v = b}"
    proof
      assume "\<exists>s. hm_get m s = Some v"
      then obtain s where "hm_get m s = Some v" by blast
      with own [OF this] Some show "v \<in> {v \<in> pv_abs pv. vote_round v = r \<and> vote_block_id v = b}"
        unfolding mem_Collect_eq pv_abs_iff [OF assms] by blast
    next
      assume "v \<in> {v \<in> pv_abs pv. vote_round v = r \<and> vote_block_id v = b}"
      with Some show "\<exists>s. hm_get m s = Some v" by (auto simp: pv_abs_iff [OF assms])
    qed
    finally show "v \<in> set (pv_get_votes pv r b) \<longleftrightarrow>
        v \<in> {v \<in> pv_abs pv. vote_round v = r \<and> vote_block_id v = b}" .
  qed
qed

section \<open>Quorums over the table\<close>

text \<open>
  The exact voting power behind a block: every author that the verifier knows and that has
  a vote for the block counts once.
\<close>

definition pv_authors ::
    "('n, 'h, 's, 'g) validator_verifier \<Rightarrow> ('n, 'h, 's) pending_votes \<Rightarrow> round \<Rightarrow> 'h \<Rightarrow> 'n set" where
  "pv_authors VV pv r b =
     {a \<in> vote_author ` set (pv_get_votes pv r b). vv_get_voting_power VV a \<noteq> None}"

definition exact_power :: "('n, 'h, 's, 'g) validator_verifier \<Rightarrow> 'n set \<Rightarrow> nat" where
  "exact_power VV A = (\<Sum>a\<in>A. unat (the (vv_get_voting_power VV a)))"

lemma sum_known_powers:
  "(\<Sum>x\<leftarrow>List.map_filter f xs. g x) = (\<Sum>a\<leftarrow>filter (\<lambda>a. f a \<noteq> None) xs. g (the (f a)))"
  by (induction xs) (auto simp: List.map_filter_simps)

lemma exact_power_distinct:
  assumes "distinct xs" "set xs \<subseteq> dom (vv_get_voting_power VV)"
  shows "(\<Sum>x\<leftarrow>List.map_filter (vv_get_voting_power VV) xs. unat x) = exact_power VV (set xs)"
proof -
  have "filter (\<lambda>a. vv_get_voting_power VV a \<noteq> None) xs = xs"
    using assms(2) by (auto simp: filter_id_conv)
  then show ?thesis
    by (simp add: sum_known_powers exact_power_def sum_list_distinct_conv_sum_set [OF assms(1)])
qed

lemma unat_sum_of_u64:
  assumes "length xs \<le> 2 ^ 64"
  shows "unat (sum_u128 (map as_u128 xs)) = (\<Sum>x\<leftarrow>xs. unat x)"
proof -
  have "(\<Sum>x\<leftarrow>xs. unat x) \<le> 2 ^ 64 * (2 ^ 64 - 1)"
    using sum_u64_bound [of xs] assms by (meson le_trans mult_le_mono1)
  also have "\<dots> < 2 ^ 128" by simp
  finally have "(\<Sum>x\<leftarrow>map as_u128 xs. unat x) < 2 ^ 128"
    by (simp add: unat_as_u128 comp_def)
  from unat_sum_u128 [OF this] show ?thesis by (simp add: unat_as_u128 comp_def)
qed

lemma sum_set_le_sum_list: "(\<Sum>a\<in>set xs. g a) \<le> (\<Sum>a\<leftarrow>xs. (g a :: nat))"
  by (induction xs) (auto simp: sum.insert_if intro: le_SucI add_left_mono trans_le_add2)

lemma length_map_filter: "length (List.map_filter f xs) \<le> length xs"
  by (simp add: List.map_filter_def)

lemma pv_count_eq_length: "pv_vote_count pv r b = length (pv_get_votes pv r b)"
  by (simp add: pv_vote_count_def pv_get_votes_def hm_values_def split: option.splits)

lemma finite_pv_authors [simp]: "finite (pv_authors VV pv r b)"
  by (simp add: pv_authors_def)

lemma card_pv_authors: "card (pv_authors VV pv r b) \<le> pv_vote_count pv r b"
proof -
  have "card (pv_authors VV pv r b) \<le> card (vote_author ` set (pv_get_votes pv r b))"
    unfolding pv_authors_def by (intro card_mono) auto
  also have "\<dots> \<le> length (pv_get_votes pv r b)"
    by (meson card_image_le card_length finite_set le_trans)
  finally show ?thesis by (simp add: pv_count_eq_length)
qed

lemma sa_of_bucket:
  fixes pv :: "('n, 'h, 's) pending_votes" and VV :: "('n, 'h, 's, 'g) validator_verifier"
  assumes "card (pv_authors VV pv r b) \<le> 2 ^ 64"
  defines "sa \<equiv> sa_add_votes VV sa_new (pv_get_votes pv r b)"
  shows "sa_inv (vv_get_voting_power VV) sa" "set (sa_signers sa) = pv_authors VV pv r b"
    "unat (sa_voting_power sa) = exact_power VV (pv_authors VV pv r b)"
proof -
  show inv: "sa_inv (vv_get_voting_power VV) sa"
    unfolding sa_def by (intro sa_inv_add_votes) simp
  show signers: "set (sa_signers sa) = pv_authors VV pv r b"
    by (simp add: sa_def set_signers_add_votes pv_authors_def)
  have dist: "distinct (sa_signers sa)"
    unfolding sa_def by (intro distinct_signers_add_votes) simp
  have "length (sa_signers sa) \<le> 2 ^ 64"
    using dist signers assms(1) by (metis distinct_card)
  with length_map_filter [of "vv_get_voting_power VV" "sa_signers sa"]
  have "length (List.map_filter (vv_get_voting_power VV) (sa_signers sa)) \<le> 2 ^ 64" by linarith
  from unat_sum_of_u64 [OF this] inv dist signers
  show "unat (sa_voting_power sa) = exact_power VV (pv_authors VV pv r b)"
    by (simp add: sa_inv_def exact_power_distinct)
qed

context quorum_check
begin

text \<open>\<open>add_vote\<close>'s quorum check compares the exact power of the distinct known authors.\<close>

lemma pv_check_quorum_iff_card:
  assumes "card (pv_authors VV pv r b) \<le> 2 ^ 64"
  shows "pv_check_quorum pv (r, b) VV \<longleftrightarrow>
           hm_get (pv_votes pv) (r, b) \<noteq> None \<and>
           unat (vv_quorum_voting_power VV) \<le> exact_power VV (pv_authors VV pv r b)"
proof (cases "hm_get (pv_votes pv) (r, b)")
  case None
  then show ?thesis by (simp add: pv_check_quorum_def)
next
  case (Some votes)
  then have gv: "pv_get_votes pv r b = hm_values votes" by (simp add: pv_get_votes_def)
  show ?thesis
    using Some sa_quorum_power [OF sa_of_bucket(1) [OF assms]] sa_of_bucket(3) [OF assms]
    by (simp add: pv_check_quorum_def gv word_le_nat_alt)
qed

lemmas pv_check_quorum_iff = pv_check_quorum_iff_card [OF le_trans [OF card_pv_authors]]

text \<open>
  The convenience check counts a vote per signature, so it never misses a quorum that
  \<open>add_vote\<close> sees.
\<close>

lemma quorum_imp_can_form:
  assumes "pv_vote_count pv r b \<le> 2 ^ 64" "pv_check_quorum pv (r, b) VV"
  shows "pv_can_form_quorum pv r b VV"
proof -
  let ?vs = "pv_get_votes pv r b" and ?f = "vv_get_voting_power VV"
  from assms(2) obtain votes where m: "hm_get (pv_votes pv) (r, b) = Some votes"
    by (auto simp: pv_check_quorum_def split: option.splits)
  then have gv: "?vs = hm_values votes" by (simp add: pv_get_votes_def)
  have len: "length (List.map_filter (\<lambda>v. ?f (vote_author v)) ?vs) \<le> 2 ^ 64"
    using length_map_filter [of "\<lambda>v. ?f (vote_author v)" ?vs] assms(1)
    by (simp add: pv_count_eq_length)
  have "exact_power VV (pv_authors VV pv r b) \<le>
        (\<Sum>a\<leftarrow>filter (\<lambda>a. ?f a \<noteq> None) (map vote_author ?vs). unat (the (?f a)))"
    unfolding exact_power_def pv_authors_def
    using sum_set_le_sum_list [of "\<lambda>a. unat (the (?f a))"
        "filter (\<lambda>a. ?f a \<noteq> None) (map vote_author ?vs)"] by simp
  also have "\<dots> = (\<Sum>x\<leftarrow>List.map_filter (\<lambda>v. ?f (vote_author v)) ?vs. unat x)"
    by (simp add: sum_known_powers filter_map comp_def)
  also have "\<dots> = unat (pv_aggregated_voting_power pv r b VV)"
    using unat_sum_of_u64 [OF len] by (simp add: pv_aggregated_voting_power_def m gv)
  finally show ?thesis
    using assms pv_check_quorum_iff [OF assms(1)]
    by (simp add: pv_can_form_quorum_def word_le_nat_alt)
qed

end

section \<open>Properties\<close>

text \<open>C12: \<open>add_vote\<close> refines the insertion into a set of votes: a vote of an earlier round is
  answered \<open>OldRound\<close>, a vote with a signature already held for its round and block is
  rejected, and both leave the set unchanged; every other vote is inserted. The table stays
  well formed.\<close>

theorem add_vote_refines_insertion:
  assumes "pv_inv pv"
  shows "pv_abs (snd (pv_add_vote pv v VV)) =
           (if vote_round v < pv_current_round pv \<or> pv_is_duplicate pv v then pv_abs pv
            else insert v (pv_abs pv)) \<and>
         (fst (pv_add_vote pv v VV) = OldRound \<longleftrightarrow> vote_round v < pv_current_round pv) \<and>
         (fst (pv_add_vote pv v VV) = Rejected VS_Rejected \<longleftrightarrow>
            pv_current_round pv \<le> vote_round v \<and> pv_is_duplicate pv v) \<and>
         pv_inv (snd (pv_add_vote pv v VV))"
  using assms
  by (rule pv_add_vote_cases [of pv v VV])
    (auto simp: pv_abs_file [OF assms] pv_inv_file [OF assms] assms)

theorem add_vote_refines_insertion_witness:
  "pv_abs (snd (pv_add_vote (pv_new 10) (mock_vote 1 7 3) (mvs_verifier (make_validator_set [1, 1])))) =
     {mock_vote 1 7 3}"
  using add_vote_refines_insertion [OF pv_inv_new, of 10 "mock_vote 1 7 3"
      "mvs_verifier (make_validator_set [1, 1])"]
  by (simp add: pv_is_duplicate_def) (simp add: pv_new_def mock_vote_def mock_vote_with_signature_def)

text \<open>C13: a vote completes a quorum exactly when the exact voting power of the distinct known
  authors of the votes now held for its block reaches the verifier's quorum; several
  signatures of one author count once. The verifier is any whose quorum check sums the known
  powers.\<close>

theorem quorum_counts_each_author_once:
  assumes "quorum_check VV" and "pv_inv pv" and "pv_current_round pv \<le> vote_round v"
    and "\<not> pv_is_duplicate pv v"
    and "pv_vote_count (snd (pv_add_vote pv v VV)) (vote_round v) (vote_block_id v) \<le> 2 ^ 64"
  shows "fst (pv_add_vote pv v VV) = QuorumCompleted \<longleftrightarrow>
           unat (vv_quorum_voting_power VV) \<le>
             exact_power VV {a \<in> vote_author ` {w \<in> insert v (pv_abs pv).
                 vote_round w = vote_round v \<and> vote_block_id w = vote_block_id v}.
               vv_get_voting_power VV a \<noteq> None}"
proof -
  let ?pv = "pv_file pv v"
  have add: "pv_add_vote pv v VV =
      (if pv_check_quorum ?pv (vote_round v, vote_block_id v) VV then QuorumCompleted else Accepted, ?pv)"
    by (rule pv_add_vote_new [OF assms(2-4)])
  have "set (pv_get_votes ?pv (vote_round v) (vote_block_id v)) =
      {w \<in> insert v (pv_abs pv). vote_round w = vote_round v \<and> vote_block_id w = vote_block_id v}"
    by (simp add: set_pv_get_votes [OF pv_inv_file [OF assms(2)]] pv_abs_file [OF assms(2,4)])
  moreover have "hm_get (pv_votes ?pv) (vote_round v, vote_block_id v) \<noteq> None"
    by (simp add: hm_get_pv_file)
  ultimately show ?thesis
    using quorum_check.pv_check_quorum_iff [OF assms(1), of ?pv "vote_round v" "vote_block_id v"] assms(5)
    by (simp add: add pv_authors_def)
qed

theorem quorum_counts_each_author_once_witness:
  "fst (pv_add_vote (pv_new 10) (mock_vote 0 7 3) (mvs_verifier (make_validator_set [1]))) = QuorumCompleted \<and>
   fst (pv_add_vote (pv_new 10) (mock_vote 0 7 3) (mvs_verifier (make_validator_set [1, 1, 1, 1]))) \<noteq> QuorumCompleted"
proof -
  let ?VV = "\<lambda>ps. mvs_verifier (make_validator_set ps)" and ?v = "mock_vote 0 7 3"
  have v: "vote_round ?v = 3" "vote_block_id ?v = 7" "vote_author ?v = 0"
    by (simp_all add: mock_vote_def mock_vote_with_signature_def)
  have d: "\<not> pv_is_duplicate (pv_new 10) ?v" by (simp add: pv_is_duplicate_def)
  have c: "pv_current_round (pv_new 10) \<le> vote_round ?v" by (simp add: pv_new_def)
  have n: "pv_vote_count (snd (pv_add_vote (pv_new 10) ?v (?VV ps))) (vote_round ?v) (vote_block_id ?v) \<le> 2 ^ 64"
    for ps
    by (simp add: pv_add_vote_new [OF pv_inv_new c d] pv_vote_count_def hm_get_pv_file)
      (simp add: pv_new_def hm_length_insert, simp add: hm_empty_def)
  have power: "vv_get_voting_power (?VV [1]) 0 = Some 1" "vv_get_voting_power (?VV [1, 1, 1, 1]) 0 = Some 1"
    "unat (vv_quorum_voting_power (?VV [1])) = 1" "unat (vv_quorum_voting_power (?VV [1, 1, 1, 1])) = 3"
    by code_simp+
  have "{a \<in> vote_author ` {w \<in> insert ?v (pv_abs (pv_new 10)). vote_round w = vote_round ?v \<and>
      vote_block_id w = vote_block_id ?v}. vv_get_voting_power (?VV ps) a \<noteq> None} = {0}"
    if "vv_get_voting_power (?VV ps) 0 = Some 1" for ps
    using that by (auto simp: v)
  from this [OF power(1)] this [OF power(2)] show ?thesis
    using quorum_counts_each_author_once [OF mvs.quorum_check_axioms pv_inv_new c d n, of "[1]"]
      quorum_counts_each_author_once [OF mvs.quorum_check_axioms pv_inv_new c d n, of "[1, 1, 1, 1]"] power
    by (simp add: exact_power_def)
qed

text \<open>Moving the table to a round drops exactly the votes older than its window, and removing a
  round drops exactly the votes of that round; both keep the table well formed.\<close>

lemma round_changes_filter_votes:
  assumes "pv_inv pv"
  shows "pv_abs (pv_set_round pv r) =
           {v \<in> pv_abs pv. unat r - unat (pv_max_rounds pv) \<le> unat (vote_round v)} \<and>
         pv_abs (pv_remove_round pv r) = {v \<in> pv_abs pv. vote_round v \<noteq> r} \<and>
         pv_inv (pv_set_round pv r) \<and> pv_inv (pv_remove_round pv r)"
  using pv_inv_set_round [OF assms] pv_inv_remove_round [OF assms] pv_abs_set_round [OF assms]
    pv_abs_remove_round [OF assms]
  by (simp add: word_le_nat_alt unat_saturating_sub)

text \<open>
  The convenience check \<open>can_form_quorum\<close> counts a vote per signature: three votes of one of
  four equal validators, under three signatures, are not a quorum for \<open>add_vote\<close> and are one
  for \<open>can_form_quorum\<close>.
\<close>

lemma can_form_quorum_overcounts:
  "let VV = mvs_verifier (make_validator_set [1, 1, 1, 1]);
       add = (\<lambda>pv s. snd (pv_add_vote pv (mock_vote_with_signature 1 7 3 s) VV));
       pv = foldl add (pv_new 10) [1, 2, 3]
   in pv_can_form_quorum pv 3 7 VV \<and> \<not> pv_check_quorum pv (3, 7) VV"
  by code_simp

end
