(* ===== verification/Quorum_Safety.thy ===== *)
theory Quorum_Safety
  imports Pending_Votes
begin

text \<open>
  The voting-power argument behind a certificate, over the vote tables of two nodes: what a
  verifier must promise for two quorums to share a correct voter, and that the crate's own
  verifier, \<open>MockValidatorSet\<close>, keeps that promise for every list of voting powers it is built
  from.
\<close>

section \<open>Verifiers with a two-thirds quorum\<close>

text \<open>
  The trait \<open>ValidatorVerifier\<close> describes \<open>quorum_voting_power\<close> as two thirds plus one of the
  total power of the validators it knows.
\<close>

abbreviation known :: "('n, 'h, 's, 'g) validator_verifier \<Rightarrow> 'n set" where
  "known VV \<equiv> dom (vv_get_voting_power VV)"

locale bft_verifier = quorum_check VV
  for VV :: "('n, 'h, 's, 'g) validator_verifier" +
  assumes finite_known: "finite (known VV)"
    and two_thirds: "unat (vv_quorum_voting_power VV) = 2 * exact_power VV (known VV) div 3 + 1"

sublocale bft_verifier \<subseteq> wq: weighted_quorum "\<lambda>a. unat (the (vv_get_voting_power VV a))" "known VV"
  by unfold_locales (rule finite_known)

context bft_verifier
begin

lemma table_quorum:
  assumes "pv_vote_count pv r b \<le> 2 ^ 64" and "pv_check_quorum pv (r, b) VV"
  shows "pv_authors VV pv r b \<subseteq> known VV"
    and "2 * (\<Sum>a\<in>known VV. unat (the (vv_get_voting_power VV a))) div 3 + 1 \<le>
           (\<Sum>a\<in>pv_authors VV pv r b. unat (the (vv_get_voting_power VV a)))"
  using assms pv_check_quorum_iff [OF assms(1)] two_thirds
  by (auto simp: pv_authors_def exact_power_def)

text \<open>Two tables that hold a quorum each, for whatever blocks, hold votes of a common correct
  validator.\<close>

lemma tables_share_correct:
  assumes "pv_vote_count pv r b \<le> 2 ^ 64" "pv_check_quorum pv (r, b) VV"
    and "pv_vote_count pv' r' b' \<le> 2 ^ 64" "pv_check_quorum pv' (r', b') VV"
    and "F \<subseteq> known VV" "3 * exact_power VV F \<le> exact_power VV (known VV)"
  shows "\<exists>v \<in> set (pv_get_votes pv r b). \<exists>v' \<in> set (pv_get_votes pv' r' b').
           vote_author v = vote_author v' \<and> vote_author v \<notin> F"
proof -
  obtain n where "n \<in> pv_authors VV pv r b" "n \<in> pv_authors VV pv' r' b'" "n \<notin> F"
    using wq.quorums_share_correct [OF table_quorum(1) [OF assms(1,2)] table_quorum(1) [OF assms(3,4)]
        table_quorum(2) [OF assms(1,2)] table_quorum(2) [OF assms(3,4)] assms(5)] assms(6)
    by (auto simp: exact_power_def)
  then obtain v v' where "v \<in> set (pv_get_votes pv r b)" "v' \<in> set (pv_get_votes pv' r' b')"
    "n = vote_author v" "n = vote_author v'" "n \<notin> F"
    by (auto simp: pv_authors_def)
  then show ?thesis by metis
qed

end

section \<open>The crate's verifier\<close>

lemma hm_get_validators:
  assumes "distinct (map mv_id vs)"
  shows "hm_get (mvs_validators (mvs_new vs)) i = map_of (map (\<lambda>v. (mv_id v, v)) vs) i"
proof -
  have *: "hm_get (fst (foldl (\<lambda>(m, t) v. (hm_insert (mv_id v) v m, t + as_u128 (mv_voting_power v)))
        (m, t) vs)) i =
      (case map_of (map (\<lambda>v. (mv_id v, v)) vs) i of Some v \<Rightarrow> Some v | None \<Rightarrow> hm_get m i)" for m t
    using assms
  proof (induction vs arbitrary: m t)
    case (Cons v vs)
    then have "i = mv_id v \<Longrightarrow> map_of (map (\<lambda>v. (mv_id v, v)) vs) i = None"
      by (auto simp: map_of_eq_None_iff)
    with Cons show ?case by (auto split: option.splits)
  qed simp
  from * [of hm_empty 0] show ?thesis
    by (auto simp: mvs_new_def Let_def split: prod.splits option.splits)
qed

lemma mvs_known_power:
  assumes "distinct (map mv_id vs)"
  shows "known (mvs_verifier (mvs_new vs)) = mv_id ` set vs"
    and "exact_power (mvs_verifier (mvs_new vs)) (mv_id ` set vs) = (\<Sum>v\<leftarrow>vs. unat (mv_voting_power v))"
proof -
  let ?VV = "mvs_verifier (mvs_new vs)"
  have get: "vv_get_voting_power ?VV i =
      map_option mv_voting_power (map_of (map (\<lambda>v. (mv_id v, v)) vs) i)" for i
    by (simp add: mvs_verifier_def mvs_get_voting_power_def hm_get_validators [OF assms])
  show "known ?VV = mv_id ` set vs"
    by (auto simp: dom_def get map_of_eq_None_iff image_iff dest: map_of_SomeD)
  have "map_of (map (\<lambda>v. (mv_id v, v)) vs) (mv_id v) = Some v" if "v \<in> set vs" for v
    using assms that by (intro map_of_is_SomeI) (auto simp: comp_def)
  then have pw: "unat (the (vv_get_voting_power ?VV (mv_id v))) = unat (mv_voting_power v)"
    if "v \<in> set vs" for v using that by (simp add: get)
  have "exact_power ?VV (mv_id ` set vs) = (\<Sum>v\<in>set vs. unat (mv_voting_power v))"
    using assms pw by (simp add: exact_power_def sum.reindex distinct_map)
  then show "exact_power ?VV (mv_id ` set vs) = (\<Sum>v\<leftarrow>vs. unat (mv_voting_power v))"
    using assms by (simp add: sum_list_distinct_conv_sum_set distinct_map)
qed

lemma unat_two_thirds:
  fixes t :: u128
  assumes "2 * unat t < 2 ^ 128"
  shows "unat (t * 2 div 3 + 1) = 2 * unat t div 3 + 1"
proof -
  have "unat (t * 2) = 2 * unat t" using assms by (simp add: unat_word_ariths)
  then have "unat (t * 2 div 3) = 2 * unat t div 3" by (simp add: unat_div_distrib)
  moreover have "2 * unat t div 3 + 1 < 2 ^ 128" using assms by simp
  ultimately show ?thesis by (simp add: unat_word_ariths)
qed

lemma mvs_threshold:
  "mvs_quorum_threshold (mvs_new vs) = mvs_total_voting_power (mvs_new vs) * 2 div 3 + 1"
  by (simp add: mvs_new_def Let_def split_beta)

lemma bft_verifier_mvs:
  assumes "distinct (map mv_id vs)"
  shows "bft_verifier (mvs_verifier (mvs_new vs))"
proof unfold_locales
  let ?ps = "map mv_voting_power vs"
  have "length vs = card (mv_id ` set vs)"
    using distinct_card [OF assms] by simp
  also have "\<dots> \<le> CARD(u8)" by (intro card_mono) auto
  finally have len: "length vs \<le> 256" by (simp add: card_word)
  have sum: "unat (mvs_total_voting_power (mvs_new vs)) = (\<Sum>p\<leftarrow>?ps. unat p)"
    using unat_sum_of_u64 [of ?ps] len by (simp add: mvs_total_power comp_def)
  have "(\<Sum>p\<leftarrow>?ps. unat p) \<le> 256 * (2 ^ 64 - 1)"
    using sum_u64_bound [of ?ps] mult_le_mono1 [OF len, of "2 ^ 64 - 1"] by simp
  then have "unat (mvs_quorum_threshold (mvs_new vs)) = 2 * (\<Sum>p\<leftarrow>?ps. unat p) div 3 + 1"
    using unat_two_thirds [of "mvs_total_voting_power (mvs_new vs)"] by (simp add: mvs_threshold sum)
  then show "unat (vv_quorum_voting_power (mvs_verifier (mvs_new vs))) =
      2 * exact_power (mvs_verifier (mvs_new vs)) (known (mvs_verifier (mvs_new vs))) div 3 + 1"
    by (simp add: mvs_known_power [OF assms] comp_def) (simp add: mvs_verifier_def)
qed (simp add: mvs_known_power [OF assms])

lemma distinct_of_nat_u8: "n \<le> 256 \<Longrightarrow> distinct (map (of_nat :: nat \<Rightarrow> u8) [0..<n])"
  by (auto simp: distinct_map inj_on_def word_unat_eq_iff unat_of_nat)

lemma map_mv_id_enumerate:
  "map mv_id (map (\<lambda>(i, p). mv_new (of_nat i) p) (enumerate k ps)) = map of_nat [k..<k + length ps]"
  by (induction ps arbitrary: k) (simp_all add: mv_new_def upt_rec)

text \<open>Every list of at most 256 voting powers gives a verifier with a two-thirds quorum: the node
  ids are bytes.\<close>

lemma bft_verifier_make: "length ps \<le> 256 \<Longrightarrow> bft_verifier (mvs_verifier (make_validator_set ps))"
  unfolding make_validator_set_def
  by (rule bft_verifier_mvs) (use map_mv_id_enumerate [of 0 ps] distinct_of_nat_u8 in simp)

interpretation mbv: bft_verifier "mvs_verifier (make_validator_set (take 256 ps))" for ps
  by (rule bft_verifier_make) simp

section \<open>Votes that complete a quorum\<close>

lemma add_vote_completes:
  assumes "pv_inv pv" and "pv_add_vote pv v VV = (QuorumCompleted, pv')"
  shows "pv_check_quorum pv' (vote_round v, vote_block_id v) VV"
    and "set (pv_get_votes pv' (vote_round v) (vote_block_id v)) =
           {w \<in> insert v (pv_abs pv). vote_round w = vote_round v \<and> vote_block_id w = vote_block_id v}"
proof -
  have *: "pv' = pv_file pv v \<and> \<not> pv_is_duplicate pv v \<and>
      pv_check_quorum pv' (vote_round v, vote_block_id v) VV"
    using assms(2) by (rule_tac v = v and verifier = VV in pv_add_vote_cases [OF assms(1)]) auto
  then show "pv_check_quorum pv' (vote_round v, vote_block_id v) VV" by blast
  from * show "set (pv_get_votes pv' (vote_round v) (vote_block_id v)) =
      {w \<in> insert v (pv_abs pv). vote_round w = vote_round v \<and> vote_block_id w = vote_block_id v}"
    using assms(1) by (simp add: set_pv_get_votes pv_inv_file pv_abs_file)
qed

lemma mock_vote_fields:
  "vote_author (mock_vote a b r) = a" "vote_block_id (mock_vote a b r) = b"
  "vote_round (mock_vote a b r) = r"
  by (simp_all add: mock_vote_def mock_vote_with_signature_def)

lemma make_validator_set_known:
  assumes "length ps \<le> 256"
  shows "known (mvs_verifier (make_validator_set ps)) = of_nat ` {..<length ps}"
    and "exact_power (mvs_verifier (make_validator_set ps)) (known (mvs_verifier (make_validator_set ps))) =
           (\<Sum>p\<leftarrow>ps. unat p)"
proof -
  let ?vs = "map (\<lambda>(i, p). mv_new (of_nat i) p) (enumerate 0 ps)"
  have d: "distinct (map mv_id ?vs)"
    using map_mv_id_enumerate [of 0 ps] distinct_of_nat_u8 [OF assms] by simp
  have "mv_id ` set ?vs = set (map mv_id ?vs)" by (simp only: set_map)
  also have "\<dots> = of_nat ` {..<length ps}"
    by (simp only: map_mv_id_enumerate) (simp add: atLeast0LessThan)
  finally show "known (mvs_verifier (make_validator_set ps)) = of_nat ` {..<length ps}"
    unfolding make_validator_set_def by (simp only: mvs_known_power(1) [OF d])
  have "map mv_voting_power ?vs = ps"
    by (simp add: mv_new_def comp_def split_beta)
  then show "exact_power (mvs_verifier (make_validator_set ps))
      (known (mvs_verifier (make_validator_set ps))) = (\<Sum>p\<leftarrow>ps. unat p)"
    unfolding make_validator_set_def
    by (metis (no_types, lifting) d map_map mvs_known_power comp_apply map_eq_conv)
qed

end
