(* ===== verification/Round_Manager.thy ===== *)
theory Round_Manager
  imports Two_Chain Pending_Votes Round_State
begin

text \<open>
  Models \<open>round_manager/mod.rs\<close>: the handlers for proposals, votes and timeouts over the
  round state, the pending votes and the safety rules. The handlers take the record of the
  safety rules \<open>SR\<close> and of the host chain's methods \<open>CH\<close>, as the Rust type is generic over them.
\<close>

record round_manager_config =
  rmc_max_buffered_rounds :: u64
  rmc_round_timeout_ms :: u64
  rmc_max_pending_votes :: usize

definition rmc_default :: round_manager_config where
  "rmc_default =
     \<lparr>rmc_max_buffered_rounds = 10, rmc_round_timeout_ms = 5000, rmc_max_pending_votes = 1000\<rparr>"

datatype proposal_processing_result =
    PP_Accepted
  | PP_Rejected string
  | PP_OldRound
  | PP_FutureRound

record ('r, 'n, 'h, 's) round_manager =
  rm_round_state :: "('n, 'h, 's) round_state"
  rm_pending_votes :: "('n, 'h, 's) pending_votes"
  rm_safety_rules :: 'r
  rm_config :: round_manager_config

definition rm_new :: "round_manager_config \<Rightarrow> 'r \<Rightarrow> ('r, 'n, 'h, 's) round_manager" where
  "rm_new config safety_rules =
     \<lparr>rm_round_state =
        rs_new \<lparr>rsc_initial_epoch = 0, rsc_initial_round = 0,
                 rsc_max_buffered_rounds = rmc_max_buffered_rounds config\<rparr>,
      rm_pending_votes = pv_new (rmc_max_buffered_rounds config),
      rm_safety_rules = safety_rules,
      rm_config = config\<rparr>"

definition rm_epoch :: "('r, 'n, 'h, 's) round_manager \<Rightarrow> epoch" where
  "rm_epoch rm = rs_epoch (rm_round_state rm)"

definition rm_round :: "('r, 'n, 'h, 's) round_manager \<Rightarrow> round" where
  "rm_round rm = rs_round (rm_round_state rm)"

definition try_vote_for_proposal ::
    "('r, 'tc, 'n, 'h, 's) safety_rules \<Rightarrow> ('r, 'n, 'h, 's) round_manager \<Rightarrow>
     ('n, 'h, 's) block \<Rightarrow> 'tc option \<Rightarrow> unit res \<times> ('r, 'n, 'h, 's) round_manager" where
  "try_vote_for_proposal SR rm proposal timeout_cert =
     (let proposal_round = blk_round proposal;
          sr = rm_safety_rules rm;
          last = st_last_voted_round (srt_state SR sr)
      in if proposal_round < last
         then (Inl (Msg (''Cannot vote for round '' @ show_u64 proposal_round @
                         '': already voted in round '' @ show_u64 last)), rm)
         else case srt_safe_to_vote SR sr proposal timeout_cert of
                Inl e \<Rightarrow> (Inl e, rm)
              | Inr _ \<Rightarrow>
                  (case srt_record_vote SR sr proposal_round of
                     (res, sr') \<Rightarrow> (res, rm\<lparr>rm_safety_rules := sr'\<rparr>)))"

definition rm_process_proposal ::
    "('n, 'h, 's, 'g) chain \<Rightarrow> ('r, 'n, 'h, 's) round_manager \<Rightarrow> ('n, 'h, 's) block \<Rightarrow>
     proposal_processing_result res \<times> ('r, 'n, 'h, 's) round_manager" where
  "rm_process_proposal CH rm proposal =
     (let proposal_round = blk_round proposal
      in if \<not> rs_is_current_round (rm_round_state rm) proposal_round
         then if proposal_round < rs_round (rm_round_state rm)
              then (Inr PP_OldRound, rm) else (Inr PP_FutureRound, rm)
         else case ch_verify_signature CH proposal of
                Inl e \<Rightarrow> (Inl e, rm)
              | Inr _ \<Rightarrow>
                  (Inr PP_Accepted,
                   rm\<lparr>rm_round_state := rs_set_proposed_block (rm_round_state rm) proposal\<rparr>))"

definition form_quorum_certificate_for_block ::
    "('n, 'h, 's, 'g) chain \<Rightarrow> ('r, 'tc, 'n, 'h, 's) safety_rules \<Rightarrow>
     ('r, 'n, 'h, 's) round_manager \<Rightarrow> 'h \<Rightarrow> round \<Rightarrow> ('n, 'h, 's, 'g) validator_verifier \<Rightarrow>
     unit res \<times> ('r, 'n, 'h, 's) round_manager" where
  "form_quorum_certificate_for_block CH SR rm block_id rnd verifier =
     (let votes = pv_get_votes (rm_pending_votes rm) rnd block_id;
          aggregator = sa_add_votes verifier sa_new votes
      in case verify_error_into (sa_check_quorum aggregator verifier) of
           Inl e \<Rightarrow> (Inl e, rm)
         | Inr _ \<Rightarrow>
             (case sa_aggregate aggregator verifier of
                Inl e \<Rightarrow> (Inl e, rm)
              | Inr aggregated_sig \<Rightarrow>
                  (case ch_from_votes CH votes aggregated_sig of
                     Inl e \<Rightarrow> (Inl e, rm)
                   | Inr qc \<Rightarrow>
                       (case srt_observe_qc SR (rm_safety_rules rm) qc of
                          (Inl e, sr') \<Rightarrow> (Inl e, rm\<lparr>rm_safety_rules := sr'\<rparr>)
                        | (Inr _, sr') \<Rightarrow>
                            (Inr (),
                             rm\<lparr>rm_safety_rules := sr',
                                rm_round_state := rs_set_quorum_cert (rm_round_state rm) qc,
                                rm_pending_votes := pv_remove_round (rm_pending_votes rm) rnd\<rparr>)))))"

definition rm_process_vote ::
    "('n, 'h, 's, 'g) chain \<Rightarrow> ('r, 'tc, 'n, 'h, 's) safety_rules \<Rightarrow>
     ('r, 'n, 'h, 's) round_manager \<Rightarrow> ('n, 'h, 's) vote \<Rightarrow>
     ('n, 'h, 's, 'g) validator_verifier \<Rightarrow>
     vote_reception_result res \<times> ('r, 'n, 'h, 's) round_manager" where
  "rm_process_vote CH SR rm vote verifier =
     (case ch_vote_verify CH vote verifier of
        Inl e \<Rightarrow> (Inl e, rm)
      | Inr _ \<Rightarrow>
          if \<not> rs_is_current_epoch (rm_round_state rm) (li_epoch (vote_ledger_info vote))
          then (Inr (Rejected VS_Rejected), rm)
          else case pv_add_vote (rm_pending_votes rm) vote verifier of
                 (result, pv') \<Rightarrow>
                   let rm' = rm\<lparr>rm_pending_votes := pv'\<rparr>
                   in if result = QuorumCompleted
                      then case form_quorum_certificate_for_block CH SR rm'
                                  (vote_block_id vote) (vote_round vote) verifier of
                             (Inl e, rm'') \<Rightarrow> (Inl e, rm'')
                           | (Inr _, rm'') \<Rightarrow> (Inr result, rm'')
                      else (Inr result, rm'))"

definition has_quorum_certificate :: "('r, 'n, 'h, 's) round_manager \<Rightarrow> 'h \<Rightarrow> round \<Rightarrow> bool" where
  "has_quorum_certificate rm block_id rnd =
     (pv_vote_count (rm_pending_votes rm) rnd block_id = 0 \<and> rnd < rs_round (rm_round_state rm))"

definition rm_process_timeout ::
    "('r, 'tc, 'n, 'h, 's) safety_rules \<Rightarrow> ('r, 'n, 'h, 's) round_manager \<Rightarrow> timeout_reason \<Rightarrow>
     unit res \<times> ('r, 'n, 'h, 's) round_manager" where
  "rm_process_timeout SR rm reason =
     (let current_round = rs_round (rm_round_state rm);
          sr = rm_safety_rules rm;
          qcr = st_one_chain_round (srt_state SR sr)
      in case srt_safe_to_timeout SR sr (current_round + 1) qcr None of
           Inl (Msg m) \<Rightarrow> (Inl (Msg (''Not safe to timeout: '' @ m)), rm)
         | Inl (Panic m) \<Rightarrow> (Inl (Panic m), rm)
         | Inr _ \<Rightarrow>
             (let rs' = rs_advance_round (rm_round_state rm)
              in (Inr (),
                  rm\<lparr>rm_safety_rules := srt_record_timeout SR sr current_round,
                     rm_round_state := rs',
                     rm_pending_votes := pv_set_round (rm_pending_votes rm) (rs_round rs')\<rparr>)))"

definition rm_start_round ::
    "('r, 'n, 'h, 's) round_manager \<Rightarrow> round \<Rightarrow> unit res \<times> ('r, 'n, 'h, 's) round_manager" where
  "rm_start_round rm rnd =
     (Inr (), rm\<lparr>rm_round_state := rs_set_round (rm_round_state rm) rnd,
                 rm_pending_votes := pv_set_round (rm_pending_votes rm) rnd\<rparr>)"

section \<open>Runs of a round manager\<close>

datatype ('tc, 'n, 'h, 's) rm_event =
    TryVote "('n, 'h, 's) block" "'tc option"
  | ProposalMsg "('n, 'h, 's) block"
  | VoteMsg "('n, 'h, 's) vote"
  | TimeoutMsg timeout_reason
  | StartRound round

fun rm_step ::
    "('n, 'h, 's, 'g) chain \<Rightarrow> ('r, 'tc, 'n, 'h, 's) safety_rules \<Rightarrow>
     ('n, 'h, 's, 'g) validator_verifier \<Rightarrow> ('r, 'n, 'h, 's) round_manager \<Rightarrow>
     ('tc, 'n, 'h, 's) rm_event \<Rightarrow> ('r, 'n, 'h, 's) round_manager" where
  "rm_step CH SR VV rm (TryVote b tc) = snd (try_vote_for_proposal SR rm b tc)"
| "rm_step CH SR VV rm (ProposalMsg b) = snd (rm_process_proposal CH rm b)"
| "rm_step CH SR VV rm (VoteMsg v) = snd (rm_process_vote CH SR rm v VV)"
| "rm_step CH SR VV rm (TimeoutMsg reason) = snd (rm_process_timeout SR rm reason)"
| "rm_step CH SR VV rm (StartRound r) = snd (rm_start_round rm r)"

fun rm_run ::
    "('n, 'h, 's, 'g) chain \<Rightarrow> ('r, 'tc, 'n, 'h, 's) safety_rules \<Rightarrow>
     ('n, 'h, 's, 'g) validator_verifier \<Rightarrow> ('r, 'n, 'h, 's) round_manager \<Rightarrow>
     ('tc, 'n, 'h, 's) rm_event list \<Rightarrow> ('r, 'n, 'h, 's) round_manager" where
  "rm_run CH SR VV rm [] = rm"
| "rm_run CH SR VV rm (ev # evs) = rm_run CH SR VV (rm_step CH SR VV rm ev) evs"

text \<open>
  The invariant of a round manager: the vote table is well formed, the proposed block is of
  the current round, the vote table and the round state agree on the round, and the epoch
  is the one the constructor set.
\<close>

definition rm_inv :: "('r, 'n, 'h, 's) round_manager \<Rightarrow> bool" where
  "rm_inv rm \<longleftrightarrow>
     pv_inv (rm_pending_votes rm) \<and> rs_inv (rm_round_state rm) \<and>
     pv_current_round (rm_pending_votes rm) = rs_round (rm_round_state rm) \<and>
     rs_epoch (rm_round_state rm) = 0"

lemma pv_current_round_simps [simp]:
  "pv_current_round (pv_set_round pv r) = r"
  "pv_current_round (pv_remove_round pv r) = pv_current_round pv"
  "pv_max_rounds (pv_set_round pv r) = pv_max_rounds pv"
  "pv_max_rounds (pv_remove_round pv r) = pv_max_rounds pv"
  by (simp_all add: pv_set_round_def cleanup_old_votes_def pv_remove_round_def Let_def)

lemma pv_add_vote_current_round [simp]:
  "pv_current_round (snd (pv_add_vote pv v VV)) = pv_current_round pv"
  by (simp add: pv_add_vote_def Let_def)

lemma rm_inv_new: "rm_inv (rm_new config sr)"
  by (simp add: rm_inv_def rm_new_def) (simp add: pv_new_def rs_new_def)

lemma rm_inv_safety_rules [simp]: "rm_inv (rm\<lparr>rm_safety_rules := sr\<rparr>) = rm_inv rm"
  by (simp add: rm_inv_def)

lemma rm_inv_try_vote: "rm_inv rm \<Longrightarrow> rm_inv (snd (try_vote_for_proposal SR rm b tc))"
  by (auto simp: try_vote_for_proposal_def Let_def split: sum.splits prod.splits)

lemma rm_inv_process_proposal: "rm_inv rm \<Longrightarrow> rm_inv (snd (rm_process_proposal CH rm b))"
  by (auto simp: rm_process_proposal_def Let_def rm_inv_def rs_inv_set_proposed_block
      split: sum.splits)

lemma rm_inv_form_qc:
  "rm_inv rm \<Longrightarrow> rm_inv (snd (form_quorum_certificate_for_block CH SR rm h r VV))"
  by (auto simp: form_quorum_certificate_for_block_def Let_def rm_inv_def
      split: sum.splits prod.splits)

lemma rm_inv_add_vote:
  "rm_inv rm \<Longrightarrow> pv_add_vote (rm_pending_votes rm) v VV = (res, pv') \<Longrightarrow>
   rm_inv (rm\<lparr>rm_pending_votes := pv'\<rparr>)"
  using pv_inv_add_vote [of "rm_pending_votes rm" v VV]
    pv_add_vote_current_round [of "rm_pending_votes rm" v VV]
  by (simp add: rm_inv_def)

lemma rm_inv_process_vote: "rm_inv rm \<Longrightarrow> rm_inv (snd (rm_process_vote CH SR rm v VV))"
  using rm_inv_form_qc [of _ CH SR "vote_block_id v" "vote_round v" VV]
  by (auto simp: rm_process_vote_def Let_def rm_inv_add_vote
      split: sum.splits prod.splits) (metis rm_inv_add_vote snd_conv)+

lemma rm_inv_process_timeout: "rm_inv rm \<Longrightarrow> rm_inv (snd (rm_process_timeout SR rm reason))"
  by (auto simp: rm_process_timeout_def Let_def rm_inv_def split: sum.splits error.splits)

lemma rm_inv_start_round: "rm_inv rm \<Longrightarrow> rm_inv (snd (rm_start_round rm r))"
  by (auto simp: rm_start_round_def rm_inv_def)

lemmas rm_inv_handlers =
  rm_inv_try_vote rm_inv_process_proposal rm_inv_process_vote rm_inv_process_timeout
  rm_inv_start_round

lemma rm_inv_step: "rm_inv rm \<Longrightarrow> rm_inv (rm_step CH SR VV rm ev)"
  by (cases ev) (simp_all add: rm_inv_handlers)

lemma rm_inv_run: "rm_inv rm \<Longrightarrow> rm_inv (rm_run CH SR VV rm evs)"
  by (induction evs arbitrary: rm) (simp_all add: rm_inv_step)

section \<open>The handlers, branch by branch\<close>

lemma form_qc_after_quorum:
  assumes "pv_check_quorum (rm_pending_votes rm) (r, h) VV"
    and "sa_aggregate (sa_add_votes VV sa_new (pv_get_votes (rm_pending_votes rm) r h)) VV = Inr g"
    and "ch_from_votes CH (pv_get_votes (rm_pending_votes rm) r h) g = Inr qc"
    and "fst (srt_observe_qc SR (rm_safety_rules rm) qc) = Inr ()"
  shows "form_quorum_certificate_for_block CH SR rm h r VV =
           (Inr (), rm\<lparr>rm_safety_rules := snd (srt_observe_qc SR (rm_safety_rules rm) qc),
                       rm_round_state := rs_set_quorum_cert (rm_round_state rm) qc,
                       rm_pending_votes := pv_remove_round (rm_pending_votes rm) r\<rparr>)"
proof -
  let ?sa = "sa_add_votes VV sa_new (pv_get_votes (rm_pending_votes rm) r h)"
  have "is_ok (sa_check_quorum ?sa VV)"
    using assms(1) by (auto simp: pv_check_quorum_def pv_get_votes_def split: option.splits)
  then have "verify_error_into (sa_check_quorum ?sa VV) = Inr ()"
    by (auto simp: is_ok_iff verify_error_into_def)
  moreover obtain sr' where "srt_observe_qc SR (rm_safety_rules rm) qc = (Inr (), sr')"
    using assms(4) by (metis prod.collapse)
  ultimately show ?thesis
    using assms(2,3) by (simp add: form_quorum_certificate_for_block_def Let_def)
qed

lemma process_vote_quorum_aux:
  assumes "rm_inv rm" and "ch_vote_verify CH v VV = Inr ()"
    and "li_epoch (vote_ledger_info v) = rs_epoch (rm_round_state rm)"
    and "pv_add_vote (rm_pending_votes rm) v VV = (QuorumCompleted, pv')"
    and "sa_aggregate (sa_add_votes VV sa_new
           (pv_get_votes pv' (vote_round v) (vote_block_id v))) VV = Inr g"
    and "ch_from_votes CH (pv_get_votes pv' (vote_round v) (vote_block_id v)) g = Inr qc"
    and "fst (srt_observe_qc SR (rm_safety_rules rm) qc) = Inr ()"
  shows "rm_process_vote CH SR rm v VV =
           (Inr QuorumCompleted,
            rm\<lparr>rm_safety_rules := snd (srt_observe_qc SR (rm_safety_rules rm) qc),
               rm_round_state := rs_set_quorum_cert (rm_round_state rm) qc,
               rm_pending_votes := pv_remove_round pv' (vote_round v)\<rparr>)"
proof -
  have inv: "pv_inv (rm_pending_votes rm)" using assms(1) by (simp add: rm_inv_def)
  have q: "pv_check_quorum pv' (vote_round v, vote_block_id v) VV"
    using assms(4) by (rule_tac v = v and verifier = VV in pv_add_vote_cases [OF inv]) auto
  show ?thesis
    using form_qc_after_quorum [of "rm\<lparr>rm_pending_votes := pv'\<rparr>" "vote_round v" "vote_block_id v"
        VV g CH qc SR] q assms(2-)
    by (simp add: rm_process_vote_def rs_is_current_epoch_def)
qed

context safety_rules_laws
begin

lemma try_vote_ok_voted:
  assumes "is_ok (fst (try_vote_for_proposal SR rm b tc))"
  shows "lv (rm_safety_rules (snd (try_vote_for_proposal SR rm b tc))) = blk_round b"
    and "lv (rm_safety_rules rm) \<le> blk_round b"
  using assms vote_recorded [of "rm_safety_rules rm" "blk_round b"]
  by (auto simp: try_vote_for_proposal_def Let_def lv_state split: sum.splits prod.splits if_splits)

lemma try_vote_mono: "lv (rm_safety_rules rm) \<le> lv (rm_safety_rules (snd (try_vote_for_proposal SR rm b tc)))"
  using rec_vote_voted [of "rm_safety_rules rm" "blk_round b"]
  by (auto simp: try_vote_for_proposal_def Let_def split: sum.splits prod.splits)

lemma form_qc_voted:
  "lv (rm_safety_rules (snd (form_quorum_certificate_for_block CH SR rm h r VV))) = lv (rm_safety_rules rm)"
proof -
  have "srt_observe_qc SR r qc = (res, r') \<Longrightarrow> lv r' = lv r" for r qc res r'
    using obs_qc_voted [of r qc] by simp
  then show ?thesis
    by (auto simp: form_quorum_certificate_for_block_def Let_def split: sum.splits prod.splits)
qed

lemma process_vote_voted:
  "lv (rm_safety_rules (snd (rm_process_vote CH SR rm v VV))) = lv (rm_safety_rules rm)"
proof -
  have "form_quorum_certificate_for_block CH SR rm' h r VV = (res, rm'') \<Longrightarrow>
        lv (rm_safety_rules rm'') = lv (rm_safety_rules rm')" for rm' h r res rm''
    using form_qc_voted [of CH rm' h r VV] by simp
  then show ?thesis
    by (auto simp: rm_process_vote_def Let_def split: sum.splits prod.splits)
qed

lemma step_voted_mono: "lv (rm_safety_rules rm) \<le> lv (rm_safety_rules (rm_step CH SR VV rm ev))"
  by (cases ev)
    (auto simp: try_vote_mono process_vote_voted rm_process_proposal_def rm_process_timeout_def
      rm_start_round_def rec_timeout_voted Let_def split: sum.splits error.splits)

lemma run_voted_mono: "lv (rm_safety_rules rm) \<le> lv (rm_safety_rules (rm_run CH SR VV rm evs))"
proof (induction evs arbitrary: rm)
  case (Cons ev evs)
  then show ?case using step_voted_mono [of rm CH VV ev] by (auto intro: order_trans)
qed simp

text \<open>A timeout is accepted only in the round of the highest certificate.\<close>

lemma process_timeout_ok:
  "is_ok (fst (rm_process_timeout SR rm reason)) \<longleftrightarrow>
     rs_round (rm_round_state rm) = oc (rm_safety_rules rm) \<and> oc (rm_safety_rules rm) \<noteq> u64_MAX"
  using safe_timeout_None [of "rm_safety_rules rm" "rs_round (rm_round_state rm) + 1"
      "oc (rm_safety_rules rm)"]
  by (auto simp: rm_process_timeout_def Let_def oc_state is_ok_def
      split: sum.splits error.splits)

lemma process_timeout_result:
  assumes "is_ok (fst (rm_process_timeout SR rm reason))"
  shows "rs_round (rm_round_state (snd (rm_process_timeout SR rm reason))) =
           rs_round (rm_round_state rm) + 1"
    and "oc (rm_safety_rules (snd (rm_process_timeout SR rm reason))) = oc (rm_safety_rules rm)"
  using assms
  by (auto simp: rm_process_timeout_def Let_def rec_timeout_one_chain
      split: sum.splits error.splits)

lemma process_timeout_error:
  "\<not> is_ok (fst (rm_process_timeout SR rm reason)) \<Longrightarrow> snd (rm_process_timeout SR rm reason) = rm"
  by (auto simp: rm_process_timeout_def Let_def split: sum.splits error.splits)

lemma two_timeouts:
  assumes "is_ok (fst (rm_process_timeout SR rm reason))"
  shows "\<not> is_ok (fst (rm_process_timeout SR (snd (rm_process_timeout SR rm reason)) reason'))"
  using process_timeout_ok [of rm reason] process_timeout_result [OF assms] assms
  by (simp add: process_timeout_ok)

end

section \<open>The rules as the round manager applies them\<close>

text \<open>A vote is cast exactly when the block's round is positive and not below the last voted
  round; nothing ties it to the block or to its certificate.\<close>

lemma try_vote_ok_iff:
  "is_ok (fst (try_vote_for_proposal two_chain rm b tc)) \<longleftrightarrow>
     ss_last_voted_round (sr_state (rm_safety_rules rm)) \<le> blk_round b \<and> 0 < blk_round b \<and>
     (\<forall>c. tc = Some c \<longrightarrow> tc_round c \<noteq> u64_MAX)"
proof -
  let ?sr = "rm_safety_rules rm"
  have safe: "is_ok (srt_safe_to_vote two_chain ?sr b tc) \<longleftrightarrow>
      0 < blk_round b \<and> (\<forall>c. tc = Some c \<longrightarrow> tc_round c \<noteq> u64_MAX)"
    by (simp add: two_chain_def safe_to_vote_ok_iff)
  show ?thesis
    using safe
    by (cases "srt_safe_to_vote two_chain ?sr b tc")
      (auto simp: try_vote_for_proposal_def Let_def tcr.lv_state not_less split_beta
        tcr.rec_vote_ok)
qed

section \<open>Properties\<close>

text \<open>C14: every state that the handlers reach from a new round manager, in any order of
  proposals, votes, timeouts, vote attempts and round starts, is consistent: the vote table
  is well formed and stands at the round of the round state, a proposed block belongs to the
  current round, and the epoch is still the constructor's.\<close>

theorem round_manager_invariant:
  "rm_inv (rm_run CH SR VV (rm_new config sr) evs)"
  by (rule rm_inv_run [OF rm_inv_new])

text \<open>C9: votes never go backwards: once \<open>try_vote_for_proposal\<close> has accepted a block, no later
  attempt for a block of a lower round succeeds, whatever the handlers do in between.\<close>

theorem votes_never_go_backwards:
  assumes "is_ok (fst (try_vote_for_proposal two_chain rm b tc))"
    and "blk_round b' < blk_round b"
  shows "\<not> is_ok (fst (try_vote_for_proposal two_chain
            (rm_run CH two_chain VV (snd (try_vote_for_proposal two_chain rm b tc)) evs) b' tc'))"
  using tcr.try_vote_ok_voted(1) [OF assms(1)] assms(2)
    tcr.run_voted_mono [of "snd (try_vote_for_proposal two_chain rm b tc)" CH VV evs]
  by (auto simp: try_vote_ok_iff)

theorem votes_never_go_backwards_witness:
  "let rm = rm_new rmc_default (sr_new 0) :: (two_chain_rules, u8, u8, u8) round_manager;
       rm' = snd (try_vote_for_proposal two_chain rm (mock_block [] (mock_metadata 0 5 1 0 0)) None);
       rm'' = rm_run mock_chain two_chain (mvs_verifier (make_validator_set [1])) rm' [StartRound 2]
   in \<not> is_ok (fst (try_vote_for_proposal two_chain rm''
        (mock_block [] (mock_metadata 0 3 1 0 0)) None))"
proof -
  let ?rm = "rm_new rmc_default (sr_new 0) :: (two_chain_rules, u8, u8, u8) round_manager"
  have "is_ok (fst (try_vote_for_proposal two_chain ?rm
      (mock_block [] (mock_metadata 0 5 1 0 0)) None))"
    by (simp add: try_vote_ok_iff rm_new_def sr_new_def mock_block_def mock_metadata_def)
  moreover have "blk_round (mock_block [] (mock_metadata 0 3 1 0 0)) <
      blk_round (mock_block [] (mock_metadata 0 5 1 0 0))"
    by (simp add: mock_block_def mock_metadata_def)
  ultimately show ?thesis unfolding Let_def by (rule votes_never_go_backwards)
qed

text \<open>The guard on the last voted round is not strict: after a vote for a block, a second vote
  in the same round for any other block is accepted as well, so a validator running this
  code can vote for two conflicting blocks of one round.\<close>

lemma same_round_double_vote:
  assumes "is_ok (fst (try_vote_for_proposal two_chain rm b tc))"
    and "blk_round b' = blk_round b"
  shows "is_ok (fst (try_vote_for_proposal two_chain
            (snd (try_vote_for_proposal two_chain rm b tc)) b' None))"
  using tcr.try_vote_ok_voted(1) [OF assms(1)] assms by (simp add: try_vote_ok_iff)

text \<open>C11: a vote that completes a quorum forms the certificate: when the aggregation and the
  chain's \<open>from_votes\<close> succeed, the handler reports the quorum, the certificate is the round
  state's and raises the one-chain round, and exactly the votes of that round leave the
  table. Epoch and round of the manager stay.\<close>

theorem process_vote_forms_certificate:
  assumes "rm_inv rm" and "ch_vote_verify CH v VV = Inr ()"
    and "li_epoch (vote_ledger_info v) = rm_epoch rm"
    and "pv_add_vote (rm_pending_votes rm) v VV = (QuorumCompleted, pv')"
    and "sa_aggregate (sa_add_votes VV sa_new
           (pv_get_votes pv' (vote_round v) (vote_block_id v))) VV = Inr g"
    and "ch_from_votes CH (pv_get_votes pv' (vote_round v) (vote_block_id v)) g = Inr qc"
  shows "let (res, rm') = rm_process_vote CH two_chain rm v VV
         in res = Inr QuorumCompleted \<and> rs_quorum_cert (rm_round_state rm') = Some qc \<and>
            ss_one_chain_round (sr_state (rm_safety_rules rm')) =
              max (ss_one_chain_round (sr_state (rm_safety_rules rm))) (qc_round qc) \<and>
            pv_abs (rm_pending_votes rm') =
              {w \<in> insert v (pv_abs (rm_pending_votes rm)). vote_round w \<noteq> vote_round v} \<and>
            rm_round rm' = rm_round rm \<and> rm_epoch rm' = rm_epoch rm"
proof -
  have inv: "pv_inv (rm_pending_votes rm)" using assms(1) by (simp add: rm_inv_def)
  have filed: "\<not> pv_is_duplicate (rm_pending_votes rm) v \<and> pv' = pv_file (rm_pending_votes rm) v"
    using assms(4) by (rule_tac v = v and verifier = VV in pv_add_vote_cases [OF inv]) auto
  then have votes: "pv_abs (pv_remove_round pv' (vote_round v)) =
      {w \<in> insert v (pv_abs (rm_pending_votes rm)). vote_round w \<noteq> vote_round v}"
    using inv by (simp add: pv_abs_remove_round pv_inv_file pv_abs_file)
  have "fst (srt_observe_qc two_chain (rm_safety_rules rm) qc) = Inr ()"
    by (rule tcr.obs_qc_ok)
  from process_vote_quorum_aux [OF assms(1,2) _ assms(4-6) this] assms(3)
  show ?thesis
    by (simp add: tcr.obs_qc_one_chain votes rm_round_def rm_epoch_def)
qed

theorem process_vote_forms_certificate_witness:
  "let VV = mvs_verifier (make_validator_set [5]); v = mock_vote 0 7 3;
       rm = rm_new rmc_default (sr_new 0);
       (res, rm') = rm_process_vote mock_chain two_chain rm v VV
   in res = Inr QuorumCompleted \<and>
      rs_quorum_cert (rm_round_state rm') = Some (mock_qc_new 0) \<and> pv_abs (rm_pending_votes rm') = {}"
proof -
  let ?VV = "mvs_verifier (make_validator_set [5])" and ?v = "mock_vote 0 7 3"
  let ?rm = "rm_new rmc_default (sr_new 0) :: (two_chain_rules, u8, u8, u8) round_manager"
  let ?r = "pv_add_vote (rm_pending_votes ?rm) ?v ?VV"
  have "fst ?r = QuorumCompleted" by code_simp
  then have r: "?r = (QuorumCompleted, snd ?r)" by (metis prod.collapse)
  have e: "li_epoch (vote_ledger_info ?v) = rm_epoch ?rm"
    by (simp add: mock_vote_def mock_vote_with_signature_def mock_ledger_info_def rm_epoch_def
        rm_new_def rs_new_def)
  show ?thesis
    using process_vote_forms_certificate [OF rm_inv_new _ e r, of mock_chain "()" "mock_qc_new 0"]
    by (simp add: mock_chain_def sa_aggregate_def mvs_verifier_def Let_def split_beta)
      (simp add: rm_new_def)
qed

text \<open>C15: \<open>process_timeout\<close> succeeds exactly when the current round is the one-chain round and not the
  last one; it then moves to the next round, and a second timeout directly after it is
  refused: without a new certificate the manager leaves a round by timeout only once.\<close>

theorem timeout_once_per_certificate:
  "(is_ok (fst (rm_process_timeout two_chain rm reason)) \<longleftrightarrow>
      rm_round rm = ss_one_chain_round (sr_state (rm_safety_rules rm)) \<and> rm_round rm \<noteq> u64_MAX) \<and>
   (if is_ok (fst (rm_process_timeout two_chain rm reason))
    then rm_round (snd (rm_process_timeout two_chain rm reason)) = rm_round rm + 1 \<and>
         \<not> is_ok (fst (rm_process_timeout two_chain
              (snd (rm_process_timeout two_chain rm reason)) reason'))
    else snd (rm_process_timeout two_chain rm reason) = rm)"
  using tcr.process_timeout_ok [of rm reason] tcr.process_timeout_result(1) [of rm reason]
    tcr.process_timeout_error [of rm reason] tcr.two_timeouts [of rm reason reason']
  by (auto simp: rm_round_def)

text \<open>
  \<open>has_quorum_certificate\<close> takes an absence of votes for a certificate: a manager moved to a
  round answers yes for every block of every earlier round without a vote for it.
\<close>

lemma has_quorum_certificate_without_votes:
  "r < rnd \<Longrightarrow> has_quorum_certificate (snd (rm_start_round (rm_new config sr) rnd)) h r"
  by (simp add: has_quorum_certificate_def rm_start_round_def rm_new_def pv_new_def
      pv_set_round_def cleanup_old_votes_def pv_vote_count_def hm_retain_def hm_empty_def hm_get_def
      Let_def)

end
