(* ===== verification/Pacemaker.thy ===== *)
theory Pacemaker
  imports Base_Types
begin

text \<open>
  Models \<open>liveness/pacemaker.rs\<close>: the interval strategy with exponential backoff, the
  pacemaker that tracks the current and the highest ordered round, and its builder. The
  \<open>f64\<close> operations are an argument.
\<close>

section \<open>Configuration and events\<close>

record 'f pacemaker_config =
  pmc_base_duration_ms :: u64
  pmc_exponent_base :: 'f
  pmc_max_exponent :: usize
  pmc_initial_round :: u64

definition pmc_default :: "'f f64_ops \<Rightarrow> 'f pacemaker_config" where
  "pmc_default F =
     \<lparr>pmc_base_duration_ms = 1000, pmc_exponent_base = fl_lit F 2, pmc_max_exponent = 8,
      pmc_initial_round = 1\<rparr>"

definition pmc_new :: "u64 \<Rightarrow> 'f \<Rightarrow> usize \<Rightarrow> u64 \<Rightarrow> 'f pacemaker_config" where
  "pmc_new base_duration_ms exponent_base max_exponent initial_round =
     \<lparr>pmc_base_duration_ms = base_duration_ms, pmc_exponent_base = exponent_base,
      pmc_max_exponent = max_exponent, pmc_initial_round = initial_round\<rparr>"

definition pmc_base_duration :: "'f pacemaker_config \<Rightarrow> duration" where
  "pmc_base_duration c = from_millis (pmc_base_duration_ms c)"

datatype new_round_reason = NR_QuorumCertificate | NR_Timeout usize

fun new_round_reason_fmt :: "new_round_reason \<Rightarrow> string" where
  "new_round_reason_fmt NR_QuorumCertificate = ''QCReady''"
| "new_round_reason_fmt (NR_Timeout n) = ''Timeout(rounds_since_ordered='' @ show_u64 n @ '')''"

record new_round_event =
  nre_round :: u64
  nre_reason :: new_round_reason
  nre_timeout_duration :: duration

definition nre_new :: "u64 \<Rightarrow> new_round_reason \<Rightarrow> duration \<Rightarrow> new_round_event" where
  "nre_new r reason d = \<lparr>nre_round = r, nre_reason = reason, nre_timeout_duration = d\<rparr>"

section \<open>Exponential backoff\<close>

record 'f exponential_strategy =
  eis_base_ms :: u64
  eis_exponent_base :: 'f
  eis_max_exponent :: usize

definition eis_new ::
    "'f f64_ops \<Rightarrow> duration \<Rightarrow> 'f \<Rightarrow> usize \<Rightarrow> 'f exponential_strategy res" where
  "eis_new F base exponent_base max_exponent =
     (if \<not> max_exponent < 32 then Inl (Panic ''max_exponent should be < 32'')
      else if \<not> fl_lt F (fl_ceil F (fl_powf F exponent_base (fl_of_u64 F max_exponent)))
                        (fl_of_u32 F (- 1))
      then Inl (Panic ''Maximum interval multiplier should be less than u32::MAX'')
      else Inr \<lparr>eis_base_ms = as_millis_u64 base, eis_exponent_base = exponent_base,
                 eis_max_exponent = max_exponent\<rparr>)"

definition eis_fixed :: "'f f64_ops \<Rightarrow> duration \<Rightarrow> 'f exponential_strategy res" where
  "eis_fixed F d = eis_new F d (fl_lit F 1) 0"

definition eis_get_round_duration :: "'f f64_ops \<Rightarrow> 'f exponential_strategy \<Rightarrow> usize \<Rightarrow> duration" where
  "eis_get_round_duration F s round_index_after_ordered =
     (let pow = min (as_u32 round_index_after_ordered) (as_u32 (eis_max_exponent s));
          multiplier = fl_powf F (eis_exponent_base s) (fl_of_u32 F pow);
          duration_ms = fl_to_u64 F (fl_ceil F (fl_mul F (fl_of_u64 F (eis_base_ms s)) multiplier))
      in from_millis duration_ms)"

section \<open>The pacemaker\<close>

text \<open>The methods take the strategy's \<open>get_round_duration\<close> as the argument \<open>ris\<close>.\<close>

record ('i, 'f) pacemaker =
  pm_interval_strategy :: 'i
  pm_highest_ordered_round :: u64
  pm_current_round :: u64
  pm_config :: "'f pacemaker_config"

definition pm_new :: "'i \<Rightarrow> 'f pacemaker_config \<Rightarrow> ('i, 'f) pacemaker" where
  "pm_new strategy config =
     (let initial_round = pmc_initial_round config
      in \<lparr>pm_interval_strategy = strategy,
          pm_highest_ordered_round = saturating_sub initial_round 1,
          pm_current_round = initial_round,
          pm_config = config\<rparr>)"

definition pm_can_enter_round :: "('i, 'f) pacemaker \<Rightarrow> u64 \<Rightarrow> bool" where
  "pm_can_enter_round pm r = (pm_current_round pm < r)"

definition pm_enter_new_round ::
    "('i \<Rightarrow> usize \<Rightarrow> duration) \<Rightarrow> ('i, 'f) pacemaker \<Rightarrow> u64 \<Rightarrow>
     new_round_event res \<times> ('i, 'f) pacemaker" where
  "pm_enter_new_round ris pm r =
     (if \<not> pm_can_enter_round pm r
      then (Inl (Msg (''Cannot enter round '' @ show_u64 r @ '': current round is '' @
                      show_u64 (pm_current_round pm))), pm)
      else let rounds_since_ordered = saturating_sub r (pm_highest_ordered_round pm + 1);
               reason = (if rounds_since_ordered = 0 then NR_QuorumCertificate
                         else NR_Timeout rounds_since_ordered);
               timeout_duration = ris (pm_interval_strategy pm) rounds_since_ordered
           in (Inr (nre_new r reason timeout_duration), pm\<lparr>pm_current_round := r\<rparr>))"

definition pm_record_ordered_round ::
    "('i, 'f) pacemaker \<Rightarrow> u64 \<Rightarrow> unit res \<times> ('i, 'f) pacemaker" where
  "pm_record_ordered_round pm r =
     (if r \<le> pm_highest_ordered_round pm
      then (Inl (Msg (''Round '' @ show_u64 r @ '' is not greater than highest ordered round '' @
                      show_u64 (pm_highest_ordered_round pm))), pm)
      else (Inr (), pm\<lparr>pm_highest_ordered_round := r\<rparr>))"

definition pm_current_round_timeout :: "('i \<Rightarrow> usize \<Rightarrow> duration) \<Rightarrow> ('i, 'f) pacemaker \<Rightarrow> duration" where
  "pm_current_round_timeout ris pm =
     (let rounds_since_ordered =
            saturating_sub (pm_current_round pm) (pm_highest_ordered_round pm + 1)
      in ris (pm_interval_strategy pm) rounds_since_ordered)"

definition pm_check_timeout :: "('i, 'f) pacemaker \<Rightarrow> duration \<Rightarrow> bool" where
  "pm_check_timeout pm elapsed = False"

definition pm_reset :: "('i, 'f) pacemaker \<Rightarrow> u64 \<Rightarrow> ('i, 'f) pacemaker" where
  "pm_reset pm r = pm\<lparr>pm_current_round := r, pm_highest_ordered_round := saturating_sub r 1\<rparr>"

text \<open>The builder.\<close>

record 'f pacemaker_builder =
  pmb_config :: "'f pacemaker_config"

definition pmb_new :: "'f f64_ops \<Rightarrow> 'f pacemaker_builder" where
  "pmb_new F = \<lparr>pmb_config = pmc_default F\<rparr>"

definition pmb_base_duration_ms :: "'f pacemaker_builder \<Rightarrow> u64 \<Rightarrow> 'f pacemaker_builder" where
  "pmb_base_duration_ms b d = b\<lparr>pmb_config := (pmb_config b)\<lparr>pmc_base_duration_ms := d\<rparr>\<rparr>"

definition pmb_exponent_base :: "'f pacemaker_builder \<Rightarrow> 'f \<Rightarrow> 'f pacemaker_builder" where
  "pmb_exponent_base b x = b\<lparr>pmb_config := (pmb_config b)\<lparr>pmc_exponent_base := x\<rparr>\<rparr>"

definition pmb_max_exponent :: "'f pacemaker_builder \<Rightarrow> usize \<Rightarrow> 'f pacemaker_builder" where
  "pmb_max_exponent b m = b\<lparr>pmb_config := (pmb_config b)\<lparr>pmc_max_exponent := m\<rparr>\<rparr>"

definition pmb_initial_round :: "'f pacemaker_builder \<Rightarrow> u64 \<Rightarrow> 'f pacemaker_builder" where
  "pmb_initial_round b r = b\<lparr>pmb_config := (pmb_config b)\<lparr>pmc_initial_round := r\<rparr>\<rparr>"

definition pmb_build_exponential ::
    "'f f64_ops \<Rightarrow> 'f pacemaker_builder \<Rightarrow> ('f exponential_strategy, 'f) pacemaker res" where
  "pmb_build_exponential F b =
     (case eis_new F (pmc_base_duration (pmb_config b)) (pmc_exponent_base (pmb_config b))
             (pmc_max_exponent (pmb_config b)) of
        Inl e \<Rightarrow> Inl e
      | Inr strategy \<Rightarrow> Inr (pm_new strategy (pmb_config b)))"

section \<open>The backoff stops growing\<close>

text \<open>
  What the pacemaker relies on in a strategy: from an index \<open>cap\<close> on, and up to the width of
  the cast to \<open>u32\<close>, the duration no longer depends on the index.
\<close>

locale capped_strategy =
  fixes ris :: "'i \<Rightarrow> usize \<Rightarrow> duration" and cap :: "'i \<Rightarrow> usize"
  assumes capped: "cap s \<le> i \<Longrightarrow> unat i < 2 ^ 32 \<Longrightarrow> ris s i = ris s (cap s)"
begin

text \<open>
  A pacemaker that is stuck for at least \<open>cap\<close> rounds after the last ordered round uses the
  same timeout in every following round.
\<close>

lemma stalled_timeout:
  assumes "pm_highest_ordered_round pm \<noteq> u64_MAX"
    and "unat (pm_highest_ordered_round pm) + 1 + unat (cap (pm_interval_strategy pm))
           \<le> unat (pm_current_round pm)"
    and "unat (pm_current_round pm) \<le> unat (pm_highest_ordered_round pm) + 2 ^ 32"
  shows "pm_current_round_timeout ris pm =
           ris (pm_interval_strategy pm) (cap (pm_interval_strategy pm))"
proof -
  let ?i = "saturating_sub (pm_current_round pm) (pm_highest_ordered_round pm + 1)"
  have i: "unat ?i = unat (pm_current_round pm) - (unat (pm_highest_ordered_round pm) + 1)"
    by (simp add: unat_saturating_sub unat_plus_one [OF assms(1)])
  have "cap (pm_interval_strategy pm) \<le> ?i" using assms(2) by (simp add: word_le_nat_alt i)
  moreover have "unat ?i < 2 ^ 32" using assms(3) i by simp
  ultimately show ?thesis by (simp add: pm_current_round_timeout_def capped Let_def)
qed

end

lemma unat_as_u32: "unat (as_u32 i) = unat i mod 2 ^ 32"
  by (simp add: as_u32_def unsigned_ucast_eq take_bit_eq_mod)

lemma unat_ucast_u32: "unat (ucast (x :: u32) :: u64) = unat x"
proof -
  have "unat x < 2 ^ 64" using unsigned_less [of x, where ?'a = nat] by simp
  then show ?thesis by (simp add: unsigned_ucast_eq take_bit_nat_eq_self)
qed

lemma as_u32_ucast: "as_u32 (ucast (x :: u32)) = x"
proof -
  have "unat x < 2 ^ 32" using unsigned_less [of x, where ?'a = nat] by simp
  then have "unat (as_u32 (ucast x)) = unat x" by (simp add: unat_as_u32 unat_ucast_u32)
  then show ?thesis by (simp add: word_unat_eq_iff)
qed

lemma as_u32_le_iff: "unat i < 2 ^ 32 \<Longrightarrow> x \<le> as_u32 i \<longleftrightarrow> ucast x \<le> i"
proof -
  assume "unat i < 2 ^ 32"
  then have i: "unat (as_u32 i) = unat i" by (simp add: unat_as_u32)
  then show ?thesis by (simp add: word_le_nat_alt unat_ucast_u32)
qed

interpretation ebo: capped_strategy "eis_get_round_duration F"
  "\<lambda>s. ucast (as_u32 (eis_max_exponent s))" for F
  by unfold_locales
    (simp add: eis_get_round_duration_def Let_def as_u32_le_iff [symmetric] min_def as_u32_ucast)

section \<open>Runs of a pacemaker\<close>

datatype pm_event = PmEnter u64 | PmOrdered u64 | PmReset u64

text \<open>The run logs the rounds of the events that \<open>enter_new_round\<close> returned, and the resets.\<close>

datatype pm_log = Announced u64 | ResetTo u64

fun pm_run ::
    "('i \<Rightarrow> usize \<Rightarrow> duration) \<Rightarrow> ('i, 'f) pacemaker \<Rightarrow> pm_event list \<Rightarrow>
     pm_log list \<times> ('i, 'f) pacemaker" where
  "pm_run ris pm [] = ([], pm)"
| "pm_run ris pm (PmEnter r # evs) =
     (case pm_enter_new_round ris pm r of
        (Inl e, pm') \<Rightarrow> pm_run ris pm' evs
      | (Inr ev, pm') \<Rightarrow>
          (case pm_run ris pm' evs of (entries, pm'') \<Rightarrow> (Announced (nre_round ev) # entries, pm'')))"
| "pm_run ris pm (PmOrdered r # evs) = pm_run ris (snd (pm_record_ordered_round pm r)) evs"
| "pm_run ris pm (PmReset r # evs) =
     (case pm_run ris (pm_reset pm r) evs of (entries, pm') \<Rightarrow> (ResetTo r # entries, pm'))"

text \<open>The rounds since the last reset: the round that the pacemaker was reset to, or else started
  from, and the rounds announced after that.\<close>

fun since_step :: "u64 list \<Rightarrow> pm_log \<Rightarrow> u64 list" where
  "since_step rs (Announced r) = rs @ [r]"
| "since_step rs (ResetTo r) = [r]"

definition since_reset :: "u64 \<Rightarrow> pm_log list \<Rightarrow> u64 list" where
  "since_reset start entries = foldl since_step [start] entries"

lemma enter_ok_iff:
  "is_ok (fst (pm_enter_new_round ris pm r)) \<longleftrightarrow> pm_current_round pm < r"
  by (simp add: pm_enter_new_round_def pm_can_enter_round_def Let_def)

lemma enter_cases:
  obtains (refused) m where "r \<le> pm_current_round pm"
      "pm_enter_new_round ris pm r = (Inl (Msg m), pm)"
  | (entered) ev where "pm_current_round pm < r" "nre_round ev = r"
      "pm_enter_new_round ris pm r = (Inr ev, pm\<lparr>pm_current_round := r\<rparr>)"
proof (cases "pm_current_round pm < r")
  case True
  then show ?thesis
    by (intro entered [of "the (case fst (pm_enter_new_round ris pm r) of Inr ev \<Rightarrow> Some ev | _ \<Rightarrow> None)"])
      (simp_all add: pm_enter_new_round_def pm_can_enter_round_def Let_def nre_new_def)
next
  case False
  then show ?thesis
    by (intro refused) (simp_all add: pm_enter_new_round_def pm_can_enter_round_def)
qed

lemma record_ordered_current [simp]:
  "pm_current_round (snd (pm_record_ordered_round pm r)) = pm_current_round pm"
  by (simp add: pm_record_ordered_round_def)

lemma record_ordered_highest [simp]:
  "pm_highest_ordered_round (snd (pm_record_ordered_round pm r)) =
     max (pm_highest_ordered_round pm) r"
  by (auto simp: pm_record_ordered_round_def max_def)

lemma pm_run_increasing:
  assumes "sorted_wrt (<) rs" and "rs \<noteq> []" and "last rs = pm_current_round pm"
  shows "sorted_wrt (<) (foldl since_step rs (fst (pm_run ris pm evs))) \<and>
         last (foldl since_step rs (fst (pm_run ris pm evs))) = pm_current_round (snd (pm_run ris pm evs))"
  using assms
proof (induction evs arbitrary: rs pm)
  case (Cons ev evs)
  show ?case
  proof (cases ev)
    case (PmEnter r)
    show ?thesis
    proof (rule enter_cases [of r pm ris])
      fix m assume "pm_enter_new_round ris pm r = (Inl (Msg m), pm)"
      with Cons PmEnter show ?thesis by simp
    next
      fix e assume e: "pm_current_round pm < r" "nre_round e = r"
        "pm_enter_new_round ris pm r = (Inr e, pm\<lparr>pm_current_round := r\<rparr>)"
      have "x \<le> last rs" if "x \<in> set rs" for x
        using that Cons.prems(1) by (induction rs) (auto intro: order_trans less_imp_le)
      then have "sorted_wrt (<) (rs @ [r])"
        using Cons.prems e(1) by (force simp: sorted_wrt_append)
      with Cons.IH [of "rs @ [r]" "pm\<lparr>pm_current_round := r\<rparr>"] PmEnter e show ?thesis
        by (simp add: case_prod_beta)
    qed
  next
    case (PmOrdered r)
    with Cons.IH [of rs "snd (pm_record_ordered_round pm r)"] Cons.prems show ?thesis by simp
  next
    case (PmReset r)
    with Cons.IH [of "[r]" "pm_reset pm r"] show ?thesis by (simp add: case_prod_beta pm_reset_def)
  qed
qed simp

section \<open>Properties\<close>

text \<open>C33: whatever sequence of rounds the pacemaker is asked to enter, interleaved with any
  reports of ordered rounds and any resets, the rounds it announces between two resets are
  strictly increasing and above the round it was reset to, or started from, and its current
  round is the last of these. A reset may go back, so nothing holds across one.\<close>

theorem pacemaker_rounds_increase:
  "sorted_wrt (<) (since_reset (pm_current_round pm) (fst (pm_run ris pm evs))) \<and>
   pm_current_round (snd (pm_run ris pm evs)) =
     last (since_reset (pm_current_round pm) (fst (pm_run ris pm evs)))"
  using pm_run_increasing [of "[pm_current_round pm]" pm ris evs] by (simp add: since_reset_def)

text \<open>The event that announces a new round says it follows a quorum certificate exactly when
  the round is at most one above the highest ordered round; otherwise it carries the number
  of rounds skipped, and its duration is the strategy's for that number.\<close>

theorem enter_new_round_event:
  assumes "pm_highest_ordered_round pm \<noteq> u64_MAX" and "pm_current_round pm < r"
  shows "\<exists>ev. pm_enter_new_round ris pm r = (Inr ev, pm\<lparr>pm_current_round := r\<rparr>) \<and>
           nre_round ev = r \<and>
           (nre_reason ev = NR_QuorumCertificate \<longleftrightarrow>
              unat r \<le> unat (pm_highest_ordered_round pm) + 1) \<and>
           (\<forall>n. nre_reason ev = NR_Timeout n \<longrightarrow>
              unat n = unat r - unat (pm_highest_ordered_round pm) - 1) \<and>
           nre_timeout_duration ev = ris (pm_interval_strategy pm)
              (saturating_sub r (pm_highest_ordered_round pm + 1))"
proof -
  let ?d = "saturating_sub r (pm_highest_ordered_round pm + 1)"
  have "unat ?d = unat r - (unat (pm_highest_ordered_round pm) + 1)"
    by (simp add: unat_saturating_sub unat_plus_one [OF assms(1)])
  moreover from this have "?d = 0 \<longleftrightarrow> unat r \<le> unat (pm_highest_ordered_round pm) + 1"
    by (metis diff_is_0_eq unat_eq_zero)
  ultimately show ?thesis
    using assms(2)
    by (auto simp: pm_enter_new_round_def pm_can_enter_round_def nre_new_def Let_def)
qed

theorem enter_new_round_event_witness:
  "\<exists>ev. fst (pm_enter_new_round (\<lambda>_ i. unat i) (pm_new () (pmc_new 1000 (2 :: rat) 8 1)) 5) = Inr ev \<and>
     nre_reason ev \<noteq> NR_QuorumCertificate \<and> nre_timeout_duration ev = 4"
proof -
  let ?pm = "pm_new () (pmc_new 1000 (2 :: rat) 8 1)"
  have "pm_highest_ordered_round ?pm = 0" "pm_current_round ?pm = 1"
    by (simp_all add: pm_new_def pmc_new_def saturating_sub_def)
  with enter_new_round_event [of ?pm 5 "\<lambda>_ i. unat i"] show ?thesis
    by (auto simp: saturating_sub_def)
qed

text \<open>C35: with the exponential strategy, once the pacemaker has been without an ordered round for
  \<open>max_exponent\<close> rounds, and for fewer than \<open>2 ^ 32\<close>, the timeout of the current round is
  the one at the capped exponent.\<close>

theorem exponential_backoff_capped:
  assumes "eis_max_exponent (pm_interval_strategy pm) < 32"
    and "pm_highest_ordered_round pm \<noteq> u64_MAX"
    and "unat (pm_highest_ordered_round pm) + 1 + unat (eis_max_exponent (pm_interval_strategy pm))
           \<le> unat (pm_current_round pm)"
    and "unat (pm_current_round pm) \<le> unat (pm_highest_ordered_round pm) + 2 ^ 32"
  shows "pm_current_round_timeout (eis_get_round_duration F) pm =
           eis_get_round_duration F (pm_interval_strategy pm)
             (eis_max_exponent (pm_interval_strategy pm))"
proof -
  have "unat (eis_max_exponent (pm_interval_strategy pm)) < 32"
    using assms(1) by (simp add: word_less_nat_alt)
  then have "ucast (as_u32 (eis_max_exponent (pm_interval_strategy pm))) =
             eis_max_exponent (pm_interval_strategy pm)"
    by (simp add: word_unat_eq_iff unat_ucast_u32 unat_as_u32)
  with ebo.stalled_timeout [of pm F] assms(2-4) show ?thesis by simp
qed

theorem exponential_backoff_capped_witness:
  "pm_current_round_timeout (eis_get_round_duration rat_f64)
     (snd (pm_enter_new_round (eis_get_round_duration rat_f64)
        (pm_new \<lparr>eis_base_ms = 100, eis_exponent_base = 2, eis_max_exponent = 3\<rparr>
           (pmc_new 100 2 3 1)) 100)) = 800000000"
proof -
  let ?s = "\<lparr>eis_base_ms = 100, eis_exponent_base = 2, eis_max_exponent = 3\<rparr> :: rat exponential_strategy"
  let ?pm = "snd (pm_enter_new_round (eis_get_round_duration rat_f64) (pm_new ?s (pmc_new 100 2 3 1)) 100)"
  have pm: "pm_highest_ordered_round ?pm = 0" "pm_current_round ?pm = 100"
    "pm_interval_strategy ?pm = ?s"
    by (simp_all add: pm_enter_new_round_def pm_can_enter_round_def pm_new_def pmc_new_def
        saturating_sub_def Let_def)
  have "pm_current_round_timeout (eis_get_round_duration rat_f64) ?pm =
        eis_get_round_duration rat_f64 ?s 3"
    using exponential_backoff_capped [of ?pm rat_f64] by (simp add: pm)
  also have "\<dots> = 800000000"
    by (simp add: eis_get_round_duration_def rat_f64_def as_u32_def from_millis_def)
  finally show ?thesis .
qed

text \<open>C0: the cast of the index to \<open>u32\<close> comes before the cap, so a pacemaker that is \<open>2 ^ 32\<close>
  rounds behind uses the shortest timeout again.\<close>

theorem backoff_wraps:
  "eis_get_round_duration F s (2 ^ 32) = eis_get_round_duration F s 0"
proof -
  have "as_u32 (2 ^ 32) = as_u32 0" by (simp add: as_u32_def)
  then show ?thesis by (simp only: eis_get_round_duration_def)
qed

end
