(* ===== verification/Proposer.thy ===== *)
theory Proposer
  imports Traits
begin

text \<open>
  Models \<open>liveness/proposer.rs\<close>: round-robin and weighted proposer election, the reputation
  tracker, and the wrapper that combines them.
\<close>

section \<open>Round robin\<close>

record proposer_election_config =
  pec_num_validators :: usize
  pec_initial_round :: u64

definition pec_default :: proposer_election_config where
  "pec_default = \<lparr>pec_num_validators = 4, pec_initial_round = 1\<rparr>"

record 'a round_robin_proposer =
  rr_validators :: "'a list"
  rr_config :: proposer_election_config

definition rr_new :: "'a list \<Rightarrow> proposer_election_config \<Rightarrow> 'a round_robin_proposer" where
  "rr_new validators config = \<lparr>rr_validators = validators, rr_config = config\<rparr>"

definition rr_num_validators :: "'a round_robin_proposer \<Rightarrow> usize" where
  "rr_num_validators p = usize_of_nat (length (rr_validators p))"

definition rr_get_validator :: "'a round_robin_proposer \<Rightarrow> usize \<Rightarrow> 'a option" where
  "rr_get_validator p index = vec_get (rr_validators p) index"

definition rr_get_valid_proposer :: "'a round_robin_proposer \<Rightarrow> u64 \<Rightarrow> 'a option res" where
  "rr_get_valid_proposer p r =
     (if rr_validators p = [] then Inr None
      else if r < pec_initial_round (rr_config p) then Inr None
      else let round_index = r - pec_initial_round (rr_config p);
               proposer_index = round_index mod usize_of_nat (length (rr_validators p))
           in Inr (vec_get (rr_validators p) proposer_index))"

text \<open>The round-robin election as an implementation of the trait, with its default ratio.\<close>

definition rr_election :: "'f f64_ops \<Rightarrow> 'a round_robin_proposer \<Rightarrow> ('a, 'f) proposer_election" where
  "rr_election F p =
     \<lparr>pe_get_valid_proposer = rr_get_valid_proposer p,
      pe_participation_ratio = (\<lambda>_. fl_lit F 1)\<rparr>"

section \<open>Weighted election\<close>

record 'a weighted_proposer =
  wp_validators :: "('a \<times> u64) list"
  wp_total_voting_power :: u128
  wp_config :: proposer_election_config

definition wp_new :: "('a \<times> u64) list \<Rightarrow> proposer_election_config \<Rightarrow> 'a weighted_proposer" where
  "wp_new validators config =
     \<lparr>wp_validators = validators,
      wp_total_voting_power = sum_u128 (map (\<lambda>(_, power). as_u128 power) validators),
      wp_config = config\<rparr>"

text \<open>The loop of \<open>select_weighted_proposer\<close>; \<open>None\<close> when it runs to its end.\<close>

fun wp_pick :: "u128 \<Rightarrow> u128 \<Rightarrow> ('a \<times> u64) list \<Rightarrow> 'a option" where
  "wp_pick target cumulative [] = None"
| "wp_pick target cumulative ((validator, weight) # rest) =
     (let cumulative' = cumulative + as_u128 weight
      in if target < cumulative' then Some validator else wp_pick target cumulative' rest)"

definition select_weighted_proposer :: "'a weighted_proposer \<Rightarrow> u64 \<Rightarrow> 'a option res" where
  "select_weighted_proposer p r =
     (if wp_validators p = [] then Inr None
      else if wp_total_voting_power p = 0
      then Inl (Panic ''attempt to calculate the remainder with a divisor of zero'')
      else let target = as_u128 r mod wp_total_voting_power p
           in case wp_pick target 0 (wp_validators p) of
                Some validator \<Rightarrow> Inr (Some validator)
              | None \<Rightarrow> Inr (Some (fst (last (wp_validators p)))))"

definition wp_get_valid_proposer :: "'a weighted_proposer \<Rightarrow> u64 \<Rightarrow> 'a option res" where
  "wp_get_valid_proposer p r =
     (if r < pec_initial_round (wp_config p) then Inr None else select_weighted_proposer p r)"

definition wp_election :: "'f f64_ops \<Rightarrow> 'a weighted_proposer \<Rightarrow> ('a, 'f) proposer_election" where
  "wp_election F p =
     \<lparr>pe_get_valid_proposer = wp_get_valid_proposer p,
      pe_participation_ratio = (\<lambda>_. fl_lit F 1)\<rparr>"

section \<open>Reputation\<close>

record ('a, 'f) reputation_tracker =
  rt_reputations :: "('a, 'f) hashmap"
  rt_default_reputation :: 'f

definition rt_new :: "'a list \<Rightarrow> 'f \<Rightarrow> ('a, 'f) reputation_tracker" where
  "rt_new validators default_reputation =
     \<lparr>rt_reputations = hm_collect (map (\<lambda>v. (v, default_reputation)) validators),
      rt_default_reputation = default_reputation\<rparr>"

definition rt_update_reputation ::
    "'f f64_ops \<Rightarrow> ('a, 'f) reputation_tracker \<Rightarrow> 'a \<Rightarrow> 'f \<Rightarrow> ('a, 'f) reputation_tracker" where
  "rt_update_reputation F t author delta =
     (let entry = (case hm_get (rt_reputations t) author of
                     Some x \<Rightarrow> x | None \<Rightarrow> rt_default_reputation t)
      in t\<lparr>rt_reputations :=
             hm_insert author (fl_clamp F (fl_add F entry delta) (fl_lit F 0) (fl_lit F 1))
               (rt_reputations t)\<rparr>)"

definition rt_record_success ::
    "'f f64_ops \<Rightarrow> ('a, 'f) reputation_tracker \<Rightarrow> 'a \<Rightarrow> ('a, 'f) reputation_tracker" where
  "rt_record_success F t author = rt_update_reputation F t author (fl_lit F (1 / 100))"

definition rt_record_failure ::
    "'f f64_ops \<Rightarrow> ('a, 'f) reputation_tracker \<Rightarrow> 'a \<Rightarrow> ('a, 'f) reputation_tracker" where
  "rt_record_failure F t author = rt_update_reputation F t author (fl_lit F (- (1 / 10)))"

definition rt_get_reputation :: "('a, 'f) reputation_tracker \<Rightarrow> 'a \<Rightarrow> 'f" where
  "rt_get_reputation t author =
     (case hm_get (rt_reputations t) author of Some x \<Rightarrow> x | None \<Rightarrow> rt_default_reputation t)"

definition rt_reset :: "('a, 'f) reputation_tracker \<Rightarrow> ('a, 'f) reputation_tracker" where
  "rt_reset t =
     t\<lparr>rt_reputations := map (\<lambda>(a, _). (a, rt_default_reputation t)) (rt_reputations t)\<rparr>"

definition rt_tracker :: "'f f64_ops \<Rightarrow> (('a, 'f) reputation_tracker, 'a, 'f) reputation_ops" where
  "rt_tracker F =
     \<lparr>rpo_record_success = rt_record_success F, rpo_record_failure = rt_record_failure F,
      rpo_get_reputation = rt_get_reputation, rpo_reset = rt_reset\<rparr>"

section \<open>The combination\<close>

record ('a, 'f) proposer_election_impl =
  pei_base_election :: "('a, 'f) proposer_election"
  pei_reputation :: "('a, 'f) reputation_tracker option"

definition pei_new ::
    "('a, 'f) proposer_election \<Rightarrow> ('a, 'f) reputation_tracker option \<Rightarrow>
     ('a, 'f) proposer_election_impl" where
  "pei_new base reputation = \<lparr>pei_base_election = base, pei_reputation = reputation\<rparr>"

definition pei_without_reputation ::
    "('a, 'f) proposer_election \<Rightarrow> ('a, 'f) proposer_election_impl" where
  "pei_without_reputation base = \<lparr>pei_base_election = base, pei_reputation = None\<rparr>"

definition pei_election :: "('a, 'f) proposer_election_impl \<Rightarrow> ('a, 'f) proposer_election" where
  "pei_election p =
     \<lparr>pe_get_valid_proposer = (\<lambda>r. pe_get_valid_proposer (pei_base_election p) r),
      pe_participation_ratio = (\<lambda>r. pe_participation_ratio (pei_base_election p) r)\<rparr>"

section \<open>Elections that go around a list of slots\<close>

text \<open>
  Both elections assign the rounds to a list of slots in turn: the validators themselves for
  round robin, each validator as often as its voting power for the weighted election.
\<close>

locale cyclic_election =
  fixes elect :: "'c \<Rightarrow> u64 \<Rightarrow> 'a option res"
    and wf :: "'c \<Rightarrow> bool" and start :: "'c \<Rightarrow> u64" and slots :: "'c \<Rightarrow> 'a list"
    and offset :: "'c \<Rightarrow> nat"
  assumes before_start: "wf c \<Longrightarrow> r < start c \<Longrightarrow> elect c r = Inr None"
    and elected: "wf c \<Longrightarrow> start c \<le> r \<Longrightarrow>
          elect c r = Inr (Some (slots c ! ((offset c + unat r) mod length (slots c))))"
    and slots_nonempty: "wf c \<Longrightarrow> slots c \<noteq> []"
begin

lemma elect_member:
  assumes "wf c" "start c \<le> r"
  shows "\<exists>a \<in> set (slots c). elect c r = Inr (Some a)"
  using elected [OF assms] slots_nonempty [OF assms(1)] by auto

text \<open>Over as many consecutive rounds as there are slots, every slot gets one round.\<close>

lemma fair_turn:
  assumes "wf c" "start c \<le> r" "unat r + length (slots c) \<le> 2 ^ 64"
  shows "mset (map (\<lambda>i. elect c (r + of_nat i)) [0..<length (slots c)]) =
         mset (map (\<lambda>a. Inr (Some a)) (slots c))"
proof -
  let ?n = "length (slots c)"
  have "elect c (r + of_nat i) = Inr (Some (slots c ! ((offset c + unat r + i) mod ?n)))"
    if "i < ?n" for i
  proof -
    have u: "unat (r + of_nat i) = unat r + i"
      using assms(3) that by (simp add: unat_word_ariths unsigned_of_nat take_bit_nat_eq_self)
    then have "start c \<le> r + of_nat i" using assms(2) by (simp add: word_le_nat_alt)
    from elected [OF assms(1) this] u show ?thesis by (simp add: add.assoc)
  qed
  then have "map (\<lambda>i. elect c (r + of_nat i)) [0..<?n] =
             map (\<lambda>a. Inr (Some a)) (map (\<lambda>i. slots c ! ((offset c + unat r + i) mod ?n)) [0..<?n])"
    by simp
  then have "mset (map (\<lambda>i. elect c (r + of_nat i)) [0..<?n]) =
             image_mset (\<lambda>a. Inr (Some a))
               (mset (map (\<lambda>i. slots c ! ((offset c + unat r + i) mod ?n)) [0..<?n]))"
    by (metis mset_map)
  also have "\<dots> = image_mset (\<lambda>a. Inr (Some a)) (mset (slots c))"
    by (subst mset_turn) (rule refl)
  finally show ?thesis by (simp only: mset_map)
qed

end

subsection \<open>Round robin\<close>

definition rr_wf :: "'a round_robin_proposer \<Rightarrow> bool" where
  "rr_wf p \<longleftrightarrow> rr_validators p \<noteq> [] \<and> length (rr_validators p) < 2 ^ 64"

text \<open>The offset that makes the initial round the start of a turn.\<close>

definition rr_offset :: "'a round_robin_proposer \<Rightarrow> nat" where
  "rr_offset p = (let n = length (rr_validators p)
                  in n * unat (pec_initial_round (rr_config p)) - unat (pec_initial_round (rr_config p)))"

lemma mod_offset:
  fixes n s r :: nat
  assumes "0 < n" "s \<le> r"
  shows "(n * s - s + r) mod n = (r - s) mod n"
proof -
  have "s \<le> n * s" using assms(1) by simp
  then have "n * s - s + r = n * s + (r - s)" using assms(2) by linarith
  then show ?thesis by simp
qed

interpretation rrp: cyclic_election rr_get_valid_proposer rr_wf
  "\<lambda>p. pec_initial_round (rr_config p)" rr_validators rr_offset
proof unfold_locales
  fix c :: "'a round_robin_proposer" and r :: u64
  assume wf: "rr_wf c"
  then show "rr_validators c \<noteq> []" by (simp add: rr_wf_def)
  show "rr_get_valid_proposer c r = Inr None" if "r < pec_initial_round (rr_config c)"
    using that by (simp add: rr_get_valid_proposer_def)
  show "rr_get_valid_proposer c r =
      Inr (Some (rr_validators c ! ((rr_offset c + unat r) mod length (rr_validators c))))"
    if "pec_initial_round (rr_config c) \<le> r"
    using that wf vec_get_mod [of "rr_validators c" "r - pec_initial_round (rr_config c)"]
    by (simp add: rr_get_valid_proposer_def rr_wf_def rr_offset_def mod_offset unat_sub
        word_le_nat_alt word_less_nat_alt Let_def)
qed

subsection \<open>Weighted\<close>

definition wp_slots :: "'a weighted_proposer \<Rightarrow> 'a list" where
  "wp_slots p = concat (map (\<lambda>(v, w). replicate (unat w) v) (wp_validators p))"

definition wp_wf :: "'a weighted_proposer \<Rightarrow> bool" where
  "wp_wf p \<longleftrightarrow>
     unat (wp_total_voting_power p) = length (wp_slots p) \<and> wp_total_voting_power p \<noteq> 0"

lemma length_slots:
  "length (concat (map (\<lambda>(v, w). replicate (unat w) v) vs)) = (\<Sum>w\<leftarrow>map snd vs. unat w)"
  by (induction vs) auto

lemma wp_pick_slot:
  assumes "unat cum + (\<Sum>w\<leftarrow>map snd vs. unat w) < 2 ^ 128" and "unat cum \<le> unat target"
    and "unat target < unat cum + (\<Sum>w\<leftarrow>map snd vs. unat w)"
  shows "wp_pick target cum vs =
           Some (concat (map (\<lambda>(v, w). replicate (unat w) v) vs) ! (unat target - unat cum))"
  using assms
proof (induction vs arbitrary: cum)
  case (Cons vw vs)
  obtain v w where vw: "vw = (v, w)" by force
  have u: "unat (cum + as_u128 w) = unat cum + unat w"
    using Cons.prems(1) by (simp add: vw unat_word_ariths unat_as_u128)
  show ?case
  proof (cases "target < cum + as_u128 w")
    case True
    then have "unat target - unat cum < unat w"
      using Cons.prems(2) by (simp add: word_less_nat_alt u)
    with True show ?thesis by (simp add: vw nth_append)
  next
    case False
    then have ge: "unat cum + unat w \<le> unat target" by (simp add: word_less_nat_alt u)
    then have "wp_pick target (cum + as_u128 w) vs =
               Some (concat (map (\<lambda>(v, w). replicate (unat w) v) vs) ! (unat target - (unat cum + unat w)))"
      using Cons.IH [of "cum + as_u128 w"] Cons.prems by (simp add: vw u)
    moreover have "\<not> unat target - unat cum < unat w"
      "unat target - unat cum - unat w = unat target - (unat cum + unat w)" using ge by simp_all
    ultimately show ?thesis using False by (simp add: vw nth_append)
  qed
qed simp

lemma wp_wf_new:
  assumes "length vs \<le> 2 ^ 64" and "\<exists>(v, w) \<in> set vs. w \<noteq> 0"
  shows "wp_wf (wp_new vs config)"
proof -
  let ?t = "\<Sum>w\<leftarrow>map snd vs. unat w"
  have "?t \<le> 2 ^ 64 * (2 ^ 64 - 1)"
    using sum_u64_bound [of "map snd vs"] assms(1) by (simp add: order_trans)
  then have "(\<Sum>x\<leftarrow>map (\<lambda>(_, p). as_u128 p) vs. unat x) < 2 ^ 128"
    by (simp add: comp_def case_prod_beta unat_as_u128)
  from unat_sum_u128 [OF this] have t: "unat (wp_total_voting_power (wp_new vs config)) = ?t"
    by (simp add: wp_new_def comp_def case_prod_beta unat_as_u128)
  obtain v w where "(v, w) \<in> set vs" "w \<noteq> 0" using assms(2) by blast
  then have "unat w \<in> set (map unat (map snd vs))" "unat w \<noteq> 0"
    by (force, simp add: word_unat_eq_iff)
  then have "?t \<noteq> 0" by (metis sum_list_eq_0_iff)
  with t have "wp_total_voting_power (wp_new vs config) \<noteq> 0" by (metis unat_0)
  with t show ?thesis by (simp add: wp_wf_def wp_slots_def length_slots) (simp add: wp_new_def)
qed

interpretation wpp: cyclic_election wp_get_valid_proposer wp_wf
  "\<lambda>p. pec_initial_round (wp_config p)" wp_slots "\<lambda>_. 0"
proof unfold_locales
  fix c :: "'a weighted_proposer" and r :: u64
  assume wf: "wp_wf c"
  then have total: "unat (wp_total_voting_power c) = length (wp_slots c)"
    and pos: "0 < length (wp_slots c)" by (auto simp: wp_wf_def unat_eq_zero)
  then show "wp_slots c \<noteq> []" by simp
  show "wp_get_valid_proposer c r = Inr None" if "r < pec_initial_round (wp_config c)"
    using that by (simp add: wp_get_valid_proposer_def)
  let ?t = "as_u128 r mod wp_total_voting_power c"
  have t: "unat ?t = unat r mod length (wp_slots c)"
    by (simp add: unat_mod_distrib total unat_as_u128)
  have len: "length (wp_slots c) = (\<Sum>w\<leftarrow>map snd (wp_validators c). unat w)"
    by (simp add: wp_slots_def length_slots)
  have "length (wp_slots c) < 2 ^ 128"
    using unsigned_less [of "wp_total_voting_power c", where ?'a = nat] total by simp
  with wp_pick_slot [of 0 "wp_validators c" ?t] pos
  have pick: "wp_pick ?t 0 (wp_validators c) = Some (wp_slots c ! (unat r mod length (wp_slots c)))"
    unfolding len [symmetric] wp_slots_def [symmetric] t by simp
  have "wp_validators c \<noteq> []" using pos by (auto simp: wp_slots_def)
  with wf pick show "wp_get_valid_proposer c r =
      Inr (Some (wp_slots c ! ((0 + unat r) mod length (wp_slots c))))"
    if "pec_initial_round (wp_config c) \<le> r"
    using that
    by (simp add: wp_get_valid_proposer_def select_weighted_proposer_def wp_wf_def Let_def)
qed

section \<open>Reputation scores\<close>

datatype 'a rt_event = RtSuccess 'a | RtFailure 'a | RtReset

fun rt_step :: "'f f64_ops \<Rightarrow> ('a, 'f) reputation_tracker \<Rightarrow> 'a rt_event \<Rightarrow> ('a, 'f) reputation_tracker" where
  "rt_step F t (RtSuccess a) = rt_record_success F t a"
| "rt_step F t (RtFailure a) = rt_record_failure F t a"
| "rt_step F t RtReset = rt_reset t"

text \<open>
  The contract of the trait: a proposal changes the score of its author alone, by a function of
  that score, and a reset gives every author the default. A tracker that keeps it is, for each
  author, an automaton that sees only the author's own events.
\<close>

fun rep_step :: "('t, 'a, 'f) reputation_ops \<Rightarrow> 't \<Rightarrow> 'a rt_event \<Rightarrow> 't" where
  "rep_step T t (RtSuccess a) = rpo_record_success T t a"
| "rep_step T t (RtFailure a) = rpo_record_failure T t a"
| "rep_step T t RtReset = rpo_reset T t"

fun rt_concerns :: "'a \<Rightarrow> 'a rt_event \<Rightarrow> bool" where
  "rt_concerns a (RtSuccess b) = (b = a)"
| "rt_concerns a (RtFailure b) = (b = a)"
| "rt_concerns a RtReset = True"

fun score_step :: "('f \<Rightarrow> 'f) \<Rightarrow> ('f \<Rightarrow> 'f) \<Rightarrow> 'f \<Rightarrow> 'f \<Rightarrow> 'a rt_event \<Rightarrow> 'f" where
  "score_step up down d x (RtSuccess _) = up x"
| "score_step up down d x (RtFailure _) = down x"
| "score_step up down d x RtReset = d"

locale reputation_laws =
  fixes T :: "('t, 'a, 'f) reputation_ops" and up down :: "'f \<Rightarrow> 'f" and dflt :: "'t \<Rightarrow> 'f"
  assumes get_success: "rpo_get_reputation T (rpo_record_success T t a) b =
        (if b = a then up (rpo_get_reputation T t b) else rpo_get_reputation T t b)"
    and get_failure: "rpo_get_reputation T (rpo_record_failure T t a) b =
        (if b = a then down (rpo_get_reputation T t b) else rpo_get_reputation T t b)"
    and get_reset: "rpo_get_reputation T (rpo_reset T t) b = dflt t"
    and dflt_step: "dflt (rep_step T t ev) = dflt t"
begin

lemma get_rep_step:
  "rpo_get_reputation T (rep_step T t ev) a =
     (if rt_concerns a ev then score_step up down (dflt t) (rpo_get_reputation T t a) ev
      else rpo_get_reputation T t a)"
  by (cases ev) (simp_all add: get_success get_failure get_reset)

lemma score_of_run:
  "rpo_get_reputation T (foldl (rep_step T) t evs) a =
     foldl (score_step up down (dflt t)) (rpo_get_reputation T t a) (filter (rt_concerns a) evs)"
  by (induction evs arbitrary: t) (simp_all add: get_rep_step dflt_step)

lemma others_do_not_matter:
  "filter (rt_concerns a) evs = filter (rt_concerns a) evs' \<Longrightarrow>
     rpo_get_reputation T (foldl (rep_step T) t evs) a = rpo_get_reputation T (foldl (rep_step T) t evs') a"
  by (simp add: score_of_run)

lemma reset_forgets:
  "rpo_get_reputation T (rpo_reset T (foldl (rep_step T) t evs)) a = dflt t"
proof -
  have "dflt (foldl (rep_step T) t evs) = dflt t"
    by (induction evs arbitrary: t) (simp_all add: dflt_step)
  then show ?thesis
    by (simp add: get_reset)
qed

end

abbreviation rt_move :: "'f f64_ops \<Rightarrow> rat \<Rightarrow> 'f \<Rightarrow> 'f" where
  "rt_move F d x \<equiv> fl_clamp F (fl_add F x (fl_lit F d)) (fl_lit F 0) (fl_lit F 1)"

lemma rt_get_update:
  "rt_get_reputation (rt_update_reputation F t a (fl_lit F d)) b =
     (if b = a then rt_move F d (rt_get_reputation t b) else rt_get_reputation t b)"
  by (simp add: rt_get_reputation_def rt_update_reputation_def Let_def split: option.split)

definition in_unit :: "'f f64_ops \<Rightarrow> 'f \<Rightarrow> bool" where
  "in_unit F x \<longleftrightarrow> \<not> fl_lt F x (fl_lit F 0) \<and> \<not> fl_lt F (fl_lit F 1) x"

definition rt_inv :: "'f f64_ops \<Rightarrow> ('a, 'f) reputation_tracker \<Rightarrow> bool" where
  "rt_inv F t \<longleftrightarrow> in_unit F (rt_default_reputation t) \<and>
     (\<forall>a x. hm_get (rt_reputations t) a = Some x \<longrightarrow> in_unit F x)"

lemma in_unit_clamp:
  assumes "\<not> fl_lt F (fl_lit F 0) (fl_lit F 0)" "\<not> fl_lt F (fl_lit F 1) (fl_lit F 1)"
    "\<not> fl_lt F (fl_lit F 1) (fl_lit F 0)"
  shows "in_unit F (fl_clamp F x (fl_lit F 0) (fl_lit F 1))"
  using assms by (simp add: in_unit_def fl_clamp_def)

lemma hm_get_reset:
  "hm_get (rt_reputations (rt_reset t)) a =
     map_option (\<lambda>_. rt_default_reputation t) (hm_get (rt_reputations t) a)"
  by (simp add: rt_reset_def hm_get_def map_of_map case_prod_beta' [symmetric])

lemma rt_step_tracker: "rt_step F = rep_step (rt_tracker F)"
proof (intro ext)
  show "rt_step F t ev = rep_step (rt_tracker F) t ev" for t ev
    by (cases ev) (simp_all add: rt_tracker_def)
qed

interpretation rtk: reputation_laws "rt_tracker F" "rt_move F (1 / 100)" "rt_move F (- (1 / 10))"
  rt_default_reputation for F
proof
  show "rt_default_reputation (rep_step (rt_tracker F) t ev) = rt_default_reputation t" for t ev
    by (cases ev) (simp_all add: rt_tracker_def rt_record_success_def rt_record_failure_def
      rt_update_reputation_def rt_reset_def Let_def)
qed (simp_all add: rt_tracker_def rt_record_success_def rt_record_failure_def rt_get_update,
  simp add: rt_get_reputation_def hm_get_reset, simp add: rt_reset_def split: option.split)

text \<open>
  The reputation of a validator is a function of its own proposals since the tracker was made,
  whatever the others did in between.
\<close>

lemma reputation_of_own_events:
  "rt_get_reputation (foldl (rt_step F) t evs) a =
     foldl (score_step (rt_move F (1 / 100)) (rt_move F (- (1 / 10))) (rt_default_reputation t))
       (rt_get_reputation t a) (filter (rt_concerns a) evs)"
  using rtk.score_of_run [of F t evs a] unfolding rt_step_tracker by (simp add: rt_tracker_def)

lemma rt_inv_step:
  assumes "\<not> fl_lt F (fl_lit F 0) (fl_lit F 0)" "\<not> fl_lt F (fl_lit F 1) (fl_lit F 1)"
    "\<not> fl_lt F (fl_lit F 1) (fl_lit F 0)" and "rt_inv F t"
  shows "rt_inv F (rt_step F t ev)"
proof (cases ev)
  case RtReset
  with assms(4) show ?thesis
    by (auto simp: rt_inv_def hm_get_reset) (simp add: rt_reset_def)
qed (use assms(4) in_unit_clamp [OF assms(1-3)] in
  \<open>auto simp: rt_inv_def rt_record_success_def rt_record_failure_def rt_update_reputation_def Let_def\<close>)

lemma rt_inv_new: "in_unit F d \<Longrightarrow> rt_inv F (rt_new vs d)"
  by (auto simp: rt_inv_def rt_new_def hm_get_collect dest!: map_of_SomeD)

section \<open>Properties\<close>

text \<open>C30: over \<open>n\<close> consecutive rounds, starting anywhere from the initial round on, the
  round-robin election gives each of the \<open>n\<close> validators exactly one round.\<close>

theorem round_robin_fair:
  fixes vs :: "'a list"
  assumes "vs \<noteq> []" and "pec_initial_round config \<le> r" and "unat r + length vs < 2 ^ 64"
  shows "mset (map (\<lambda>i. rr_get_valid_proposer (rr_new vs config) (r + of_nat i)) [0..<length vs]) =
         mset (map (\<lambda>v. Inr (Some v)) vs)"
  using rrp.fair_turn [of "rr_new vs config" r] assms
  by (simp add: rr_wf_def rr_new_def)

theorem round_robin_fair_witness:
  "mset (map (\<lambda>i. rr_get_valid_proposer (rr_new [10, 20, 30 :: nat] pec_default) (7 + of_nat i)) [0..<3]) =
   mset [Inr (Some 10), Inr (Some 20), Inr (Some 30)]"
  using round_robin_fair [of "[10, 20, 30 :: nat]" pec_default 7]
  by (simp add: pec_default_def upt_rec)

text \<open>C31: over as many consecutive rounds as the total voting power, the weighted election gives
  every validator exactly as many rounds as it has voting power.\<close>

theorem weighted_election_proportional:
  fixes vs :: "('a \<times> u64) list"
  assumes "length vs \<le> 2 ^ 64" and "\<exists>(v, w) \<in> set vs. w \<noteq> 0"
    and "pec_initial_round config \<le> r" and "unat r + (\<Sum>(v, w)\<leftarrow>vs. unat w) \<le> 2 ^ 64"
  shows "mset (map (\<lambda>i. wp_get_valid_proposer (wp_new vs config) (r + of_nat i))
                 [0..<\<Sum>(v, w)\<leftarrow>vs. unat w]) =
         (\<Sum>(v, w)\<leftarrow>vs. replicate_mset (unat w) (Inr (Some v)))"
proof -
  let ?c = "wp_new vs config"
  have len: "length (wp_slots ?c) = (\<Sum>(v, w)\<leftarrow>vs. unat w)"
    by (simp add: wp_slots_def wp_new_def length_slots) (simp add: comp_def case_prod_beta')
  have "mset (map (\<lambda>a. Inr (Some a)) (concat (map (\<lambda>(v, w). replicate (unat w) v) us))) =
        (\<Sum>(v, w)\<leftarrow>us. replicate_mset (unat w) (Inr (Some v)))" for us :: "('a \<times> u64) list"
    by (induction us) auto
  then have "mset (map (\<lambda>a. Inr (Some a)) (wp_slots ?c)) =
        (\<Sum>(v, w)\<leftarrow>vs. replicate_mset (unat w) (Inr (Some v)))"
    by (simp add: wp_slots_def wp_new_def)
  with wpp.fair_turn [OF wp_wf_new [OF assms(1,2)], of config r] assms(3,4)
  show ?thesis by (simp add: len) (simp add: wp_new_def)
qed

theorem weighted_election_proportional_witness:
  "mset (map (\<lambda>i. wp_get_valid_proposer (wp_new [(CHR ''a'', 2), (CHR ''b'', 1)] pec_default)
                (5 + of_nat i)) [0..<3]) =
   replicate_mset 2 (Inr (Some CHR ''a'')) + {#Inr (Some CHR ''b'')#}"
  using weighted_election_proportional [of "[(CHR ''a'', 2), (CHR ''b'', 1)]" pec_default 5]
  by (simp add: pec_default_def upt_rec)

text \<open>A weighted election among validators that all have no voting power panics in every round
  from the initial one on: the remainder by the total power divides by zero.\<close>

theorem weighted_election_zero_power_panics:
  assumes "vs \<noteq> []" and "\<forall>(v, w) \<in> set vs. w = 0" and "pec_initial_round config \<le> r"
  shows "\<exists>m. wp_get_valid_proposer (wp_new vs config) r = Inl (Panic m)"
proof -
  have "sum_list (map (\<lambda>(_, p). as_u128 p) us) = 0" if "\<forall>(v, w) \<in> set us. w = 0"
    for us :: "('a \<times> u64) list"
    using that by (induction us) (auto simp: as_u128_def)
  then have "wp_total_voting_power (wp_new vs config) = 0"
    using assms(2) by (simp add: wp_new_def sum_u128_eq_sum_list)
  with assms(1,3) show ?thesis
    by (simp add: wp_get_valid_proposer_def select_weighted_proposer_def)
      (simp add: wp_new_def)
qed

theorem weighted_election_zero_power_panics_witness:
  "\<exists>m. wp_get_valid_proposer (wp_new [(CHR ''a'', 0), (CHR ''b'', 0)] pec_default) 1 = Inl (Panic m)"
  using weighted_election_zero_power_panics [of "[(CHR ''a'', 0), (CHR ''b'', 0)]" pec_default 1]
  by (simp add: pec_default_def)

text \<open>C32: reputation scores stay within 0 and 1 (no comparison finds them outside) through any
  sequence of successes, failures and resets, when the default score is within them; a NaN,
  which \<open>clamp\<close> leaves as it is, is not found outside either. The other hypotheses are the
  comparisons of the literals 0 and 1.\<close>

theorem reputation_in_range:
  assumes "\<not> fl_lt F (fl_lit F 0) (fl_lit F 0)" "\<not> fl_lt F (fl_lit F 1) (fl_lit F 1)"
    "\<not> fl_lt F (fl_lit F 1) (fl_lit F 0)" and "in_unit F d"
  shows "in_unit F (rt_get_reputation (foldl (rt_step F) (rt_new vs d) evs) a)"
proof -
  have "rt_inv F t \<Longrightarrow> rt_inv F (foldl (rt_step F) t evs)" for t
    by (induction evs arbitrary: t) (simp_all add: rt_inv_step [OF assms(1-3)])
  from this [OF rt_inv_new [OF assms(4)]] show ?thesis
    by (auto simp: rt_get_reputation_def rt_inv_def split: option.splits)
qed

theorem reputation_in_range_witness:
  "in_unit rat_f64 (rt_get_reputation
     (foldl (rt_step rat_f64) (rt_new [CHR ''a''] (1 / 20)) [RtFailure CHR ''a'', RtFailure CHR ''b'']) CHR ''a'')"
  using reputation_in_range [of rat_f64 "1 / 20" "[CHR ''a'']" "[RtFailure CHR ''a'', RtFailure CHR ''b'']" "CHR ''a''"]
  by (simp add: rat_f64_def in_unit_def)

end
