(* ===== verification/Epoch_Manager.thy ===== *)
theory Epoch_Manager
  imports Base_Types
begin

text \<open>Models \<open>epoch_manager/mod.rs\<close>: the current epoch and its transitions.\<close>

record epoch_manager_config =
  emc_initial_epoch :: epoch
  emc_auto_transition :: bool

definition emc_default :: epoch_manager_config where
  "emc_default = \<lparr>emc_initial_epoch = 0, emc_auto_transition = False\<rparr>"

record epoch_state =
  es_epoch :: epoch
  es_start_time :: u64

definition es_new :: "epoch \<Rightarrow> u64 \<Rightarrow> epoch_state" where
  "es_new e start_time = \<lparr>es_epoch = e, es_start_time = start_time\<rparr>"

record epoch_manager =
  em_epoch_state :: epoch_state
  em_config :: epoch_manager_config

definition em_new :: "epoch_manager_config \<Rightarrow> epoch_manager" where
  "em_new config =
     \<lparr>em_epoch_state = es_new (emc_initial_epoch config) 0, em_config = config\<rparr>"

definition em_epoch :: "epoch_manager \<Rightarrow> epoch" where
  "em_epoch em = es_epoch (em_epoch_state em)"

datatype epoch_transition_error =
    OldEpoch (ete_current: epoch) (ete_proposed: epoch)
  | SkippedEpoch (ete_current: epoch) (ete_proposed: epoch)
  | InvalidTransition string

fun epoch_transition_error_fmt :: "epoch_transition_error \<Rightarrow> string" where
  "epoch_transition_error_fmt (OldEpoch current proposed) =
     ''Cannot transition to epoch '' @ show_u64 proposed @ '': already at epoch '' @ show_u64 current"
| "epoch_transition_error_fmt (SkippedEpoch current proposed) =
     ''Cannot skip epochs: current='' @ show_u64 current @ '', proposed='' @ show_u64 proposed"
| "epoch_transition_error_fmt (InvalidTransition msg) = ''Invalid epoch transition: '' @ msg"

definition em_start_new_epoch ::
    "clock \<Rightarrow> epoch_manager \<Rightarrow> epoch \<Rightarrow> (epoch_transition_error + unit) \<times> epoch_manager" where
  "em_start_new_epoch now em e =
     (if e \<le> em_epoch em then (Inl (OldEpoch (em_epoch em) e), em)
      else if e \<noteq> em_epoch em + 1 then (Inl (SkippedEpoch (em_epoch em) e), em)
      else (Inr (), em\<lparr>em_epoch_state := es_new e (now_secs now)\<rparr>))"

definition em_check_epoch_transition :: "epoch_manager \<Rightarrow> bool" where
  "em_check_epoch_transition em = (if \<not> emc_auto_transition (em_config em) then False else False)"

definition em_force_next_epoch ::
    "clock \<Rightarrow> epoch_manager \<Rightarrow> (epoch_transition_error + unit) \<times> epoch_manager" where
  "em_force_next_epoch now em =
     (let next_epoch = em_epoch em + 1 in em_start_new_epoch now em next_epoch)"

lemma em_start_ok_iff:
  "is_ok (fst (em_start_new_epoch now em e)) \<longleftrightarrow> unat e = unat (em_epoch em) + 1"
proof (cases "em_epoch em = u64_MAX")
  case True
  then show ?thesis using unat_u64_less [of e] by (simp add: em_start_new_epoch_def)
next
  case False
  then have "e = em_epoch em + 1 \<longleftrightarrow> unat e = unat (em_epoch em) + 1"
    by (simp add: word_unat_eq_iff unat_plus_one)
  moreover have "\<not> em_epoch em + 1 \<le> em_epoch em" using plus_one_greater [OF False] by simp
  ultimately show ?thesis by (auto simp: em_start_new_epoch_def)
qed

lemma em_start_epoch:
  "em_epoch (snd (em_start_new_epoch now em e)) =
     (if is_ok (fst (em_start_new_epoch now em e)) then e else em_epoch em)"
  by (simp add: em_start_new_epoch_def em_epoch_def es_new_def)

lemma em_start_error: "\<not> is_ok (fst (em_start_new_epoch now em e)) \<Longrightarrow> snd (em_start_new_epoch now em e) = em"
  by (auto simp: em_start_new_epoch_def)

text \<open>\<open>start_new_epoch\<close> accepts the direct successor of the current epoch and nothing else;
  a refused call reports an old or a skipped epoch and leaves the manager unchanged, and
  \<open>force_next_epoch\<close> fails only at the last epoch.\<close>

theorem epoch_manager_transition:
  "(fst (em_start_new_epoch now em e) = Inr () \<longleftrightarrow> unat e = unat (em_epoch em) + 1) \<and>
   em_epoch (snd (em_start_new_epoch now em e)) =
     (if unat e = unat (em_epoch em) + 1 then e else em_epoch em) \<and>
   (fst (em_start_new_epoch now em e) = Inl (OldEpoch (em_epoch em) e) \<longleftrightarrow> e \<le> em_epoch em) \<and>
   (fst (em_force_next_epoch now em) = Inr () \<longleftrightarrow> em_epoch em \<noteq> u64_MAX)"
proof -
  have ok: "is_ok r \<longleftrightarrow> r = Inr ()" for r :: "epoch_transition_error + unit"
    by (cases r) auto
  have "fst (em_force_next_epoch now em) = Inr () \<longleftrightarrow> em_epoch em \<noteq> u64_MAX"
    using em_start_ok_iff [of now em "em_epoch em + 1"] unat_plus_one [of "em_epoch em"]
    by (cases "em_epoch em = u64_MAX") (auto simp: em_force_next_epoch_def ok)
  then show ?thesis
    using em_start_ok_iff [of now em e] em_start_epoch [of now em e]
    by (auto simp: ok) (auto simp: em_start_new_epoch_def split: if_splits)
qed

end
