(* ===== verification/Pipeline.thy ===== *)
theory Pipeline
  imports Traits
begin

text \<open>
  Models \<open>pipeline/mod.rs\<close>: the stages, the loop that takes a block through them, and the
  statistics it keeps.
\<close>

datatype stage = Receiving | Validation | Processing | Commit_stage

fun stage_next :: "stage \<Rightarrow> stage option" where
  "stage_next Receiving = Some Validation"
| "stage_next Validation = Some Processing"
| "stage_next Processing = Some Commit_stage"
| "stage_next Commit_stage = None"

fun stage_name :: "stage \<Rightarrow> string" where
  "stage_name Receiving = ''receiving''"
| "stage_name Validation = ''validation''"
| "stage_name Processing = ''processing''"
| "stage_name Commit_stage = ''commit''"

definition stage_fmt :: "stage \<Rightarrow> string" where
  "stage_fmt st = stage_name st"

text \<open>The discriminant, used as an index into the counters.\<close>

fun stage_index :: "stage \<Rightarrow> nat" where
  "stage_index Receiving = 0"
| "stage_index Validation = 1"
| "stage_index Processing = 2"
| "stage_index Commit_stage = 3"

text \<open>The derived order of the stages is the order of their discriminants.\<close>

lemma stage_index_inject [simp]: "stage_index a = stage_index b \<longleftrightarrow> a = b"
  by (cases a; cases b) simp_all

instantiation stage :: linorder
begin

definition less_eq_stage :: "stage \<Rightarrow> stage \<Rightarrow> bool" where
  "less_eq_stage a b \<longleftrightarrow> stage_index a \<le> stage_index b"

definition less_stage :: "stage \<Rightarrow> stage \<Rightarrow> bool" where
  "less_stage a b \<longleftrightarrow> stage_index a < stage_index b"

instance
  by standard (auto simp: less_eq_stage_def less_stage_def)

end

text \<open>\<open>Stage::next\<close> is the successor in that order.\<close>

lemma ex_stage: "(\<exists>c. P c) \<longleftrightarrow> P Receiving \<or> P Validation \<or> P Processing \<or> P Commit_stage"
  by (metis (full_types) stage.exhaust)

lemma stage_next_successor: "stage_next a = Some b \<longleftrightarrow> a < b \<and> \<not> (\<exists>c. a < c \<and> c < b)"
  unfolding ex_stage by (cases a; cases b) (simp_all add: less_stage_def)

record pipeline_config =
  plc_stage_timeout_ms :: u64
  plc_max_concurrent :: usize
  plc_validate_immediately :: bool
  plc_parallel_processing :: bool

definition plc_default :: pipeline_config where
  "plc_default =
     \<lparr>plc_stage_timeout_ms = 5000, plc_max_concurrent = 10, plc_validate_immediately = True,
      plc_parallel_processing = False\<rparr>"

definition plc_stage_timeout :: "pipeline_config \<Rightarrow> duration" where
  "plc_stage_timeout c = from_millis (plc_stage_timeout_ms c)"

datatype stage_result = Continue | Stop string | Skip string

definition sres_continue_to_next :: stage_result where
  "sres_continue_to_next = Continue"

definition sres_stop :: "string \<Rightarrow> stage_result" where
  "sres_stop reason = Stop reason"

definition sres_skip :: "string \<Rightarrow> stage_result" where
  "sres_skip reason = Skip reason"

fun should_continue :: "stage_result \<Rightarrow> bool" where
  "should_continue Continue = True"
| "should_continue _ = False"

record pipeline_stats =
  ps_stage_counts :: "u64 list"
  ps_total_processed :: u64
  ps_failed :: u64
  ps_skipped :: u64

definition ps_default :: pipeline_stats where
  "ps_default =
     \<lparr>ps_stage_counts = [0, 0, 0, 0], ps_total_processed = 0, ps_failed = 0, ps_skipped = 0\<rparr>"

record pipeline =
  pl_config :: pipeline_config
  pl_current_stage :: stage
  pl_stats :: pipeline_stats

definition pl_new :: "pipeline_config \<Rightarrow> pipeline" where
  "pl_new config =
     \<lparr>pl_config = config, pl_current_stage = Receiving, pl_stats = ps_default\<rparr>"

definition pl_reset :: "pipeline \<Rightarrow> pipeline" where
  "pl_reset pl = pl\<lparr>pl_current_stage := Receiving\<rparr>"

datatype pipeline_result =
    PL_Completed
  | PL_Stopped stage string
  | PL_Skipped stage string

fun pl_is_completed :: "pipeline_result \<Rightarrow> bool" where
  "pl_is_completed PL_Completed = True"
| "pl_is_completed _ = False"

fun pl_final_stage :: "pipeline_result \<Rightarrow> stage option" where
  "pl_final_stage PL_Completed = None"
| "pl_final_stage (PL_Stopped st _) = Some st"
| "pl_final_stage (PL_Skipped st _) = Some st"

fun process_at_stage :: "pipeline \<Rightarrow> stage \<Rightarrow> 'b \<Rightarrow> stage_result res" where
  "process_at_stage pl Receiving b = Inr Continue"
| "process_at_stage pl Validation b = Inr Continue"
| "process_at_stage pl Processing b = Inr Continue"
| "process_at_stage pl Commit_stage b = Inr Continue"

definition process_vote_at_stage :: "pipeline \<Rightarrow> 'v \<Rightarrow> stage_result res" where
  "process_vote_at_stage pl v = Inr Continue"

text \<open>The counters incremented at the start of a stage.\<close>

definition ps_count :: "stage \<Rightarrow> pipeline_stats \<Rightarrow> pipeline_stats" where
  "ps_count st s =
     s\<lparr>ps_stage_counts := (ps_stage_counts s)[stage_index st := ps_stage_counts s ! stage_index st + 1],
       ps_total_processed := ps_total_processed s + 1\<rparr>"

text \<open>The loop of \<open>process_block\<close>, from the given stage on.\<close>

function pl_loop :: "pipeline \<Rightarrow> stage \<Rightarrow> 'b \<Rightarrow> pipeline_result res \<times> pipeline" where
  "pl_loop pl current_stage b =
     (let pl = pl\<lparr>pl_stats := ps_count current_stage (pl_stats pl)\<rparr>
      in case process_at_stage pl current_stage b of
           Inl e \<Rightarrow> (Inl e, pl)
         | Inr Continue \<Rightarrow>
             (case stage_next current_stage of
                Some next \<Rightarrow> pl_loop pl next b
              | None \<Rightarrow> (Inr PL_Completed, pl))
         | Inr (Stop reason) \<Rightarrow>
             (Inr (PL_Stopped current_stage reason),
              pl\<lparr>pl_stats := (pl_stats pl)\<lparr>ps_failed := ps_failed (pl_stats pl) + 1\<rparr>\<rparr>)
         | Inr (Skip reason) \<Rightarrow>
             (Inr (PL_Skipped current_stage reason),
              pl\<lparr>pl_stats := (pl_stats pl)\<lparr>ps_skipped := ps_skipped (pl_stats pl) + 1\<rparr>\<rparr>))"
  by pat_completeness auto
termination
proof (relation "measure (\<lambda>(pl, st, b). 3 - stage_index st)", goal_cases)
  case 1
  show ?case by simp
next
  case (2 pl st)
  then show ?case by (cases st) auto
qed

declare pl_loop.simps [simp del]

definition pl_process_block :: "pipeline \<Rightarrow> 'b \<Rightarrow> pipeline_result res \<times> pipeline" where
  "pl_process_block pl b = pl_loop pl Receiving b"

definition pl_process_vote :: "pipeline \<Rightarrow> 'v \<Rightarrow> pipeline_result res \<times> pipeline" where
  "pl_process_vote pl v =
     (let pl = pl\<lparr>pl_stats := ps_count Receiving (pl_stats pl)\<rparr>
      in case process_vote_at_stage pl v of
           Inl e \<Rightarrow> (Inl e, pl)
         | Inr Continue \<Rightarrow> (Inr PL_Completed, pl)
         | Inr (Stop reason) \<Rightarrow> (Inr (PL_Stopped Processing reason), pl)
         | Inr (Skip reason) \<Rightarrow> (Inr (PL_Skipped Processing reason), pl))"

definition pl_process_qc :: "pipeline \<Rightarrow> pipeline_result res \<times> pipeline" where
  "pl_process_qc pl = (Inr PL_Completed, pl)"

text \<open>The builder.\<close>

definition plb_new :: pipeline_config where
  "plb_new = plc_default"

definition plb_default :: pipeline_config where
  "plb_default = plb_new"

definition plb_stage_timeout_ms :: "pipeline_config \<Rightarrow> u64 \<Rightarrow> pipeline_config" where
  "plb_stage_timeout_ms c t = c\<lparr>plc_stage_timeout_ms := t\<rparr>"

definition plb_max_concurrent :: "pipeline_config \<Rightarrow> usize \<Rightarrow> pipeline_config" where
  "plb_max_concurrent c m = c\<lparr>plc_max_concurrent := m\<rparr>"

definition plb_validate_immediately :: "pipeline_config \<Rightarrow> bool \<Rightarrow> pipeline_config" where
  "plb_validate_immediately c v = c\<lparr>plc_validate_immediately := v\<rparr>"

definition plb_parallel_processing :: "pipeline_config \<Rightarrow> bool \<Rightarrow> pipeline_config" where
  "plb_parallel_processing c p = c\<lparr>plc_parallel_processing := p\<rparr>"

definition plb_build :: "pipeline_config \<Rightarrow> pipeline" where
  "plb_build c = pl_new c"

section \<open>The statistics\<close>

lemma process_at_stage_continue [simp]: "process_at_stage pl st b = Inr Continue"
  by (cases st) simp_all

lemma pl_process_block_eq:
  "pl_process_block pl b =
     (Inr PL_Completed,
      pl\<lparr>pl_stats := ps_count Commit_stage (ps_count Processing
           (ps_count Validation (ps_count Receiving (pl_stats pl))))\<rparr>)"
  by (simp add: pl_process_block_def pl_loop.simps Let_def)

lemma pl_process_vote_eq:
  "pl_process_vote pl v = (Inr PL_Completed, pl\<lparr>pl_stats := ps_count Receiving (pl_stats pl)\<rparr>)"
  by (simp add: pl_process_vote_def process_vote_at_stage_def Let_def)

datatype ('b, 'v) pl_event = PlBlock 'b | PlVote 'v | PlQc | PlReset

fun pl_step :: "pipeline \<Rightarrow> ('b, 'v) pl_event \<Rightarrow> pipeline" where
  "pl_step pl (PlBlock b) = snd (pl_process_block pl b)"
| "pl_step pl (PlVote v) = snd (pl_process_vote pl v)"
| "pl_step pl PlQc = snd (pl_process_qc pl)"
| "pl_step pl PlReset = pl_reset pl"

text \<open>C40: the loop of \<open>process_block\<close> ends for every block, with \<open>Completed\<close>, and the statistics
  are determined: after any sequence of blocks, votes, certificates and resets the first stage
  has counted every block and every vote, each of the three later stages every block, and the
  total, which grows at every stage, is four times the number of blocks plus the number of
  votes, not the number of messages that its documentation names. Nothing is counted as
  failed or skipped, counters are modulo \<open>2 ^ 64\<close>, and the reported current stage is always
  the first.\<close>

theorem pipeline_statistics:
  "let pl = foldl pl_step (pl_new config) evs;
       nb = length (filter (\<lambda>ev. case ev of PlBlock _ \<Rightarrow> True | _ \<Rightarrow> False) evs);
       nv = length (filter (\<lambda>ev. case ev of PlVote _ \<Rightarrow> True | _ \<Rightarrow> False) evs)
   in fst (pl_process_block pl b) = Inr PL_Completed \<and>
      pl_stats pl =
        \<lparr>ps_stage_counts = [of_nat (nb + nv), of_nat nb, of_nat nb, of_nat nb],
         ps_total_processed = of_nat (4 * nb + nv), ps_failed = 0, ps_skipped = 0\<rparr> \<and>
      pl_current_stage pl = Receiving"
proof (induction evs rule: rev_induct)
  case (snoc ev evs)
  then show ?case
    by (cases ev) (simp_all add: Let_def pl_process_block_eq pl_process_vote_eq pl_process_qc_def
        pl_reset_def ps_count_def algebra_simps)
qed (simp add: pl_new_def ps_default_def pl_process_block_eq Let_def)

end
