(* ===== verification/Proposal.thy ===== *)
theory Proposal
  imports Traits
begin

text \<open>
  Models \<open>proposal/generator.rs\<close>. The block builder is an argument, as in the source; the
  clock reading is one too.
\<close>

record proposal_config =
  prc_max_block_txns :: usize
  prc_max_block_bytes :: usize
  prc_include_timestamp :: bool

definition prc_default :: proposal_config where
  "prc_default =
     \<lparr>prc_max_block_txns = 10000, prc_max_block_bytes = 10 * 1024 * 1024,
      prc_include_timestamp = True\<rparr>"

record 'n proposal_generator =
  pg_config :: proposal_config
  pg_author_id :: 'n

definition pg_new :: "proposal_config \<Rightarrow> 'n \<Rightarrow> 'n proposal_generator" where
  "pg_new config author = \<lparr>pg_config = config, pg_author_id = author\<rparr>"

definition pg_generate_proposal ::
    "clock \<Rightarrow> 'n proposal_generator \<Rightarrow> ('n, 'h) quorum_cert \<Rightarrow> round \<Rightarrow> epoch \<Rightarrow>
     'h transaction list \<Rightarrow>
     ('n proposal_generator \<Rightarrow> round \<Rightarrow> epoch \<Rightarrow> 'h \<Rightarrow> u64 \<Rightarrow> 'h transaction list \<Rightarrow> ('n, 'h, 's) block) \<Rightarrow>
     ('n, 'h, 's) block res" where
  "pg_generate_proposal now pg parent_qc r e txns block_builder =
     (let parent_id = qc_block_id parent_qc;
          timestamp = (if prc_include_timestamp (pg_config pg) then now_millis now else 0)
      in Inr (block_builder pg r e parent_id timestamp txns))"

definition pg_update_config :: "'n proposal_generator \<Rightarrow> proposal_config \<Rightarrow> 'n proposal_generator" where
  "pg_update_config pg config = pg\<lparr>pg_config := config\<rparr>"

end
