(* ===== verification/Consensus.thy ===== *)
theory Consensus
  imports Round_Manager Mocks Pacemaker Proposer Pipeline Epoch_Manager
begin

text \<open>
  Models \<open>consensus/mod.rs\<close>: the engine that routes proposals, votes, certificates and
  timeouts to the round manager, the pacemaker, the pipeline and the epoch manager. The
  safety rules are the two-chain rules, as in the source. The lines the engine prints are
  not part of the model.
\<close>

record 'f consensus_config =
  cc_initial_round :: round
  cc_initial_epoch :: epoch
  cc_pacemaker_config :: "'f pacemaker_config"
  cc_round_manager_config :: round_manager_config
  cc_pipeline_config :: pipeline_config
  cc_max_rounds_per_epoch :: round

definition cc_default :: "'f f64_ops \<Rightarrow> 'f consensus_config" where
  "cc_default F =
     \<lparr>cc_initial_round = 1, cc_initial_epoch = 0, cc_pacemaker_config = pmc_default F,
      cc_round_manager_config = rmc_default, cc_pipeline_config = plc_default,
      cc_max_rounds_per_epoch = 1000\<rparr>"

definition cc_new ::
    "round \<Rightarrow> epoch \<Rightarrow> 'f pacemaker_config \<Rightarrow> round_manager_config \<Rightarrow> pipeline_config \<Rightarrow>
     'f consensus_config" where
  "cc_new r e pmc rmc plc =
     \<lparr>cc_initial_round = r, cc_initial_epoch = e, cc_pacemaker_config = pmc,
      cc_round_manager_config = rmc, cc_pipeline_config = plc, cc_max_rounds_per_epoch = 1000\<rparr>"

datatype consensus_state = Bootstrapping | Running | CatchingUp | Stopping | Stopped

fun consensus_state_fmt :: "consensus_state \<Rightarrow> string" where
  "consensus_state_fmt Bootstrapping = ''bootstrapping''"
| "consensus_state_fmt Running = ''running''"
| "consensus_state_fmt CatchingUp = ''catching_up''"
| "consensus_state_fmt Stopping = ''stopping''"
| "consensus_state_fmt Stopped = ''stopped''"

record proposal_result =
  pres_accepted :: bool
  pres_reason :: "string option"
  pres_round :: round
  pres_voted :: bool

record vote_result =
  vres_accepted :: bool
  vres_round :: round

record ('a, 'n, 'h, 's, 'f) consensus =
  cs_config :: "'f consensus_config"
  cs_state :: consensus_state
  cs_round_manager :: "(two_chain_rules, 'n, 'h, 's) round_manager"
  cs_pacemaker :: "('f exponential_strategy, 'f) pacemaker"
  cs_proposer_election :: "('a, 'f) proposer_election"
  cs_pipeline :: pipeline
  cs_epoch_manager :: epoch_manager
  cs_self_validator_id :: "'a option"

definition cs_new ::
    "'f f64_ops \<Rightarrow> 'f consensus_config \<Rightarrow> ('a, 'f) proposer_election \<Rightarrow> 'a option \<Rightarrow>
     ('a, 'n, 'h, 's, 'f) consensus res" where
  "cs_new F config proposer_election self_validator_id =
     (let safety_rules = sr_new (cc_initial_epoch config);
          round_manager = rm_new (cc_round_manager_config config) safety_rules;
          pmc = cc_pacemaker_config config
      in case eis_new F (pmc_base_duration pmc) (pmc_exponent_base pmc) (pmc_max_exponent pmc) of
           Inl e \<Rightarrow> Inl e
         | Inr interval_strategy \<Rightarrow>
             Inr \<lparr>cs_config = config, cs_state = Bootstrapping,
                   cs_round_manager = round_manager,
                   cs_pacemaker = pm_new interval_strategy pmc,
                   cs_proposer_election = proposer_election,
                   cs_pipeline = pl_new (cc_pipeline_config config),
                   cs_epoch_manager =
                     em_new \<lparr>emc_initial_epoch = cc_initial_epoch config,
                              emc_auto_transition = False\<rparr>,
                   cs_self_validator_id = self_validator_id\<rparr>)"

definition cs_start ::
    "('a, 'n, 'h, 's, 'f) consensus \<Rightarrow> unit res \<times> ('a, 'n, 'h, 's, 'f) consensus" where
  "cs_start c =
     (if \<not> (cs_state c = Bootstrapping \<or> cs_state c = Stopped)
      then (Inl (Msg (''Cannot start consensus from state: '' @ consensus_state_fmt (cs_state c))), c)
      else (Inr (), c\<lparr>cs_state := Running\<rparr>))"

definition cs_stop ::
    "('a, 'n, 'h, 's, 'f) consensus \<Rightarrow> unit res \<times> ('a, 'n, 'h, 's, 'f) consensus" where
  "cs_stop c =
     (if \<not> (cs_state c = Running \<or> cs_state c = CatchingUp)
      then (Inl (Msg (''Cannot stop consensus from state: '' @ consensus_state_fmt (cs_state c))), c)
      else let c1 = c\<lparr>cs_state := Stopping\<rparr>; c2 = c1\<lparr>cs_state := Stopped\<rparr> in (Inr (), c2))"

definition cs_round :: "('a, 'n, 'h, 's, 'f) consensus \<Rightarrow> round" where
  "cs_round c = rm_round (cs_round_manager c)"

definition cs_epoch :: "('a, 'n, 'h, 's, 'f) consensus \<Rightarrow> epoch" where
  "cs_epoch c = em_epoch (cs_epoch_manager c)"

definition cs_get_highest_quorum_cert ::
    "('a, 'n, 'h, 's, 'f) consensus \<Rightarrow> ('n, 'h) quorum_cert option" where
  "cs_get_highest_quorum_cert c = rs_quorum_cert (rm_round_state (cs_round_manager c))"

definition cs_round_state :: "('a, 'n, 'h, 's, 'f) consensus \<Rightarrow> ('n, 'h, 's) round_state" where
  "cs_round_state c = rm_round_state (cs_round_manager c)"

definition cs_pending_votes :: "('a, 'n, 'h, 's, 'f) consensus \<Rightarrow> ('n, 'h, 's) pending_votes" where
  "cs_pending_votes c = rm_pending_votes (cs_round_manager c)"

text \<open>The error every operation that needs a running engine returns otherwise.\<close>

definition not_running :: "('a, 'n, 'h, 's, 'f) consensus \<Rightarrow> error" where
  "not_running c = Msg (''Not in running state: '' @ consensus_state_fmt (cs_state c))"

text \<open>\<open>Debug\<close> of a string literal and of a pipeline result, used in one rejection message.\<close>

definition char_debug :: "char \<Rightarrow> string" where
  "char_debug c =
     (let q = CHR 0x22; b = CHR 0x5C
      in if c = q then [b, q] else if c = b then [b, b]
         else if c = CHR 0x0A then [b, CHR ''n''] else if c = CHR 0x0D then [b, CHR ''r'']
         else if c = CHR 0x09 then [b, CHR ''t''] else if c = CHR 0x00 then [b, CHR ''0'']
         else [c])"

definition string_debug :: "string \<Rightarrow> string" where
  "string_debug s = [CHR 0x22] @ concat (map char_debug s) @ [CHR 0x22]"

fun stage_debug :: "stage \<Rightarrow> string" where
  "stage_debug Receiving = ''Receiving''"
| "stage_debug Validation = ''Validation''"
| "stage_debug Processing = ''Processing''"
| "stage_debug Commit_stage = ''Commit''"

fun pipeline_result_debug :: "pipeline_result \<Rightarrow> string" where
  "pipeline_result_debug PL_Completed = ''Completed''"
| "pipeline_result_debug (PL_Stopped st reason) =
     ''Stopped { stage: '' @ stage_debug st @ '', reason: '' @ string_debug reason @ '' }''"
| "pipeline_result_debug (PL_Skipped st reason) =
     ''Skipped { stage: '' @ stage_debug st @ '', reason: '' @ string_debug reason @ '' }''"

definition cs_process_proposal ::
    "('n, 'h, 's, 'g) chain \<Rightarrow> ('a, 'n, 'h, 's, 'f) consensus \<Rightarrow> ('n, 'h, 's) block \<Rightarrow>
     proposal_result res \<times> ('a, 'n, 'h, 's, 'f) consensus" where
  "cs_process_proposal CH c proposal =
     (let rejected = (\<lambda>reason. \<lparr>pres_accepted = False, pres_reason = Some reason,
                                  pres_round = blk_round proposal, pres_voted = False\<rparr>)
      in if cs_state c \<noteq> Running
         then (Inr (rejected (''Not in running state: '' @ consensus_state_fmt (cs_state c))), c)
         else case pl_process_block (cs_pipeline c) proposal of
           (Inl e, pl') \<Rightarrow> (Inl e, c\<lparr>cs_pipeline := pl'\<rparr>)
         | (Inr pipeline_result, pl') \<Rightarrow>
             let c = c\<lparr>cs_pipeline := pl'\<rparr>
             in if \<not> pl_is_completed pipeline_result
                then (Inr (rejected (''Pipeline rejected: '' @ pipeline_result_debug pipeline_result)), c)
                else case rm_process_proposal CH (cs_round_manager c) proposal of
                  (Inl e, rm') \<Rightarrow> (Inl e, c\<lparr>cs_round_manager := rm'\<rparr>)
                | (Inr result, rm') \<Rightarrow>
                    let c = c\<lparr>cs_round_manager := rm'\<rparr>
                    in case result of
                         PP_Accepted \<Rightarrow>
                           let voted = (case cs_self_validator_id c of Some _ \<Rightarrow> True | None \<Rightarrow> False)
                           in (Inr \<lparr>pres_accepted = True, pres_reason = None,
                                     pres_round = blk_round proposal, pres_voted = voted\<rparr>, c)
                       | PP_Rejected reason \<Rightarrow> (Inr (rejected reason), c)
                       | PP_OldRound \<Rightarrow> (Inr (rejected ''Old round''), c)
                       | PP_FutureRound \<Rightarrow> (Inr (rejected ''Future round''), c))"

definition cs_process_vote ::
    "('n, 'h, 's, 'g) chain \<Rightarrow> ('a, 'n, 'h, 's, 'f) consensus \<Rightarrow> ('n, 'h, 's) vote \<Rightarrow>
     ('n, 'h, 's, 'g) validator_verifier \<Rightarrow>
     vote_result res \<times> ('a, 'n, 'h, 's, 'f) consensus" where
  "cs_process_vote CH c vote verifier =
     (if cs_state c \<noteq> Running then (Inl (not_running c), c)
      else let rnd = bm_round (vd_proposed_block (vote_vote_data vote))
           in case rm_process_vote CH two_chain (cs_round_manager c) vote verifier of
                (Inl e, rm') \<Rightarrow> (Inl e, c\<lparr>cs_round_manager := rm'\<rparr>)
              | (Inr _, rm') \<Rightarrow>
                  (Inr \<lparr>vres_accepted = True, vres_round = rnd\<rparr>, c\<lparr>cs_round_manager := rm'\<rparr>))"

definition cs_process_qc ::
    "('a, 'n, 'h, 's, 'f) consensus \<Rightarrow> ('n, 'h) quorum_cert \<Rightarrow>
     unit res \<times> ('a, 'n, 'h, 's, 'f) consensus" where
  "cs_process_qc c qc =
     (if cs_state c \<noteq> Running then (Inl (not_running c), c)
      else case pm_record_ordered_round (cs_pacemaker c) (qc_round qc) of
             (Inl e, pm') \<Rightarrow> (Inl e, c\<lparr>cs_pacemaker := pm'\<rparr>)
           | (Inr _, pm') \<Rightarrow> (Inr (), c\<lparr>cs_pacemaker := pm'\<rparr>))"

definition cs_process_timeout ::
    "'f f64_ops \<Rightarrow> ('a, 'n, 'h, 's, 'f) consensus \<Rightarrow> round \<Rightarrow>
     unit res \<times> ('a, 'n, 'h, 's, 'f) consensus" where
  "cs_process_timeout F c rnd =
     (if cs_state c \<noteq> Running then (Inl (not_running c), c)
      else let next_rnd = rnd + 1
           in case pm_enter_new_round (eis_get_round_duration F) (cs_pacemaker c) next_rnd of
                (Inl e, pm') \<Rightarrow> (Inl e, c\<lparr>cs_pacemaker := pm'\<rparr>)
              | (Inr _, pm') \<Rightarrow> (Inr (), c\<lparr>cs_pacemaker := pm'\<rparr>))"

definition cs_generate_proposal ::
    "('a, 'n, 'h, 's, 'f) consensus \<Rightarrow> ('n, 'h, 's) block option res" where
  "cs_generate_proposal c =
     (if cs_state c \<noteq> Running then Inl (not_running c)
      else let current_round = rm_round (cs_round_manager c)
           in case pe_get_proposer_info (cs_proposer_election c) current_round of
                Inl e \<Rightarrow> Inl e
              | Inr proposer_info \<Rightarrow>
                  let is_proposer = (case (cs_self_validator_id c, pi_proposer proposer_info) of
                                       (Some my_id, Some proposer) \<Rightarrow> my_id = proposer
                                     | _ \<Rightarrow> False)
                  in if \<not> is_proposer then Inr None
                     else case cs_get_highest_quorum_cert c of
                            Some parent_qc \<Rightarrow> Inr None
                          | None \<Rightarrow> Inr None)"

text \<open>The builder.\<close>

record ('a, 'f) consensus_builder =
  cb_config :: "'f consensus_config"
  cb_proposer_election :: "('a, 'f) proposer_election option"
  cb_self_validator_id :: "'a option"

definition cb_new :: "'f f64_ops \<Rightarrow> ('a, 'f) consensus_builder" where
  "cb_new F =
     \<lparr>cb_config = cc_default F, cb_proposer_election = None, cb_self_validator_id = None\<rparr>"

definition cb_default :: "'f f64_ops \<Rightarrow> ('a, 'f) consensus_builder" where
  "cb_default F = cb_new F"

definition cb_set_config :: "('a, 'f) consensus_builder \<Rightarrow> 'f consensus_config \<Rightarrow> ('a, 'f) consensus_builder" where
  "cb_set_config b config = b\<lparr>cb_config := config\<rparr>"

definition cb_set_proposer_election ::
    "('a, 'f) consensus_builder \<Rightarrow> ('a, 'f) proposer_election \<Rightarrow> ('a, 'f) consensus_builder" where
  "cb_set_proposer_election b pe = b\<lparr>cb_proposer_election := Some pe\<rparr>"

definition cb_set_self_validator_id :: "('a, 'f) consensus_builder \<Rightarrow> 'a \<Rightarrow> ('a, 'f) consensus_builder" where
  "cb_set_self_validator_id b i = b\<lparr>cb_self_validator_id := Some i\<rparr>"

definition cb_build ::
    "'f f64_ops \<Rightarrow> ('a, 'f) consensus_builder \<Rightarrow> ('a, 'n, 'h, 's, 'f) consensus res" where
  "cb_build F b =
     (case cb_proposer_election b of
        None \<Rightarrow> Inl (Msg ''Proposer election strategy required'')
      | Some proposer_election \<Rightarrow>
          cs_new F (cb_config b) proposer_election (cb_self_validator_id b))"

section \<open>Runs of the engine\<close>

datatype ('n, 'h, 's) cs_event =
    CsStart
  | CsStop
  | CsProposal "('n, 'h, 's) block"
  | CsVote "('n, 'h, 's) vote"
  | CsQc "('n, 'h) quorum_cert"
  | CsTimeout round

fun cs_step ::
    "'f f64_ops \<Rightarrow> ('n, 'h, 's, 'g) chain \<Rightarrow> ('n, 'h, 's, 'g) validator_verifier \<Rightarrow>
     ('a, 'n, 'h, 's, 'f) consensus \<Rightarrow> ('n, 'h, 's) cs_event \<Rightarrow> ('a, 'n, 'h, 's, 'f) consensus" where
  "cs_step F CH VV c CsStart = snd (cs_start c)"
| "cs_step F CH VV c CsStop = snd (cs_stop c)"
| "cs_step F CH VV c (CsProposal b) = snd (cs_process_proposal CH c b)"
| "cs_step F CH VV c (CsVote v) = snd (cs_process_vote CH c v VV)"
| "cs_step F CH VV c (CsQc qc) = snd (cs_process_qc c qc)"
| "cs_step F CH VV c (CsTimeout r) = snd (cs_process_timeout F c r)"

abbreviation cs_run ::
    "'f f64_ops \<Rightarrow> ('n, 'h, 's, 'g) chain \<Rightarrow> ('n, 'h, 's, 'g) validator_verifier \<Rightarrow>
     ('a, 'n, 'h, 's, 'f) consensus \<Rightarrow> ('n, 'h, 's) cs_event list \<Rightarrow> ('a, 'n, 'h, 's, 'f) consensus" where
  "cs_run F CH VV \<equiv> foldl (cs_step F CH VV)"

text \<open>
  The handlers of the engine change the round manager only through \<open>process_proposal\<close> and
  \<open>process_vote\<close>, neither of which changes the round or records a vote.
\<close>

definition cs_inv :: "epoch \<Rightarrow> ('a, 'n, 'h, 's, 'f) consensus \<Rightarrow> bool" where
  "cs_inv e0 c \<longleftrightarrow>
     rm_inv (cs_round_manager c) \<and> rm_round (cs_round_manager c) = 0 \<and>
     ss_last_voted_round (sr_state (rm_safety_rules (cs_round_manager c))) = 0 \<and>
     em_epoch (cs_epoch_manager c) = e0 \<and> cs_state c \<notin> {CatchingUp, Stopping}"

lemma cs_inv_new: "cs_new F config pe i = Inr c \<Longrightarrow> cs_inv (cc_initial_epoch config) c"
  by (auto simp: cs_new_def cs_inv_def rm_inv_new Let_def em_epoch_def em_new_def es_new_def
      sr_new_def rm_round_def rs_new_def split: sum.splits)
     (simp_all add: rm_new_def rs_new_def)

lemma rm_process_proposal_round:
  "rm_round (snd (rm_process_proposal CH rm b)) = rm_round rm"
  "rm_safety_rules (snd (rm_process_proposal CH rm b)) = rm_safety_rules rm"
  by (simp_all add: rm_process_proposal_def rm_round_def Let_def split: sum.splits)

lemma form_qc_round: "rm_round (snd (form_quorum_certificate_for_block CH SR rm h r VV)) = rm_round rm"
  by (auto simp: form_quorum_certificate_for_block_def rm_round_def Let_def split: sum.splits prod.splits)

lemma rm_process_vote_round: "rm_round (snd (rm_process_vote CH SR rm v VV)) = rm_round rm"
proof -
  have "form_quorum_certificate_for_block CH SR rm' h r VV = (res, rm'') \<Longrightarrow>
        rm_round rm'' = rm_round rm'" for rm' h r res rm''
    using form_qc_round [of CH SR rm' h r VV] by simp
  then show ?thesis
    by (auto simp: rm_process_vote_def Let_def split: sum.splits prod.splits)
      (simp_all add: rm_round_def)
qed

lemma cs_inv_proposal:
  assumes "cs_inv e0 c"
  shows "cs_inv e0 (snd (cs_process_proposal CH c b))"
proof -
  obtain res rm' where rm': "rm_process_proposal CH (cs_round_manager c) b = (res, rm')" by force
  with rm_process_proposal_round [of CH "cs_round_manager c" b]
    rm_inv_process_proposal [of "cs_round_manager c" CH b] assms
  have "rm_inv rm'" "rm_round rm' = 0" "rm_safety_rules rm' = rm_safety_rules (cs_round_manager c)"
    by (simp_all add: cs_inv_def)
  with assms rm' show ?thesis
    by (auto simp: cs_process_proposal_def Let_def pl_process_block_eq cs_inv_def
        split: sum.splits proposal_processing_result.splits)
qed

lemma cs_inv_vote:
  assumes "cs_inv e0 c"
  shows "cs_inv e0 (snd (cs_process_vote CH c v VV))"
proof -
  obtain res rm' where rm': "rm_process_vote CH two_chain (cs_round_manager c) v VV = (res, rm')"
    by force
  with rm_process_vote_round [of CH two_chain "cs_round_manager c" v VV]
    rm_inv_process_vote [of "cs_round_manager c" CH two_chain v VV]
    tcr.process_vote_voted [of CH "cs_round_manager c" v VV] assms
  have "rm_inv rm'" "rm_round rm' = 0" "ss_last_voted_round (sr_state (rm_safety_rules rm')) = 0"
    by (simp_all add: cs_inv_def)
  with assms rm' show ?thesis
    by (auto simp: cs_process_vote_def Let_def cs_inv_def split: sum.splits)
qed

lemma cs_inv_step: "cs_inv e0 c \<Longrightarrow> cs_inv e0 (cs_step F CH VV c ev)"
  by (cases ev)
    (auto simp: cs_inv_proposal cs_inv_vote,
     auto simp: cs_inv_def cs_start_def cs_stop_def cs_process_qc_def cs_process_timeout_def Let_def
       split: prod.splits sum.splits)

lemma cs_inv_run: "cs_inv e0 c \<Longrightarrow> cs_inv e0 (cs_run F CH VV c evs)"
  by (induction evs arbitrary: c) (simp_all add: cs_inv_step)

lemma cs_proposal_accepted_iff:
  assumes "cs_state c = Running"
  shows "(\<exists>r. fst (cs_process_proposal CH c b) = Inr r \<and> pres_accepted r) \<longleftrightarrow>
           blk_round b = cs_round c \<and> is_ok (ch_verify_signature CH b)"
  using assms
  by (auto simp: cs_process_proposal_def pl_process_block_eq rm_process_proposal_def cs_round_def
      rm_round_def rs_is_current_round_def Let_def is_ok_def split: sum.splits)

section \<open>Properties\<close>

text \<open>An engine over the crate's mock types, used to run the properties below.\<close>

definition mock_engine :: "epoch \<Rightarrow> (u8, u8, u8, u8, rat) consensus res" where
  "mock_engine e =
     cs_new rat_f64 ((cc_default rat_f64)\<lparr>cc_initial_epoch := e\<rparr>)
       (rr_election rat_f64 (rr_new [0, 1, 2, 3] pec_default)) (Some 0)"

lemma eis_new_default:
  "eis_new rat_f64 (pmc_base_duration (pmc_default rat_f64)) (pmc_exponent_base (pmc_default rat_f64))
     (pmc_max_exponent (pmc_default rat_f64)) =
   Inr \<lparr>eis_base_ms = 1000, eis_exponent_base = 2, eis_max_exponent = 8\<rparr>"
proof -
  have "unat (- 1 :: u32) = 4294967295" by (simp add: unsigned_minus_1_eq_mask mask_eq_exp_minus_1)
  then have "(unsigned (- 1 :: u32) :: rat) = 4294967295" by (metis of_nat_numeral of_nat_unat)
  then show ?thesis
    by (simp add: eis_new_def rat_f64_def pmc_default_def pmc_base_duration_def from_millis_def
        as_millis_u64_def)
qed

lemma mock_engine_eq:
  "mock_engine e =
     Inr \<lparr>cs_config = (cc_default rat_f64)\<lparr>cc_initial_epoch := e\<rparr>, cs_state = Bootstrapping,
          cs_round_manager = rm_new rmc_default (sr_new e),
          cs_pacemaker = pm_new \<lparr>eis_base_ms = 1000, eis_exponent_base = 2, eis_max_exponent = 8\<rparr>
             (pmc_default rat_f64),
          cs_proposer_election = rr_election rat_f64 (rr_new [0, 1, 2, 3] pec_default),
          cs_pipeline = pl_new plc_default,
          cs_epoch_manager = em_new \<lparr>emc_initial_epoch = e, emc_auto_transition = False\<rparr>,
          cs_self_validator_id = Some 0\<rparr>"
  by (simp add: mock_engine_def cs_new_def cc_default_def eis_new_default Let_def)

text \<open>C25: through any sequence of starts, stops, proposals, votes, certificates and timeouts, the
  engine's invariant holds: the round manager is well formed, the epoch is the configured
  one, and the round stays 0 and no vote is ever recorded, because no handler of the engine
  advances the round manager or calls the safety rules for a proposal.\<close>

theorem consensus_run_invariant:
  assumes "cs_new F config pe i = Inr c"
  shows "let c' = cs_run F CH VV c evs
         in rm_inv (cs_round_manager c') \<and> cs_round c' = 0 \<and>
            cs_epoch c' = cc_initial_epoch config \<and>
            ss_last_voted_round (sr_state (rm_safety_rules (cs_round_manager c'))) = 0 \<and>
            cs_state c' \<in> {Bootstrapping, Running, Stopped}"
proof -
  have "st \<notin> {CatchingUp, Stopping} \<longleftrightarrow> st \<in> {Bootstrapping, Running, Stopped}" for st
    by (cases st) simp_all
  with cs_inv_run [OF cs_inv_new [OF assms], of F CH VV evs] show ?thesis
    by (simp add: Let_def cs_inv_def cs_round_def cs_epoch_def)
qed

theorem consensus_run_invariant_witness:
  "\<exists>c. mock_engine 0 = Inr c \<and>
     cs_round (cs_run rat_f64 mock_chain (mvs_verifier (make_validator_set [1, 1, 1, 1])) c
       [CsStart, CsTimeout 1, CsVote (mock_vote 1 1 1)]) = 0"
proof -
  obtain c :: "(u8, u8, u8, u8, rat) consensus" where c: "mock_engine 0 = Inr c"
    by (simp add: mock_engine_eq)
  with consensus_run_invariant [OF c [unfolded mock_engine_def], of mock_chain
      "mvs_verifier (make_validator_set [1, 1, 1, 1])"
      "[CsStart, CsTimeout 1, CsVote (mock_vote 1 1 1)]"]
  show ?thesis by (auto simp: Let_def)
qed

text \<open>A running engine that was built by \<open>new\<close> accepts a proposal exactly when the proposal
  is of round 0 and its signature verifies, whatever it has processed before. The first
  real round, 1, is never accepted.\<close>

lemma engine_accepts_only_round_zero:
  assumes "cs_new F config pe i = Inr c" and "cs_state (cs_run F CH VV c evs) = Running"
  shows "(\<exists>r. fst (cs_process_proposal CH (cs_run F CH VV c evs) b) = Inr r \<and> pres_accepted r) \<longleftrightarrow>
           blk_round b = 0 \<and> is_ok (ch_verify_signature CH b)"
  using cs_proposal_accepted_iff [OF assms(2), of CH b]
    cs_inv_run [OF cs_inv_new [OF assms(1)], of F CH VV evs]
  by (simp add: cs_inv_def cs_round_def)

text \<open>\<open>generate_proposal\<close> never returns a block; outside the running state it is an error.\<close>

theorem engine_generates_no_proposal:
  "cs_generate_proposal c \<noteq> Inr (Some b) \<and>
   (cs_state c \<noteq> Running \<longrightarrow> cs_generate_proposal c = Inl (not_running c))"
  by (auto simp: cs_generate_proposal_def Let_def split: sum.splits option.splits if_splits)

theorem engine_generates_no_proposal_witness:
  "\<exists>c. mock_engine 0 = Inr c \<and> cs_generate_proposal c = Inl (not_running c)"
proof -
  obtain c :: "(u8, u8, u8, u8, rat) consensus" where c: "mock_engine 0 = Inr c" "cs_state c \<noteq> Running"
    by (simp add: mock_engine_eq)
  with engine_generates_no_proposal [of c] show ?thesis by auto
qed

text \<open>A verified vote of an epoch other than 0 is answered with \<open>accepted: true\<close> although the
  round manager rejected it and nothing changed; for an engine configured with another
  initial epoch this covers every vote of its own epoch.\<close>

theorem engine_acknowledges_dropped_vote:
  assumes "cs_new F config pe i = Inr c" and "cs_state (cs_run F CH VV c evs) = Running"
    and "ch_vote_verify CH v VV = Inr ()" and "li_epoch (vote_ledger_info v) \<noteq> 0"
  shows "cs_process_vote CH (cs_run F CH VV c evs) v VV =
           (Inr \<lparr>vres_accepted = True, vres_round = bm_round (vd_proposed_block (vote_vote_data v))\<rparr>,
            cs_run F CH VV c evs)"
  using assms(2-4) cs_inv_run [OF cs_inv_new [OF assms(1)], of F CH VV evs]
  by (simp add: cs_process_vote_def rm_process_vote_def rs_is_current_epoch_def cs_inv_def rm_inv_def)

theorem engine_acknowledges_dropped_vote_witness:
  "\<exists>c v. mock_engine 7 = Inr c \<and> li_epoch (vote_ledger_info v) = cs_epoch c \<and>
     (let c' = cs_run rat_f64 mock_chain (mvs_verifier (make_validator_set [1, 1, 1, 1])) c [CsStart]
      in cs_process_vote mock_chain c' v (mvs_verifier (make_validator_set [1, 1, 1, 1])) =
           (Inr \<lparr>vres_accepted = True, vres_round = 0\<rparr>, c'))"
proof -
  let ?VV = "mvs_verifier (make_validator_set [1, 1, 1, 1])"
  let ?v = "(mock_vote 1 1 1)\<lparr>vote_ledger_info := mock_ledger_info\<lparr>li_epoch := 7\<rparr>\<rparr>"
  obtain c :: "(u8, u8, u8, u8, rat) consensus" where c: "mock_engine 7 = Inr c"
    by (simp add: mock_engine_eq)
  have run: "cs_state (cs_run rat_f64 mock_chain ?VV c [CsStart]) = Running"
    and ep: "cs_epoch c = 7"
    using c by (auto simp: mock_engine_eq cs_start_def cs_epoch_def em_new_def em_epoch_def es_new_def)
  show ?thesis
    using engine_acknowledges_dropped_vote [OF c [unfolded mock_engine_def] run, of ?v] c ep
    by (intro exI [of _ c] exI [of _ ?v])
      (simp add: Let_def mock_chain_def mock_vote_def mock_vote_with_signature_def mock_genesis_metadata_def mock_metadata_def)
qed

end
