(* ===== verification/Runtime.thy ===== *)
theory Runtime
  imports Consensus
begin

text \<open>
  Models \<open>consensus/runtime.rs\<close>: the queue of network messages in front of the engine, the
  loop that drains it, and starting and shutting down.
\<close>

record runtime_config =
  rtc_process_interval_ms :: u64
  rtc_max_concurrent_tasks :: usize
  rtc_network_timeout_ms :: u64
  rtc_network_buffer_size :: usize

definition rtc_default :: runtime_config where
  "rtc_default =
     \<lparr>rtc_process_interval_ms = 100, rtc_max_concurrent_tasks = 10,
      rtc_network_timeout_ms = 5000, rtc_network_buffer_size = 1024 * 1024\<rparr>"

definition rtc_new :: "u64 \<Rightarrow> usize \<Rightarrow> u64 \<Rightarrow> usize \<Rightarrow> runtime_config" where
  "rtc_new interval tasks timeout_ms buf =
     \<lparr>rtc_process_interval_ms = interval, rtc_max_concurrent_tasks = tasks,
      rtc_network_timeout_ms = timeout_ms, rtc_network_buffer_size = buf\<rparr>"

definition rtc_process_interval :: "runtime_config \<Rightarrow> duration" where
  "rtc_process_interval c = from_millis (rtc_process_interval_ms c)"

definition rtc_network_timeout :: "runtime_config \<Rightarrow> duration" where
  "rtc_network_timeout c = from_millis (rtc_network_timeout_ms c)"

datatype execution_result = ER_Success | ER_Failed string | ER_Timeout | ER_Skipped string

fun er_is_success :: "execution_result \<Rightarrow> bool" where
  "er_is_success ER_Success = True"
| "er_is_success _ = False"

definition er_success :: execution_result where
  "er_success = ER_Success"

definition er_failed :: "string \<Rightarrow> execution_result" where
  "er_failed message = ER_Failed message"

definition er_timeout :: execution_result where
  "er_timeout = ER_Timeout"

definition er_skipped :: "string \<Rightarrow> execution_result" where
  "er_skipped reason = ER_Skipped reason"

datatype ('n, 'h, 's) network_message =
    NM_Proposal "('n, 'h, 's) block"
  | NM_Vote "('n, 'h, 's) vote"
  | NM_QuorumCertificate "('n, 'h) quorum_cert"
  | NM_Timeout round
  | NM_SyncRequest round
  | NM_SyncResponse "('n, 'h, 's) block list"

fun network_message_fmt :: "('n, 'h, 's) network_message \<Rightarrow> string" where
  "network_message_fmt (NM_Proposal b) = ''Proposal(round='' @ show_u64 (blk_round b) @ '')''"
| "network_message_fmt (NM_Vote v) =
     ''Vote(round='' @ show_u64 (bm_round (vd_proposed_block (vote_vote_data v))) @ '')''"
| "network_message_fmt (NM_QuorumCertificate qc) = ''QC(round='' @ show_u64 (qc_round qc) @ '')''"
| "network_message_fmt (NM_Timeout r) = ''Timeout(round='' @ show_u64 r @ '')''"
| "network_message_fmt (NM_SyncRequest r) = ''SyncRequest(round='' @ show_u64 r @ '')''"
| "network_message_fmt (NM_SyncResponse bs) =
     ''SyncResponse(count='' @ show_nat (length bs) @ '')''"

record ('a, 'n, 'h, 's, 'f) consensus_runtime =
  crt_consensus :: "('a, 'n, 'h, 's, 'f) consensus"
  crt_config :: runtime_config
  crt_pending_messages :: "('n, 'h, 's) network_message list"
  crt_active_tasks :: "u64 list"
  crt_next_task_id :: u64
  crt_is_running :: bool

definition crt_new ::
    "('a, 'n, 'h, 's, 'f) consensus \<Rightarrow> runtime_config \<Rightarrow> ('a, 'n, 'h, 's, 'f) consensus_runtime" where
  "crt_new c config =
     \<lparr>crt_consensus = c, crt_config = config, crt_pending_messages = [], crt_active_tasks = [],
      crt_next_task_id = 0, crt_is_running = False\<rparr>"

definition crt_add_network_message ::
    "('a, 'n, 'h, 's, 'f) consensus_runtime \<Rightarrow> ('n, 'h, 's) network_message \<Rightarrow>
     ('a, 'n, 'h, 's, 'f) consensus_runtime" where
  "crt_add_network_message rt m = rt\<lparr>crt_pending_messages := crt_pending_messages rt @ [m]\<rparr>"

definition crt_pending_message_count :: "('a, 'n, 'h, 's, 'f) consensus_runtime \<Rightarrow> nat" where
  "crt_pending_message_count rt = length (crt_pending_messages rt)"

text \<open>The result of an engine call as an execution result.\<close>

definition er_of :: "unit res \<Rightarrow> execution_result" where
  "er_of r = (case r of Inr _ \<Rightarrow> ER_Success | Inl e \<Rightarrow> ER_Failed (to_string e))"

text \<open>The body of the loop of \<open>process_pending_messages\<close> for one message.\<close>

definition crt_process_message ::
    "'f f64_ops \<Rightarrow> ('a, 'n, 'h, 's, 'f) consensus_runtime \<Rightarrow> ('n, 'h, 's) network_message \<Rightarrow>
     execution_result \<times> ('a, 'n, 'h, 's, 'f) consensus_runtime" where
  "crt_process_message F rt m =
     (case m of
        NM_Proposal b \<Rightarrow> (ER_Success, rt)
      | NM_Vote v \<Rightarrow> (ER_Success, rt)
      | NM_QuorumCertificate qc \<Rightarrow>
          (case cs_process_qc (crt_consensus rt) qc of
             (r, c') \<Rightarrow> (er_of r, rt\<lparr>crt_consensus := c'\<rparr>))
      | NM_Timeout r \<Rightarrow>
          (case cs_process_timeout F (crt_consensus rt) r of
             (r, c') \<Rightarrow> (er_of r, rt\<lparr>crt_consensus := c'\<rparr>))
      | NM_SyncRequest _ \<Rightarrow> (ER_Skipped ''State sync not implemented'', rt)
      | NM_SyncResponse _ \<Rightarrow> (ER_Skipped ''State sync not implemented'', rt))"

lemma crt_process_message_pending [simp]:
  "crt_pending_messages (snd (crt_process_message F rt m)) = crt_pending_messages rt"
  by (auto simp: crt_process_message_def split: network_message.splits prod.splits)

text \<open>The loop: pop the front of the queue until it is empty.\<close>

function crt_process_pending_messages ::
    "'f f64_ops \<Rightarrow> ('a, 'n, 'h, 's, 'f) consensus_runtime \<Rightarrow>
     (('n, 'h, 's) network_message \<times> execution_result) list \<times> ('a, 'n, 'h, 's, 'f) consensus_runtime" where
  "crt_process_pending_messages F rt =
     (case crt_pending_messages rt of
        [] \<Rightarrow> ([], rt)
      | message # rest \<Rightarrow>
          (case crt_process_message F (rt\<lparr>crt_pending_messages := rest\<rparr>) message of
             (result, rt') \<Rightarrow>
               (case crt_process_pending_messages F rt' of
                  (results, rt'') \<Rightarrow> ((message, result) # results, rt''))))"
  by pat_completeness auto
termination
proof (relation "measure (\<lambda>(F, rt). length (crt_pending_messages rt))", goal_cases)
  case (2 F rt m rest res rt')
  then have "crt_pending_messages rt' = rest"
    using crt_process_message_pending [of F "rt\<lparr>crt_pending_messages := rest\<rparr>" m]
    by (metis consensus_runtime.select_convs(3) consensus_runtime.surjective
        consensus_runtime.update_convs(3) snd_conv)
  with 2 show ?case by simp
qed simp

declare crt_process_pending_messages.simps [simp del]

definition crt_handle_network_message ::
    "'f f64_ops \<Rightarrow> ('a, 'n, 'h, 's, 'f) consensus_runtime \<Rightarrow> ('n, 'h, 's) network_message \<Rightarrow>
     execution_result \<times> ('a, 'n, 'h, 's, 'f) consensus_runtime" where
  "crt_handle_network_message F rt m =
     (case m of
        NM_Proposal b \<Rightarrow> (ER_Success, rt)
      | NM_Vote v \<Rightarrow> (ER_Success, rt)
      | NM_QuorumCertificate qc \<Rightarrow>
          (case cs_process_qc (crt_consensus rt) qc of
             (Inr _, c') \<Rightarrow> (ER_Success, rt\<lparr>crt_consensus := c'\<rparr>)
           | (Inl e, c') \<Rightarrow> (ER_Failed (to_string e), rt\<lparr>crt_consensus := c'\<rparr>))
      | NM_Timeout r \<Rightarrow>
          (case cs_process_timeout F (crt_consensus rt) r of
             (Inr _, c') \<Rightarrow> (ER_Success, rt\<lparr>crt_consensus := c'\<rparr>)
           | (Inl e, c') \<Rightarrow> (ER_Failed (to_string e), rt\<lparr>crt_consensus := c'\<rparr>))
      | NM_SyncRequest _ \<Rightarrow> (ER_Skipped ''State sync not implemented'', rt)
      | NM_SyncResponse _ \<Rightarrow> (ER_Skipped ''State sync not implemented'', rt))"

definition crt_execute_block ::
    "('a, 'n, 'h, 's, 'f) consensus_runtime \<Rightarrow> ('n, 'h, 's) block \<Rightarrow>
     execution_result \<times> ('a, 'n, 'h, 's, 'f) consensus_runtime" where
  "crt_execute_block rt b = (ER_Success, rt)"

definition crt_broadcast_proposal ::
    "('a, 'n, 'h, 's, 'f) consensus_runtime \<Rightarrow> ('n, 'h, 's) block \<Rightarrow> execution_result" where
  "crt_broadcast_proposal rt b = ER_Success"

definition crt_broadcast_vote ::
    "('a, 'n, 'h, 's, 'f) consensus_runtime \<Rightarrow> ('n, 'h, 's) vote \<Rightarrow> execution_result" where
  "crt_broadcast_vote rt v = ER_Success"

definition crt_start ::
    "('a, 'n, 'h, 's, 'f) consensus_runtime \<Rightarrow> unit res \<times> ('a, 'n, 'h, 's, 'f) consensus_runtime" where
  "crt_start rt =
     (if crt_is_running rt then (Inl (Msg ''Runtime is already running''), rt)
      else let rt = rt\<lparr>crt_is_running := True\<rparr>
           in case cs_start (crt_consensus rt) of
                (Inl e, c') \<Rightarrow> (Inl e, rt\<lparr>crt_consensus := c'\<rparr>)
              | (Inr _, c') \<Rightarrow> (Inr (), rt\<lparr>crt_consensus := c'\<rparr>))"

definition crt_shutdown ::
    "('a, 'n, 'h, 's, 'f) consensus_runtime \<Rightarrow> unit res \<times> ('a, 'n, 'h, 's, 'f) consensus_runtime" where
  "crt_shutdown rt =
     (if \<not> crt_is_running rt then (Inl (Msg ''Runtime is not running''), rt)
      else let rt = rt\<lparr>crt_is_running := False\<rparr>
           in case cs_stop (crt_consensus rt) of
                (Inl e, c') \<Rightarrow> (Inl e, rt\<lparr>crt_consensus := c'\<rparr>)
              | (Inr _, c') \<Rightarrow>
                  (Inr (), rt\<lparr>crt_consensus := c', crt_pending_messages := [],
                              crt_active_tasks := []\<rparr>))"

definition crt_epoch :: "('a, 'n, 'h, 's, 'f) consensus_runtime \<Rightarrow> epoch" where
  "crt_epoch rt = cs_epoch (crt_consensus rt)"

definition crt_round :: "('a, 'n, 'h, 's, 'f) consensus_runtime \<Rightarrow> round" where
  "crt_round rt = cs_round (crt_consensus rt)"

definition crt_state :: "('a, 'n, 'h, 's, 'f) consensus_runtime \<Rightarrow> consensus_state" where
  "crt_state rt = cs_state (crt_consensus rt)"

definition crt_active_task_count :: "('a, 'n, 'h, 's, 'f) consensus_runtime \<Rightarrow> nat" where
  "crt_active_task_count rt = length (crt_active_tasks rt)"

section \<open>Draining the queue\<close>

lemma process_message_eq_handle:
  "crt_process_message F rt m = crt_handle_network_message F rt m"
  by (auto simp: crt_process_message_def crt_handle_network_message_def er_of_def
      split: network_message.splits prod.splits sum.splits)

text \<open>Handling a list of messages one at a time, in order.\<close>

fun crt_handle_all ::
    "'f f64_ops \<Rightarrow> ('a, 'n, 'h, 's, 'f) consensus_runtime \<Rightarrow> ('n, 'h, 's) network_message list \<Rightarrow>
     execution_result list \<times> ('a, 'n, 'h, 's, 'f) consensus_runtime" where
  "crt_handle_all F rt [] = ([], rt)"
| "crt_handle_all F rt (m # ms) =
     (case crt_handle_network_message F rt m of
        (r, rt') \<Rightarrow> (case crt_handle_all F rt' ms of (rs, rt'') \<Rightarrow> (r # rs, rt'')))"

lemma handle_pending:
  "crt_handle_network_message F (rt\<lparr>crt_pending_messages := ms\<rparr>) m =
     (fst (crt_handle_network_message F rt m),
      (snd (crt_handle_network_message F rt m))\<lparr>crt_pending_messages := ms\<rparr>)"
  by (auto simp: crt_handle_network_message_def split: network_message.splits prod.splits sum.splits)

lemma handle_all_pending:
  "crt_handle_all F (rt\<lparr>crt_pending_messages := qs\<rparr>) ms =
     (fst (crt_handle_all F rt ms), (snd (crt_handle_all F rt ms))\<lparr>crt_pending_messages := qs\<rparr>)"
proof (induction ms arbitrary: rt)
  case (Cons m ms)
  from Cons [of "snd (crt_handle_network_message F rt m)"] show ?case
    by (simp add: handle_pending case_prod_beta)
qed simp

lemma process_pending_eq:
  "crt_process_pending_messages F rt =
     (zip (crt_pending_messages rt) (fst (crt_handle_all F rt (crt_pending_messages rt))),
      (snd (crt_handle_all F rt (crt_pending_messages rt)))\<lparr>crt_pending_messages := []\<rparr>)"
proof (induction "crt_pending_messages rt" arbitrary: rt)
  case Nil
  then have "crt_pending_messages rt = []" by simp
  moreover from this have "rt\<lparr>crt_pending_messages := []\<rparr> = rt" by (cases rt) simp
  ultimately show ?case by (simp add: crt_process_pending_messages.simps)
next
  case (Cons m ms)
  let ?rt = "snd (crt_handle_network_message F rt m)\<lparr>crt_pending_messages := ms\<rparr>"
  have IH: "crt_process_pending_messages F ?rt =
        (zip ms (fst (crt_handle_all F ?rt ms)), (snd (crt_handle_all F ?rt ms))\<lparr>crt_pending_messages := []\<rparr>)"
    using Cons.hyps(1) [of ?rt] by simp
  show ?case
    unfolding Cons.hyps(2) [symmetric]
    by (subst crt_process_pending_messages.simps)
      (simp add: Cons.hyps(2) [symmetric] process_message_eq_handle handle_pending IH
        handle_all_pending case_prod_beta)
qed

lemma length_handle_all: "length (fst (crt_handle_all F rt ms)) = length ms"
  by (induction ms arbitrary: rt) (simp_all add: case_prod_beta)

section \<open>Starting and shutting down\<close>

datatype ('n, 'h, 's) crt_event =
    RtStart
  | RtShutdown
  | RtAdd "('n, 'h, 's) network_message"
  | RtProcess
  | RtHandle "('n, 'h, 's) network_message"

fun crt_step ::
    "'f f64_ops \<Rightarrow> ('a, 'n, 'h, 's, 'f) consensus_runtime \<Rightarrow> ('n, 'h, 's) crt_event \<Rightarrow>
     ('a, 'n, 'h, 's, 'f) consensus_runtime" where
  "crt_step F rt RtStart = snd (crt_start rt)"
| "crt_step F rt RtShutdown = snd (crt_shutdown rt)"
| "crt_step F rt (RtAdd m) = crt_add_network_message rt m"
| "crt_step F rt RtProcess = snd (crt_process_pending_messages F rt)"
| "crt_step F rt (RtHandle m) = snd (crt_handle_network_message F rt m)"

definition crt_inv :: "('a, 'n, 'h, 's, 'f) consensus_runtime \<Rightarrow> bool" where
  "crt_inv rt \<longleftrightarrow>
     (if crt_is_running rt then cs_state (crt_consensus rt) = Running
      else cs_state (crt_consensus rt) \<in> {Bootstrapping, Stopped})"

lemma cs_process_qc_state [simp]: "cs_state (snd (cs_process_qc c qc)) = cs_state c"
  by (auto simp: cs_process_qc_def split: prod.splits sum.splits)

lemma cs_process_timeout_state [simp]: "cs_state (snd (cs_process_timeout F c r)) = cs_state c"
  by (auto simp: cs_process_timeout_def Let_def split: prod.splits sum.splits)

lemma handle_state:
  fixes rt :: "('b, 'c, 'd, 'e, 'a) consensus_runtime"
  shows
  "crt_is_running (snd (crt_handle_network_message F rt m)) = crt_is_running rt"
  "cs_state (crt_consensus (snd (crt_handle_network_message F rt m))) = cs_state (crt_consensus rt)"
proof -
  have qc: "cs_process_qc c qc = (r, c') \<Longrightarrow> cs_state c' = cs_state c"
    for c c' :: "('b, 'c, 'd, 'e, 'a) consensus" and qc r
    using cs_process_qc_state [of c qc] by simp
  have timeout: "cs_process_timeout F c n = (r, c') \<Longrightarrow> cs_state c' = cs_state c"
    for c c' :: "('b, 'c, 'd, 'e, 'a) consensus" and n r
    using cs_process_timeout_state [of F c n] by simp
  show "crt_is_running (snd (crt_handle_network_message F rt m)) = crt_is_running rt"
    by (auto simp: crt_handle_network_message_def split: network_message.splits prod.splits sum.splits)
  show "cs_state (crt_consensus (snd (crt_handle_network_message F rt m))) = cs_state (crt_consensus rt)"
    by (auto simp: crt_handle_network_message_def qc timeout
        split: network_message.splits prod.splits sum.splits)
qed

lemma handle_all_state:
  "crt_is_running (snd (crt_handle_all F rt ms)) = crt_is_running rt"
  "cs_state (crt_consensus (snd (crt_handle_all F rt ms))) = cs_state (crt_consensus rt)"
  by (induction ms arbitrary: rt) (simp_all add: case_prod_beta handle_state)

lemma crt_inv_step: "crt_inv rt \<Longrightarrow> crt_inv (crt_step F rt ev)"
  by (cases ev)
    (auto simp: crt_inv_def crt_start_def crt_shutdown_def cs_start_def cs_stop_def
      crt_add_network_message_def process_pending_eq handle_all_state handle_state Let_def
      split: if_splits)

lemma crt_inv_run: "crt_inv rt \<Longrightarrow> crt_inv (foldl (crt_step F) rt evs)"
  by (induction evs arbitrary: rt) (simp_all add: crt_inv_step)

section \<open>What a drained queue leaves behind\<close>

text \<open>The rounds that the timeouts among some messages ask to enter, and those their certificates
  order.\<close>

definition entered_rounds :: "('n, 'h, 's) network_message list \<Rightarrow> u64 list" where
  "entered_rounds ms = concat (map (\<lambda>m. case m of NM_Timeout r \<Rightarrow> [r + 1] | _ \<Rightarrow> []) ms)"

definition ordered_rounds :: "('n, 'h, 's) network_message list \<Rightarrow> u64 list" where
  "ordered_rounds ms =
     concat (map (\<lambda>m. case m of NM_QuorumCertificate qc \<Rightarrow> [qc_round qc] | _ \<Rightarrow> []) ms)"

lemma set_entered_rounds: "set (entered_rounds ms) = {r + 1 | r. NM_Timeout r \<in> set ms}"
proof (induction ms)
  case (Cons m ms)
  then show ?case by (cases m) (auto simp: entered_rounds_def)
qed (simp add: entered_rounds_def)

lemma set_ordered_rounds: "set (ordered_rounds ms) = {qc_round qc | qc. NM_QuorumCertificate qc \<in> set ms}"
proof (induction ms)
  case (Cons m ms)
  then show ?case by (cases m) (auto simp: ordered_rounds_def)
qed (simp add: ordered_rounds_def)

lemma foldl_max_Max: "foldl max a xs = Max (insert a (set xs))" for a :: "'a::linorder"
proof (induction xs rule: rev_induct)
  case (snoc x xs)
  have "Max (insert x (insert a (set xs))) = max x (Max (insert a (set xs)))"
    by (rule Max_insert) simp_all
  with snoc show ?case by (simp add: insert_commute max.commute)
qed simp

lemma process_qc_pacemaker:
  assumes "cs_state c = Running"
  shows "snd (cs_process_qc c qc) =
           c\<lparr>cs_pacemaker := (cs_pacemaker c)\<lparr>pm_highest_ordered_round :=
              max (pm_highest_ordered_round (cs_pacemaker c)) (qc_round qc)\<rparr>\<rparr>"
  using assms by (simp add: cs_process_qc_def pm_record_ordered_round_def max_def)

lemma process_timeout_pacemaker:
  assumes "cs_state c = Running"
  shows "snd (cs_process_timeout F c r) =
           c\<lparr>cs_pacemaker := (cs_pacemaker c)\<lparr>pm_current_round :=
              max (pm_current_round (cs_pacemaker c)) (r + 1)\<rparr>\<rparr>"
  using assms
  by (simp add: cs_process_timeout_def pm_enter_new_round_def pm_can_enter_round_def max_def Let_def)

lemma handle_consensus:
  "crt_consensus (snd (crt_handle_network_message F rt m)) =
     (case m of NM_QuorumCertificate qc \<Rightarrow> snd (cs_process_qc (crt_consensus rt) qc)
              | NM_Timeout r \<Rightarrow> snd (cs_process_timeout F (crt_consensus rt) r)
              | _ \<Rightarrow> crt_consensus rt)"
  by (auto simp: crt_handle_network_message_def split: network_message.splits prod.splits sum.splits)

lemma handle_pacemaker:
  assumes "cs_state (crt_consensus rt) = Running"
  shows "crt_consensus (snd (crt_handle_network_message F rt m)) =
           (crt_consensus rt)\<lparr>cs_pacemaker := (cs_pacemaker (crt_consensus rt))\<lparr>
              pm_current_round := foldl max (pm_current_round (cs_pacemaker (crt_consensus rt))) (entered_rounds [m]),
              pm_highest_ordered_round :=
                foldl max (pm_highest_ordered_round (cs_pacemaker (crt_consensus rt))) (ordered_rounds [m])\<rparr>\<rparr>"
  by (cases m)
    (simp_all add: handle_consensus process_qc_pacemaker [OF assms] process_timeout_pacemaker [OF assms]
      entered_rounds_def ordered_rounds_def)

lemma handle_all_pacemaker:
  assumes "cs_state (crt_consensus rt) = Running"
  shows "crt_consensus (snd (crt_handle_all F rt ms)) =
           (crt_consensus rt)\<lparr>cs_pacemaker := (cs_pacemaker (crt_consensus rt))\<lparr>
              pm_current_round := foldl max (pm_current_round (cs_pacemaker (crt_consensus rt))) (entered_rounds ms),
              pm_highest_ordered_round :=
                foldl max (pm_highest_ordered_round (cs_pacemaker (crt_consensus rt))) (ordered_rounds ms)\<rparr>\<rparr>"
  using assms
proof (induction ms arbitrary: rt)
  case Nil
  then show ?case by (simp add: entered_rounds_def ordered_rounds_def)
next
  case (Cons m ms)
  let ?rt = "snd (crt_handle_network_message F rt m)"
  have split: "entered_rounds (m # ms) = entered_rounds [m] @ entered_rounds ms"
    "ordered_rounds (m # ms) = ordered_rounds [m] @ ordered_rounds ms"
    by (simp_all add: entered_rounds_def ordered_rounds_def)
  have "cs_state (crt_consensus ?rt) = Running" using Cons.prems by (simp add: handle_state)
  from Cons.IH [OF this] show ?case
    by (simp add: case_prod_beta handle_pacemaker [OF Cons.prems] split del: if_split) (simp add: split)
qed

section \<open>Properties\<close>

text \<open>C26: \<open>process_pending_messages\<close> ends with an empty queue, answers every queued message once
  and in queue order, and does to the engine exactly what \<open>handle_network_message\<close> does to
  the same messages one at a time.\<close>

theorem process_pending_messages_spec:
  "map fst (fst (crt_process_pending_messages F rt)) = crt_pending_messages rt \<and>
   map snd (fst (crt_process_pending_messages F rt)) =
     fst (crt_handle_all F rt (crt_pending_messages rt)) \<and>
   crt_consensus (snd (crt_process_pending_messages F rt)) =
     crt_consensus (snd (crt_handle_all F rt (crt_pending_messages rt))) \<and>
   crt_pending_messages (snd (crt_process_pending_messages F rt)) = []"
  by (simp add: process_pending_eq length_handle_all)

text \<open>C27: driven through its own operations only, a runtime is marked running exactly when its
  engine is running.\<close>

theorem runtime_running_iff_engine_running:
  assumes "cs_state c = Bootstrapping"
  shows "crt_is_running (foldl (crt_step F) (crt_new c config) evs) \<longleftrightarrow>
         cs_state (crt_consensus (foldl (crt_step F) (crt_new c config) evs)) = Running"
  using crt_inv_run [of "crt_new c config" F evs] assms
  by (auto simp: crt_inv_def crt_new_def split: if_splits)

theorem runtime_running_iff_engine_running_witness:
  "\<exists>c. mock_engine 0 = Inr c \<and>
     crt_is_running (foldl (crt_step rat_f64) (crt_new c rtc_default) [RtStart, RtAdd (NM_Timeout 1), RtProcess]) =
     (cs_state (crt_consensus (foldl (crt_step rat_f64) (crt_new c rtc_default)
        [RtStart, RtAdd (NM_Timeout 1), RtProcess])) = Running)"
proof -
  obtain c :: "(u8, u8, u8, u8, rat) consensus" where c: "mock_engine 0 = Inr c" "cs_state c = Bootstrapping"
    by (simp add: mock_engine_eq)
  with runtime_running_iff_engine_running [OF c(2), of rat_f64 rtc_default
      "[RtStart, RtAdd (NM_Timeout 1), RtProcess]"] show ?thesis by blast
qed

text \<open>\<open>start\<close> marks the runtime as running before it starts the engine: when the engine is
  already running (started through \<open>consensus_mut\<close>), \<open>start\<close> returns an error and yet leaves
  the runtime marked as running.\<close>

theorem runtime_start_failure_leaves_running:
  assumes "\<not> crt_is_running rt" and "cs_state (crt_consensus rt) = Running"
  shows "\<not> is_ok (fst (crt_start rt)) \<and> crt_is_running (snd (crt_start rt))"
  using assms by (simp add: crt_start_def cs_start_def)

theorem runtime_start_failure_leaves_running_witness:
  "\<exists>c. mock_engine 0 = Inr c \<and>
     crt_is_running (snd (crt_start (crt_new (snd (cs_start c)) rtc_default)))"
proof -
  obtain c :: "(u8, u8, u8, u8, rat) consensus" where c: "mock_engine 0 = Inr c" "cs_state c = Bootstrapping"
    by (simp add: mock_engine_eq)
  with runtime_start_failure_leaves_running [of "crt_new (snd (cs_start c)) rtc_default"]
  show ?thesis by (auto simp: crt_new_def cs_start_def)
qed

end
