(* ===== verification/State_Sync.thy ===== *)
theory State_Sync
  imports Mocks
begin

text \<open>
  Models \<open>consensus/state_sync.rs\<close>: the requests and responses, the table of received blocks
  and the status of a synchronisation.
\<close>

record state_sync_config =
  ssc_max_batch_size :: usize
  ssc_sync_timeout_ms :: u64
  ssc_max_retries :: usize
  ssc_verify_from_multiple_peers :: bool

definition ssc_default :: state_sync_config where
  "ssc_default =
     \<lparr>ssc_max_batch_size = 100, ssc_sync_timeout_ms = 5000, ssc_max_retries = 3,
      ssc_verify_from_multiple_peers = True\<rparr>"

datatype sync_status =
    SY_Idle
  | SY_InProgress round round usize
  | SY_Completed usize
  | SY_Failed string

fun sy_is_in_progress :: "sync_status \<Rightarrow> bool" where
  "sy_is_in_progress (SY_InProgress _ _ _) = True"
| "sy_is_in_progress _ = False"

fun sy_is_completed :: "sync_status \<Rightarrow> bool" where
  "sy_is_completed (SY_Completed _) = True"
| "sy_is_completed _ = False"

fun sy_is_failed :: "sync_status \<Rightarrow> bool" where
  "sy_is_failed (SY_Failed _) = True"
| "sy_is_failed _ = False"

fun sy_target_round :: "sync_status \<Rightarrow> round option" where
  "sy_target_round (SY_InProgress target _ _) = Some target"
| "sy_target_round _ = None"

fun sy_current_round :: "sync_status \<Rightarrow> round option" where
  "sy_current_round (SY_InProgress _ current _) = Some current"
| "sy_current_round _ = None"

record sync_request =
  srq_target_round :: round
  srq_start_round :: round
  srq_epoch :: epoch

definition srq_new :: "round \<Rightarrow> round \<Rightarrow> epoch \<Rightarrow> sync_request" where
  "srq_new target start e = \<lparr>srq_target_round = target, srq_start_round = start, srq_epoch = e\<rparr>"

definition srq_covers_round :: "sync_request \<Rightarrow> round \<Rightarrow> bool" where
  "srq_covers_round q r = (srq_start_round q \<le> r \<and> r \<le> srq_target_round q)"

definition srq_round_count :: "sync_request \<Rightarrow> u64" where
  "srq_round_count q = saturating_sub (srq_target_round q) (srq_start_round q) + 1"

record ('n, 'h, 's) sync_response =
  srp_blocks :: "('n, 'h, 's) block list"
  srp_epoch :: epoch
  srp_is_final :: bool

definition srp_new :: "('n, 'h, 's) block list \<Rightarrow> epoch \<Rightarrow> bool \<Rightarrow> ('n, 'h, 's) sync_response" where
  "srp_new bs e fin = \<lparr>srp_blocks = bs, srp_epoch = e, srp_is_final = fin\<rparr>"

definition srp_is_empty :: "('n, 'h, 's) sync_response \<Rightarrow> bool" where
  "srp_is_empty p = (srp_blocks p = [])"

definition srp_len :: "('n, 'h, 's) sync_response \<Rightarrow> nat" where
  "srp_len p = length (srp_blocks p)"

definition srp_highest_round :: "('n, 'h, 's) sync_response \<Rightarrow> round option" where
  "srp_highest_round p =
     (case srp_blocks p of [] \<Rightarrow> None | b # bs \<Rightarrow> Some (blk_round (last (b # bs))))"

definition srp_lowest_round :: "('n, 'h, 's) sync_response \<Rightarrow> round option" where
  "srp_lowest_round p = (case srp_blocks p of [] \<Rightarrow> None | b # _ \<Rightarrow> Some (blk_round b))"

text \<open>The loop over the windows of two blocks.\<close>

fun verify_windows :: "('n, 'h, 's) block list \<Rightarrow> unit res" where
  "verify_windows (b # c # bs) =
     (let current_round = blk_round b; next_rnd = blk_round c
      in if next_rnd \<noteq> current_round + 1
         then Inl (Msg (''Blocks not sequential: round '' @ show_u64 current_round @
                        '' followed by round '' @ show_u64 next_rnd))
         else verify_windows (c # bs))"
| "verify_windows _ = Inr ()"

definition srp_verify_sequential :: "('n, 'h, 's) sync_response \<Rightarrow> unit res" where
  "srp_verify_sequential p = verify_windows (srp_blocks p)"

record ('n, 'h, 's) state_sync =
  ssy_config :: state_sync_config
  ssy_status :: sync_status
  ssy_pending_requests :: "sync_request list"
  ssy_received_blocks :: "(round, ('n, 'h, 's) block) hashmap"
  ssy_highest_known_round :: "round option"
  ssy_current_round :: round

definition ssy_new :: "state_sync_config \<Rightarrow> round \<Rightarrow> ('n, 'h, 's) state_sync" where
  "ssy_new config r =
     \<lparr>ssy_config = config, ssy_status = SY_Idle, ssy_pending_requests = [],
      ssy_received_blocks = hm_empty, ssy_highest_known_round = None, ssy_current_round = r\<rparr>"

definition ssy_start_sync ::
    "('n, 'h, 's) state_sync \<Rightarrow> round \<Rightarrow> epoch \<Rightarrow> unit res \<times> ('n, 'h, 's) state_sync" where
  "ssy_start_sync s target_round e =
     (if sy_is_in_progress (ssy_status s) then (Inl (Msg ''Sync already in progress''), s)
      else if target_round \<le> ssy_current_round s
      then (Inr (), s\<lparr>ssy_status := SY_Completed 0\<rparr>)
      else let round_count = saturating_sub target_round (ssy_current_round s);
               batch_size = min round_count (ssc_max_batch_size (ssy_config s));
               request = srq_new (ssy_current_round s + batch_size) (ssy_current_round s + 1) e
           in (Inr (), s\<lparr>ssy_status := SY_InProgress target_round (ssy_current_round s) 0,
                         ssy_pending_requests := ssy_pending_requests s @ [request]\<rparr>))"

text \<open>\<open>Iterator::max\<close> over the rounds.\<close>

fun max_round :: "round list \<Rightarrow> round option" where
  "max_round [] = None"
| "max_round (r # rs) = Some (foldl max r rs)"

definition ssy_add_sync_response ::
    "('n, 'h, 's) state_sync \<Rightarrow> ('n, 'h, 's) sync_response \<Rightarrow> unit res \<times> ('n, 'h, 's) state_sync" where
  "ssy_add_sync_response s response =
     (case sy_target_round (ssy_status s) of
        None \<Rightarrow> (Inl (Msg ''No sync in progress''), s)
      | Some target_round \<Rightarrow>
          (case srp_verify_sequential response of
             Inl e \<Rightarrow> (Inl e, s)
           | Inr _ \<Rightarrow>
               (let expected_epoch = (case ssy_status s of
                                        SY_InProgress _ _ _ \<Rightarrow> srp_epoch response
                                      | _ \<Rightarrow> srp_epoch response);
                    received = foldl (\<lambda>m b. hm_insert (blk_round b) b m) (ssy_received_blocks s)
                                 (srp_blocks response);
                    s1 = s\<lparr>ssy_received_blocks := received\<rparr>;
                    blocks_received = usize_of_nat (length received);
                    highest_received = max_round (hm_keys received)
                in case highest_received of
                     None \<Rightarrow> (Inr (), s1)
                   | Some highest \<Rightarrow>
                       if target_round \<le> highest
                       then (Inr (), s1\<lparr>ssy_status := SY_Completed blocks_received\<rparr>)
                       else let s2 = s1\<lparr>ssy_status := SY_InProgress target_round highest blocks_received\<rparr>
                            in if srp_is_final response \<and> highest < target_round
                               then let next_start = highest + 1;
                                        next_end = min target_round
                                          (highest + ssc_max_batch_size (ssy_config s));
                                        request = srq_new next_end next_start expected_epoch
                                    in (Inr (), s2\<lparr>ssy_pending_requests := ssy_pending_requests s2 @ [request]\<rparr>)
                               else (Inr (), s2))))"

text \<open>\<open>Vec::pop\<close>: the request added last.\<close>

definition ssy_take_next_request ::
    "('n, 'h, 's) state_sync \<Rightarrow> sync_request option \<times> ('n, 'h, 's) state_sync" where
  "ssy_take_next_request s =
     (case ssy_pending_requests s of
        [] \<Rightarrow> (None, s)
      | q # qs \<Rightarrow> (Some (last (q # qs)), s\<lparr>ssy_pending_requests := butlast (q # qs)\<rparr>))"

lemma length_hm_remove: "hm_get m k = Some v \<Longrightarrow> length (hm_remove k m) < length m"
proof -
  assume "hm_get m k = Some v"
  then have "(k, v) \<in> set m" by (rule hm_get_in_set)
  then show ?thesis
    by (auto simp: hm_remove_def AList.delete_eq intro!: length_filter_less)
qed

text \<open>The loop of \<open>ready_blocks\<close>.\<close>

function ready_loop ::
    "('n, 'h, 's) state_sync \<Rightarrow> round \<Rightarrow> ('n, 'h, 's) block list \<times> ('n, 'h, 's) state_sync" where
  "ready_loop s next_rnd =
     (case hm_get (ssy_received_blocks s) next_rnd of
        None \<Rightarrow> ([], s)
      | Some block \<Rightarrow>
          (case ready_loop (s\<lparr>ssy_received_blocks := hm_remove next_rnd (ssy_received_blocks s),
                              ssy_current_round := next_rnd\<rparr>) (next_rnd + 1) of
             (ready, s') \<Rightarrow> (block # ready, s')))"
  by pat_completeness auto
termination
  by (relation "measure (\<lambda>(s, r). length (ssy_received_blocks s))") (simp_all add: length_hm_remove)

declare ready_loop.simps [simp del]

definition ssy_ready_blocks ::
    "('n, 'h, 's) state_sync \<Rightarrow> ('n, 'h, 's) block list \<times> ('n, 'h, 's) state_sync" where
  "ssy_ready_blocks s = ready_loop s (ssy_current_round s + 1)"

definition ssy_update_highest_known_round :: "('n, 'h, 's) state_sync \<Rightarrow> round \<Rightarrow> ('n, 'h, 's) state_sync" where
  "ssy_update_highest_known_round s r =
     (case ssy_highest_known_round s of
        Some current \<Rightarrow> s\<lparr>ssy_highest_known_round := Some (max current r)\<rparr>
      | None \<Rightarrow> s\<lparr>ssy_highest_known_round := Some r\<rparr>)"

definition ssy_needs_sync :: "('n, 'h, 's) state_sync \<Rightarrow> bool" where
  "ssy_needs_sync s =
     (case ssy_highest_known_round s of
        Some highest \<Rightarrow> ssy_current_round s < highest \<and> \<not> sy_is_in_progress (ssy_status s)
      | None \<Rightarrow> False)"

definition ssy_cancel :: "('n, 'h, 's) state_sync \<Rightarrow> ('n, 'h, 's) state_sync" where
  "ssy_cancel s =
     s\<lparr>ssy_status := SY_Idle, ssy_pending_requests := [], ssy_received_blocks := hm_empty\<rparr>"

definition ssy_reset :: "('n, 'h, 's) state_sync \<Rightarrow> ('n, 'h, 's) state_sync" where
  "ssy_reset s =
     s\<lparr>ssy_status := SY_Idle, ssy_pending_requests := [], ssy_received_blocks := hm_empty,
       ssy_highest_known_round := None\<rparr>"

definition ssy_pending_block_count :: "('n, 'h, 's) state_sync \<Rightarrow> nat" where
  "ssy_pending_block_count s = length (ssy_received_blocks s)"

definition ssy_has_block :: "('n, 'h, 's) state_sync \<Rightarrow> round \<Rightarrow> bool" where
  "ssy_has_block s r = hm_contains_key (ssy_received_blocks s) r"

definition ssy_get_block :: "('n, 'h, 's) state_sync \<Rightarrow> round \<Rightarrow> ('n, 'h, 's) block option" where
  "ssy_get_block s r = hm_get (ssy_received_blocks s) r"

section \<open>Sequential responses\<close>

lemma verify_windows_iff:
  "is_ok (verify_windows bs) \<longleftrightarrow>
     (\<forall>i < length bs. blk_round (bs ! i) = blk_round (hd bs) + of_nat i)"
proof (induction bs rule: verify_windows.induct)
  case (1 b c bs)
  have shift: "(\<forall>i < length (c # bs). blk_round ((c # bs) ! i) = blk_round c + of_nat i) \<and>
        blk_round c = blk_round b + 1 \<longleftrightarrow>
        (\<forall>i < length (b # c # bs). blk_round ((b # c # bs) ! i) = blk_round b + of_nat i)"
    by (auto simp: All_less_Suc2 algebra_simps)
  show ?case
  proof (cases "blk_round c = blk_round b + 1")
    case True
    with "1.IH" [OF refl refl] shift show ?thesis by simp
  next
    case False
    with shift show ?thesis by (auto simp: Let_def)
  qed
qed simp_all

section \<open>The table of received blocks\<close>

text \<open>Every block is filed under its own round.\<close>

definition ssy_inv :: "('n, 'h, 's) state_sync \<Rightarrow> bool" where
  "ssy_inv s \<longleftrightarrow> hm_wf (ssy_received_blocks s) \<and>
     (\<forall>r b. hm_get (ssy_received_blocks s) r = Some b \<longrightarrow> blk_round b = r)"

lemma ssy_inv_new: "ssy_inv (ssy_new config r)"
  by (simp add: ssy_inv_def ssy_new_def)

lemma hm_wf_foldl_blocks: "hm_wf m \<Longrightarrow> hm_wf (foldl (\<lambda>m b. hm_insert (blk_round b) b m) m bs)"
  by (induction bs arbitrary: m) simp_all

lemma hm_get_foldl_blocks:
  "hm_get (foldl (\<lambda>m b. hm_insert (blk_round b) b m) m bs) r =
     (case find (\<lambda>b. blk_round b = r) (rev bs) of Some b \<Rightarrow> Some b | None \<Rightarrow> hm_get m r)"
  by (induction bs rule: rev_induct) auto

lemma find_SomeD: "find P xs = Some x \<Longrightarrow> P x \<and> x \<in> set xs"
  by (auto simp: find_Some_iff)

lemma ssy_inv_add: "ssy_inv s \<Longrightarrow> ssy_inv (snd (ssy_add_sync_response s p))"
  by (auto simp: ssy_add_sync_response_def ssy_inv_def Let_def hm_wf_foldl_blocks
      hm_get_foldl_blocks dest: find_SomeD split: option.splits sum.splits)

lemma ssy_inv_remove:
  "ssy_inv s \<Longrightarrow> ssy_inv (s\<lparr>ssy_received_blocks := hm_remove k (ssy_received_blocks s),
                            ssy_current_round := r\<rparr>)"
  by (auto simp: ssy_inv_def)

lemma ready_loop_spec:
  assumes "ssy_inv s" and "ready_loop s n = (bs, s')"
  shows "ssy_inv s' \<and> map blk_round bs = map (\<lambda>i. n + of_nat i) [0..<length bs] \<and>
     ssy_current_round s' = (if bs = [] then ssy_current_round s else n + of_nat (length bs) - 1) \<and>
     hm_get (ssy_received_blocks s') (n + of_nat (length bs)) = None \<and>
     (\<forall>b \<in> set bs. hm_get (ssy_received_blocks s) (blk_round b) = Some b) \<and>
     (\<forall>r. hm_get (ssy_received_blocks s') r =
        (if r \<in> blk_round ` set bs then None else hm_get (ssy_received_blocks s) r))"
  using assms
proof (induction s n arbitrary: bs s' rule: ready_loop.induct)
  case (1 s n)
  show ?case
  proof (cases "hm_get (ssy_received_blocks s) n")
    case None
    with "1.prems"(2) have "bs = []" "s' = s" by (simp_all add: ready_loop.simps [of s n])
    with None "1.prems"(1) show ?thesis by simp
  next
    case (Some b)
    let ?s = "s\<lparr>ssy_received_blocks := hm_remove n (ssy_received_blocks s), ssy_current_round := n\<rparr>"
    from Some "1.prems"(2) obtain cs where cs: "bs = b # cs" "ready_loop ?s (n + 1) = (cs, s')"
      by (auto simp: ready_loop.simps [of s n] split: prod.splits)
    have b: "blk_round b = n" using Some "1.prems"(1) by (simp add: ssy_inv_def)
    note ih = "1.IH" [OF Some ssy_inv_remove [OF "1.prems"(1)] cs(2)]
    note IH = conjunct1 [OF ih] ih [THEN conjunct2, THEN conjunct1]
      ih [THEN conjunct2, THEN conjunct2, THEN conjunct1]
      ih [THEN conjunct2, THEN conjunct2, THEN conjunct2, THEN conjunct1]
      ih [THEN conjunct2, THEN conjunct2, THEN conjunct2, THEN conjunct2, THEN conjunct1]
      ih [THEN conjunct2, THEN conjunct2, THEN conjunct2, THEN conjunct2, THEN conjunct2]
    have "map blk_round bs = map (\<lambda>i. n + of_nat i) [0..<length bs]"
      using IH(2) by (simp add: cs(1) b map_upt_Suc algebra_simps del: upt_Suc)
    moreover have "ssy_current_round s' = n + of_nat (length bs) - 1" "bs \<noteq> []"
      using IH(3) by (auto simp: cs(1))
    moreover have "hm_get (ssy_received_blocks s') (n + of_nat (length bs)) = None"
      using IH(4) by (simp add: cs(1) algebra_simps)
    moreover have "\<forall>b \<in> set bs. hm_get (ssy_received_blocks s) (blk_round b) = Some b"
      using IH(5) Some b by (auto simp: cs(1) split: if_splits)
    moreover have "hm_get (ssy_received_blocks s') r =
        (if r \<in> blk_round ` set bs then None else hm_get (ssy_received_blocks s) r)" for r
      using IH(6) b by (simp add: cs(1))
    ultimately show ?thesis using IH(1) by simp
  qed
qed

lemma ready_blocks_loop:
  assumes "ssy_inv s" and "ssy_ready_blocks s = (bs, s')"
  shows "ssy_inv s'" "map blk_round bs = map (\<lambda>i. ssy_current_round s + 1 + of_nat i) [0..<length bs]"
    "ssy_current_round s' = ssy_current_round s + of_nat (length bs)"
    "hm_get (ssy_received_blocks s') (ssy_current_round s' + 1) = None"
    "\<forall>b \<in> set bs. hm_get (ssy_received_blocks s) (blk_round b) = Some b"
    "\<forall>r. hm_get (ssy_received_blocks s') r =
        (if r \<in> blk_round ` set bs then None else hm_get (ssy_received_blocks s) r)"
proof -
  note ih = ready_loop_spec [OF assms(1) assms(2) [unfolded ssy_ready_blocks_def]]
  then show "ssy_inv s'" "map blk_round bs = map (\<lambda>i. ssy_current_round s + 1 + of_nat i) [0..<length bs]"
    "\<forall>b \<in> set bs. hm_get (ssy_received_blocks s) (blk_round b) = Some b"
    "\<forall>r. hm_get (ssy_received_blocks s') r =
        (if r \<in> blk_round ` set bs then None else hm_get (ssy_received_blocks s) r)"
    by blast+
  from ih show cur: "ssy_current_round s' = ssy_current_round s + of_nat (length bs)"
    by (cases "bs = []") auto
  from ih have "hm_get (ssy_received_blocks s') (ssy_current_round s + 1 + of_nat (length bs)) = None"
    by blast
  then show "hm_get (ssy_received_blocks s') (ssy_current_round s' + 1) = None"
    by (simp only: cur add.commute add.left_commute add.assoc)
qed

text \<open>What the received table holds after a sequential response to a node with no blocks.\<close>

lemma find_rev_distinct:
  "distinct (map blk_round bs) \<Longrightarrow> find (\<lambda>b. blk_round b = r) (rev bs) = Some b \<longleftrightarrow> b \<in> set bs \<and> blk_round b = r"
proof -
  assume d: "distinct (map blk_round bs)"
  show ?thesis
  proof
    assume "find (\<lambda>b. blk_round b = r) (rev bs) = Some b"
    then show "b \<in> set bs \<and> blk_round b = r" using find_SomeD by fastforce
  next
    assume b: "b \<in> set bs \<and> blk_round b = r"
    then obtain c where c: "find (\<lambda>b. blk_round b = r) (rev bs) = Some c"
      by (cases "find (\<lambda>b. blk_round b = r) (rev bs)") (auto simp: find_None_iff)
    then have "c \<in> set bs" "blk_round c = r" using find_SomeD by fastforce+
    with b d have "c = b" by (auto simp: distinct_map inj_on_def)
    with c show "find (\<lambda>b. blk_round b = r) (rev bs) = Some b" by simp
  qed
qed

lemma distinct_consecutive:
  "unat n + k < 2 ^ 64 \<Longrightarrow> distinct (map (\<lambda>i. n + of_nat i) [0..<k])" for n :: u64
proof -
  assume k: "unat n + k < 2 ^ 64"
  have "unat (n + of_nat i) = unat n + i" if "i < k" for i
    using k that by (simp add: unat_word_ariths unsigned_of_nat take_bit_nat_eq_self)
  then show ?thesis
    by (auto simp: distinct_map inj_on_def) (metis add_left_cancel)
qed

lemma received_after_response:
  assumes "distinct (map blk_round bs)" and "hm_get m = (\<lambda>_. None)"
  shows "hm_get (foldl (\<lambda>m b. hm_insert (blk_round b) b m) m bs) r = Some b \<longleftrightarrow>
           b \<in> set bs \<and> blk_round b = r"
  using find_rev_distinct [OF assms(1), of r b] assms(2)
  by (simp add: hm_get_foldl_blocks split: option.splits) auto

lemma add_response_received:
  assumes "sy_is_in_progress (ssy_status s)" "is_ok (srp_verify_sequential p)"
  shows "ssy_received_blocks (snd (ssy_add_sync_response s p)) =
           foldl (\<lambda>m b. hm_insert (blk_round b) b m) (ssy_received_blocks s) (srp_blocks p) \<and>
         ssy_current_round (snd (ssy_add_sync_response s p)) = ssy_current_round s \<and>
         is_ok (fst (ssy_add_sync_response s p))"
  using assms
  by (cases "ssy_status s")
    (auto simp: ssy_add_sync_response_def Let_def is_ok_iff split: option.splits)

lemma of_nat_u64_inject:
  "i < 2 ^ 64 \<Longrightarrow> j < 2 ^ 64 \<Longrightarrow> (of_nat i :: u64) = of_nat j \<longleftrightarrow> i = j"
  by (simp add: word_unat_eq_iff unsigned_of_nat take_bit_nat_eq_self)

text \<open>A consecutive list within another that starts at the same round is a prefix of it.\<close>

lemma consecutive_prefix:
  fixes n :: u64
  assumes cs: "map f cs = map (\<lambda>i. n + of_nat i) [0..<length cs]"
    and bs: "map f bs = map (\<lambda>i. n + of_nat i) [0..<length bs]"
    and sub: "set cs \<subseteq> set bs" and room: "length bs < 2 ^ 64"
  shows "length cs \<le> length bs" and "cs = take (length cs) bs"
proof -
  have nth_bs: "f (bs ! i) = n + of_nat i" if "i < length bs" for i
    using arg_cong [OF bs, of "\<lambda>l. l ! i"] that by simp
  have nth_cs: "f (cs ! i) = n + of_nat i" if "i < length cs" for i
    using arg_cong [OF cs, of "\<lambda>l. l ! i"] that by simp
  have found: "\<exists>j < length bs. cs ! i = bs ! j \<and> (of_nat j :: u64) = of_nat i"
    if i: "i < length cs" for i
  proof -
    obtain j where j: "j < length bs" "bs ! j = cs ! i"
      using subsetD [OF sub nth_mem [OF i]] by (auto simp: in_set_conv_nth)
    then have "(of_nat j :: u64) = of_nat i" using nth_bs [OF j(1)] nth_cs [OF i] by simp
    with j show ?thesis by (intro exI [of _ j]) simp
  qed
  show len: "length cs \<le> length bs"
  proof (rule ccontr)
    assume "\<not> length cs \<le> length bs"
    with found [of "length bs"] room show False by (auto simp: of_nat_u64_inject)
  qed
  have "cs ! i = bs ! i" if "i < length cs" for i
    using found [OF that] len that room by (auto simp: of_nat_u64_inject)
  with len show "cs = take (length cs) bs" by (intro nth_equalityI) auto
qed

text \<open>
  If every block the table holds is one of a consecutive list that starts right after the
  current round, \<open>ready_blocks\<close> returns that list.
\<close>

lemma ready_blocks_of_consecutive:
  assumes inv: "ssy_inv s" and rdy: "ssy_ready_blocks s = (cs, s')"
    and rounds: "map blk_round bs = map (\<lambda>i. ssy_current_round s + 1 + of_nat i) [0..<length bs]"
    and held: "\<And>r b. hm_get (ssy_received_blocks s) r = Some b \<longleftrightarrow> b \<in> set bs \<and> blk_round b = r"
    and room: "unat (ssy_current_round s) + length bs + 1 < 2 ^ 64"
  shows "cs = bs"
proof -
  note spec = ready_blocks_loop [OF inv rdy]
  have sub: "set cs \<subseteq> set bs" using spec(5) held by blast
  note prefix = consecutive_prefix [OF spec(2) rounds sub]
  have "length bs \<le> length cs"
  proof (rule ccontr)
    assume "\<not> length bs \<le> length cs"
    then have l: "length cs < length bs" by simp
    let ?b = "bs ! length cs"
    have r: "blk_round ?b = ssy_current_round s' + 1"
      using arg_cong [OF rounds, of "\<lambda>xs. xs ! length cs"] l spec(3) by simp
    have "hm_get (ssy_received_blocks s) (blk_round ?b) = Some ?b" using held l by simp
    then have "blk_round ?b \<in> blk_round ` set cs"
      using spec(4,6) r by (metis option.distinct(1))
    then obtain i where i: "i < length cs" "blk_round (cs ! i) = blk_round ?b"
      by (auto simp: in_set_conv_nth)
    then have "(of_nat i :: u64) = of_nat (length cs)"
      using arg_cong [OF spec(2), of "\<lambda>xs. xs ! i"] r spec(3) by simp
    then show False using i(1) l room by (simp add: of_nat_u64_inject)
  qed
  with prefix room show ?thesis by simp
qed

section \<open>Runs and the status machine\<close>

datatype ('n, 'h, 's) ssy_event =
    SsStart round epoch
  | SsResponse "('n, 'h, 's) sync_response"
  | SsTakeRequest
  | SsReady
  | SsKnown round
  | SsCancel
  | SsReset

fun ssy_step :: "('n, 'h, 's) state_sync \<Rightarrow> ('n, 'h, 's) ssy_event \<Rightarrow> ('n, 'h, 's) state_sync" where
  "ssy_step s (SsStart t e) = snd (ssy_start_sync s t e)"
| "ssy_step s (SsResponse p) = snd (ssy_add_sync_response s p)"
| "ssy_step s SsTakeRequest = snd (ssy_take_next_request s)"
| "ssy_step s SsReady = snd (ssy_ready_blocks s)"
| "ssy_step s (SsKnown r) = ssy_update_highest_known_round s r"
| "ssy_step s SsCancel = ssy_cancel s"
| "ssy_step s SsReset = ssy_reset s"

text \<open>What the status may do: a synchronisation starts from any status that is not in progress,
  keeps its target while blocks arrive, and ends when the target is reached or it is
  cancelled.\<close>

inductive sy_next :: "sync_status \<Rightarrow> sync_status \<Rightarrow> bool" where
  start: "\<not> sy_is_in_progress st \<Longrightarrow> c < t \<Longrightarrow> sy_next st (SY_InProgress t c 0)"
| caught_up: "\<not> sy_is_in_progress st \<Longrightarrow> sy_next st (SY_Completed 0)"
| more: "h < t \<Longrightarrow> sy_next (SY_InProgress t c n) (SY_InProgress t h n')"
| finish: "sy_next (SY_InProgress t c n) (SY_Completed n')"
| cancel: "sy_next st SY_Idle"

inductive_simps sy_next_InProgress: "sy_next (SY_InProgress t c n) st"

lemma sy_reachable:
  "sy_next\<^sup>*\<^sup>* SY_Idle st \<Longrightarrow> \<not> sy_is_failed st \<and> (\<forall>t c n. st = SY_InProgress t c n \<longrightarrow> c < t)"
proof (induction rule: rtranclp_induct)
  case (step st st')
  from step.hyps(2) show ?case by cases auto
qed simp

lemma ready_loop_status [simp]:
  "ssy_status (snd (ready_loop s r)) = ssy_status s"
  "ssy_config (snd (ready_loop s r)) = ssy_config s"
proof (induction s r rule: ready_loop.induct)
  case (1 s r)
  {
    case 1
    then show ?case using "1.IH"(1) by (auto simp: ready_loop.simps [of s r] split: option.splits prod.splits)
  next
    case 2
    then show ?case using "1.IH"(2) by (auto simp: ready_loop.simps [of s r] split: option.splits prod.splits)
  }
qed

lemma sy_target_Some: "sy_target_round st = Some t \<Longrightarrow> \<exists>c n. st = SY_InProgress t c n"
  by (cases st) auto

lemma ssy_step_status:
  "ssy_status (ssy_step s ev) = ssy_status s \<or> sy_next (ssy_status s) (ssy_status (ssy_step s ev))"
proof (cases ev)
  case (SsResponse p)
  show ?thesis
    by (auto simp: SsResponse ssy_add_sync_response_def Let_def sy_next_InProgress not_le
        dest!: sy_target_Some split: option.splits sum.splits)
qed (auto simp: ssy_start_sync_def ssy_take_next_request_def ssy_ready_blocks_def
      ssy_update_highest_known_round_def ssy_cancel_def ssy_reset_def Let_def not_le
      intro: sy_next.intros split: list.splits option.splits)

lemma ssy_run_status: "sy_next\<^sup>*\<^sup>* (ssy_status s) (ssy_status (foldl ssy_step s evs))"
proof (induction evs arbitrary: s)
  case (Cons ev evs)
  from ssy_step_status [of s ev] Cons.IH [of "ssy_step s ev"] show ?case
    by (auto intro: converse_rtranclp_into_rtranclp)
qed simp

lemma ssy_inv_step: "ssy_inv s \<Longrightarrow> ssy_inv (ssy_step s ev)"
proof (cases ev)
  case SsReady
  then show "ssy_inv s \<Longrightarrow> ssy_inv (ssy_step s ev)"
    using ready_blocks_loop [of s "fst (ssy_ready_blocks s)" "snd (ssy_ready_blocks s)"] by simp
qed (auto simp: ssy_inv_add,
     auto simp: ssy_inv_def ssy_start_sync_def ssy_take_next_request_def
       ssy_update_highest_known_round_def ssy_cancel_def ssy_reset_def Let_def
       split: list.splits option.splits)

lemma ssy_inv_run: "ssy_inv s \<Longrightarrow> ssy_inv (foldl ssy_step s evs)"
  by (induction evs arbitrary: s) (simp_all add: ssy_inv_step)

section \<open>Properties\<close>

text \<open>C22: the loop of \<open>ready_blocks\<close> ends, and returns the longest run of received blocks with
  consecutive rounds right after the current round: exactly those leave the table, the
  current round becomes the last of them, and the next round is not in the table.\<close>

theorem ready_blocks_spec:
  assumes "ssy_inv s" and "ssy_ready_blocks s = (bs, s')"
  shows "map blk_round bs = map (\<lambda>i. ssy_current_round s + 1 + of_nat i) [0..<length bs] \<and>
         (\<forall>b \<in> set bs. ssy_get_block s (blk_round b) = Some b) \<and>
         ssy_current_round s' = ssy_current_round s + of_nat (length bs) \<and>
         \<not> ssy_has_block s' (ssy_current_round s' + 1) \<and>
         (\<forall>r. ssy_get_block s' r = (if r \<in> blk_round ` set bs then None else ssy_get_block s r)) \<and>
         ssy_inv s'"
  using ready_blocks_loop [OF assms]
  by (simp add: ssy_get_block_def ssy_has_block_def hm_contains_key_def)

theorem ready_blocks_spec_witness:
  "let s = snd (ssy_add_sync_response (snd (ssy_start_sync (ssy_new ssc_default 4) 9 0))
             (srp_new [mock_block [] (mock_metadata 0 5 0 0 0), mock_block [] (mock_metadata 0 6 0 0 0)] 0 False))
   in ssy_current_round (snd (ssy_ready_blocks s)) = 4 + of_nat (length (fst (ssy_ready_blocks s)))"
proof -
  let ?s = "snd (ssy_add_sync_response (snd (ssy_start_sync (ssy_new ssc_default 4) 9 0))
             (srp_new [mock_block [] (mock_metadata 0 5 0 0 0), mock_block [] (mock_metadata 0 6 0 0 0)] 0 False))"
  have inv: "ssy_inv ?s"
    by (intro ssy_inv_add)
      (simp add: ssy_inv_def ssy_start_sync_def ssy_new_def Let_def)
  have "sy_is_in_progress (ssy_status (snd (ssy_start_sync (ssy_new ssc_default 4) 9 0)))"
    by (simp add: ssy_start_sync_def ssy_new_def Let_def)
  moreover have "is_ok (srp_verify_sequential (srp_new
      [mock_block [] (mock_metadata 0 5 0 0 0), mock_block [] (mock_metadata 0 6 0 0 0)] 0 False))"
    by (simp add: srp_verify_sequential_def srp_new_def mock_block_def mock_metadata_def Let_def)
  ultimately have "ssy_current_round ?s = ssy_current_round (snd (ssy_start_sync
      (ssy_new ssc_default 4 :: (u8, u8, u8) state_sync) 9 0))"
    using add_response_received by blast
  then have "ssy_current_round ?s = 4" by (simp add: ssy_start_sync_def ssy_new_def Let_def)
  with ready_blocks_spec [OF inv, of "fst (ssy_ready_blocks ?s)" "snd (ssy_ready_blocks ?s)"]
  show ?thesis by (simp add: Let_def)
qed

text \<open>C23: a node with no received blocks that gets a response of consecutive blocks from its next
  round on gets exactly these blocks, in order, from \<open>ready_blocks\<close>.\<close>

theorem sync_response_round_trip:
  assumes "sy_is_in_progress (ssy_status s)" and "ssy_received_blocks s = hm_empty"
    and "blk_round b = ssy_current_round s + 1"
    and "is_ok (srp_verify_sequential (srp_new (b # bs) e fin))"
    and "unat (ssy_current_round s) + length (b # bs) + 1 < 2 ^ 64"
  shows "fst (ssy_ready_blocks (snd (ssy_add_sync_response s (srp_new (b # bs) e fin)))) = b # bs"
proof -
  let ?p = "srp_new (b # bs) e fin" and ?n = "ssy_current_round s + 1"
  let ?s = "snd (ssy_add_sync_response s ?p)"
  have seq: "\<forall>i < length (b # bs). blk_round ((b # bs) ! i) = ?n + of_nat i"
    using assms(3,4) verify_windows_iff [of "b # bs"]
    by (simp add: srp_verify_sequential_def srp_new_def)
  then have rounds: "map blk_round (b # bs) = map (\<lambda>i. ?n + of_nat i) [0..<length (b # bs)]"
    by (intro nth_equalityI) (simp_all del: upt_Suc list.map)
  have "unat ?n = unat (ssy_current_round s) + 1"
    by (rule unat_plus_one) (use assms(5) in auto)
  then have dist: "distinct (map blk_round (b # bs))"
    unfolding rounds by (intro distinct_consecutive) (use assms(5) in simp)
  note after = add_response_received [OF assms(1,4)]
  have none: "hm_get hm_empty = (\<lambda>_. None)" by (rule ext) simp
  have held: "hm_get (ssy_received_blocks ?s) r = Some c \<longleftrightarrow> c \<in> set (b # bs) \<and> blk_round c = r" for r c
    using after received_after_response [OF dist none, of r c]
    by (simp add: assms(2) srp_new_def)
  have inv: "ssy_inv ?s" by (intro ssy_inv_add) (simp add: ssy_inv_def assms(2))
  show ?thesis
    using ready_blocks_of_consecutive [OF inv, of "fst (ssy_ready_blocks ?s)" "snd (ssy_ready_blocks ?s)" "b # bs"]
      rounds held after assms(5) by simp
qed

theorem sync_response_round_trip_witness:
  "let bs = [mock_block [] (mock_metadata 0 5 0 0 0), mock_block [] (mock_metadata 0 6 0 0 0)]
   in fst (ssy_ready_blocks (snd (ssy_add_sync_response
        (snd (ssy_start_sync (ssy_new ssc_default 4) 9 0)) (srp_new bs 0 False)))) = bs"
  unfolding Let_def
  by (rule sync_response_round_trip)
    (simp_all add: ssy_start_sync_def ssy_new_def srp_verify_sequential_def srp_new_def mock_block_def
      mock_metadata_def Let_def)

text \<open>C34: the synchronisation implements its status machine: through any sequence of starts,
  responses, requests, deliveries, cancellations and resets, every operation is a step of
  the machine or leaves the status alone. So no run ends in the failed status, a
  synchronisation in progress reports a round below its target, and every received block is
  filed under its own round.\<close>

theorem sync_refines_status_machine:
  "let s = foldl ssy_step (ssy_new config r) evs
   in sy_next\<^sup>*\<^sup>* SY_Idle (ssy_status s) \<and>
      (ssy_status (ssy_step s ev) = ssy_status s \<or>
       sy_next (ssy_status s) (ssy_status (ssy_step s ev))) \<and>
      \<not> sy_is_failed (ssy_status s) \<and>
      (case ssy_status s of SY_InProgress t c _ \<Rightarrow> c < t | _ \<Rightarrow> True) \<and> ssy_inv s"
proof -
  let ?s = "foldl ssy_step (ssy_new config r) evs"
  have run: "sy_next\<^sup>*\<^sup>* SY_Idle (ssy_status ?s)"
    using ssy_run_status [of "ssy_new config r" evs] by (simp add: ssy_new_def)
  from sy_reachable [OF run] ssy_step_status [of ?s ev] run ssy_inv_run [OF ssy_inv_new, of config r evs]
  show ?thesis by (auto simp: Let_def split: sync_status.splits)
qed

text \<open>C39: a synchronisation is reported complete as soon as one block at or beyond the target is
  received, even when blocks in between are missing: after a response with only a block of
  the target round, the status is \<open>Completed\<close>, yet no block is ready and the node has not
  moved.\<close>

theorem sync_completed_with_gap:
  assumes "ssy_received_blocks s = hm_empty" and "\<not> sy_is_in_progress (ssy_status s)"
    and "ssy_current_round s < blk_round b" and "blk_round b \<noteq> ssy_current_round s + 1"
  shows "let s1 = snd (ssy_start_sync s (blk_round b) e);
             (res, s2) = ssy_add_sync_response s1 (srp_new [b] e' fin)
         in res = Inr () \<and> sy_is_completed (ssy_status s2) \<and>
            fst (ssy_ready_blocks s2) = [] \<and> ssy_current_round s2 = ssy_current_round s"
proof -
  have "\<not> blk_round b \<le> ssy_current_round s" using assms(3) by simp
  then show ?thesis using assms
    by (simp add: ssy_start_sync_def ssy_add_sync_response_def srp_verify_sequential_def srp_new_def
        hm_insert_def hm_empty_def hm_keys_def ssy_ready_blocks_def ready_loop.simps hm_get_def Let_def)
qed

theorem sync_completed_with_gap_witness:
  "let s1 = snd (ssy_start_sync (ssy_new ssc_default 4) 9 0);
       (res, s2) = ssy_add_sync_response s1 (srp_new [mock_block [] (mock_metadata 0 9 0 0 0)] 7 True)
   in res = Inr () \<and> sy_is_completed (ssy_status s2) \<and>
      fst (ssy_ready_blocks s2) = [] \<and> ssy_current_round s2 = 4"
  using sync_completed_with_gap [of "ssy_new ssc_default 4" "mock_block [] (mock_metadata 0 9 0 0 0)" 0 7 True]
  by (simp add: ssy_new_def mock_block_def mock_metadata_def)

text \<open>\<open>start_sync\<close> fails only when a synchronisation is in progress. A target that is not ahead
  of the current round is reported as completed; otherwise one request is queued, for the
  rounds right after the current one, as many as the batch size allows and never beyond the
  target.\<close>

lemma start_sync_spec:
  "(is_ok (fst (ssy_start_sync s t e)) \<longleftrightarrow> \<not> sy_is_in_progress (ssy_status s)) \<and>
   (\<not> sy_is_in_progress (ssy_status s) \<longrightarrow> t \<le> ssy_current_round s \<longrightarrow>
      ssy_status (snd (ssy_start_sync s t e)) = SY_Completed 0) \<and>
   (\<not> sy_is_in_progress (ssy_status s) \<longrightarrow> ssy_current_round s < t \<longrightarrow>
      (\<exists>q. ssy_pending_requests (snd (ssy_start_sync s t e)) = ssy_pending_requests s @ [q] \<and>
         unat (srq_start_round q) = unat (ssy_current_round s) + 1 \<and>
         unat (srq_target_round q) = unat (ssy_current_round s) +
           min (unat t - unat (ssy_current_round s)) (unat (ssc_max_batch_size (ssy_config s))) \<and>
         srq_target_round q \<le> t \<and> srq_epoch q = e))"
proof -
  let ?c = "ssy_current_round s"
    and ?b = "min (saturating_sub t (ssy_current_round s)) (ssc_max_batch_size (ssy_config s))"
  have b: "unat ?b = min (unat t - unat ?c) (unat (ssc_max_batch_size (ssy_config s)))"
    by (simp add: min_def word_le_nat_alt unat_saturating_sub)
  have sum: "unat (?c + ?b) = unat ?c + unat ?b" if "?c < t"
    using that b unat_u64_less [of t] by (simp add: unat_word_ariths word_less_nat_alt)
  have "unat (?c + 1) = unat ?c + 1" if "?c < t"
    using that by (intro unat_plus_one) auto
  with b sum show ?thesis
    by (auto simp: ssy_start_sync_def srq_new_def Let_def word_le_nat_alt word_less_nat_alt)
qed

text \<open>The epoch a response claims is never checked: responses that differ only in their epoch
  are accepted or refused alike and leave the same blocks and the same status.\<close>

theorem sync_response_epoch_unchecked:
  "fst (ssy_add_sync_response s (srp_new bs e fin)) = fst (ssy_add_sync_response s (srp_new bs e' fin)) \<and>
   ssy_received_blocks (snd (ssy_add_sync_response s (srp_new bs e fin))) =
     ssy_received_blocks (snd (ssy_add_sync_response s (srp_new bs e' fin))) \<and>
   ssy_status (snd (ssy_add_sync_response s (srp_new bs e fin))) =
     ssy_status (snd (ssy_add_sync_response s (srp_new bs e' fin)))"
  by (simp add: ssy_add_sync_response_def srp_verify_sequential_def srp_new_def Let_def
      split: option.splits sum.splits)

end
