(* ===== verification/Reconfig.thy ===== *)
theory Reconfig
  imports Epoch_Manager Sig_Aggregator Proposer
begin

text \<open>
  Models \<open>consensus/reconfig.rs\<close>: validator sets with their quorum threshold, and the state
  machine that takes a node from one epoch to the next.
\<close>

record reconfig_config =
  rcc_preparation_window :: u64
  rcc_verify_signatures :: bool
  rcc_reconfig_timeout_ms :: u64

definition rcc_default :: reconfig_config where
  "rcc_default =
     \<lparr>rcc_preparation_window = 5, rcc_verify_signatures = True, rcc_reconfig_timeout_ms = 30000\<rparr>"

datatype reconfig_status =
    RC_Idle
  | RC_Preparing epoch epoch
  | RC_InProgress epoch usize usize
  | RC_Completed epoch usize
  | RC_Failed string

fun rc_is_in_progress :: "reconfig_status \<Rightarrow> bool" where
  "rc_is_in_progress (RC_Preparing _ _) = True"
| "rc_is_in_progress (RC_InProgress _ _ _) = True"
| "rc_is_in_progress _ = False"

fun rc_is_completed :: "reconfig_status \<Rightarrow> bool" where
  "rc_is_completed (RC_Completed _ _) = True"
| "rc_is_completed _ = False"

fun rc_is_failed :: "reconfig_status \<Rightarrow> bool" where
  "rc_is_failed (RC_Failed _) = True"
| "rc_is_failed _ = False"

fun rc_current_epoch :: "reconfig_status \<Rightarrow> epoch option" where
  "rc_current_epoch (RC_Preparing current _) = Some current"
| "rc_current_epoch (RC_InProgress new _ _) = Some (new - 1)"
| "rc_current_epoch (RC_Completed e _) = Some e"
| "rc_current_epoch _ = None"

fun rc_new_epoch :: "reconfig_status \<Rightarrow> epoch option" where
  "rc_new_epoch (RC_Preparing _ next_epoch) = Some next_epoch"
| "rc_new_epoch (RC_InProgress new _ _) = Some new"
| "rc_new_epoch (RC_Completed e _) = Some e"
| "rc_new_epoch _ = None"

section \<open>Validator sets\<close>

record 'a validator_set =
  vs_epoch :: epoch
  vs_validators :: "('a, u64) hashmap"
  vs_total_voting_power :: u128

definition vs_new :: "epoch \<Rightarrow> ('a, u64) hashmap \<Rightarrow> 'a validator_set" where
  "vs_new e validators =
     \<lparr>vs_epoch = e, vs_validators = validators,
      vs_total_voting_power = sum_u128 (map as_u128 (hm_values validators))\<rparr>"

definition vs_len :: "'a validator_set \<Rightarrow> usize" where
  "vs_len s = usize_of_nat (length (vs_validators s))"

definition vs_is_empty :: "'a validator_set \<Rightarrow> bool" where
  "vs_is_empty s = (vs_validators s = [])"

definition vs_get_voting_power :: "'a validator_set \<Rightarrow> 'a \<Rightarrow> u64 option" where
  "vs_get_voting_power s v = hm_get (vs_validators s) v"

definition vs_contains :: "'a validator_set \<Rightarrow> 'a \<Rightarrow> bool" where
  "vs_contains s v = hm_contains_key (vs_validators s) v"

definition vs_validator_ids :: "'a validator_set \<Rightarrow> 'a list" where
  "vs_validator_ids s = hm_keys (vs_validators s)"

definition vs_quorum_threshold :: "'a validator_set \<Rightarrow> u128" where
  "vs_quorum_threshold s = vs_total_voting_power s * 2 div 3 + 1"

definition vs_has_quorum :: "'a validator_set \<Rightarrow> 'a list \<Rightarrow> bool" where
  "vs_has_quorum s voters =
     (let voting_power = sum_u128 (map as_u128 (List.map_filter (vs_get_voting_power s) voters))
      in vs_quorum_threshold s \<le> voting_power)"

section \<open>The handler\<close>

datatype 'a reconfig_event =
    NewEpoch epoch round
  | ValidatorSetChanged "'a validator_set"
  | PolicyChanged string

record ('a, 'f) reconfig_handler =
  rh_config :: reconfig_config
  rh_status :: reconfig_status
  rh_epoch_manager :: epoch_manager
  rh_validator_sets :: "(epoch, 'a validator_set) hashmap"
  rh_pending_events :: "'a reconfig_event list"
  rh_proposer_election :: "('a, 'f) proposer_election option"

definition rh_new :: "reconfig_config \<Rightarrow> epoch_manager \<Rightarrow> ('a, 'f) reconfig_handler" where
  "rh_new config em =
     \<lparr>rh_config = config, rh_status = RC_Idle, rh_epoch_manager = em,
      rh_validator_sets = hm_empty, rh_pending_events = [], rh_proposer_election = None\<rparr>"

definition rh_current_epoch :: "('a, 'f) reconfig_handler \<Rightarrow> epoch" where
  "rh_current_epoch rh = em_epoch (rh_epoch_manager rh)"

definition rh_validator_set :: "('a, 'f) reconfig_handler \<Rightarrow> epoch \<Rightarrow> 'a validator_set option" where
  "rh_validator_set rh e = hm_get (rh_validator_sets rh) e"

definition rh_current_validator_set :: "('a, 'f) reconfig_handler \<Rightarrow> 'a validator_set option" where
  "rh_current_validator_set rh = rh_validator_set rh (rh_current_epoch rh)"

definition rh_set_proposer_election ::
    "('a, 'f) reconfig_handler \<Rightarrow> ('a, 'f) proposer_election \<Rightarrow> ('a, 'f) reconfig_handler" where
  "rh_set_proposer_election rh pe = rh\<lparr>rh_proposer_election := Some pe\<rparr>"

definition rh_prepare_reconfig ::
    "('a, 'f) reconfig_handler \<Rightarrow> epoch \<Rightarrow> unit res \<times> ('a, 'f) reconfig_handler" where
  "rh_prepare_reconfig rh new_epoch =
     (if rc_is_in_progress (rh_status rh)
      then (Inl (Msg ''Reconfiguration already in progress''), rh)
      else let current_epoch = rh_current_epoch rh
           in if new_epoch \<noteq> current_epoch + 1
              then (Inl (Msg ''Can only transition to the next epoch''), rh)
              else (Inr (), rh\<lparr>rh_status := RC_Preparing current_epoch new_epoch\<rparr>))"

definition rh_set_validator_set ::
    "('a, 'f) reconfig_handler \<Rightarrow> epoch \<Rightarrow> 'a validator_set \<Rightarrow> ('a, 'f) reconfig_handler" where
  "rh_set_validator_set rh e vs = rh\<lparr>rh_validator_sets := hm_insert e vs (rh_validator_sets rh)\<rparr>"

definition rh_begin_reconfig ::
    "('a, 'f) reconfig_handler \<Rightarrow> 'a validator_set \<Rightarrow> unit res \<times> ('a, 'f) reconfig_handler" where
  "rh_begin_reconfig rh validator_set =
     (case rh_status rh of
        RC_Preparing _ next_epoch \<Rightarrow>
          if vs_is_empty validator_set then (Inl (Msg ''Validator set cannot be empty''), rh)
          else (Inr (), rh\<lparr>rh_status := RC_InProgress next_epoch 0 (vs_len validator_set),
                           rh_validator_sets := hm_insert next_epoch validator_set (rh_validator_sets rh)\<rparr>)
      | _ \<Rightarrow> (Inl (Msg ''Not in preparing state''), rh))"

definition rh_complete_reconfig ::
    "clock \<Rightarrow> ('a, 'f) reconfig_handler \<Rightarrow> unit res \<times> ('a, 'f) reconfig_handler" where
  "rh_complete_reconfig now rh =
     (case rh_status rh of
        RC_InProgress new_epoch validators_processed total_validators \<Rightarrow>
          if validators_processed \<noteq> total_validators
          then (Inl (Msg (''Not all validators processed: '' @ show_u64 validators_processed @ ''/'' @
                          show_u64 total_validators)), rh)
          else (case em_start_new_epoch now (rh_epoch_manager rh) new_epoch of
                  (Inl e, em') \<Rightarrow> (Inl (Msg (epoch_transition_error_fmt e)), rh\<lparr>rh_epoch_manager := em'\<rparr>)
                | (Inr _, em') \<Rightarrow>
                    let rh1 = rh\<lparr>rh_epoch_manager := em',
                                 rh_status := RC_Completed new_epoch total_validators\<rparr>;
                        rh2 = rh1\<lparr>rh_status := RC_Idle\<rparr>
                    in (Inr (), rh2))
      | _ \<Rightarrow> (Inl (Msg ''Not in progress state''), rh))"

definition rh_add_event ::
    "('a, 'f) reconfig_handler \<Rightarrow> 'a reconfig_event \<Rightarrow> ('a, 'f) reconfig_handler" where
  "rh_add_event rh ev = rh\<lparr>rh_pending_events := rh_pending_events rh @ [ev]\<rparr>"

definition rh_take_pending_events ::
    "('a, 'f) reconfig_handler \<Rightarrow> 'a reconfig_event list \<times> ('a, 'f) reconfig_handler" where
  "rh_take_pending_events rh = (rh_pending_events rh, rh\<lparr>rh_pending_events := []\<rparr>)"

definition rh_cancel :: "('a, 'f) reconfig_handler \<Rightarrow> ('a, 'f) reconfig_handler" where
  "rh_cancel rh = rh\<lparr>rh_status := RC_Idle, rh_pending_events := []\<rparr>"

definition rh_should_reconfigure :: "('a, 'f) reconfig_handler \<Rightarrow> round \<Rightarrow> round \<Rightarrow> bool" where
  "rh_should_reconfigure rh r epoch_end_round =
     (saturating_sub epoch_end_round (rcc_preparation_window (rh_config rh)) \<le> r)"

definition rh_process_block ::
    "('a, 'f) reconfig_handler \<Rightarrow> ('n, 'h, 's) block \<Rightarrow> 'a reconfig_event option" where
  "rh_process_block rh b =
     (let e = bm_epoch (blk_metadata b)
      in if rh_current_epoch rh < e then Some (NewEpoch e (blk_round b)) else None)"

definition rh_epoch_quorum_cert :: "('a, 'f) reconfig_handler \<Rightarrow> epoch option" where
  "rh_epoch_quorum_cert rh = Some (rh_current_epoch rh)"

definition rh_pending_event_count :: "('a, 'f) reconfig_handler \<Rightarrow> usize" where
  "rh_pending_event_count rh = usize_of_nat (length (rh_pending_events rh))"

definition rh_update_progress :: "('a, 'f) reconfig_handler \<Rightarrow> usize \<Rightarrow> ('a, 'f) reconfig_handler" where
  "rh_update_progress rh validators_processed =
     (case rh_status rh of
        RC_InProgress new_epoch _ total_validators \<Rightarrow>
          rh\<lparr>rh_status := RC_InProgress new_epoch validators_processed total_validators\<rparr>
      | _ \<Rightarrow> rh)"

section \<open>Quorums of a validator set\<close>

definition vs_weight :: "'a validator_set \<Rightarrow> 'a \<Rightarrow> nat" where
  "vs_weight s v = (case vs_get_voting_power s v of Some p \<Rightarrow> unat p | None \<Rightarrow> 0)"

definition vs_members :: "'a validator_set \<Rightarrow> 'a set" where
  "vs_members s = set (vs_validator_ids s)"

definition vs_wf :: "'a validator_set \<Rightarrow> bool" where
  "vs_wf s \<longleftrightarrow>
     hm_wf (vs_validators s) \<and> length (vs_validators s) \<le> 2 ^ 62 \<and>
     vs_total_voting_power s = sum_u128 (map as_u128 (hm_values (vs_validators s)))"

interpretation vsq: weighted_quorum "vs_weight s" "vs_members s" for s
  by unfold_locales (simp add: vs_members_def)

lemma vs_wf_new: "hm_wf m \<Longrightarrow> length m \<le> 2 ^ 62 \<Longrightarrow> vs_wf (vs_new e m)"
  by (simp add: vs_wf_def vs_new_def)

lemma unat_sum_as_u128:
  assumes "length xs \<le> 2 ^ 62"
  shows "unat (sum_u128 (map as_u128 xs)) = (\<Sum>x\<leftarrow>xs. unat x)" "(\<Sum>x\<leftarrow>xs. unat x) < 2 ^ 126"
proof -
  have "(\<Sum>x\<leftarrow>xs. unat x) \<le> 2 ^ 62 * (2 ^ 64 - 1)"
    using sum_u64_bound [of xs] assms by (meson le_trans mult_le_mono1)
  then show b: "(\<Sum>x\<leftarrow>xs. unat x) < 2 ^ 126" by simp
  then have "(\<Sum>x\<leftarrow>map as_u128 xs. unat x) < 2 ^ 128" by (simp add: comp_def unat_as_u128)
  from unat_sum_u128 [OF this] show "unat (sum_u128 (map as_u128 xs)) = (\<Sum>x\<leftarrow>xs. unat x)"
    by (simp add: comp_def unat_as_u128)
qed

lemma sum_values_members:
  "hm_wf (vs_validators s) \<Longrightarrow>
   (\<Sum>x\<leftarrow>hm_values (vs_validators s). unat x) = sum (vs_weight s) (vs_members s)"
proof -
  assume wf: "hm_wf (vs_validators s)"
  have "vs_weight s k = unat p" if "(k, p) \<in> set (vs_validators s)" for k p
    using that wf by (simp add: vs_weight_def vs_get_voting_power_def hm_get_iff_in_set [symmetric])
  then have "(\<Sum>x\<leftarrow>hm_values (vs_validators s). unat x) =
      (\<Sum>k\<leftarrow>hm_keys (vs_validators s). vs_weight s k)"
    unfolding hm_values_def hm_keys_def map_map
    by (intro arg_cong [where f = sum_list] map_cong) auto
  also have "\<dots> = sum (vs_weight s) (set (hm_keys (vs_validators s)))"
    by (rule sum_list_distinct_conv_sum_set) (rule hm_wf_distinct_keys [OF wf])
  finally show ?thesis by (simp add: vs_members_def vs_validator_ids_def)
qed

lemma vs_total:
  assumes "vs_wf s"
  shows "unat (vs_total_voting_power s) = sum (vs_weight s) (vs_members s)"
    and "unat (vs_quorum_threshold s) = 2 * sum (vs_weight s) (vs_members s) div 3 + 1"
proof -
  let ?t = "sum (vs_weight s) (vs_members s)"
  have l: "length (hm_values (vs_validators s)) \<le> 2 ^ 62"
    using assms by (simp add: vs_wf_def hm_values_def)
  from unat_sum_as_u128 [OF l] sum_values_members [of s] assms
  show t: "unat (vs_total_voting_power s) = ?t" and "unat (vs_quorum_threshold s) = 2 * ?t div 3 + 1"
    by (auto simp: vs_wf_def vs_quorum_threshold_def unat_word_ariths unat_div_distrib)
qed

lemma vs_voting_power:
  assumes "distinct voters" "length voters \<le> 2 ^ 62"
  shows "unat (sum_u128 (map as_u128 (List.map_filter (vs_get_voting_power s) voters))) =
         sum (vs_weight s) (set voters)"
proof -
  have "length (List.map_filter (vs_get_voting_power s) voters) \<le> 2 ^ 62"
    using assms(2) by (simp add: List.map_filter_def le_trans [OF length_filter_le])
  then have "unat (sum_u128 (map as_u128 (List.map_filter (vs_get_voting_power s) voters))) =
      (\<Sum>x\<leftarrow>List.map_filter (vs_get_voting_power s) voters. unat x)"
    by (rule unat_sum_as_u128(1))
  also have "\<dots> = (\<Sum>v\<leftarrow>voters. vs_weight s v)"
    by (induction voters) (auto simp: List.map_filter_simps vs_weight_def split: option.splits)
  finally show ?thesis using sum_list_distinct_conv_sum_set [OF assms(1)] by metis
qed

lemma vs_weight_members: "sum (vs_weight s) (A \<inter> vs_members s) = sum (vs_weight s) A" if "finite A"
proof -
  have "vs_weight s v = 0" if "v \<notin> vs_members s" for v
    using that
    by (auto simp: vs_weight_def vs_members_def vs_validator_ids_def vs_get_voting_power_def
        hm_contains_iff [symmetric] hm_contains_key_def)
  then show ?thesis using that by (intro sum.mono_neutral_left) auto
qed

lemma vs_has_quorum_iff:
  assumes "vs_wf s" "distinct voters" "length voters \<le> 2 ^ 62"
  shows "vs_has_quorum s voters \<longleftrightarrow>
           2 * sum (vs_weight s) (vs_members s) div 3 + 1 \<le> sum (vs_weight s) (set voters \<inter> vs_members s)"
  using vs_total(2) [OF assms(1)] vs_voting_power [OF assms(2,3), of s]
  by (simp add: vs_has_quorum_def word_le_nat_alt vs_weight_members)

section \<open>Runs of the handler\<close>

datatype 'a rh_event =
    RhPrepare epoch
  | RhSetValidators epoch "'a validator_set"
  | RhBegin "'a validator_set"
  | RhProgress usize
  | RhComplete clock
  | RhAddEvent "'a reconfig_event"
  | RhTakeEvents
  | RhCancel

fun rh_step :: "('a, 'f) reconfig_handler \<Rightarrow> 'a rh_event \<Rightarrow> ('a, 'f) reconfig_handler" where
  "rh_step rh (RhPrepare e) = snd (rh_prepare_reconfig rh e)"
| "rh_step rh (RhSetValidators e s) = rh_set_validator_set rh e s"
| "rh_step rh (RhBegin s) = snd (rh_begin_reconfig rh s)"
| "rh_step rh (RhProgress n) = rh_update_progress rh n"
| "rh_step rh (RhComplete now) = snd (rh_complete_reconfig now rh)"
| "rh_step rh (RhAddEvent ev) = rh_add_event rh ev"
| "rh_step rh RhTakeEvents = snd (rh_take_pending_events rh)"
| "rh_step rh RhCancel = rh_cancel rh"

text \<open>
  The invariant: a transition being prepared or in progress is to the epoch after the
  current one, one in progress has its validator set stored, and the status is never left
  at completed or failed.
\<close>

definition rh_inv :: "('a, 'f) reconfig_handler \<Rightarrow> bool" where
  "rh_inv rh \<longleftrightarrow>
     (case rh_status rh of
        RC_Idle \<Rightarrow> True
      | RC_Preparing cur new_e \<Rightarrow> cur = rh_current_epoch rh \<and> new_e = rh_current_epoch rh + 1
      | RC_InProgress new_e _ _ \<Rightarrow>
          new_e = rh_current_epoch rh + 1 \<and> rh_validator_set rh new_e \<noteq> None
      | _ \<Rightarrow> False)"

lemmas rh_defs = rh_prepare_reconfig_def rh_set_validator_set_def rh_begin_reconfig_def
  rh_update_progress_def rh_complete_reconfig_def rh_add_event_def rh_take_pending_events_def
  rh_cancel_def rh_current_epoch_def rh_validator_set_def

lemma rh_inv_step: "rh_inv rh \<Longrightarrow> rh_inv (rh_step rh ev)"
  by (cases ev)
    (auto simp: rh_inv_def rh_defs em_start_new_epoch_def Let_def
      split: reconfig_status.splits)

lemma rh_inv_run: "rh_inv rh \<Longrightarrow> rh_inv (foldl rh_step rh evs)"
  by (induction evs arbitrary: rh) (simp_all add: rh_inv_step)

lemma rh_inv_new: "rh_inv (rh_new config em)"
  by (simp add: rh_inv_def rh_new_def)

lemma rh_step_epoch:
  assumes "rh_inv rh"
  shows "rh_current_epoch (rh_step rh ev) = rh_current_epoch rh \<or>
         (\<exists>now. ev = RhComplete now \<and>
           unat (rh_current_epoch (rh_step rh ev)) = unat (rh_current_epoch rh) + 1 \<and>
           rh_current_validator_set (rh_step rh ev) \<noteq> None)"
proof (cases ev)
  case (RhComplete now)
  show ?thesis
  proof (cases "rh_status rh")
    case (RC_InProgress e p t)
    then have e: "e = rh_current_epoch rh + 1" "rh_validator_set rh e \<noteq> None"
      using assms by (auto simp: rh_inv_def)
    show ?thesis
      using em_start_ok_iff [of now "rh_epoch_manager rh" e] em_start_epoch [of now "rh_epoch_manager rh" e]
        e RC_InProgress RhComplete
      by (auto simp: rh_defs rh_current_validator_set_def Let_def split: prod.splits sum.splits)
  qed (simp_all add: RhComplete rh_complete_reconfig_def)
qed (auto simp: rh_defs Let_def split: reconfig_status.splits)

section \<open>The transition protocol\<close>

text \<open>
  What a reconfiguration is allowed to do, as a relation on the current epoch and the
  status: prepare the next epoch, begin, report progress, complete, cancel.
\<close>

inductive rc_next :: "epoch \<times> reconfig_status \<Rightarrow> epoch \<times> reconfig_status \<Rightarrow> bool" where
  prepare: "\<not> rc_is_in_progress st \<Longrightarrow> rc_next (e, st) (e, RC_Preparing e (e + 1))"
| start: "rc_next (e, RC_Preparing c n) (e, RC_InProgress n 0 t)"
| progress: "rc_next (e, RC_InProgress n p t) (e, RC_InProgress n q t)"
| complete: "unat n = unat e + 1 \<Longrightarrow> rc_next (e, RC_InProgress n t t) (n, RC_Idle)"
| cancel: "rc_next (e, st) (e, RC_Idle)"

text \<open>Whatever the protocol reaches from an idle epoch is a pending transition to the next epoch or
  idle, in an epoch that is not before the first.\<close>

lemma rc_reachable:
  assumes "rc_next\<^sup>*\<^sup>* (e0, RC_Idle) es"
  shows "e0 \<le> fst es \<and>
         (case snd es of
            RC_Idle \<Rightarrow> True
          | RC_Preparing c n \<Rightarrow> c = fst es \<and> n = fst es + 1
          | RC_InProgress n _ _ \<Rightarrow> n = fst es + 1
          | _ \<Rightarrow> False)"
  using assms
proof (induction rule: rtranclp_induct)
  case (step es es')
  from step.hyps(2) step.IH show ?case
    by cases (auto simp: word_le_nat_alt)
qed simp

definition rh_abs :: "('a, 'f) reconfig_handler \<Rightarrow> epoch \<times> reconfig_status" where
  "rh_abs rh = (rh_current_epoch rh, rh_status rh)"

text \<open>Every operation of the handler is a step of the protocol or does not touch it.\<close>

lemma rh_step_protocol: "rh_abs (rh_step rh ev) = rh_abs rh \<or> rc_next (rh_abs rh) (rh_abs (rh_step rh ev))"
proof (cases ev)
  case (RhComplete now)
  show ?thesis
  proof (cases "rh_status rh")
    case (RC_InProgress n p t)
    then show ?thesis
      using em_start_ok_iff [of now "rh_epoch_manager rh" n] em_start_epoch [of now "rh_epoch_manager rh" n]
        em_start_error [of now "rh_epoch_manager rh" n] RhComplete
      by (auto simp: rh_abs_def rh_defs Let_def intro: rc_next.complete [simplified]
          split: prod.splits sum.splits)
  qed (simp_all add: RhComplete rh_abs_def rh_complete_reconfig_def)
qed (auto simp: rh_abs_def rh_defs Let_def intro: rc_next.intros split: reconfig_status.splits)

lemma rh_run_protocol: "rc_next\<^sup>*\<^sup>* (rh_abs rh) (rh_abs (foldl rh_step rh evs))"
proof (induction evs arbitrary: rh)
  case (Cons ev evs)
  from rh_step_protocol [of rh ev] Cons.IH [of "rh_step rh ev"] show ?case
    by (auto intro: converse_rtranclp_into_rtranclp)
qed simp

section \<open>Properties\<close>

text \<open>C17: two duplicate-free voter lists that both reach a validator set's quorum overlap in more
  than a third of its voting power; so, if the faulty validators hold at most a third, they
  share a validator that is not faulty.\<close>

theorem validator_set_quorums_share_correct:
  assumes "vs_wf s" "distinct xs" "distinct ys" "length xs \<le> 2 ^ 62" "length ys \<le> 2 ^ 62"
    and "vs_has_quorum s xs" "vs_has_quorum s ys"
    and "F \<subseteq> vs_members s" "3 * sum (vs_weight s) F \<le> sum (vs_weight s) (vs_members s)"
  shows "sum (vs_weight s) (vs_members s) <
           3 * sum (vs_weight s) (set xs \<inter> vs_members s \<inter> (set ys \<inter> vs_members s)) \<and>
         (\<exists>v. v \<in> set xs \<and> v \<in> set ys \<and> v \<in> vs_members s \<and> v \<notin> F)"
proof -
  have X: "2 * sum (vs_weight s) (vs_members s) div 3 + 1 \<le> sum (vs_weight s) (set xs \<inter> vs_members s)"
    and Y: "2 * sum (vs_weight s) (vs_members s) div 3 + 1 \<le> sum (vs_weight s) (set ys \<inter> vs_members s)"
    using vs_has_quorum_iff assms(1-7) by blast+
  show ?thesis
    using vsq.quorum_overlap [OF _ _ X Y] vsq.quorums_share_correct [OF _ _ X Y assms(8,9)] by auto
qed

definition four_validators :: "nat validator_set" where
  "four_validators = vs_new 1 [(1, 1), (2, 1), (3, 1), (4, 1)]"

lemmas four_validators_simps =
  four_validators_def vs_new_def vs_has_quorum_def vs_quorum_threshold_def vs_get_voting_power_def
  vs_members_def vs_validator_ids_def vs_weight_def hm_values_def hm_keys_def hm_get_def
  sum_u128_def as_u128_def List.map_filter_simps

lemma four_validators_wf: "vs_wf four_validators"
  by (simp add: four_validators_def vs_wf_new hm_wf_def)

theorem validator_set_quorums_share_correct_witness:
  "\<exists>v. v \<in> set [1, 2, 3 :: nat] \<and> v \<in> set [2, 3, 4] \<and> v \<in> vs_members four_validators \<and> v \<notin> {2}"
proof -
  have "vs_has_quorum four_validators [1, 2, 3]" "vs_has_quorum four_validators [2, 3, 4]"
    "{2} \<subseteq> vs_members four_validators"
    "3 * sum (vs_weight four_validators) {2} \<le>
       sum (vs_weight four_validators) (vs_members four_validators)"
    by (simp_all add: four_validators_simps)
  from validator_set_quorums_share_correct [OF four_validators_wf _ _ _ _ this]
  show ?thesis by simp
qed

text \<open>\<open>has_quorum\<close> counts a voter as often as it occurs in the iterator: there is a set of four
  equal validators and a list of votes of a single one of them that passes the check.\<close>

theorem has_quorum_counts_duplicates:
  "vs_wf four_validators \<and> vs_has_quorum four_validators [1, 1, 1] \<and>
   \<not> vs_has_quorum four_validators (remdups [1, 1, 1])"
  using four_validators_wf by (simp add: four_validators_simps word_le_nat_alt)

text \<open>C18: whatever sequence of operations a reconfiguration handler has gone through, its state is
  consistent (a pending transition is to the next epoch and has its validator set stored),
  and one more operation leaves the epoch as it is, or is a completion that moves it forward
  by exactly one to an epoch whose validator set is known.\<close>

theorem reconfig_epoch_advances_by_one:
  "let rh = foldl rh_step (rh_new config em) evs
   in rh_inv rh \<and>
      (rh_current_epoch (rh_step rh ev) = rh_current_epoch rh \<or>
       (\<exists>now. ev = RhComplete now \<and>
          unat (rh_current_epoch (rh_step rh ev)) = unat (rh_current_epoch rh) + 1 \<and>
          rh_current_validator_set (rh_step rh ev) \<noteq> None))"
  using rh_inv_run [OF rh_inv_new, of config em evs] rh_step_epoch
  by (auto simp: Let_def)

text \<open>C16: the handler implements the reconfiguration protocol: every sequence of operations of a
  new handler is a sequence of protocol steps from an idle status, each operation a step or
  none. So the epoch never decreases, a pending transition is always to the next epoch, and
  no handler is ever left in a completed or failed status.\<close>

theorem reconfig_refines_protocol:
  fixes evs :: "'a rh_event list"
  shows "let rh = foldl rh_step (rh_new config em :: ('a, 'f) reconfig_handler) evs
   in rc_next\<^sup>*\<^sup>* (em_epoch em, RC_Idle) (rh_current_epoch rh, rh_status rh) \<and>
      (rh_abs (rh_step rh ev) = rh_abs rh \<or> rc_next (rh_abs rh) (rh_abs (rh_step rh ev))) \<and>
      em_epoch em \<le> rh_current_epoch rh \<and>
      \<not> rc_is_completed (rh_status rh) \<and> \<not> rc_is_failed (rh_status rh) \<and>
      rc_new_epoch (rh_status rh) \<in> {None, Some (rh_current_epoch rh + 1)}"
proof -
  define rh where "rh = foldl rh_step (rh_new config em :: ('a, 'f) reconfig_handler) evs"
  have run: "rc_next\<^sup>*\<^sup>* (em_epoch em, RC_Idle) (rh_abs rh)"
    using rh_run_protocol [of "rh_new config em :: ('a, 'f) reconfig_handler" evs] unfolding rh_def
    by (simp add: rh_abs_def rh_new_def rh_current_epoch_def)
  from rc_reachable [OF run] have "em_epoch em \<le> rh_current_epoch rh"
    "\<not> rc_is_completed (rh_status rh)" "\<not> rc_is_failed (rh_status rh)"
    "rc_new_epoch (rh_status rh) \<in> {None, Some (rh_current_epoch rh + 1)}"
    by (auto simp: rh_abs_def split: reconfig_status.splits)
  with run rh_step_protocol [of rh ev] show ?thesis
    by (simp add: Let_def rh_abs_def flip: rh_def)
qed

text \<open>C19: the whole transition succeeds: from an idle handler below the last epoch, preparing the next
  epoch, beginning with a non-empty validator set, reporting all its validators as processed
  and completing returns \<open>Ok\<close> four times over and ends idle, in the next epoch, with the
  new set as the current one.\<close>

theorem reconfig_transition_succeeds:
  assumes "rh_status rh = RC_Idle" and "rh_current_epoch rh \<noteq> u64_MAX" and "\<not> vs_is_empty s"
  shows "let (r1, rh1) = rh_prepare_reconfig rh (rh_current_epoch rh + 1);
             (r2, rh2) = rh_begin_reconfig rh1 s;
             rh3 = rh_update_progress rh2 (vs_len s);
             (r3, rh4) = rh_complete_reconfig now rh3
         in r1 = Inr () \<and> r2 = Inr () \<and> r3 = Inr () \<and> rh_status rh4 = RC_Idle \<and>
            rh_current_epoch rh4 = rh_current_epoch rh + 1 \<and>
            rh_current_validator_set rh4 = Some s"
proof -
  have "\<not> rh_current_epoch rh + 1 \<le> rh_current_epoch rh"
    using plus_one_greater [OF assms(2)] by simp
  then show ?thesis using assms(1,3)
    by (simp add: rh_defs rh_current_validator_set_def em_start_new_epoch_def em_epoch_def es_new_def
        Let_def)
qed

theorem reconfig_transition_succeeds_witness:
  "let rh = (rh_new rcc_default (em_new emc_default) :: (nat, rat) reconfig_handler);
       (r1, rh1) = rh_prepare_reconfig rh (rh_current_epoch rh + 1);
       (r2, rh2) = rh_begin_reconfig rh1 four_validators;
       rh3 = rh_update_progress rh2 (vs_len four_validators);
       (r3, rh4) = rh_complete_reconfig 0 rh3
   in rh_current_epoch rh4 = rh_current_epoch rh + 1"
  using reconfig_transition_succeeds [of "rh_new rcc_default (em_new emc_default) :: (nat, rat) reconfig_handler"
      four_validators 0]
  by (simp add: Let_def case_prod_beta rh_new_def rh_current_epoch_def em_new_def emc_default_def
      em_epoch_def es_new_def vs_is_empty_def four_validators_def vs_new_def)

end
