(* ===== verification/Dag_Types.thy ===== *)
theory Dag_Types
  imports Traits
begin

text \<open>
  Models \<open>dag/types.rs\<close>, the generic implementations of the DAG traits, and the node builders
  of \<open>dag/testing.rs\<close>, which the witnesses of the DAG theories use.
\<close>

section \<open>Node identifiers\<close>

record ('e, 'r, 'a) dag_node_id =
  dni_epoch :: 'e
  dni_round :: 'r
  dni_author :: 'a

definition dni_new :: "'e \<Rightarrow> 'r \<Rightarrow> 'a \<Rightarrow> ('e, 'r, 'a) dag_node_id" where
  "dni_new e r a = \<lparr>dni_epoch = e, dni_round = r, dni_author = a\<rparr>"

datatype ordering = Less | Equal | Greater

definition ord_cmp :: "'r::linorder \<Rightarrow> 'r \<Rightarrow> ordering" where
  "ord_cmp x y = (if x < y then Less else if x = y then Equal else Greater)"

definition dni_partial_cmp ::
    "('e, 'r::linorder, 'a) dag_node_id \<Rightarrow> ('e, 'r, 'a) dag_node_id \<Rightarrow> ordering option" where
  "dni_partial_cmp x y =
     (case Some (ord_cmp (dni_round x) (dni_round y)) of
        Some Equal \<Rightarrow> Some Equal
      | c \<Rightarrow> c)"

definition dni_cmp ::
    "('e, 'r::linorder, 'a) dag_node_id \<Rightarrow> ('e, 'r, 'a) dag_node_id \<Rightarrow> ordering" where
  "dni_cmp x y = ord_cmp (dni_round x) (dni_round y)"

text \<open>The bytes fed to a hasher, for given renderings of the fields.\<close>

definition dni_hash ::
    "('e \<Rightarrow> 'b list) \<Rightarrow> ('r \<Rightarrow> 'b list) \<Rightarrow> ('a \<Rightarrow> 'b list) \<Rightarrow> ('e, 'r, 'a) dag_node_id \<Rightarrow> 'b list" where
  "dni_hash he hr ha x = he (dni_epoch x) @ hr (dni_round x) @ ha (dni_author x)"

definition dni_fmt ::
    "('e \<Rightarrow> string) \<Rightarrow> ('r \<Rightarrow> string) \<Rightarrow> ('a \<Rightarrow> string) \<Rightarrow> ('e, 'r, 'a) dag_node_id \<Rightarrow> string" where
  "dni_fmt fe fr fa x =
     ''DagNodeId[epoch='' @ fe (dni_epoch x) @ '', round='' @ fr (dni_round x) @
     '', author='' @ fa (dni_author x) @ '']''"

section \<open>Nodes and certificates\<close>

record ('id, 'h) dag_node_metadata =
  dnm_node_id :: 'id
  dnm_timestamp :: u64
  dnm_digest :: 'h

definition dnm_new :: "'id \<Rightarrow> u64 \<Rightarrow> 'h \<Rightarrow> ('id, 'h) dag_node_metadata" where
  "dnm_new i t d = \<lparr>dnm_node_id = i, dnm_timestamp = t, dnm_digest = d\<rparr>"

definition dnm_epoch :: "(('e, 'r, 'a) dag_node_id, 'h) dag_node_metadata \<Rightarrow> 'e" where
  "dnm_epoch m = dni_epoch (dnm_node_id m)"

definition dnm_round :: "(('e, 'r, 'a) dag_node_id, 'h) dag_node_metadata \<Rightarrow> 'r" where
  "dnm_round m = dni_round (dnm_node_id m)"

definition dnm_author :: "(('e, 'r, 'a) dag_node_id, 'h) dag_node_metadata \<Rightarrow> 'a" where
  "dnm_author m = dni_author (dnm_node_id m)"

record 'h dag_payload =
  dp_data :: "u8 list"
  dp_hash :: 'h

definition dp_new :: "u8 list \<Rightarrow> 'h \<Rightarrow> 'h dag_payload" where
  "dp_new d h = \<lparr>dp_data = d, dp_hash = h\<rparr>"

text \<open>\<open>empty\<close> takes the hash type's \<open>zero\<close> as an argument.\<close>

definition dp_empty :: "'h \<Rightarrow> 'h dag_payload" where
  "dp_empty zero = \<lparr>dp_data = [], dp_hash = zero\<rparr>"

definition dp_is_empty :: "'h dag_payload \<Rightarrow> bool" where
  "dp_is_empty p = (dp_data p = [])"

definition dp_size :: "'h dag_payload \<Rightarrow> nat" where
  "dp_size p = length (dp_data p)"

record 'm parent_certificates =
  pc_parents :: "'m list"

definition pc_new :: "'m list \<Rightarrow> 'm parent_certificates" where
  "pc_new ps = \<lparr>pc_parents = ps\<rparr>"

definition pc_empty :: "'m parent_certificates" where
  "pc_empty = \<lparr>pc_parents = []\<rparr>"

definition pc_add :: "'m parent_certificates \<Rightarrow> 'm \<Rightarrow> 'm parent_certificates" where
  "pc_add p c = p\<lparr>pc_parents := pc_parents p @ [c]\<rparr>"

definition pc_len :: "'m parent_certificates \<Rightarrow> nat" where
  "pc_len p = length (pc_parents p)"

definition pc_is_empty :: "'m parent_certificates \<Rightarrow> bool" where
  "pc_is_empty p = (pc_parents p = [])"

record ('m, 'p, 'par) dag_node =
  dn_metadata :: 'm
  dn_payload :: 'p
  dn_parents :: 'par

definition dn_new :: "'m \<Rightarrow> 'p \<Rightarrow> 'par \<Rightarrow> ('m, 'p, 'par) dag_node" where
  "dn_new m p ps = \<lparr>dn_metadata = m, dn_payload = p, dn_parents = ps\<rparr>"

text \<open>The default methods of the trait \<open>DagNode\<close>.\<close>

definition dn_timestamp :: "(('id, 'h) dag_node_metadata, 'p, 'par) dag_node \<Rightarrow> u64" where
  "dn_timestamp n = dnm_timestamp (dn_metadata n)"

definition dn_node_id :: "(('id, 'h) dag_node_metadata, 'p, 'par) dag_node \<Rightarrow> 'id" where
  "dn_node_id n = dnm_node_id (dn_metadata n)"

record ('m, 'sig) node_certificate =
  nc_metadata :: 'm
  nc_signatures :: 'sig

definition nc_new :: "'m \<Rightarrow> 'sig \<Rightarrow> ('m, 'sig) node_certificate" where
  "nc_new m s = \<lparr>nc_metadata = m, nc_signatures = s\<rparr>"

record ('nd, 'c) certified_node =
  cn_node :: 'nd
  cn_certificate :: 'c

definition cn_new :: "'nd \<Rightarrow> 'c \<Rightarrow> ('nd, 'c) certified_node" where
  "cn_new n c = \<lparr>cn_node = n, cn_certificate = c\<rparr>"

record ('m, 's) dag_vote =
  dv_metadata :: 'm
  dv_signature :: 's

definition dv_new :: "'m \<Rightarrow> 's \<Rightarrow> ('m, 's) dag_vote" where
  "dv_new m s = \<lparr>dv_metadata = m, dv_signature = s\<rparr>"

section \<open>The node builder of dag/testing.rs\<close>

text \<open>The test rounds, authors and epochs are newtypes of integers; their hash is the round.\<close>

type_synonym test_node_id = "(u64, u64, u8) dag_node_id"
type_synonym test_metadata = "(test_node_id, u64) dag_node_metadata"
type_synonym test_node = "(test_metadata, u64 dag_payload, test_metadata parent_certificates) dag_node"
type_synonym test_certified_node = "(test_node, (test_metadata, u64) node_certificate) certified_node"

record test_node_builder =
  tnb_epoch :: u64
  tnb_round :: u64
  tnb_author :: u8
  tnb_timestamp :: u64

definition tnb_new :: test_node_builder where
  "tnb_new = \<lparr>tnb_epoch = 1, tnb_round = 1, tnb_author = 1, tnb_timestamp = 0\<rparr>"

definition tnb_default :: test_node_builder where
  "tnb_default = tnb_new"

definition tnb_set_epoch :: "test_node_builder \<Rightarrow> u64 \<Rightarrow> test_node_builder" where
  "tnb_set_epoch b e = b\<lparr>tnb_epoch := e\<rparr>"

definition tnb_set_round :: "test_node_builder \<Rightarrow> u64 \<Rightarrow> test_node_builder" where
  "tnb_set_round b r = b\<lparr>tnb_round := r\<rparr>"

definition tnb_set_author :: "test_node_builder \<Rightarrow> u8 \<Rightarrow> test_node_builder" where
  "tnb_set_author b a = b\<lparr>tnb_author := a\<rparr>"

definition tnb_set_timestamp :: "test_node_builder \<Rightarrow> u64 \<Rightarrow> test_node_builder" where
  "tnb_set_timestamp b t = b\<lparr>tnb_timestamp := t\<rparr>"

definition tnb_build :: "test_node_builder \<Rightarrow> test_certified_node" where
  "tnb_build b =
     (let node_id = dni_new (tnb_epoch b) (tnb_round b) (tnb_author b);
          metadata = dnm_new node_id (tnb_timestamp b) (tnb_round b);
          payload = dp_new [] (tnb_round b);
          parents = pc_empty;
          node = dn_new metadata payload parents;
          cert = nc_new (dn_metadata node) (tnb_round b)
      in cn_new node cert)"

definition create_test_dag :: "u64 \<Rightarrow> u8 list \<Rightarrow> test_certified_node list" where
  "create_test_dag rounds authors =
     concat (map (\<lambda>r.
       map (\<lambda>(i, a). tnb_build (tnb_set_timestamp (tnb_set_author (tnb_set_round
              (tnb_set_epoch tnb_new 1) (of_nat r)) a) (of_nat r * 1000 + of_nat i)))
         (enumerate 0 authors)) [1..<Suc (unat rounds)])"

definition create_test_authors :: "u8 \<Rightarrow> u8 list" where
  "create_test_authors n = map of_nat [1..<Suc (unat n)]"

abbreviation test_id :: "test_certified_node \<Rightarrow> test_node_id" where
  "test_id n \<equiv> dnm_node_id (dn_metadata (cn_node n))"

section \<open>The order of node identifiers\<close>

lemma ord_cmp_simps [simp]:
  "ord_cmp x y = Less \<longleftrightarrow> x < y" "ord_cmp x y = Equal \<longleftrightarrow> x = y" "ord_cmp x y = Greater \<longleftrightarrow> y < x"
  by (auto simp: ord_cmp_def)

lemma dni_partial_cmp_eq: "dni_partial_cmp x y = Some (dni_cmp x y)"
  by (cases "ord_cmp (dni_round x) (dni_round y)")
    (simp_all add: dni_partial_cmp_def dni_cmp_def del: ord_cmp_simps)

text \<open>\<open>cmp\<close> on node identifiers agrees with \<open>partial_cmp\<close> and orders them by round, but it
  compares nothing else: two identifiers compare as equal exactly when their rounds agree,
  whereas the derived equality also needs the same epoch and author. A \<open>BTreeMap\<close> keyed by
  identifiers would merge all nodes of a round.\<close>

theorem node_id_order_ignores_author:
  "dni_partial_cmp x y = Some (dni_cmp x y) \<and>
   (dni_cmp x y = Equal \<longleftrightarrow> dni_round x = dni_round y) \<and>
   (x = y \<longleftrightarrow> dni_cmp x y = Equal \<and> dni_epoch x = dni_epoch y \<and> dni_author x = dni_author y) \<and>
   dni_cmp (dni_new (0 :: u64) r (1 :: u8)) (dni_new 0 r 2) = Equal \<and>
   dni_new (0 :: u64) r (1 :: u8) \<noteq> dni_new 0 r 2"
  by (auto simp: dni_partial_cmp_eq dni_cmp_def dni_new_def)

end
