(* ===== verification/Dag_Store.thy ===== *)
theory Dag_Store
  imports Dag_Types
begin

text \<open>
  Models \<open>dag/store.rs\<close>. The \<open>BTreeMap\<close> from rounds to vectors is an association list in
  increasing order of its keys; the methods take the node's identifier and the \<open>Debug\<close>
  renderings of rounds and authors as arguments, as the type is generic over them.
\<close>

section \<open>Ordered maps\<close>

type_synonym ('k, 'v) btreemap = "('k \<times> 'v) list"

definition bt_wf :: "('k::linorder, 'v) btreemap \<Rightarrow> bool" where
  "bt_wf m = sorted_wrt (<) (map fst m)"

definition bt_get :: "('k, 'v) btreemap \<Rightarrow> 'k \<Rightarrow> 'v option" where
  "bt_get m k = map_of m k"

fun bt_insert :: "'k::linorder \<Rightarrow> 'v \<Rightarrow> ('k, 'v) btreemap \<Rightarrow> ('k, 'v) btreemap" where
  "bt_insert k v [] = [(k, v)]"
| "bt_insert k v ((k', v') # m) =
     (if k < k' then (k, v) # (k', v') # m
      else if k = k' then (k, v) # m
      else (k', v') # bt_insert k v m)"

text \<open>\<open>split_off(k)\<close> returns the part at or above \<open>k\<close>.\<close>

definition bt_split_off :: "'k::linorder \<Rightarrow> ('k, 'v) btreemap \<Rightarrow> ('k, 'v) btreemap" where
  "bt_split_off k m = filter (\<lambda>(k', _). k \<le> k') m"

lemma set_bt_insert_keys: "fst ` set (bt_insert k v m) = insert k (fst ` set m)"
proof (induction m)
  case (Cons kv m)
  then show ?case by (cases kv) (simp add: insert_commute)
qed simp

lemma bt_wf_insert: "bt_wf m \<Longrightarrow> bt_wf (bt_insert k v m)"
proof (induction m)
  case (Cons kv m)
  then show ?case
    using set_bt_insert_keys [of k v m] by (cases kv) (auto simp: bt_wf_def)
qed (simp add: bt_wf_def)

lemma bt_get_insert:
  "bt_wf m \<Longrightarrow> bt_get (bt_insert k v m) k' = (if k' = k then Some v else bt_get m k')"
proof (induction m)
  case (Cons kv m)
  then show ?case by (cases kv) (auto simp: bt_wf_def bt_get_def)
qed (simp add: bt_get_def)

lemma bt_get_split_off: "bt_get (bt_split_off k m) k' = (if k \<le> k' then bt_get m k' else None)"
  by (induction m) (auto simp: bt_get_def bt_split_off_def)

lemma bt_wf_split_off: "bt_wf m \<Longrightarrow> bt_wf (bt_split_off k m)"
  by (induction m) (auto simp: bt_wf_def bt_split_off_def)

lemma bt_get_iff_in_set: "bt_wf m \<Longrightarrow> bt_get m k = Some v \<longleftrightarrow> (k, v) \<in> set m"
proof -
  assume "bt_wf m"
  then have "distinct (map fst m)"
    by (simp add: bt_wf_def strict_sorted_iff)
  then show ?thesis by (simp add: bt_get_def)
qed

section \<open>The store\<close>

datatype 'c stored_node_status = Unordered 'c u128 | Ordered 'c

fun as_node :: "'c stored_node_status \<Rightarrow> 'c" where
  "as_node (Unordered n _) = n"
| "as_node (Ordered n) = n"

fun sns_aggregated_voting_power :: "'c stored_node_status \<Rightarrow> u128 option" where
  "sns_aggregated_voting_power (Unordered _ p) = Some p"
| "sns_aggregated_voting_power (Ordered _) = None"

fun is_ordered :: "'c stored_node_status \<Rightarrow> bool" where
  "is_ordered (Unordered _ _) = False"
| "is_ordered (Ordered _) = True"

definition mark_as_ordered :: "'c stored_node_status \<Rightarrow> unit res \<times> 'c stored_node_status" where
  "mark_as_ordered s =
     (case s of
        Unordered _ _ \<Rightarrow> (Inr (), Ordered (as_node s))
      | Ordered _ \<Rightarrow> (Inl (Msg ''Node is already ordered''), s))"

record dag_store_config =
  dsc_start_round :: u64
  dsc_window_size :: u64

definition dsc_default :: dag_store_config where
  "dsc_default = \<lparr>dsc_start_round = 0, dsc_window_size = 100\<rparr>"

record ('r, 'a, 'c) in_mem_dag =
  dag_nodes_by_round :: "('r, 'c stored_node_status option list) btreemap"
  dag_author_to_index :: "('a, nat) hashmap"
  dag_config :: dag_store_config

text \<open>What the store needs of its node, round and author types.\<close>

record ('r, 'a, 'c) dag_ops =
  do_node_id :: "'c \<Rightarrow> ('r, 'r, 'a) dag_node_id"
  do_debug_round :: "'r \<Rightarrow> string"
  do_debug_author :: "'a \<Rightarrow> string"

definition dag_new :: "'a list \<Rightarrow> dag_store_config \<Rightarrow> ('r, 'a, 'c) in_mem_dag" where
  "dag_new authors config =
     \<lparr>dag_nodes_by_round = [],
      dag_author_to_index = hm_collect (map (\<lambda>(i, a). (a, i)) (enumerate 0 authors)),
      dag_config = config\<rparr>"

text \<open>\<open>R::default()\<close> is the argument \<open>def\<close>.\<close>

definition dag_lowest_round :: "'r \<Rightarrow> ('r, 'a, 'c) in_mem_dag \<Rightarrow> 'r" where
  "dag_lowest_round def dag =
     (case dag_nodes_by_round dag of [] \<Rightarrow> def | (r, _) # _ \<Rightarrow> r)"

definition dag_highest_round :: "'r \<Rightarrow> ('r, 'a, 'c) in_mem_dag \<Rightarrow> 'r" where
  "dag_highest_round def dag =
     (case dag_nodes_by_round dag of [] \<Rightarrow> def | kv # m \<Rightarrow> fst (last (kv # m)))"

definition dag_authors :: "('r, 'a, 'c) in_mem_dag \<Rightarrow> 'a list" where
  "dag_authors dag = hm_keys (dag_author_to_index dag)"

definition dag_num_authors :: "('r, 'a, 'c) in_mem_dag \<Rightarrow> nat" where
  "dag_num_authors dag = length (dag_author_to_index dag)"

definition dag_add_node ::
    "('r::linorder, 'a, 'c) dag_ops \<Rightarrow> ('r, 'a, 'c) in_mem_dag \<Rightarrow> 'c \<Rightarrow>
     unit res \<times> ('r, 'a, 'c) in_mem_dag" where
  "dag_add_node D dag node =
     (let node_id = do_node_id D node;
          rnd = dni_round node_id;
          author = dni_author node_id
      in case hm_get (dag_author_to_index dag) author of
           None \<Rightarrow> (Inl (Msg (''Unknown author: '' @ do_debug_author D author)), dag)
         | Some author_index \<Rightarrow>
             let round_nodes = (case bt_get (dag_nodes_by_round dag) rnd of
                                  Some v \<Rightarrow> v
                                | None \<Rightarrow> replicate (length (dag_author_to_index dag)) None);
                 round_nodes = (if length round_nodes \<le> author_index
                                then round_nodes @ replicate (author_index + 1 - length round_nodes) None
                                else round_nodes)
             in if round_nodes ! author_index \<noteq> None
                then (Inl (Msg (''Node already exists for round '' @ do_debug_round D rnd @
                                '', author '' @ do_debug_author D author)),
                      dag\<lparr>dag_nodes_by_round := bt_insert rnd round_nodes (dag_nodes_by_round dag)\<rparr>)
                else (Inr (),
                      dag\<lparr>dag_nodes_by_round :=
                            bt_insert rnd (round_nodes[author_index := Some (Unordered node 0)])
                              (dag_nodes_by_round dag)\<rparr>))"

definition dag_get_node_status ::
    "('r, 'a, 'c) in_mem_dag \<Rightarrow> 'r \<Rightarrow> 'a \<Rightarrow> 'c stored_node_status option" where
  "dag_get_node_status dag r a =
     (case hm_get (dag_author_to_index dag) a of
        None \<Rightarrow> None
      | Some author_index \<Rightarrow>
          (case bt_get (dag_nodes_by_round dag) r of
             None \<Rightarrow> None
           | Some round_nodes \<Rightarrow>
               if author_index < length round_nodes then round_nodes ! author_index else None))"

definition dag_get_node :: "('r, 'a, 'c) in_mem_dag \<Rightarrow> 'r \<Rightarrow> 'a \<Rightarrow> 'c option" where
  "dag_get_node dag r a =
     (case hm_get (dag_author_to_index dag) a of
        None \<Rightarrow> None
      | Some author_index \<Rightarrow>
          (case bt_get (dag_nodes_by_round dag) r of
             None \<Rightarrow> None
           | Some round_nodes \<Rightarrow>
               if author_index < length round_nodes
               then map_option as_node (round_nodes ! author_index) else None))"

definition dag_exists :: "('r, 'a, 'c) in_mem_dag \<Rightarrow> 'r \<Rightarrow> 'a \<Rightarrow> bool" where
  "dag_exists dag r a = (dag_get_node dag r a \<noteq> None)"

definition dag_mark_ordered ::
    "('r::linorder, 'a, 'c) dag_ops \<Rightarrow> ('r, 'a, 'c) in_mem_dag \<Rightarrow> 'r \<Rightarrow> 'a \<Rightarrow>
     unit res \<times> ('r, 'a, 'c) in_mem_dag" where
  "dag_mark_ordered D dag r a =
     (case hm_get (dag_author_to_index dag) a of
        None \<Rightarrow> (Inl (Msg (''Unknown author: '' @ do_debug_author D a)), dag)
      | Some author_index \<Rightarrow>
          (case bt_get (dag_nodes_by_round dag) r of
             None \<Rightarrow> (Inl (Msg (''Round '' @ do_debug_round D r @ '' not found'')), dag)
           | Some round_nodes \<Rightarrow>
               if length round_nodes \<le> author_index
               then (Inl (Msg ''Author index out of bounds''), dag)
               else (case round_nodes ! author_index of
                       None \<Rightarrow> (Inl (Msg ''Node not found''), dag)
                     | Some status \<Rightarrow>
                         (case mark_as_ordered status of
                            (res, status') \<Rightarrow>
                              (res, dag\<lparr>dag_nodes_by_round :=
                                 bt_insert r (round_nodes[author_index := Some status'])
                                   (dag_nodes_by_round dag)\<rparr>)))))"

text \<open>The nodes of a round's vector, in author order.\<close>

definition round_nodes :: "'c stored_node_status option list \<Rightarrow> 'c list" where
  "round_nodes v = List.map_filter (map_option as_node) v"

definition dag_get_round :: "('r, 'a, 'c) in_mem_dag \<Rightarrow> 'r \<Rightarrow> 'c list" where
  "dag_get_round dag r =
     (case bt_get (dag_nodes_by_round dag) r of Some v \<Rightarrow> round_nodes v | None \<Rightarrow> [])"

definition dag_all_nodes :: "('r, 'a, 'c) in_mem_dag \<Rightarrow> 'c list" where
  "dag_all_nodes dag = concat (map (\<lambda>(_, v). round_nodes v) (dag_nodes_by_round dag))"

definition dag_len :: "('r, 'a, 'c) in_mem_dag \<Rightarrow> nat" where
  "dag_len dag =
     sum_list (map (\<lambda>(_, v). length (filter (\<lambda>s. s \<noteq> None) v)) (dag_nodes_by_round dag))"

definition dag_is_empty :: "('r, 'a, 'c) in_mem_dag \<Rightarrow> bool" where
  "dag_is_empty dag = (dag_len dag = 0)"

definition dag_prune_below :: "('r::linorder, 'a, 'c) in_mem_dag \<Rightarrow> 'r \<Rightarrow> ('r, 'a, 'c) in_mem_dag" where
  "dag_prune_below dag min_round =
     dag\<lparr>dag_nodes_by_round := bt_split_off min_round (dag_nodes_by_round dag)\<rparr>"

definition dag_clear :: "('r, 'a, 'c) in_mem_dag \<Rightarrow> ('r, 'a, 'c) in_mem_dag" where
  "dag_clear dag = dag\<lparr>dag_nodes_by_round := []\<rparr>"

section \<open>Invariant\<close>

text \<open>The status in a slot, \<open>None\<close> where the vector is missing or too short.\<close>

definition dag_slots :: "('r, 'a, 'c) in_mem_dag \<Rightarrow> 'r \<Rightarrow> nat \<Rightarrow> 'c stored_node_status option" where
  "dag_slots dag r i =
     (case bt_get (dag_nodes_by_round dag) r of
        None \<Rightarrow> None
      | Some v \<Rightarrow> if i < length v then v ! i else None)"

text \<open>
  The rounds are in strictly increasing order, distinct authors have distinct indices, and the
  node in an author's slot of a round is a node of that round and author.
\<close>

definition dag_inv :: "('r::linorder, 'a, 'c) dag_ops \<Rightarrow> ('r, 'a, 'c) in_mem_dag \<Rightarrow> bool" where
  "dag_inv D dag \<longleftrightarrow>
     bt_wf (dag_nodes_by_round dag) \<and>
     (\<forall>a a' i. hm_get (dag_author_to_index dag) a = Some i \<longrightarrow>
               hm_get (dag_author_to_index dag) a' = Some i \<longrightarrow> a = a') \<and>
     (\<forall>r i s. dag_slots dag r i = Some s \<longrightarrow>
        dni_round (do_node_id D (as_node s)) = r \<and>
        hm_get (dag_author_to_index dag) (dni_author (do_node_id D (as_node s))) = Some i)"

lemma dag_invD:
  assumes "dag_inv D dag"
  shows "bt_wf (dag_nodes_by_round dag)"
    "hm_get (dag_author_to_index dag) a = Some i \<Longrightarrow> hm_get (dag_author_to_index dag) a' = Some i \<Longrightarrow> a = a'"
    "dag_slots dag r i = Some s \<Longrightarrow> dni_round (do_node_id D (as_node s)) = r"
    "dag_slots dag r i = Some s \<Longrightarrow>
      hm_get (dag_author_to_index dag) (dni_author (do_node_id D (as_node s))) = Some i"
  using assms unfolding dag_inv_def by blast+

lemma get_node_status: "dag_get_node dag r a = map_option as_node (dag_get_node_status dag r a)"
  by (simp add: dag_get_node_def dag_get_node_status_def split: option.splits)

lemma hm_get_author_index:
  "hm_get (dag_author_to_index (dag_new authors config)) a = Some i \<Longrightarrow> i < length authors \<and> authors ! i = a"
  by (auto simp: dag_new_def hm_get_collect in_set_enumerate_eq dest!: map_of_SomeD)

lemma dag_inv_new: "dag_inv D (dag_new authors config)"
proof -
  have "a = a'" if "hm_get (dag_author_to_index (dag_new authors config)) a = Some i"
    "hm_get (dag_author_to_index (dag_new authors config)) a' = Some i" for a a' i
    using hm_get_author_index [OF that(1)] hm_get_author_index [OF that(2)] by simp
  then show ?thesis
    unfolding dag_inv_def by (intro conjI allI impI) (auto simp: dag_new_def bt_wf_def bt_get_def dag_slots_def)
qed

text \<open>Updating one author's slot of one round.\<close>

definition dag_set_slot ::
    "('r::linorder, 'a, 'c) in_mem_dag \<Rightarrow> 'r \<Rightarrow> nat \<Rightarrow> 'c stored_node_status option list \<Rightarrow>
     'c stored_node_status \<Rightarrow> ('r, 'a, 'c) in_mem_dag" where
  "dag_set_slot dag r i v s =
     dag\<lparr>dag_nodes_by_round := bt_insert r (v[i := Some s]) (dag_nodes_by_round dag)\<rparr>"

lemma status_slot:
  "dag_get_node_status dag r a =
     (case hm_get (dag_author_to_index dag) a of None \<Rightarrow> None | Some i \<Rightarrow> dag_slots dag r i)"
  by (simp add: dag_get_node_status_def dag_slots_def split: option.splits)

lemma dag_slots_set_slot:
  assumes "bt_wf (dag_nodes_by_round dag)" "i < length v"
    and "\<And>j. j < length v \<Longrightarrow> v ! j = dag_slots dag r j"
    and "\<And>j. length v \<le> j \<Longrightarrow> dag_slots dag r j = None"
  shows "dag_slots (dag_set_slot dag r i v s) r' j =
           (if r' = r \<and> j = i then Some s else dag_slots dag r' j)"
  using assms
  by (auto simp: dag_slots_def dag_set_slot_def bt_get_insert nth_list_update)

lemma dag_inv_set_slot:
  assumes "dag_inv D dag" "i < length v"
    and "\<And>j. j < length v \<Longrightarrow> v ! j = dag_slots dag r j"
    and "\<And>j. length v \<le> j \<Longrightarrow> dag_slots dag r j = None"
    and "dni_round (do_node_id D (as_node s)) = r"
    and "hm_get (dag_author_to_index dag) (dni_author (do_node_id D (as_node s))) = Some i"
  shows "dag_inv D (dag_set_slot dag r i v s)"
proof -
  have wf: "bt_wf (dag_nodes_by_round dag)" using assms(1) by (simp add: dag_inv_def)
  have idx: "dag_author_to_index (dag_set_slot dag r i v s) = dag_author_to_index dag"
    by (simp add: dag_set_slot_def)
  have slots: "dag_slots (dag_set_slot dag r i v s) r' j =
      (if r' = r \<and> j = i then Some s else dag_slots dag r' j)" for r' j
    by (rule dag_slots_set_slot [OF wf assms(2)]) (simp_all add: assms(3,4))
  have "bt_wf (dag_nodes_by_round (dag_set_slot dag r i v s))"
    using wf by (simp add: dag_set_slot_def bt_wf_insert)
  moreover have "dni_round (do_node_id D (as_node t)) = r' \<and>
      hm_get (dag_author_to_index dag) (dni_author (do_node_id D (as_node t))) = Some j"
    if "dag_slots (dag_set_slot dag r i v s) r' j = Some t" for r' j t
  proof -
    have "(r' = r \<and> j = i \<and> t = s) \<or> dag_slots dag r' j = Some t"
      using that by (auto simp: slots split: if_splits)
    then show ?thesis using assms(5,6) dag_invD(3,4) [OF assms(1), of r' j t] by blast
  qed
  ultimately show ?thesis
    using dag_invD(2) [OF assms(1)] unfolding dag_inv_def idx by blast
qed

section \<open>The operations on the store as a map\<close>

text \<open>The vector that \<open>add_node\<close> works on: the stored one, extended to hold the slot.\<close>

definition slot_vector :: "('r, 'a, 'c) in_mem_dag \<Rightarrow> 'r \<Rightarrow> nat \<Rightarrow> 'c stored_node_status option list" where
  "slot_vector dag r i =
     (let v = (case bt_get (dag_nodes_by_round dag) r of
                 Some v \<Rightarrow> v | None \<Rightarrow> replicate (length (dag_author_to_index dag)) None)
      in if length v \<le> i then v @ replicate (i + 1 - length v) None else v)"

lemma slot_vector_facts:
  "i < length (slot_vector dag r i)"
  "j < length (slot_vector dag r i) \<Longrightarrow> slot_vector dag r i ! j = dag_slots dag r j"
  "length (slot_vector dag r i) \<le> j \<Longrightarrow> dag_slots dag r j = None"
  by (auto simp: slot_vector_def dag_slots_def Let_def nth_append split: option.splits if_splits)

lemma dag_add_node_cases:
  fixes D :: "('r::linorder, 'a, 'c) dag_ops"
  defines "rnd n \<equiv> dni_round (do_node_id D n)" and "author n \<equiv> dni_author (do_node_id D n)"
  assumes "dag_inv D dag"
  obtains (unknown) m where "hm_get (dag_author_to_index dag) (author n) = None"
      "dag_add_node D dag n = (Inl (Msg m), dag)"
  | (occupied) i m dag' where "hm_get (dag_author_to_index dag) (author n) = Some i"
      "dag_slots dag (rnd n) i \<noteq> None" "dag_add_node D dag n = (Inl (Msg m), dag')"
      "dag_author_to_index dag' = dag_author_to_index dag" "bt_wf (dag_nodes_by_round dag')"
      "dag_slots dag' = dag_slots dag"
  | (added) i where "hm_get (dag_author_to_index dag) (author n) = Some i"
      "dag_slots dag (rnd n) i = None"
      "dag_add_node D dag n =
         (Inr (), dag_set_slot dag (rnd n) i (slot_vector dag (rnd n) i) (Unordered n 0))"
proof (cases "hm_get (dag_author_to_index dag) (author n)")
  case None
  then show ?thesis using unknown by (simp add: dag_add_node_def author_def Let_def)
next
  case (Some i)
  let ?r = "rnd n" and ?v = "slot_vector dag (rnd n) i"
  have wf: "bt_wf (dag_nodes_by_round dag)" using assms(3) by (simp add: dag_inv_def)
  have eq: "dag_add_node D dag n =
      (if ?v ! i \<noteq> None
       then (Inl (Msg (''Node already exists for round '' @ do_debug_round D ?r @
               '', author '' @ do_debug_author D (author n))),
             dag\<lparr>dag_nodes_by_round := bt_insert ?r ?v (dag_nodes_by_round dag)\<rparr>)
       else (Inr (), dag_set_slot dag ?r i ?v (Unordered n 0)))"
    using Some
    by (simp add: dag_add_node_def slot_vector_def dag_set_slot_def rnd_def author_def Let_def)
  have slot: "?v ! i = dag_slots dag ?r i" by (rule slot_vector_facts(2) [OF slot_vector_facts(1)])
  show ?thesis
  proof (cases "dag_slots dag ?r i")
    case None
    with added [OF Some None] eq slot show ?thesis by simp
  next
    case s: (Some s)
    let ?dag = "dag\<lparr>dag_nodes_by_round := bt_insert ?r ?v (dag_nodes_by_round dag)\<rparr>"
    have "dag_slots ?dag r j = dag_slots dag r j" for r j
      using slot_vector_facts(2) [of j dag ?r i] slot_vector_facts(3) [of dag ?r i j] wf
      by (cases "j < length ?v") (auto simp: dag_slots_def bt_get_insert)
    then have "dag_slots ?dag = dag_slots dag" by (intro ext)
    with occupied [OF Some, of _ ?dag] s eq slot wf show ?thesis by (simp add: bt_wf_insert)
  qed
qed

lemma dag_set_slot_index [simp]:
  "dag_author_to_index (dag_set_slot dag r i v s) = dag_author_to_index dag"
  by (simp add: dag_set_slot_def)

lemma dag_inv_add: "dag_inv D dag \<Longrightarrow> dag_inv D (snd (dag_add_node D dag n))"
proof -
  assume inv: "dag_inv D dag"
  show ?thesis
    using inv
  proof (rule dag_add_node_cases [of D dag n])
    fix i m dag'
    assume "dag_add_node D dag n = (Inl (Msg m), dag')" "dag_author_to_index dag' = dag_author_to_index dag"
      "bt_wf (dag_nodes_by_round dag')" "dag_slots dag' = dag_slots dag"
    with inv show ?thesis by (simp add: dag_inv_def)
  next
    fix i
    assume "hm_get (dag_author_to_index dag) (dni_author (do_node_id D n)) = Some i"
      "dag_add_node D dag n = (Inr (), dag_set_slot dag (dni_round (do_node_id D n)) i
         (slot_vector dag (dni_round (do_node_id D n)) i) (Unordered n 0))"
    with dag_inv_set_slot [OF inv slot_vector_facts, where s = "Unordered n 0"] show ?thesis by simp
  qed (use inv in simp)
qed

lemma status_add_node:
  assumes "dag_inv D dag"
  shows "dag_get_node_status (snd (dag_add_node D dag n)) r a =
           (if is_ok (fst (dag_add_node D dag n)) \<and> r = dni_round (do_node_id D n) \<and>
               a = dni_author (do_node_id D n)
            then Some (Unordered n 0) else dag_get_node_status dag r a)"
  using assms
proof (rule dag_add_node_cases [of D dag n])
  fix i m dag'
  assume "dag_add_node D dag n = (Inl (Msg m), dag')" "dag_author_to_index dag' = dag_author_to_index dag"
    "dag_slots dag' = dag_slots dag"
  then show ?thesis by (simp add: status_slot split: option.splits)
next
  fix i
  let ?r = "dni_round (do_node_id D n)" and ?a = "dni_author (do_node_id D n)"
  assume i: "hm_get (dag_author_to_index dag) ?a = Some i"
    and add: "dag_add_node D dag n = (Inr (), dag_set_slot dag ?r i (slot_vector dag ?r i) (Unordered n 0))"
  have wf: "bt_wf (dag_nodes_by_round dag)"
    and inj: "\<And>a'. hm_get (dag_author_to_index dag) a' = Some i \<Longrightarrow> a' = ?a"
    using dag_invD(1) [OF assms] dag_invD(2) [OF assms _ i] by blast+
  have slots: "dag_slots (dag_set_slot dag ?r i (slot_vector dag ?r i) (Unordered n 0)) r j =
      (if r = ?r \<and> j = i then Some (Unordered n 0) else dag_slots dag r j)" for j
    by (rule dag_slots_set_slot [OF wf slot_vector_facts])
  show ?thesis
    using slots i add
    by (cases "hm_get (dag_author_to_index dag) a") (auto simp: status_slot dest: inj)
qed simp

lemma add_node_ok_iff:
  assumes "dag_inv D dag"
  shows "is_ok (fst (dag_add_node D dag n)) \<longleftrightarrow>
           hm_contains_key (dag_author_to_index dag) (dni_author (do_node_id D n)) \<and>
           dag_get_node_status dag (dni_round (do_node_id D n)) (dni_author (do_node_id D n)) = None"
  using assms
  by (rule dag_add_node_cases [of D dag n]) (simp_all add: hm_contains_key_def status_slot)

lemma status_prune:
  "dag_get_node_status (dag_prune_below dag m) r a =
     (if m \<le> r then dag_get_node_status dag r a else None)"
  by (simp add: dag_get_node_status_def dag_prune_below_def bt_get_split_off split: option.splits)

lemma dag_slots_prune: "dag_slots (dag_prune_below dag m) r i = (if m \<le> r then dag_slots dag r i else None)"
  by (simp add: dag_slots_def dag_prune_below_def bt_get_split_off)

lemma dag_inv_prune:
  assumes "dag_inv D dag"
  shows "dag_inv D (dag_prune_below dag m)"
  using dag_invD [OF assms]
  unfolding dag_inv_def dag_slots_prune
  by (auto simp: dag_prune_below_def bt_wf_split_off split: if_splits)

lemma dag_index_simps [simp]:
  "dag_author_to_index (dag_prune_below dag m) = dag_author_to_index dag"
  "dag_author_to_index (dag_clear dag) = dag_author_to_index dag"
  by (simp_all add: dag_prune_below_def dag_clear_def)

lemma dag_index_add [simp]:
  "dag_author_to_index (snd (dag_add_node D dag n)) = dag_author_to_index dag"
  by (simp add: dag_add_node_def Let_def split: option.splits)

lemma slots_vector:
  "bt_get (dag_nodes_by_round dag) r = Some v \<Longrightarrow> i < length v \<Longrightarrow>
   (\<forall>j < length v. v ! j = dag_slots dag r j) \<and> (\<forall>j \<ge> length v. dag_slots dag r j = None)"
  by (simp add: dag_slots_def)

lemma mark_ordered_missing:
  assumes "dag_get_node_status dag r a = None"
  shows "\<exists>m. dag_mark_ordered D dag r a = (Inl (Msg m), dag)"
  using assms
  by (auto simp: dag_mark_ordered_def dag_get_node_status_def not_less split: option.splits if_splits)

lemma mark_ordered_twice:
  assumes "hm_get (dag_author_to_index dag) a = Some i" "bt_get (dag_nodes_by_round dag) r = Some v"
    "i < length v" "v ! i = Some (Ordered n)"
  shows "dag_mark_ordered D dag r a = (Inl (Msg ''Node is already ordered''),
           dag\<lparr>dag_nodes_by_round := bt_insert r v (dag_nodes_by_round dag)\<rparr>)"
proof -
  have "v[i := Some (Ordered n)] = v" using assms(4) by (metis list_update_id)
  with assms show ?thesis by (simp add: dag_mark_ordered_def mark_as_ordered_def)
qed

lemma dag_mark_ordered_cases:
  assumes "dag_inv D dag"
  obtains (refused) m where "\<nexists>n p. dag_get_node_status dag r a = Some (Unordered n p)"
      "fst (dag_mark_ordered D dag r a) = Inl (Msg m)"
      "dag_slots (snd (dag_mark_ordered D dag r a)) = dag_slots dag"
      "bt_wf (dag_nodes_by_round (snd (dag_mark_ordered D dag r a)))"
      "dag_author_to_index (snd (dag_mark_ordered D dag r a)) = dag_author_to_index dag"
  | (marked) i v n p where "hm_get (dag_author_to_index dag) a = Some i"
      "bt_get (dag_nodes_by_round dag) r = Some v" "i < length v"
      "dag_slots dag r i = Some (Unordered n p)"
      "dag_mark_ordered D dag r a = (Inr (), dag_set_slot dag r i v (Ordered n))"
proof (cases "dag_get_node_status dag r a")
  case None
  obtain m where "dag_mark_ordered D dag r a = (Inl (Msg m), dag)"
    using mark_ordered_missing [OF None, of D] by auto
  then show ?thesis using refused None assms by (simp add: dag_inv_def)
next
  case (Some s)
  have wf: "bt_wf (dag_nodes_by_round dag)" using assms by (simp add: dag_inv_def)
  from Some obtain i v where iv: "hm_get (dag_author_to_index dag) a = Some i"
    "bt_get (dag_nodes_by_round dag) r = Some v" "i < length v" "v ! i = Some s"
    by (auto simp: dag_get_node_status_def split: option.splits if_splits)
  show ?thesis
  proof (cases s)
    case (Unordered n p)
    with iv show ?thesis
      by (intro marked [of i v n p])
        (simp_all add: dag_slots_def dag_mark_ordered_def mark_as_ordered_def dag_set_slot_def)
  next
    case (Ordered n)
    note eq = mark_ordered_twice [OF iv(1-3) iv(4) [unfolded Ordered], of D]
    have "dag_slots (snd (dag_mark_ordered D dag r a)) r' j = dag_slots dag r' j" for r' j
      using iv(2) wf by (simp add: eq dag_slots_def bt_get_insert)
    then show ?thesis
      using Some Ordered wf by (intro refused) (auto simp: eq bt_wf_insert)
  qed
qed

lemma status_mark_ordered:
  assumes "dag_inv D dag"
  shows "dag_get_node_status (snd (dag_mark_ordered D dag r a)) r' a' =
           (case dag_get_node_status dag r a of
              Some (Unordered n p) \<Rightarrow>
                if r' = r \<and> a' = a then Some (Ordered n) else dag_get_node_status dag r' a'
            | _ \<Rightarrow> dag_get_node_status dag r' a')"
  using assms
proof (rule dag_mark_ordered_cases [of D dag r a])
  fix m
  assume "\<nexists>n p. dag_get_node_status dag r a = Some (Unordered n p)"
    "dag_slots (snd (dag_mark_ordered D dag r a)) = dag_slots dag"
    "dag_author_to_index (snd (dag_mark_ordered D dag r a)) = dag_author_to_index dag"
  then show ?thesis by (auto simp: status_slot split: option.splits stored_node_status.splits)
next
  fix i v n p
  assume iv: "hm_get (dag_author_to_index dag) a = Some i" "bt_get (dag_nodes_by_round dag) r = Some v"
    "i < length v" "dag_slots dag r i = Some (Unordered n p)"
    "dag_mark_ordered D dag r a = (Inr (), dag_set_slot dag r i v (Ordered n))"
  have wf: "bt_wf (dag_nodes_by_round dag)"
    and inj: "\<And>a'. hm_get (dag_author_to_index dag) a' = Some i \<Longrightarrow> a' = a"
    using dag_invD(1) [OF assms] dag_invD(2) [OF assms _ iv(1)] by blast+
  have slots: "dag_slots (dag_set_slot dag r i v (Ordered n)) r' j =
      (if r' = r \<and> j = i then Some (Ordered n) else dag_slots dag r' j)" for j
    using slots_vector [OF iv(2,3)] by (intro dag_slots_set_slot [OF wf iv(3)]) auto
  show ?thesis
    using iv slots
    by (cases "hm_get (dag_author_to_index dag) a'") (auto simp: status_slot dest: inj)
qed

lemma dag_inv_mark_ordered:
  assumes "dag_inv D dag"
  shows "dag_inv D (snd (dag_mark_ordered D dag r a))"
  using assms
proof (rule dag_mark_ordered_cases [of D dag r a])
  fix m
  assume "dag_slots (snd (dag_mark_ordered D dag r a)) = dag_slots dag"
    "bt_wf (dag_nodes_by_round (snd (dag_mark_ordered D dag r a)))"
    "dag_author_to_index (snd (dag_mark_ordered D dag r a)) = dag_author_to_index dag"
  with assms show ?thesis by (simp add: dag_inv_def)
next
  fix i v n p
  assume iv: "bt_get (dag_nodes_by_round dag) r = Some v" "i < length v"
    "dag_slots dag r i = Some (Unordered n p)"
    "dag_mark_ordered D dag r a = (Inr (), dag_set_slot dag r i v (Ordered n))"
  have "dni_round (do_node_id D n) = r" "hm_get (dag_author_to_index dag) (dni_author (do_node_id D n)) = Some i"
    using dag_invD(3,4) [OF assms iv(3)] by simp_all
  then show ?thesis
    using dag_inv_set_slot [OF assms iv(2), of r "Ordered n"] slots_vector [OF iv(1,2)] iv(4) by simp
qed

section \<open>The store as its clients see it\<close>

text \<open>
  The contract of a store of nodes, one per round and author: what a lookup returns after an
  addition or a pruning, and when an addition is accepted.
\<close>

locale node_store =
  fixes inv :: "'d \<Rightarrow> bool"
    and add :: "'d \<Rightarrow> 'c \<Rightarrow> unit res \<times> 'd"
    and prune :: "'d \<Rightarrow> 'r::linorder \<Rightarrow> 'd"
    and find_node :: "'d \<Rightarrow> 'r \<Rightarrow> 'a \<Rightarrow> 'c option"
    and known :: "'d \<Rightarrow> 'a \<Rightarrow> bool"
    and rnd :: "'c \<Rightarrow> 'r" and author :: "'c \<Rightarrow> 'a"
  assumes inv_add: "inv d \<Longrightarrow> inv (snd (add d n))"
    and inv_prune: "inv d \<Longrightarrow> inv (prune d m)"
    and known_add: "known (snd (add d n)) = known d"
    and known_prune: "known (prune d m) = known d"
    and add_ok: "inv d \<Longrightarrow> is_ok (fst (add d n)) \<longleftrightarrow>
                   known d (author n) \<and> find_node d (rnd n) (author n) = None"
    and find_add: "inv d \<Longrightarrow> find_node (snd (add d n)) r a =
                   (if is_ok (fst (add d n)) \<and> r = rnd n \<and> a = author n then Some n
                    else find_node d r a)"
    and find_prune: "find_node (prune d m) r a = (if m \<le> r then find_node d r a else None)"
begin

text \<open>A second node of the same round and author is refused and changes nothing.\<close>

lemma no_equivocation:
  assumes "inv d" "is_ok (fst (add d n))" "rnd n' = rnd n" "author n' = author n"
  shows "\<not> is_ok (fst (add (snd (add d n)) n'))"
    and "find_node (snd (add (snd (add d n)) n')) (rnd n) (author n) = Some n"
  using assms inv_add [OF assms(1), of n] by (simp_all add: add_ok find_add)

text \<open>A pruned node is accepted again.\<close>

lemma add_after_prune:
  assumes "inv d" "is_ok (fst (add d n))" "rnd n < m"
  shows "is_ok (fst (add (prune (snd (add d n)) m) n))"
  using assms inv_prune [OF inv_add [OF assms(1), of n], of m]
  by (auto simp: add_ok find_prune known_prune known_add)

text \<open>Adding nodes of distinct rounds or authors to a store that has none of them keeps all.\<close>

lemma add_many:
  assumes "inv d" "distinct (map (\<lambda>n. (rnd n, author n)) ns)"
    and "\<And>n. n \<in> set ns \<Longrightarrow> known d (author n) \<and> find_node d (rnd n) (author n) = None"
    and "n \<in> set ns"
  shows "find_node (foldl (\<lambda>d n. snd (add d n)) d ns) (rnd n) (author n) = Some n"
  using assms
proof (induction ns arbitrary: d n)
  case (Cons x ns)
  have ok: "is_ok (fst (add d x))" using Cons.prems(1,3) by (simp add: add_ok)
  have inv': "inv (snd (add d x))" using Cons.prems(1) by (rule inv_add)
  have fresh: "known (snd (add d x)) (author y) \<and> find_node (snd (add d x)) (rnd y) (author y) = None"
    if "y \<in> set ns" for y
  proof -
    have "(rnd y, author y) \<noteq> (rnd x, author x)" using Cons.prems(2) that by (force simp: image_iff)
    with Cons.prems(1,3) that show ?thesis by (auto simp: known_add find_add)
  qed
  show ?case
  proof (cases "n = x")
    case False
    with Cons.IH [OF inv' _ fresh, of n] Cons.prems(2,4) show ?thesis by simp
  next
    case True
    have keep: "find_node (foldl (\<lambda>d n. snd (add d n)) e ms) (rnd x) (author x) = Some x"
      if "inv e" "find_node e (rnd x) (author x) = Some x" for e ms
      using that
    proof (induction ms arbitrary: e)
      case (Cons y ms)
      then have "inv (snd (add e y))" "find_node (snd (add e y)) (rnd x) (author x) = Some x"
        by (auto simp: inv_add find_add add_ok)
      from Cons.IH [OF this] show ?case by simp
    qed simp
    from keep [OF inv'] True ok Cons.prems(1) show ?thesis by (simp add: find_add)
  qed
qed simp

end

abbreviation node_round :: "('r, 'a, 'c) dag_ops \<Rightarrow> 'c \<Rightarrow> 'r" where
  "node_round D n \<equiv> dni_round (do_node_id D n)"

abbreviation node_author :: "('r, 'a, 'c) dag_ops \<Rightarrow> 'c \<Rightarrow> 'a" where
  "node_author D n \<equiv> dni_author (do_node_id D n)"

abbreviation dag_knows :: "('r, 'a, 'c) in_mem_dag \<Rightarrow> 'a \<Rightarrow> bool" where
  "dag_knows dag \<equiv> hm_contains_key (dag_author_to_index dag)"

interpretation dst: node_store "dag_inv D" "dag_add_node D" dag_prune_below dag_get_node dag_knows
  "node_round D" "node_author D" for D
proof (unfold_locales, goal_cases)
  case (1 dag n)
  then show ?case by (rule dag_inv_add)
next
  case (2 dag m)
  then show ?case by (rule dag_inv_prune)
next
  case (5 dag n)
  then show ?case by (simp add: add_node_ok_iff get_node_status)
next
  case (6 dag n r a)
  then show ?case by (simp add: get_node_status status_add_node)
qed (simp_all add: get_node_status status_prune)

section \<open>Listing the nodes\<close>

lemma length_round_nodes: "length (round_nodes v) = length (filter (\<lambda>s. s \<noteq> None) v)"
  by (induction v) (auto simp: round_nodes_def List.map_filter_simps split: option.splits)

lemma len_all_nodes: "dag_len dag = length (dag_all_nodes dag)"
  by (simp add: dag_len_def dag_all_nodes_def length_concat comp_def case_prod_beta' length_round_nodes)

lemma in_round_nodes: "n \<in> set (round_nodes v) \<longleftrightarrow> (\<exists>i < length v. map_option as_node (v ! i) = Some n)"
  by (force simp: round_nodes_def List.map_filter_def in_set_conv_nth)

lemma round_of_stored:
  assumes "dag_inv D dag" "(r, v) \<in> set (dag_nodes_by_round dag)" "n \<in> set (round_nodes v)"
  shows "node_round D n = r"
proof -
  have "bt_get (dag_nodes_by_round dag) r = Some v"
    using assms(1,2) by (simp add: dag_inv_def bt_get_iff_in_set)
  moreover obtain i s where "i < length v" "v ! i = Some s" "as_node s = n"
    using assms(3) by (auto simp: in_round_nodes)
  ultimately have "dag_slots dag r i = Some s" "as_node s = n" by (simp_all add: dag_slots_def)
  with dag_invD(3) [OF assms(1)] show ?thesis by blast
qed

lemma sorted_concat_rounds:
  assumes "sorted_wrt (<) (map fst m)" "\<And>r v n. (r, v) \<in> set m \<Longrightarrow> n \<in> set (f v) \<Longrightarrow> g n = r"
  shows "sorted (map g (concat (map (\<lambda>(_, v). f v) m)))"
  using assms
proof (induction m)
  case (Cons kv m)
  obtain k w where kv: "kv = (k, w)" by force
  have "map g (f w) = replicate (length (f w)) k"
    using Cons.prems(2) [of k w] by (intro nth_equalityI) (simp_all add: kv)
  moreover have "sorted (map g (concat (map (\<lambda>(_, v). f v) m)))"
    using Cons.prems by (intro Cons.IH) (auto simp: kv)
  moreover have "k \<le> g n" if "n \<in> set (f v)" "(r, v) \<in> set m" for r v n
    using Cons.prems that by (force simp: kv)
  ultimately show ?case by (auto simp: kv sorted_append)
qed simp

section \<open>Properties\<close>

abbreviation test_dag_ops :: "(u64, u8, test_certified_node) dag_ops" where
  "test_dag_ops \<equiv> \<lparr>do_node_id = test_id, do_debug_round = show_u64, do_debug_author = (\<lambda>_. [])\<rparr>"

text \<open>C20: adding a node to the store succeeds exactly when its author is known and its slot is
  empty; a successful addition makes the node, unordered, the answer to a look-up of its
  round and author, and no other look-up changes; a refused one changes no look-up.\<close>

theorem add_node_refines_map:
  assumes "dag_inv D dag"
  shows "(is_ok (fst (dag_add_node D dag n)) \<longleftrightarrow>
            dag_knows dag (node_author D n) \<and> \<not> dag_exists dag (node_round D n) (node_author D n)) \<and>
         dag_get_node_status (snd (dag_add_node D dag n)) r a =
           (if is_ok (fst (dag_add_node D dag n)) \<and> r = node_round D n \<and> a = node_author D n
            then Some (Unordered n 0) else dag_get_node_status dag r a) \<and>
         dag_inv D (snd (dag_add_node D dag n))"
  using dag_inv_add [OF assms] status_add_node [OF assms] dst.add_ok [OF assms]
  by (auto simp: dag_exists_def)

theorem add_node_refines_map_witness:
  "dag_inv test_dag_ops (dag_new [1, 2] dsc_default) \<and>
   (let n = tnb_build tnb_new
    in dag_get_node_status (snd (dag_add_node test_dag_ops (dag_new [1, 2] dsc_default) n)) 1 1 =
       Some (Unordered n 0))"
proof -
  let ?n = "tnb_build tnb_new" and ?dag = "dag_new [1, 2] dsc_default :: (u64, u8, test_certified_node) in_mem_dag"
  have "test_id ?n = dni_new 1 1 1"
    by (simp add: tnb_build_def tnb_new_def dnm_new_def dn_new_def cn_new_def Let_def)
  moreover have "dag_knows ?dag 1" "\<not> dag_exists ?dag 1 1"
    by (simp_all add: dag_new_def dag_exists_def dag_get_node_def hm_contains_key_def hm_get_collect
        bt_get_def enumerate_eq_zip)
  ultimately show ?thesis
    using add_node_refines_map [OF dag_inv_new [of test_dag_ops "[1, 2]" dsc_default], of ?n 1 1]
      dag_inv_new [of test_dag_ops "[1, 2]" dsc_default]
    by (simp add: dni_new_def)
qed

text \<open>An author gets at most one node per round: after a node has been added, every other node
  of the same round and author is refused, and the first one stays.\<close>

theorem store_keeps_first_node:
  assumes "dag_inv D dag" "is_ok (fst (dag_add_node D dag n))"
    and "node_round D n' = node_round D n" "node_author D n' = node_author D n"
  shows "\<not> is_ok (fst (dag_add_node D (snd (dag_add_node D dag n)) n')) \<and>
         dag_get_node (snd (dag_add_node D (snd (dag_add_node D dag n)) n'))
           (node_round D n) (node_author D n) = Some n"
  using dst.no_equivocation [OF assms] by simp

theorem store_keeps_first_node_witness:
  "let n = tnb_build tnb_new; n' = tnb_build (tnb_set_timestamp tnb_new 7);
       dag = snd (dag_add_node test_dag_ops (dag_new [1, 2] dsc_default) n)
   in n \<noteq> n' \<and> \<not> is_ok (fst (dag_add_node test_dag_ops dag n'))"
proof -
  let ?n = "tnb_build tnb_new" and ?n' = "tnb_build (tnb_set_timestamp tnb_new 7)"
    and ?dag = "dag_new [1, 2] dsc_default :: (u64, u8, test_certified_node) in_mem_dag"
  have id: "test_id ?n = dni_new 1 1 1" "test_id ?n' = dni_new 1 1 1" and neq: "?n \<noteq> ?n'"
    by (simp_all add: tnb_build_def tnb_new_def tnb_set_timestamp_def dnm_new_def dn_new_def cn_new_def Let_def)
  have "dag_knows ?dag 1" "dag_get_node ?dag 1 1 = None"
    by (simp_all add: dag_new_def dag_get_node_def hm_contains_key_def hm_get_collect
        bt_get_def enumerate_eq_zip)
  then have "is_ok (fst (dag_add_node test_dag_ops ?dag ?n))"
    using dst.add_ok [OF dag_inv_new [of test_dag_ops "[1, 2]" dsc_default], of ?n]
    by (simp add: id dni_new_def)
  from store_keeps_first_node [OF dag_inv_new this, of ?n'] neq show ?thesis by (simp add: id Let_def)
qed

text \<open>\<open>mark_ordered\<close> succeeds exactly on a stored node that is not ordered yet, turns that node
  and nothing else into an ordered one, and keeps the store's invariant.\<close>

lemma mark_ordered_spec:
  assumes "dag_inv D dag"
  shows "(is_ok (fst (dag_mark_ordered D dag r a)) \<longleftrightarrow>
            (\<exists>n p. dag_get_node_status dag r a = Some (Unordered n p))) \<and>
         dag_get_node_status (snd (dag_mark_ordered D dag r a)) r' a' =
           (if is_ok (fst (dag_mark_ordered D dag r a)) \<and> r' = r \<and> a' = a
            then map_option Ordered (dag_get_node dag r a) else dag_get_node_status dag r' a') \<and>
         dag_inv D (snd (dag_mark_ordered D dag r a))"
proof -
  have ok: "is_ok (fst (dag_mark_ordered D dag r a)) \<longleftrightarrow>
      (\<exists>n p. dag_get_node_status dag r a = Some (Unordered n p))"
    using assms by (rule dag_mark_ordered_cases [of D dag r a]) (auto simp: status_slot)
  then show ?thesis
    using dag_inv_mark_ordered [OF assms] status_mark_ordered [OF assms, of r a r' a']
    by (auto simp: get_node_status split: option.splits stored_node_status.splits)
qed

text \<open>C21: pruning drops exactly the rounds below the bound, but the bound is not remembered: a node
  of a pruned round is accepted again, although \<open>add_node\<close> is documented to refuse nodes
  below the lowest round.\<close>

theorem prune_forgets_bound:
  assumes "dag_inv D dag" "is_ok (fst (dag_add_node D dag n))" "node_round D n < m"
  shows "dag_get_node (dag_prune_below (snd (dag_add_node D dag n)) m) r a =
           (if m \<le> r then dag_get_node dag r a else None) \<and>
         is_ok (fst (dag_add_node D (dag_prune_below (snd (dag_add_node D dag n)) m) n))"
  using dst.add_after_prune [OF assms] dst.find_add [OF assms(1)] assms(3)
  by (auto simp: get_node_status status_prune)

theorem prune_forgets_bound_witness:
  "let n = tnb_build tnb_new; dag = snd (dag_add_node test_dag_ops (dag_new [1, 2] dsc_default) n)
   in is_ok (fst (dag_add_node test_dag_ops (dag_prune_below dag 50) n))"
proof -
  let ?n = "tnb_build tnb_new" and ?dag = "dag_new [1, 2] dsc_default :: (u64, u8, test_certified_node) in_mem_dag"
  have id: "test_id ?n = dni_new 1 1 1"
    by (simp add: tnb_build_def tnb_new_def dnm_new_def dn_new_def cn_new_def Let_def)
  have "dag_knows ?dag 1" "dag_get_node ?dag 1 1 = None"
    by (simp_all add: dag_new_def dag_get_node_def hm_contains_key_def hm_get_collect
        bt_get_def enumerate_eq_zip)
  then have "is_ok (fst (dag_add_node test_dag_ops ?dag ?n))"
    using dst.add_ok [OF dag_inv_new [of test_dag_ops "[1, 2]" dsc_default], of ?n]
    by (simp add: id dni_new_def)
  from prune_forgets_bound [OF dag_inv_new this, of 50] show ?thesis by (simp add: id dni_new_def Let_def)
qed

text \<open>\<open>all_nodes\<close> lists the stored nodes in increasing order of their rounds, and \<open>len\<close> is
  the number of nodes it lists.\<close>

theorem all_nodes_sorted:
  assumes "dag_inv D dag"
  shows "sorted (map (node_round D) (dag_all_nodes dag)) \<and> dag_len dag = length (dag_all_nodes dag)"
  unfolding dag_all_nodes_def
  using sorted_concat_rounds [of "dag_nodes_by_round dag" round_nodes "node_round D"]
    dag_invD(1) [OF assms] round_of_stored [OF assms]
  by (simp add: bt_wf_def len_all_nodes dag_all_nodes_def)

theorem all_nodes_sorted_witness:
  "let dag = foldl (\<lambda>d n. snd (dag_add_node test_dag_ops d n)) (dag_new [1, 2] dsc_default)
        [tnb_build (tnb_set_round tnb_new 3), tnb_build (tnb_set_round tnb_new 2)]
   in dag_len dag = length (dag_all_nodes dag)"
proof -
  have "dag_inv test_dag_ops (foldl (\<lambda>d n. snd (dag_add_node test_dag_ops d n)) (dag_new [1, 2] dsc_default)
        [tnb_build (tnb_set_round tnb_new 3), tnb_build (tnb_set_round tnb_new 2)])"
    by (simp add: dag_inv_add dag_inv_new)
  from all_nodes_sorted [OF this] show ?thesis by (simp add: Let_def)
qed

end
