(* ===== verification/Dag_Runs.thy ===== *)
theory Dag_Runs
  imports Dag_Store
begin

text \<open>
  Runs of the DAG store: any sequence of additions, markings, prunings and clearings from an
  empty store. The typing discipline of the store (\<open>dag_inv\<close>: a slot holds a node of its own
  round and author) is kept by every operation, and the listings of \<open>all_nodes\<close> and
  \<open>get_round\<close> agree with the look-ups of \<open>get_node\<close>.
\<close>

datatype ('r, 'a, 'c) dag_event = DagAdd 'c | DagMark 'r 'a | DagPrune 'r | DagClear

fun dag_step ::
    "('r::linorder, 'a, 'c) dag_ops \<Rightarrow> ('r, 'a, 'c) in_mem_dag \<Rightarrow> ('r, 'a, 'c) dag_event \<Rightarrow>
     ('r, 'a, 'c) in_mem_dag" where
  "dag_step D dag (DagAdd n) = snd (dag_add_node D dag n)"
| "dag_step D dag (DagMark r a) = snd (dag_mark_ordered D dag r a)"
| "dag_step D dag (DagPrune r) = dag_prune_below dag r"
| "dag_step D dag DagClear = dag_clear dag"

abbreviation dag_run ::
    "('r::linorder, 'a, 'c) dag_ops \<Rightarrow> ('r, 'a, 'c) in_mem_dag \<Rightarrow> ('r, 'a, 'c) dag_event list \<Rightarrow>
     ('r, 'a, 'c) in_mem_dag" where
  "dag_run D \<equiv> foldl (dag_step D)"

section \<open>The invariant along a run\<close>

lemma dag_inv_clear: "dag_inv D dag \<Longrightarrow> dag_inv D (dag_clear dag)"
  by (auto simp: dag_inv_def dag_clear_def dag_slots_def bt_wf_def bt_get_def)

lemma dag_index_mark [simp]:
  "dag_author_to_index (snd (dag_mark_ordered D dag r a)) = dag_author_to_index dag"
  by (simp add: dag_mark_ordered_def case_prod_beta split: option.splits)

lemma dag_index_step [simp]: "dag_author_to_index (dag_step D dag ev) = dag_author_to_index dag"
  by (cases ev) simp_all

lemma dag_index_run [simp]: "dag_author_to_index (dag_run D dag evs) = dag_author_to_index dag"
  by (induction evs arbitrary: dag) simp_all

lemma dag_inv_step: "dag_inv D dag \<Longrightarrow> dag_inv D (dag_step D dag ev)"
  by (cases ev) (simp_all add: dag_inv_add dag_inv_mark_ordered dag_inv_prune dag_inv_clear)

lemma dag_inv_run: "dag_inv D dag \<Longrightarrow> dag_inv D (dag_run D dag evs)"
  by (induction evs arbitrary: dag) (simp_all add: dag_inv_step)

section \<open>Listings and look-ups\<close>

lemma distinct_round_nodes:
  assumes "\<And>i s. i < length v \<Longrightarrow> v ! i = Some s \<Longrightarrow> idx (author (as_node s)) = Some (k + i)"
  shows "distinct (map author (round_nodes v)) \<and>
         (\<forall>n \<in> set (round_nodes v). \<exists>i. idx (author n) = Some (k + i))"
  using assms
proof (induction v arbitrary: k)
  case (Cons x v)
  have "idx (author (as_node s)) = Some (Suc k + i)" if "i < length v" "v ! i = Some s" for i s
    using Cons.prems [of "Suc i" s] that by simp
  note IH = Cons.IH [OF this]
  have dist: "distinct (map author (round_nodes v))" by (rule conjunct1 [OF IH])
  have later: "\<exists>i. idx (author n) = Some (Suc k + i)" if "n \<in> set (round_nodes v)" for n
    using IH that by blast
  have above: "\<exists>i. idx (author n) = Some (k + i)" if "n \<in> set (round_nodes v)" for n
    using later [OF that] by (metis add_Suc add_Suc_right)
  show ?case
  proof (cases x)
    case None
    then show ?thesis using dist above by (simp add: round_nodes_def List.map_filter_simps)
  next
    case (Some s)
    have head: "idx (author (as_node s)) = Some k" using Cons.prems [of 0 s] Some by simp
    have "author (as_node s) \<noteq> author n" if "n \<in> set (round_nodes v)" for n
    proof
      assume "author (as_node s) = author n"
      with head later [OF that] show False by auto
    qed
    moreover have "\<exists>i. idx (author (as_node s)) = Some (k + i)" using head by (intro exI [of _ 0]) simp
    ultimately show ?thesis
      using dist above Some by (auto simp: round_nodes_def List.map_filter_simps)
  qed
qed (simp add: round_nodes_def List.map_filter_simps)

lemma dag_slots_stored:
  assumes "dag_inv D dag" "(r, v) \<in> set (dag_nodes_by_round dag)" "i < length v"
  shows "dag_slots dag r i = v ! i"
  using bt_get_iff_in_set [OF dag_invD(1) [OF assms(1)], of r v] assms(2,3)
  by (simp add: dag_slots_def)

lemma distinct_authors_of_round:
  assumes "dag_inv D dag" "(r, v) \<in> set (dag_nodes_by_round dag)"
  shows "distinct (map (node_author D) (round_nodes v))"
proof -
  have "hm_get (dag_author_to_index dag) (node_author D (as_node s)) = Some (0 + i)"
    if "i < length v" "v ! i = Some s" for i s
    using dag_invD(4) [OF assms(1)] dag_slots_stored [OF assms that(1)] that(2) by simp
  then show ?thesis by (rule conjunct1 [OF distinct_round_nodes])
qed

lemma node_listed_iff:
  assumes "dag_inv D dag"
  shows "n \<in> set (dag_all_nodes dag) \<longleftrightarrow> dag_get_node dag (node_round D n) (node_author D n) = Some n"
proof
  assume "n \<in> set (dag_all_nodes dag)"
  then obtain r v where rv: "(r, v) \<in> set (dag_nodes_by_round dag)" "n \<in> set (round_nodes v)"
    by (auto simp: dag_all_nodes_def)
  then obtain i s where s: "i < length v" "v ! i = Some s" "as_node s = n"
    by (auto simp: in_round_nodes)
  have "dag_slots dag r i = Some s" using dag_slots_stored [OF assms rv(1) s(1)] s(2) by simp
  with dag_invD(3,4) [OF assms this] s(3)
  show "dag_get_node dag (node_round D n) (node_author D n) = Some n"
    by (auto simp: get_node_status status_slot)
next
  assume "dag_get_node dag (node_round D n) (node_author D n) = Some n"
  then obtain i v where "bt_get (dag_nodes_by_round dag) (node_round D n) = Some v"
    and "i < length v" "map_option as_node (v ! i) = Some n"
    by (auto simp: dag_get_node_def split: option.splits if_splits)
  moreover from this have "(node_round D n, v) \<in> set (dag_nodes_by_round dag)"
    using assms by (simp add: dag_inv_def bt_get_iff_in_set)
  ultimately show "n \<in> set (dag_all_nodes dag)"
    unfolding dag_all_nodes_def by (auto simp: in_round_nodes intro!: bexI)
qed

lemma distinct_concat_rounds:
  fixes m :: "('r::linorder \<times> 'v) list"
  assumes "sorted_wrt (<) (map fst m)"
    and "\<And>r v. (r, v) \<in> set m \<Longrightarrow> distinct (map h (f v))"
    and "\<And>r v n. (r, v) \<in> set m \<Longrightarrow> n \<in> set (f v) \<Longrightarrow> g n = r"
  shows "distinct (map (\<lambda>n. (g n, h n)) (concat (map (\<lambda>(_, v). f v) m)))"
  using assms
proof (induction m)
  case (Cons kv m)
  obtain k w where kv: "kv = (k, w)" by force
  have "distinct (map (\<lambda>n. (g n, h n)) (f w))"
    using Cons.prems(2) [of k w] by (auto simp: kv distinct_map inj_on_def)
  moreover have "distinct (map (\<lambda>n. (g n, h n)) (concat (map (\<lambda>(_, v). f v) m)))"
  proof (rule Cons.IH)
    show "sorted_wrt (<) (map fst m)" using Cons.prems(1) by simp
    show "distinct (map h (f v))" if "(r, v) \<in> set m" for r v
      using Cons.prems(2) [of r v] that by simp
    show "g n = r" if "(r, v) \<in> set m" "n \<in> set (f v)" for r v n
      using Cons.prems(3) [of r v n] that by simp
  qed
  moreover have "g n \<noteq> g n'" if "n \<in> set (f w)" "n' \<in> set (f v)" "(r, v) \<in> set m" for n n' r v
  proof -
    have "g n = k" "g n' = r"
      using Cons.prems(3) [of k w n] Cons.prems(3) [of r v n'] that by (simp_all add: kv)
    moreover have "k < r" using Cons.prems(1) that(3) by (force simp: kv)
    ultimately show ?thesis by simp
  qed
  ultimately show ?case by (fastforce simp: kv)
qed simp

lemma distinct_all_nodes:
  assumes "dag_inv D dag"
  shows "distinct (map (\<lambda>n. (node_round D n, node_author D n)) (dag_all_nodes dag))"
  unfolding dag_all_nodes_def
  using dag_invD(1) [OF assms] distinct_authors_of_round [OF assms] round_of_stored [OF assms]
  by (intro distinct_concat_rounds) (auto simp: bt_wf_def)

lemma authors_of_nodes:
  assumes "dag_inv D dag" "n \<in> set (dag_all_nodes dag)"
  shows "dag_knows dag (node_author D n)"
  using node_listed_iff [OF assms(1), of n] assms(2)
  by (auto simp: dag_get_node_def hm_contains_key_def split: option.splits)

section \<open>Property\<close>

text \<open>C29: The store is well typed in every reachable state: after any sequence of additions, markings,
  prunings and clearings from an empty store, the slot of a round and author holds a node of
  that round and author, the listing of all nodes has no two nodes of one round and author
  and lists exactly the nodes that a look-up finds, and their authors are among the authors
  the store was created with.\<close>

theorem dag_store_well_typed:
  "let dag = dag_run D (dag_new authors config) evs
   in dag_inv D dag \<and>
      distinct (map (\<lambda>n. (node_round D n, node_author D n)) (dag_all_nodes dag)) \<and>
      (\<forall>n. n \<in> set (dag_all_nodes dag) \<longleftrightarrow>
             dag_get_node dag (node_round D n) (node_author D n) = Some n) \<and>
      node_author D ` set (dag_all_nodes dag) \<subseteq> set authors"
proof -
  let ?dag = "dag_run D (dag_new authors config) evs"
  have inv: "dag_inv D ?dag" by (rule dag_inv_run [OF dag_inv_new])
  have "node_author D n \<in> set authors" if n: "n \<in> set (dag_all_nodes ?dag)" for n
  proof -
    obtain i where "hm_get (dag_author_to_index ?dag) (node_author D n) = Some i"
      using authors_of_nodes [OF inv n] unfolding hm_contains_key_def by blast
    from hm_get_author_index [OF this [unfolded dag_index_run]] show ?thesis by (metis nth_mem)
  qed
  with inv distinct_all_nodes [OF inv] node_listed_iff [OF inv] show ?thesis
    by (auto simp: Let_def)
qed

end
