(* ===== verification/Dag_Driver.thy ===== *)
theory Dag_Driver
  imports Dag_Store
begin

text \<open>
  Models \<open>dag/ordering.rs\<close> (anchor election and the ordering rule, most of whose methods are
  placeholders in the source) and \<open>dag/driver.rs\<close>. The driver holds its store behind an
  \<open>Arc\<close> and never mutates it, so the model keeps one copy per holder.
\<close>

section \<open>Ordering\<close>

record ordering_config =
  oc_window_size :: u64
  oc_anchor_interval :: u64

definition oc_default :: ordering_config where
  "oc_default = \<lparr>oc_window_size = 100, oc_anchor_interval = 2\<rparr>"

record ('id, 'a) commit_event =
  ce_anchor_id :: 'id
  ce_parents :: "'a list"
  ce_failed_authors :: "'a list"

definition ce_new :: "'id \<Rightarrow> 'a list \<Rightarrow> 'a list \<Rightarrow> ('id, 'a) commit_event" where
  "ce_new i ps fs = \<lparr>ce_anchor_id = i, ce_parents = ps, ce_failed_authors = fs\<rparr>"

record ('c, 'id, 'a) ordering_result =
  or_ordered_nodes :: "'c list"
  or_commit_event :: "('id, 'a) commit_event"

text \<open>The trait \<open>AnchorElection\<close>; updating the reputation takes \<open>&self\<close> and returns nothing.\<close>

record ('r, 'a) anchor_election =
  ae_get_anchor :: "'r \<Rightarrow> 'a res"

record 'a round_robin_anchor_election =
  rra_authors :: "'a list"

definition rra_new :: "'a list \<Rightarrow> 'a round_robin_anchor_election" where
  "rra_new authors = \<lparr>rra_authors = authors\<rparr>"

fun position :: "('a \<Rightarrow> bool) \<Rightarrow> 'a list \<Rightarrow> nat option" where
  "position P [] = None"
| "position P (x # xs) = (if P x then Some 0 else map_option Suc (position P xs))"

definition rra_get_author_index :: "'a round_robin_anchor_election \<Rightarrow> 'a \<Rightarrow> nat option" where
  "rra_get_author_index e author = position (\<lambda>a. a = author) (rra_authors e)"

definition rra_get_anchor :: "'a round_robin_anchor_election \<Rightarrow> 'r \<Rightarrow> 'a res" where
  "rra_get_anchor e r =
     (let index = 0
      in case vec_get (rra_authors e) index of
           Some a \<Rightarrow> Inr a
         | None \<Rightarrow> (case rra_authors e of
                      a # _ \<Rightarrow> Inr a
                    | [] \<Rightarrow> Inl (Panic ''No authors available'')))"

definition rra_election :: "'a round_robin_anchor_election \<Rightarrow> ('r, 'a) anchor_election" where
  "rra_election e = \<lparr>ae_get_anchor = rra_get_anchor e\<rparr>"

record ('r, 'a, 'c) order_rule =
  orl_dag :: "('r, 'a, 'c) in_mem_dag"
  orl_anchor_election :: "('r, 'a) anchor_election"
  orl_lowest_unordered_round :: 'r
  orl_config :: ordering_config

definition orl_new ::
    "('r, 'a, 'c) in_mem_dag \<Rightarrow> ('r, 'a) anchor_election \<Rightarrow> 'r \<Rightarrow> ordering_config \<Rightarrow>
     ('r, 'a, 'c) order_rule" where
  "orl_new dag ae lowest config =
     \<lparr>orl_dag = dag, orl_anchor_election = ae, orl_lowest_unordered_round = lowest,
      orl_config = config\<rparr>"

definition orl_process_new_node ::
    "('r, 'a, 'c) order_rule \<Rightarrow> 'c \<Rightarrow> ('c, 'r, 'a) ordering_result option res \<times> ('r, 'a, 'c) order_rule" where
  "orl_process_new_node rule n = (Inr None, rule)"

definition orl_process_all ::
    "('r, 'a, 'c) order_rule \<Rightarrow> ('c, 'r, 'a) ordering_result list res \<times> ('r, 'a, 'c) order_rule" where
  "orl_process_all rule = (Inr [], rule)"

definition orl_try_order_from_round ::
    "('r, 'a, 'c) order_rule \<Rightarrow> 'r \<Rightarrow> ('c, 'r, 'a) ordering_result option res \<times> ('r, 'a, 'c) order_rule" where
  "orl_try_order_from_round rule r = (Inr None, rule)"

definition orl_find_anchor_with_enough_votes :: "('r, 'a, 'c) order_rule \<Rightarrow> 'r \<Rightarrow> 'c option res" where
  "orl_find_anchor_with_enough_votes rule r = Inr None"

definition orl_order_anchor ::
    "('r, 'a, 'c) order_rule \<Rightarrow> 'c \<Rightarrow> 'c list res \<times> ('r, 'a, 'c) order_rule" where
  "orl_order_anchor rule anchor = (Inr [], rule)"

definition orl_create_commit_event :: "('r, 'a, 'c) order_rule \<Rightarrow> 'c list \<Rightarrow> ('r, 'a) commit_event" where
  "orl_create_commit_event rule ns = ce_new (orl_lowest_unordered_round rule) [] []"

definition orl_can_trigger_ordering :: "('r, 'a, 'c) order_rule \<Rightarrow> 'r \<Rightarrow> bool" where
  "orl_can_trigger_ordering rule r = False"

definition orl_compare_rounds :: "('r, 'a, 'c) order_rule \<Rightarrow> 'r \<Rightarrow> 'r \<Rightarrow> ordering" where
  "orl_compare_rounds rule r1 r2 = Equal"

definition orl_next_round :: "('r, 'a, 'c) order_rule \<Rightarrow> 'r \<Rightarrow> 'r" where
  "orl_next_round rule r = r"

section \<open>The driver\<close>

record dag_driver_config =
  ddc_window_size :: u64
  ddc_anchor_interval :: u64
  ddc_max_concurrent_rounds :: usize

definition ddc_default :: dag_driver_config where
  "ddc_default =
     \<lparr>ddc_window_size = 100, ddc_anchor_interval = 2, ddc_max_concurrent_rounds = 10\<rparr>"

record ('r, 'a, 'c) dag_driver =
  dd_dag :: "('r, 'a, 'c) in_mem_dag"
  dd_order_rule :: "('r, 'a, 'c) order_rule"
  dd_config :: dag_driver_config
  dd_current_round :: 'r
  dd_pending_nodes :: "'c list"
  dd_is_processing :: bool

definition dd_new ::
    "'a list \<Rightarrow> ('r, 'a) anchor_election \<Rightarrow> 'r \<Rightarrow> dag_driver_config \<Rightarrow> ('r, 'a, 'c) dag_driver" where
  "dd_new authors ae start_round config =
     (let dag_store_config = \<lparr>dsc_start_round = 0, dsc_window_size = ddc_window_size config\<rparr>;
          dag = dag_new authors dag_store_config;
          ord_config = \<lparr>oc_window_size = ddc_window_size config,
                         oc_anchor_interval = ddc_anchor_interval config\<rparr>;
          order_rule = orl_new dag ae start_round ord_config
      in \<lparr>dd_dag = dag, dd_order_rule = order_rule, dd_config = config,
          dd_current_round = start_round, dd_pending_nodes = [], dd_is_processing = False\<rparr>)"

definition dd_handle_ordered_nodes ::
    "('r, 'a, 'c) dag_driver \<Rightarrow> ('c, 'r, 'a) ordering_result \<Rightarrow> unit res \<times> ('r, 'a, 'c) dag_driver" where
  "dd_handle_ordered_nodes d result = (Inr (), d)"

fun dd_handle_all ::
    "('r, 'a, 'c) dag_driver \<Rightarrow> ('c, 'r, 'a) ordering_result list \<Rightarrow> unit res \<times> ('r, 'a, 'c) dag_driver" where
  "dd_handle_all d [] = (Inr (), d)"
| "dd_handle_all d (result # results) =
     (case dd_handle_ordered_nodes d result of
        (Inl e, d') \<Rightarrow> (Inl e, d')
      | (Inr _, d') \<Rightarrow> dd_handle_all d' results)"

text \<open>The results of one turn of the loop are the constant empty vector, so the loop breaks in its
  first turn with nothing collected.\<close>

definition dd_check_ordering :: "('r, 'a, 'c) dag_driver \<Rightarrow> unit res \<times> ('r, 'a, 'c) dag_driver" where
  "dd_check_ordering d = (let ordered_results = [] in dd_handle_all d ordered_results)"

definition dd_process_certified_node ::
    "('r, 'a, 'c) dag_driver \<Rightarrow> 'c \<Rightarrow> unit res \<times> ('r, 'a, 'c) dag_driver" where
  "dd_process_certified_node d n =
     (case dd_check_ordering d of
        (Inl e, d') \<Rightarrow> (Inl e, d')
      | (Inr _, d') \<Rightarrow> (Inr (), d'))"

definition dd_enter_new_round ::
    "('r::linorder \<Rightarrow> string) \<Rightarrow> ('r, 'a, 'c) dag_driver \<Rightarrow> 'r \<Rightarrow> unit res \<times> ('r, 'a, 'c) dag_driver" where
  "dd_enter_new_round dbg d new_round =
     (if new_round < dd_current_round d
      then (Inl (Msg (''Cannot move to round '' @ dbg new_round @ '' from '' @
                      dbg (dd_current_round d))), d)
      else (Inr (), d\<lparr>dd_current_round := new_round\<rparr>))"

definition dd_get_strong_links :: "('r, 'a, 'c) dag_driver \<Rightarrow> 'r \<Rightarrow> 'c list" where
  "dd_get_strong_links d r = dag_get_round (dd_dag d) r"

definition dd_create_proposal :: "('r, 'a, 'c) dag_driver \<Rightarrow> unit res" where
  "dd_create_proposal d = Inr ()"

text \<open>The loop of \<open>process_pending\<close>; an error of one node is printed and the loop goes on.\<close>

fun dd_pending_loop ::
    "('r, 'a, 'c) dag_driver \<Rightarrow> 'c list \<Rightarrow> ('r, 'a, 'c) dag_driver" where
  "dd_pending_loop d [] = d"
| "dd_pending_loop d (n # ns) =
     dd_pending_loop (snd (dd_process_certified_node (d\<lparr>dd_pending_nodes := ns\<rparr>) n)) ns"

definition dd_process_pending :: "('r, 'a, 'c) dag_driver \<Rightarrow> unit res \<times> ('r, 'a, 'c) dag_driver" where
  "dd_process_pending d =
     (if dd_is_processing d then (Inr (), d)
      else let d1 = d\<lparr>dd_is_processing := True\<rparr>;
               d2 = dd_pending_loop d1 (dd_pending_nodes d1)
           in (Inr (), d2\<lparr>dd_is_processing := False\<rparr>))"

definition dd_add_pending :: "('r, 'a, 'c) dag_driver \<Rightarrow> 'c \<Rightarrow> ('r, 'a, 'c) dag_driver" where
  "dd_add_pending d n = d\<lparr>dd_pending_nodes := dd_pending_nodes d @ [n]\<rparr>"

definition dd_pending_count :: "('r, 'a, 'c) dag_driver \<Rightarrow> nat" where
  "dd_pending_count d = length (dd_pending_nodes d)"

definition dd_prune :: "('r, 'a, 'c) dag_driver \<Rightarrow> unit res \<times> ('r, 'a, 'c) dag_driver" where
  "dd_prune d = (Inr (), d)"

section \<open>Runs of the driver\<close>

datatype ('r, 'c) dd_event =
    DdNode 'c
  | DdEnter 'r
  | DdPending
  | DdAddPending 'c
  | DdPrune

fun dd_step ::
    "('r::linorder \<Rightarrow> string) \<Rightarrow> ('r, 'a, 'c) dag_driver \<Rightarrow> ('r, 'c) dd_event \<Rightarrow> ('r, 'a, 'c) dag_driver" where
  "dd_step dbg d (DdNode n) = snd (dd_process_certified_node d n)"
| "dd_step dbg d (DdEnter r) = snd (dd_enter_new_round dbg d r)"
| "dd_step dbg d DdPending = snd (dd_process_pending d)"
| "dd_step dbg d (DdAddPending n) = dd_add_pending d n"
| "dd_step dbg d DdPrune = snd (dd_prune d)"

lemma process_certified_node_eq [simp]: "dd_process_certified_node d n = (Inr (), d)"
  by (simp add: dd_process_certified_node_def dd_check_ordering_def)

lemma pending_loop_eq: "dd_pending_loop d ns = (if ns = [] then d else d\<lparr>dd_pending_nodes := []\<rparr>)"
  by (induction ns arbitrary: d) (auto split: if_splits)

lemma process_pending_fields:
  "dd_dag (snd (dd_process_pending d)) = dd_dag d"
  "dd_current_round (snd (dd_process_pending d)) = dd_current_round d"
  by (simp_all add: dd_process_pending_def pending_loop_eq Let_def)

lemma dd_step_dag: "dd_dag (dd_step dbg d ev) = dd_dag d"
  by (cases ev)
    (simp_all add: dd_enter_new_round_def process_pending_fields dd_add_pending_def dd_prune_def)

lemma dd_step_round: "dd_current_round d \<le> dd_current_round (dd_step dbg d ev)"
  by (cases ev)
    (auto simp: dd_enter_new_round_def process_pending_fields dd_add_pending_def dd_prune_def)

lemma dd_run_facts:
  "dd_dag (foldl (dd_step dbg) d evs) = dd_dag d"
  "dd_current_round d \<le> dd_current_round (foldl (dd_step dbg) d evs)"
proof (induction evs arbitrary: d)
  case (Cons ev evs)
  { case 1 show ?case using Cons.IH(1) [of "dd_step dbg d ev"] by (simp add: dd_step_dag) }
  { case 2 show ?case
      using order_trans [OF dd_step_round Cons.IH(2)] by simp }
qed simp_all

lemma position_Some: "position P xs = Some i \<Longrightarrow> i < length xs \<and> P (xs ! i) \<and> (\<forall>j < i. \<not> P (xs ! j))"
proof (induction xs arbitrary: i)
  case (Cons x xs)
  show ?case
  proof (cases "P x")
    case False
    with Cons.prems obtain k where k: "position P xs = Some k" "i = Suc k" by auto
    have "\<not> P ((x # xs) ! j)" if "j < i" for j
      using that k Cons.IH [OF k(1)] False by (cases j) auto
    with k Cons.IH [OF k(1)] show ?thesis by simp
  qed (use Cons.prems in simp)
qed simp

section \<open>Properties\<close>

text \<open>Whatever certified nodes a driver is given, directly or through its pending queue, its
  store stays empty: \<open>process_certified_node\<close> answers \<open>Ok\<close> without adding the node, so no
  round ever has a strong link. The driver's round never decreases.\<close>

theorem driver_drops_certified_nodes:
  "let d = foldl (dd_step dbg) (dd_new authors ae start config) evs
   in fst (dd_process_certified_node d n) = Inr () \<and>
      dag_all_nodes (dd_dag d) = [] \<and> dd_get_strong_links d r = [] \<and>
      start \<le> dd_current_round d"
  using dd_run_facts [where dbg = dbg and d = "dd_new authors ae start config" and evs = evs]
  by (simp add: Let_def dd_new_def dag_all_nodes_def dag_new_def dd_get_strong_links_def
      dag_get_round_def bt_get_def)

text \<open>\<open>process_pending\<close> ends, empties the queue of a driver that is not already processing, and
  leaves it ready to process again.\<close>

theorem process_pending_drains_queue:
  "fst (dd_process_pending d) = Inr () \<and>
   dd_pending_count (snd (dd_process_pending d)) =
     (if dd_is_processing d then dd_pending_count d else 0) \<and>
   dd_is_processing (snd (dd_process_pending d)) = dd_is_processing d"
  by (simp add: dd_process_pending_def pending_loop_eq dd_pending_count_def Let_def)

text \<open>The round-robin anchor election gives the same author, the first one, in every round, and
  panics on an empty list of authors.\<close>

theorem anchor_is_always_first_author:
  "rra_get_anchor (rra_new (a # as)) r = Inr a \<and> (\<exists>m. rra_get_anchor (rra_new []) r = Inl (Panic m))"
  by (simp add: rra_get_anchor_def rra_new_def vec_get_def)

end
