(* ===== verification/Network.thy ===== *)
theory Network
  imports Traits
begin

text \<open>
  Models \<open>network/mod.rs\<close>: the messages between validators, the simple message handler with
  its statistics, and the message router.
\<close>

datatype ('b, 'v) net_message =
    Net_Proposal 'b
  | Net_Vote 'v
  | Net_Timeout u64
  | Net_SyncRequest u64
  | Net_SyncResponse "'b list"
  | Net_EpochChange u64

fun net_message_fmt :: "('b, 'v) net_message \<Rightarrow> string" where
  "net_message_fmt (Net_Proposal _) = ''Proposal''"
| "net_message_fmt (Net_Vote _) = ''Vote''"
| "net_message_fmt (Net_Timeout r) = ''Timeout(round='' @ show_u64 r @ '')''"
| "net_message_fmt (Net_SyncRequest r) = ''SyncRequest(round='' @ show_u64 r @ '')''"
| "net_message_fmt (Net_SyncResponse bs) = ''SyncResponse(count='' @ show_nat (length bs) @ '')''"
| "net_message_fmt (Net_EpochChange e) = ''EpochChange(epoch='' @ show_u64 e @ '')''"

datatype process_result =
    PR_Success
  | PR_ValidationFailed string
  | PR_Ignored string
  | PR_NeedsAction string

definition pr_success :: process_result where
  "pr_success = PR_Success"

definition pr_validation_failed :: "string \<Rightarrow> process_result" where
  "pr_validation_failed reason = PR_ValidationFailed reason"

definition pr_ignored :: "string \<Rightarrow> process_result" where
  "pr_ignored reason = PR_Ignored reason"

definition pr_needs_action :: "string \<Rightarrow> process_result" where
  "pr_needs_action action = PR_NeedsAction action"

fun pr_is_success :: "process_result \<Rightarrow> bool" where
  "pr_is_success PR_Success = True"
| "pr_is_success _ = False"

record network_config =
  nwc_max_message_size :: usize
  nwc_network_timeout_ms :: u64
  nwc_max_pending_syncs :: usize
  nwc_validate_immediately :: bool

definition nwc_default :: network_config where
  "nwc_default =
     \<lparr>nwc_max_message_size = 10 * 1024 * 1024, nwc_network_timeout_ms = 5000,
      nwc_max_pending_syncs = 10, nwc_validate_immediately = True\<rparr>"

record message_handler_stats =
  mhs_total_processed :: u64
  mhs_successful :: u64
  mhs_validation_failures :: u64
  mhs_ignored :: u64
  mhs_needs_action :: u64

definition mhs_new :: message_handler_stats where
  "mhs_new =
     \<lparr>mhs_total_processed = 0, mhs_successful = 0, mhs_validation_failures = 0,
      mhs_ignored = 0, mhs_needs_action = 0\<rparr>"

definition mhs_record_success :: "message_handler_stats \<Rightarrow> message_handler_stats" where
  "mhs_record_success s =
     s\<lparr>mhs_total_processed := mhs_total_processed s + 1, mhs_successful := mhs_successful s + 1\<rparr>"

definition mhs_record_validation_failure :: "message_handler_stats \<Rightarrow> message_handler_stats" where
  "mhs_record_validation_failure s =
     s\<lparr>mhs_total_processed := mhs_total_processed s + 1,
       mhs_validation_failures := mhs_validation_failures s + 1\<rparr>"

definition mhs_record_ignored :: "message_handler_stats \<Rightarrow> message_handler_stats" where
  "mhs_record_ignored s =
     s\<lparr>mhs_total_processed := mhs_total_processed s + 1, mhs_ignored := mhs_ignored s + 1\<rparr>"

definition mhs_record_needs_action :: "message_handler_stats \<Rightarrow> message_handler_stats" where
  "mhs_record_needs_action s =
     s\<lparr>mhs_total_processed := mhs_total_processed s + 1, mhs_needs_action := mhs_needs_action s + 1\<rparr>"

text \<open>The trait's default validation.\<close>

definition validate_message :: "('b, 'v) net_message \<Rightarrow> bool" where
  "validate_message m = True"

record simple_message_handler =
  smh_stats :: message_handler_stats
  smh_config :: network_config

definition smh_new :: "network_config \<Rightarrow> simple_message_handler" where
  "smh_new config = \<lparr>smh_stats = mhs_new, smh_config = config\<rparr>"

definition smh_process_message ::
    "simple_message_handler \<Rightarrow> ('b, 'v) net_message \<Rightarrow> process_result res \<times> simple_message_handler" where
  "smh_process_message h m =
     (if nwc_validate_immediately (smh_config h) \<and> \<not> validate_message m
      then (Inr (PR_ValidationFailed ''Message validation failed''),
            h\<lparr>smh_stats := mhs_record_validation_failure (smh_stats h)\<rparr>)
      else let success = (Inr PR_Success, h\<lparr>smh_stats := mhs_record_success (smh_stats h)\<rparr>);
               action = (\<lambda>a. (Inr (PR_NeedsAction a),
                               h\<lparr>smh_stats := mhs_record_needs_action (smh_stats h)\<rparr>))
           in case m of
                Net_Proposal _ \<Rightarrow> success
              | Net_Vote _ \<Rightarrow> success
              | Net_Timeout _ \<Rightarrow> action ''Process timeout''
              | Net_SyncRequest _ \<Rightarrow> action ''Handle sync request''
              | Net_SyncResponse _ \<Rightarrow> success
              | Net_EpochChange _ \<Rightarrow> action ''Handle epoch change'')"

text \<open>A handler behind an \<open>Arc<dyn MessageHandler>\<close> is a value of type \<open>'d\<close>: the router only
  stores it.\<close>

record 'd message_router =
  mr_handlers :: "(string, 'd) hashmap"
  mr_default_handler :: "'d option"
  mr_config :: network_config

definition mr_new :: "network_config \<Rightarrow> 'd message_router" where
  "mr_new config = \<lparr>mr_handlers = hm_empty, mr_default_handler = None, mr_config = config\<rparr>"

definition mr_register_handler :: "'d message_router \<Rightarrow> string \<Rightarrow> 'd \<Rightarrow> 'd message_router" where
  "mr_register_handler mr message_type handler =
     mr\<lparr>mr_handlers := hm_insert message_type handler (mr_handlers mr)\<rparr>"

definition mr_set_default_handler :: "'d message_router \<Rightarrow> 'd \<Rightarrow> 'd message_router" where
  "mr_set_default_handler mr handler = mr\<lparr>mr_default_handler := Some handler\<rparr>"

fun mr_get_message_type :: "('b, 'v) net_message \<Rightarrow> string" where
  "mr_get_message_type (Net_Proposal _) = ''proposal''"
| "mr_get_message_type (Net_Vote _) = ''vote''"
| "mr_get_message_type (Net_Timeout _) = ''timeout''"
| "mr_get_message_type (Net_SyncRequest _) = ''sync_request''"
| "mr_get_message_type (Net_SyncResponse _) = ''sync_response''"
| "mr_get_message_type (Net_EpochChange _) = ''epoch_change''"

definition mr_route_message :: "'d message_router \<Rightarrow> ('b, 'v) net_message \<Rightarrow> process_result option res" where
  "mr_route_message mr m =
     (let message_type = mr_get_message_type m
      in case hm_get (mr_handlers mr) message_type of
           Some handler \<Rightarrow> Inr None
         | None \<Rightarrow> (case mr_default_handler mr of Some def \<Rightarrow> Inr None | None \<Rightarrow> Inr None))"

text \<open>The result a message deserves, by its type.\<close>

definition needs_action :: "('b, 'v) net_message \<Rightarrow> bool" where
  "needs_action m = (case m of
      Net_Timeout _ \<Rightarrow> True | Net_SyncRequest _ \<Rightarrow> True | Net_EpochChange _ \<Rightarrow> True | _ \<Rightarrow> False)"

lemma smh_process_message_eq:
  "snd (smh_process_message h m) =
     h\<lparr>smh_stats := (if needs_action m then mhs_record_needs_action else mhs_record_success) (smh_stats h)\<rparr>"
  by (cases m) (simp_all add: smh_process_message_def validate_message_def needs_action_def)

lemma smh_stats_run:
  "smh_stats (foldl (\<lambda>h m. snd (smh_process_message h m)) h ms) =
     (smh_stats h)\<lparr>mhs_total_processed := mhs_total_processed (smh_stats h) + of_nat (length ms),
       mhs_successful := mhs_successful (smh_stats h) + of_nat (length (filter (\<lambda>m. \<not> needs_action m) ms)),
       mhs_needs_action := mhs_needs_action (smh_stats h) + of_nat (length (filter needs_action ms))\<rparr>"
  by (induction ms arbitrary: h)
    (simp_all add: smh_process_message_eq mhs_record_needs_action_def mhs_record_success_def
      algebra_simps)

text \<open>After any sequence of messages the handler's statistics count each message exactly once:
  the total is the number of messages, the successes are the proposals, votes and sync
  responses, the actions are the timeouts, sync requests and epoch changes, and nothing is
  counted as ignored or failed (counters modulo \<open>2 ^ 64\<close>).\<close>

theorem handler_statistics:
  "smh_stats (foldl (\<lambda>h m. snd (smh_process_message h m)) (smh_new config) ms) =
     \<lparr>mhs_total_processed = of_nat (length ms),
      mhs_successful = of_nat (length (filter (\<lambda>m. \<not> needs_action m) ms)),
      mhs_validation_failures = 0, mhs_ignored = 0,
      mhs_needs_action = of_nat (length (filter needs_action ms))\<rparr>"
  by (simp add: smh_stats_run smh_new_def mhs_new_def)

text \<open>The router never hands a message to a handler: with any handlers registered, and any
  default, the answer to every message is \<open>Ok(None)\<close>.\<close>

theorem router_never_dispatches: "mr_route_message mr m = Inr None"
  by (simp add: mr_route_message_def split: option.splits)

end
