(* ===== verification/Test_Kit.thy ===== *)
theory Test_Kit
  imports Traits "HOL-Library.Sublist" "HOL-Library.Code_Target_Nat"
begin

text \<open>
  The assertions of the repository's unit tests. The theories \<open>Tests_\<dots>\<close> translate the tests of
  the modules, with the block and vote types the modules define for them, one boolean
  definition per test: the conjunction of its assertions, over the values its statements
  compute. That each of them holds is checked by evaluation in the kernel, so the model
  behaves on these inputs as the authors of the code expect of the program. Tests of derived
  \<open>Clone\<close>, \<open>Debug\<close>, serialisation and plain accessors are left out where the model has nothing
  that could differ. \<open>Code_Target_Nat\<close> makes the evaluation of natural numbers binary.
\<close>

text \<open>\<open>str::contains\<close>.\<close>

fun str_contains :: "string \<Rightarrow> string \<Rightarrow> bool" where
  "str_contains [] p = (p = [])"
| "str_contains (c # s) p = (prefix p (c # s) \<or> str_contains s p)"

lemma str_contains_iff: "str_contains s p \<longleftrightarrow> sublist p s"
  by (induction s) (auto simp: sublist_Cons_right)

lemma str_contains_append: "str_contains t p \<Longrightarrow> str_contains (s @ t) p"
  unfolding str_contains_iff by (simp add: sublist_append)

text \<open>\<open>is_err\<close> of a result that was returned: a panic would fail the test.\<close>

definition is_err :: "'a res \<Rightarrow> bool" where
  "is_err r = (case r of Inl (Msg _) \<Rightarrow> True | _ \<Rightarrow> False)"

definition returned :: "'a res \<Rightarrow> bool" where
  "returned r = (case r of Inl (Panic _) \<Rightarrow> False | _ \<Rightarrow> True)"

text \<open>An assertion on the text of a returned error, and one on an \<open>unwrap\<close>ped value.\<close>

definition err_msg :: "'a res \<Rightarrow> (string \<Rightarrow> bool) \<Rightarrow> bool" where
  "err_msg r P = (case r of Inl (Msg m) \<Rightarrow> P m | _ \<Rightarrow> False)"

definition on_ok :: "'e + 'a \<Rightarrow> ('a \<Rightarrow> bool) \<Rightarrow> bool" where
  "on_ok r P = (case r of Inr x \<Rightarrow> P x | Inl _ \<Rightarrow> False)"

definition on_err :: "'e + 'a \<Rightarrow> ('e \<Rightarrow> bool) \<Rightarrow> bool" where
  "on_err r P = (case r of Inr _ \<Rightarrow> False | Inl e \<Rightarrow> P e)"

definition on_some :: "'a option \<Rightarrow> ('a \<Rightarrow> bool) \<Rightarrow> bool" where
  "on_some r P = (case r of Some x \<Rightarrow> P x | None \<Rightarrow> False)"

text \<open>A loop that calls an operation on each element and looks at the results.\<close>

fun run_each :: "('st \<Rightarrow> 'a \<Rightarrow> 'r \<times> 'st) \<Rightarrow> 'st \<Rightarrow> 'a list \<Rightarrow> 'r list \<times> 'st" where
  "run_each f st [] = ([], st)"
| "run_each f st (x # xs) =
     (case f st x of (r, st') \<Rightarrow> (case run_each f st' xs of (rs, st'') \<Rightarrow> (r # rs, st'')))"

lemma length_run_each: "length (fst (run_each f st xs)) = length xs"
  by (induction xs arbitrary: st) (simp_all add: case_prod_beta)

lemma snd_run_each: "snd (run_each f st xs) = foldl (\<lambda>st x. snd (f st x)) st xs"
  by (induction xs arbitrary: st) (simp_all add: case_prod_beta)

lemma on_ok_imp: "on_ok r P \<Longrightarrow> is_ok r"
  by (cases r) (simp_all add: on_ok_def)

lemma is_err_imp: "is_err r \<Longrightarrow> \<not> is_ok r \<and> returned r"
  by (auto simp: is_err_def returned_def split: sum.splits error.splits)

end
