(* ===== verification/Test_Eval.thy ===== *)
theory Test_Eval
  imports Test_Kit Consensus
begin

text \<open>
  The equations by which the simplifier runs the components on concrete inputs, one collection
  per component.
\<close>

lemma two_le_one: "\<not> (2 :: u64) \<le> 1"
  by (simp add: word_le_nat_alt)

lemmas hm_eval = two_le_one
  hm_empty_def hm_get_def hm_insert_def hm_contains_key_def hm_keys_def hm_values_def hm_retain_def
  hm_remove_def as_u128_def Let_def checked_add_def saturating_sub_def

lemmas sa_eval = hm_eval
  sa_new_def sa_add_signature_def sa_check_quorum_def sa_signers_def sa_clear_def sa_has_signed_def
  sa_get_signature_def sa_aggregate_def

lemmas pv_eval = sa_eval
  pv_new_def pv_add_vote_def pv_check_quorum_def pv_total_votes_def pv_vote_count_def pv_set_round_def
  pv_get_votes_def pv_remove_round_def cleanup_old_votes_def pv_aggregated_voting_power_def
  pv_can_form_quorum_def sum_u128_def List.map_filter_simps

lemmas rs_eval =
  rs_new_def rs_set_round_def rs_set_epoch_def rs_set_proposed_block_def rs_set_quorum_cert_def
  rs_advance_round_def rs_is_current_round_def rs_is_current_epoch_def rs_is_buffered_round_def
  rsc_default_def GENESIS_EPOCH_def GENESIS_ROUND_def

lemmas sr_eval =
  two_chain_def sr_new_def sr_with_state_def ss_new_def ss_safety_state_def next_round_def
  safe_to_vote_def safe_to_vote_impl_def safe_to_timeout_def safe_to_timeout_impl_def observe_qc_def
  record_vote_def record_timeout_def can_vote_in_round_def update_highest_timeout_round_def
  update_one_chain_round_def update_preferred_round_def qc_round_def

lemmas rm_eval = pv_eval rs_eval sr_eval
  rmc_default_def rm_new_def rm_epoch_def rm_round_def try_vote_for_proposal_def
  rm_process_proposal_def form_quorum_certificate_for_block_def rm_process_vote_def
  has_quorum_certificate_def rm_process_timeout_def rm_start_round_def verify_error_into_def

lemmas show_eval =
  show_u64_def show_nat.simps [of "numeral k" for k] show_nat.simps [of 0] show_nat.simps [of "Suc 0"]
  digit_char_def char_of_def bit_0

lemmas kit_eval =
  is_err_def returned_def err_msg_def on_ok_def on_err_def on_some_def str_contains_append

end
