(* ===== verification/Validators.thy ===== *)
theory Validators
  imports Test_Eval Quorum_Safety
begin

text \<open>
  A network of validators that all run the round manager with the two-chain rules: the calls
  that the nodes make, one after the other in any order, over the votes that were sent. The
  host chain is a parameter: its record of methods \<open>CH\<close>, the vote \<open>sign n b\<close> that validator
  \<open>n\<close> broadcasts after \<open>try_vote_for_proposal\<close> accepted the block \<open>b\<close>, and the choice \<open>host rm b\<close>
  of the proposals for which it asks a round manager to vote. The validators in \<open>F\<close> are faulty:
  they send what they like, but cannot sign for a validator outside \<open>F\<close>.
\<close>

section \<open>The network\<close>

record ('n, 'h, 's) validators =
  vn_nodes :: "'n \<Rightarrow> (two_chain_rules, 'n, 'h, 's) round_manager"
  vn_sent :: "('n, 'h, 's) vote set"
  vn_certs :: "('n \<times> round \<times> 'h) set"

text \<open>\<open>vn_certs\<close> records which node has answered \<open>QuorumCompleted\<close> to a vote of which round and
  block: the round manager itself drops the votes of a round once it has certified a block.\<close>

definition vn_init :: "round_manager_config \<Rightarrow> ('n, 'h, 's) validators" where
  "vn_init config =
     \<lparr>vn_nodes = (\<lambda>_. rm_new config (sr_new 0)), vn_sent = {}, vn_certs = {}\<rparr>"

abbreviation vn_voted :: "('n, 'h, 's) validators \<Rightarrow> 'n \<Rightarrow> u64" where
  "vn_voted s n \<equiv> ss_last_voted_round (sr_state (rm_safety_rules (vn_nodes s n)))"

text \<open>
  One call at one node: an attempt to vote, after which the vote is broadcast if the attempt
  succeeded; the arrival of any vote whatsoever, unless it passes the host's verification
  although its correct author never sent it; or a proposal, a timeout or a new round.
\<close>

inductive vn_step ::
    "('n, 'h, 's, 'g) chain \<Rightarrow> ('n, 'h, 's, 'g) validator_verifier \<Rightarrow>
     ('n \<Rightarrow> ('n, 'h, 's) block \<Rightarrow> ('n, 'h, 's) vote) \<Rightarrow>
     ((two_chain_rules, 'n, 'h, 's) round_manager \<Rightarrow> ('n, 'h, 's) block \<Rightarrow> bool) \<Rightarrow> 'n set \<Rightarrow>
     ('n, 'h, 's) validators \<Rightarrow> ('n, 'h, 's) validators \<Rightarrow> bool"
  for CH VV sign host F where
  vote: "n \<notin> F \<Longrightarrow> host (vn_nodes s n) b \<Longrightarrow>
    try_vote_for_proposal two_chain (vn_nodes s n) b tc = (res, rm) \<Longrightarrow>
    vn_step CH VV sign host F s
      (s\<lparr>vn_nodes := (vn_nodes s)(n := rm),
         vn_sent := if is_ok res then insert (sign n b) (vn_sent s) else vn_sent s\<rparr>)"
| deliver: "n \<notin> F \<Longrightarrow> is_ok (ch_vote_verify CH v VV) \<longrightarrow> v \<in> vn_sent s \<or> vote_author v \<in> F \<Longrightarrow>
    rm_process_vote CH two_chain (vn_nodes s n) v VV = (res, rm) \<Longrightarrow>
    vn_step CH VV sign host F s
      (s\<lparr>vn_nodes := (vn_nodes s)(n := rm),
         vn_certs := if res = Inr QuorumCompleted
                     then insert (n, vote_round v, vote_block_id v) (vn_certs s) else vn_certs s\<rparr>)"
| proposal: "n \<notin> F \<Longrightarrow>
    vn_step CH VV sign host F s
      (s\<lparr>vn_nodes := (vn_nodes s)(n := rm_step CH two_chain VV (vn_nodes s n) (ProposalMsg b))\<rparr>)"
| timeout: "n \<notin> F \<Longrightarrow>
    vn_step CH VV sign host F s
      (s\<lparr>vn_nodes := (vn_nodes s)(n := rm_step CH two_chain VV (vn_nodes s n) (TimeoutMsg reason))\<rparr>)"
| start: "n \<notin> F \<Longrightarrow>
    vn_step CH VV sign host F s
      (s\<lparr>vn_nodes := (vn_nodes s)(n := rm_step CH two_chain VV (vn_nodes s n) (StartRound r))\<rparr>)"

abbreviation vn_reachable ::
    "('n, 'h, 's, 'g) chain \<Rightarrow> ('n, 'h, 's, 'g) validator_verifier \<Rightarrow>
     ('n \<Rightarrow> ('n, 'h, 's) block \<Rightarrow> ('n, 'h, 's) vote) \<Rightarrow>
     ((two_chain_rules, 'n, 'h, 's) round_manager \<Rightarrow> ('n, 'h, 's) block \<Rightarrow> bool) \<Rightarrow> 'n set \<Rightarrow>
     round_manager_config \<Rightarrow> ('n, 'h, 's) validators \<Rightarrow> bool" where
  "vn_reachable CH VV sign host F config \<equiv> (vn_step CH VV sign host F)\<^sup>*\<^sup>* (vn_init config)"

text \<open>Two policies of the host: to ask for a vote on every proposal, and to ask only for proposals
  of a round above the last voted one.\<close>

definition any_proposal :: "(two_chain_rules, 'n, 'h, 's) round_manager \<Rightarrow> ('n, 'h, 's) block \<Rightarrow> bool" where
  "any_proposal rm b = True"

definition fresh_round :: "(two_chain_rules, 'n, 'h, 's) round_manager \<Rightarrow> ('n, 'h, 's) block \<Rightarrow> bool" where
  "fresh_round rm b = (ss_last_voted_round (sr_state (rm_safety_rules rm)) < blk_round b)"

section \<open>What a vote table holds\<close>

text \<open>Every handler leaves in the table only votes that were there and the one it was called
  with, if that one verifies.\<close>

lemma add_vote_abs:
  assumes "pv_inv pv" "pv_add_vote pv v VV = (res, pv')"
  shows "pv_abs pv' \<subseteq> insert v (pv_abs pv)"
  using assms by (cases rule: pv_add_vote_cases [OF assms(1), of v VV]) (auto simp: pv_abs_file)

lemma form_qc_abs:
  assumes "rm_inv rm"
  shows "pv_abs (rm_pending_votes (snd (form_quorum_certificate_for_block CH SR rm h r VV)))
           \<subseteq> pv_abs (rm_pending_votes rm)"
  using assms
  by (auto simp: form_quorum_certificate_for_block_def Let_def rm_inv_def pv_abs_remove_round
      split: sum.splits prod.splits)

lemma process_vote_state:
  assumes "ch_vote_verify CH v VV = Inr u" "pv_add_vote (rm_pending_votes rm) v VV = (res, pv')"
  shows "snd (rm_process_vote CH SR rm v VV) =
    (if \<not> rs_is_current_epoch (rm_round_state rm) (li_epoch (vote_ledger_info v)) then rm
     else if res = QuorumCompleted
     then snd (form_quorum_certificate_for_block CH SR (rm\<lparr>rm_pending_votes := pv'\<rparr>)
                 (vote_block_id v) (vote_round v) VV)
     else rm\<lparr>rm_pending_votes := pv'\<rparr>)"
  using assms by (simp add: rm_process_vote_def Let_def split: sum.splits prod.splits)

lemma process_vote_abs:
  assumes "rm_inv rm"
  shows "pv_abs (rm_pending_votes (snd (rm_process_vote CH SR rm v VV)))
           \<subseteq> {w. w = v \<and> is_ok (ch_vote_verify CH v VV)} \<union> pv_abs (rm_pending_votes rm)"
proof (cases "ch_vote_verify CH v VV")
  case (Inr u)
  obtain res pv' where add: "pv_add_vote (rm_pending_votes rm) v VV = (res, pv')" by fastforce
  have "pv_abs pv' \<subseteq> insert v (pv_abs (rm_pending_votes rm))"
    using add_vote_abs [OF _ add] assms by (simp add: rm_inv_def)
  moreover have "pv_abs (rm_pending_votes (snd (form_quorum_certificate_for_block CH SR
      (rm\<lparr>rm_pending_votes := pv'\<rparr>) h r VV))) \<subseteq> pv_abs pv'" for h r
    using form_qc_abs [OF rm_inv_add_vote [OF assms add], of CH SR h r VV] by simp
  ultimately show ?thesis
    unfolding process_vote_state [OF Inr add] by (auto simp: Inr)
qed (simp add: rm_process_vote_def)

lemma step_abs:
  assumes "rm_inv rm" and "\<And>v. ev \<noteq> VoteMsg v"
  shows "pv_abs (rm_pending_votes (rm_step CH SR VV rm ev)) \<subseteq> pv_abs (rm_pending_votes rm)"
  using assms
  by (cases ev)
    (auto simp: rm_inv_def try_vote_for_proposal_def rm_process_proposal_def rm_process_timeout_def
      rm_start_round_def pv_abs_set_round Let_def split: sum.splits prod.splits error.splits)

lemma process_vote_completed:
  assumes "rm_process_vote CH SR rm v VV = (Inr QuorumCompleted, rm')"
  shows "is_ok (ch_vote_verify CH v VV)"
    and "\<exists>pv'. pv_add_vote (rm_pending_votes rm) v VV = (QuorumCompleted, pv')"
  using assms
  by (auto simp: rm_process_vote_def Let_def split: sum.splits prod.splits if_splits)

section \<open>Validators that are mostly correct\<close>

text \<open>
  What the host chain owes the network: a verifier with a two-thirds quorum over at most
  \<open>2 ^ 64\<close> validators, votes that carry their author and the id and round of their block, and
  faulty validators with at most a third of the power.
\<close>

locale validator_network = bft_verifier VV
  for VV :: "('n, 'h, 's, 'g) validator_verifier" +
  fixes sign :: "'n \<Rightarrow> ('n, 'h, 's) block \<Rightarrow> ('n, 'h, 's) vote" and F :: "'n set"
  assumes sign_fields: "vote_author (sign n b) = n" "vote_round (sign n b) = blk_round b"
      "vote_block_id (sign n b) = blk_id b"
    and few_validators: "card (known VV) \<le> 2 ^ 64"
    and faulty: "F \<subseteq> known VV" "3 * exact_power VV F \<le> exact_power VV (known VV)"

text \<open>A set of validators behind a certificate: a quorum whose correct members sent the vote.\<close>

definition vn_support ::
    "('n, 'h, 's, 'g) validator_verifier \<Rightarrow> 'n set \<Rightarrow> ('n, 'h, 's) vote set \<Rightarrow> round \<Rightarrow> 'h \<Rightarrow> 'n set \<Rightarrow> bool" where
  "vn_support VV F sent r h Q \<longleftrightarrow>
     Q \<subseteq> known VV \<and> unat (vv_quorum_voting_power VV) \<le> exact_power VV Q \<and>
     (\<forall>a \<in> Q - F. \<exists>v \<in> sent. vote_author v = a \<and> vote_round v = r \<and> vote_block_id v = h)"

lemma vn_support_mono: "vn_support VV F sent r h Q \<Longrightarrow> sent \<subseteq> sent' \<Longrightarrow> vn_support VV F sent' r h Q"
  unfolding vn_support_def by blast

text \<open>
  The invariant of the network: round managers are consistent, every vote in a table was sent
  or is a faulty validator's, a vote that was sent is a correct validator's who will not vote
  below its round again, and a quorum stands behind every certificate.
\<close>

definition vn_inv ::
    "('n, 'h, 's, 'g) validator_verifier \<Rightarrow> 'n set \<Rightarrow> ('n, 'h, 's) validators \<Rightarrow> bool" where
  "vn_inv VV F s \<longleftrightarrow>
     (\<forall>n. rm_inv (vn_nodes s n) \<and>
        (\<forall>v \<in> pv_abs (rm_pending_votes (vn_nodes s n)). v \<in> vn_sent s \<or> vote_author v \<in> F)) \<and>
     (\<forall>v \<in> vn_sent s. vote_author v \<notin> F \<and> vote_round v \<le> vn_voted s (vote_author v)) \<and>
     (\<forall>n r h. (n, r, h) \<in> vn_certs s \<longrightarrow> (\<exists>Q. vn_support VV F (vn_sent s) r h Q))"

lemma vn_inv_init: "vn_inv VV F (vn_init config)"
  by (simp add: vn_inv_def vn_init_def rm_inv_new) (simp add: rm_new_def)

text \<open>A local call at one node, with votes sent and certificates formed on the side.\<close>

lemma vn_inv_update:
  assumes "vn_inv VV F s" and "rm_inv rm"
    and "\<And>v. v \<in> pv_abs (rm_pending_votes rm) \<Longrightarrow>
           v \<in> pv_abs (rm_pending_votes (vn_nodes s n)) \<or> v \<in> vn_sent s \<or> vote_author v \<in> F"
    and "vn_voted s n \<le> ss_last_voted_round (sr_state (rm_safety_rules rm))"
    and "\<And>v. v \<in> S \<Longrightarrow> vote_author v = n \<and> n \<notin> F \<and>
           vote_round v \<le> ss_last_voted_round (sr_state (rm_safety_rules rm))"
    and "\<And>m r h. (m, r, h) \<in> C \<Longrightarrow> \<exists>Q. vn_support VV F (vn_sent s) r h Q"
  shows "vn_inv VV F (s\<lparr>vn_nodes := (vn_nodes s)(n := rm), vn_sent := S \<union> vn_sent s,
                        vn_certs := C \<union> vn_certs s\<rparr>)"
proof -
  have sup: "\<exists>Q. vn_support VV F (S \<union> vn_sent s) r h Q" if "(m, r, h) \<in> C \<union> vn_certs s" for m r h
    using that assms(1,6) unfolding vn_inv_def by (meson Un_iff Un_upper2 vn_support_mono)
  have voted: "vote_author v \<notin> F \<and> (vote_author v = n \<longrightarrow>
        vote_round v \<le> ss_last_voted_round (sr_state (rm_safety_rules rm))) \<and>
      (vote_author v \<noteq> n \<longrightarrow> vote_round v \<le> vn_voted s (vote_author v))"
    if "v \<in> S \<union> vn_sent s" for v
    using that assms(1,4,5) unfolding vn_inv_def by (auto intro: order_trans)
  have "v \<in> vn_sent s \<or> vote_author v \<in> F"
    if "v \<in> pv_abs (rm_pending_votes (((vn_nodes s)(n := rm)) m))" for v m
    using that assms(1,3) unfolding vn_inv_def by (cases "m = n") auto
  with sup voted assms(1,2) show ?thesis unfolding vn_inv_def by auto
qed

lemma vn_inv_local:
  assumes "vn_inv VV F s" and "\<And>v. ev \<noteq> VoteMsg v" and "rm = rm_step CH two_chain VV (vn_nodes s n) ev"
    and "\<And>v. v \<in> S \<Longrightarrow> vote_author v = n \<and> n \<notin> F \<and>
           vote_round v \<le> ss_last_voted_round (sr_state (rm_safety_rules rm))"
  shows "vn_inv VV F (s\<lparr>vn_nodes := (vn_nodes s)(n := rm), vn_sent := S \<union> vn_sent s\<rparr>)"
proof -
  have rm: "rm_inv (vn_nodes s n)" using assms(1) by (simp add: vn_inv_def)
  have "vn_inv VV F (s\<lparr>vn_nodes := (vn_nodes s)(n := rm), vn_sent := S \<union> vn_sent s,
                       vn_certs := {} \<union> vn_certs s\<rparr>)"
    using rm_inv_step [OF rm, of CH two_chain VV ev] step_abs [OF rm assms(2), of CH two_chain VV]
      tcr.step_voted_mono [of "vn_nodes s n" CH VV ev] assms(3,4)
    by (intro vn_inv_update [OF assms(1)]) auto
  then show ?thesis by simp
qed

context validator_network
begin

lemma completed_support:
  assumes "vn_inv VV F s" and "pv_add_vote (rm_pending_votes (vn_nodes s n)) v VV = (QuorumCompleted, pv')"
    and "v \<in> vn_sent s \<or> vote_author v \<in> F"
  shows "\<exists>Q. vn_support VV F (vn_sent s) (vote_round v) (vote_block_id v) Q"
proof
  let ?r = "vote_round v" and ?h = "vote_block_id v" and ?pv = "rm_pending_votes (vn_nodes s n)"
  let ?Q = "pv_authors VV pv' ?r ?h"
  have inv: "pv_inv ?pv" using assms(1) by (simp add: vn_inv_def rm_inv_def)
  note q = add_vote_completes [OF inv assms(2)]
  have "?Q \<subseteq> known VV" by (auto simp: pv_authors_def)
  then have "card ?Q \<le> 2 ^ 64"
    using card_mono [OF finite_known] few_validators le_trans by blast
  then have "unat (vv_quorum_voting_power VV) \<le> exact_power VV ?Q"
    using q(1) pv_check_quorum_iff_card by blast
  moreover have "\<exists>w \<in> vn_sent s. vote_author w = a \<and> vote_round w = ?r \<and> vote_block_id w = ?h"
    if "a \<in> ?Q - F" for a
    using that assms(1,3) unfolding pv_authors_def q(2) vn_inv_def by blast
  ultimately show "vn_support VV F (vn_sent s) ?r ?h ?Q"
    using \<open>?Q \<subseteq> known VV\<close> by (simp add: vn_support_def)
qed

lemma vn_inv_step:
  assumes "vn_step CH VV sign host F s s'" and inv: "vn_inv VV F s"
  shows "vn_inv VV F s'"
  using assms(1)
proof cases
  case (vote n b tc res rm)
  let ?S = "if is_ok res then {sign n b} else {}"
  have "vn_inv VV F (s\<lparr>vn_nodes := (vn_nodes s)(n := rm), vn_sent := ?S \<union> vn_sent s\<rparr>)"
    by (rule vn_inv_local [OF inv, of "TryVote b tc" _ CH])
      (use vote tcr.try_vote_ok_voted(1) [of "vn_nodes s n" b tc] in \<open>auto simp: sign_fields split: if_splits\<close>)
  with vote show ?thesis by (auto split: if_splits)
next
  case (deliver n v res rm)
  let ?C = "if res = Inr QuorumCompleted then {(n, vote_round v, vote_block_id v)} else {}"
  have rm: "rm = snd (rm_process_vote CH two_chain (vn_nodes s n) v VV)" using deliver by simp
  have "vn_inv VV F (s\<lparr>vn_nodes := (vn_nodes s)(n := rm), vn_sent := {} \<union> vn_sent s,
      vn_certs := ?C \<union> vn_certs s\<rparr>)"
  proof (rule vn_inv_update [OF inv])
    show "rm_inv rm" using inv by (simp add: rm rm_inv_process_vote vn_inv_def)
    show "w \<in> pv_abs (rm_pending_votes rm) \<Longrightarrow>
        w \<in> pv_abs (rm_pending_votes (vn_nodes s n)) \<or> w \<in> vn_sent s \<or> vote_author w \<in> F" for w
      using process_vote_abs [of "vn_nodes s n" CH two_chain v VV] inv deliver(3)
      by (auto simp: rm vn_inv_def)
    show "vn_voted s n \<le> ss_last_voted_round (sr_state (rm_safety_rules rm))"
      by (simp add: rm tcr.process_vote_voted)
    show "\<exists>Q. vn_support VV F (vn_sent s) r h Q" if "(m, r, h) \<in> ?C" for m r h
      using that process_vote_completed [of CH two_chain "vn_nodes s n" v VV rm] deliver(3,4)
        completed_support [OF inv] by (fastforce split: if_splits)
  qed simp
  with deliver show ?thesis by (auto split: if_splits)
next
  case (proposal n b)
  then show ?thesis using vn_inv_local [OF inv, of "ProposalMsg b" _ CH n "{}"] by simp
next
  case (timeout n reason)
  then show ?thesis using vn_inv_local [OF inv, of "TimeoutMsg reason" _ CH n "{}"] by simp
next
  case (start n r)
  then show ?thesis using vn_inv_local [OF inv, of "StartRound r" _ CH n "{}"] by simp
qed

lemma vn_inv_reachable: "vn_reachable CH VV sign host F config s \<Longrightarrow> vn_inv VV F s"
  by (induction rule: rtranclp_induct) (simp_all add: vn_inv_init vn_inv_step)

text \<open>Two certificates share a correct validator that sent both votes.\<close>

lemma certificates_share_sender:
  assumes "vn_reachable CH VV sign host F config s"
    and "(n, r, h) \<in> vn_certs s" "(n', r', h') \<in> vn_certs s"
  obtains v v' where "v \<in> vn_sent s" "v' \<in> vn_sent s" "vote_author v = vote_author v'"
    "vote_author v \<in> known VV - F" "vote_round v = r" "vote_block_id v = h"
    "vote_round v' = r'" "vote_block_id v' = h'"
proof -
  have "\<exists>Q. vn_support VV F (vn_sent s) r h Q" "\<exists>Q. vn_support VV F (vn_sent s) r' h' Q"
    using vn_inv_reachable [OF assms(1)] assms(2,3) unfolding vn_inv_def by blast+
  then obtain Q Q' where q: "vn_support VV F (vn_sent s) r h Q" "vn_support VV F (vn_sent s) r' h' Q'"
    by blast
  then obtain a where a: "a \<in> Q" "a \<in> Q'" "a \<notin> F"
    using wq.quorums_share_correct [of Q Q' F] faulty two_thirds
    by (auto simp: vn_support_def exact_power_def)
  obtain v where v: "v \<in> vn_sent s" "vote_author v = a" "vote_round v = r" "vote_block_id v = h"
    using q(1) a unfolding vn_support_def by blast
  obtain v' where v': "v' \<in> vn_sent s" "vote_author v' = a" "vote_round v' = r'" "vote_block_id v' = h'"
    using q(2) a unfolding vn_support_def by blast
  have "a \<in> known VV" using q(1) a unfolding vn_support_def by blast
  with v v' a(3) show ?thesis by (intro that [of v v']) simp_all
qed

text \<open>If the host asks for a vote only above the last voted round, no correct validator sends two
  votes in one round.\<close>

lemma fresh_votes_unique:
  assumes "vn_reachable CH VV sign fresh_round F config s" "v \<in> vn_sent s" "v' \<in> vn_sent s"
    "vote_author v = vote_author v'" "vote_round v = vote_round v'"
  shows "v = v'"
  using assms
proof (induction arbitrary: v v' rule: rtranclp_induct)
  case base
  then show ?case by (simp add: vn_init_def)
next
  case (step s s')
  have old: "vote_round w \<le> vn_voted s (vote_author w)" if "w \<in> vn_sent s" for w
    using vn_inv_reachable [OF step(1)] that by (simp add: vn_inv_def)
  from step(2) show ?case
  proof cases
    case (vote n b tc res rm)
    have new: "vote_author w = n \<Longrightarrow> vote_round w \<noteq> blk_round b" if "w \<in> vn_sent s" for w
      using old [OF that] vote(3) by (auto simp: fresh_round_def)
    have "v = sign n b \<or> v \<in> vn_sent s" "v' = sign n b \<or> v' \<in> vn_sent s"
      using step(4,5) vote(1) by (auto split: if_splits)
    with step(3,6,7) new show ?thesis by (metis sign_fields(1,2))
  qed (use step in auto)
qed

end

section \<open>Building runs\<close>

text \<open>Several validators vote for one block, one after the other.\<close>

lemma reach_votes:
  assumes "vn_reachable CH VV sign host F config s" and "distinct ns"
    and "\<And>n. n \<in> set ns \<Longrightarrow> n \<notin> F \<and> host (vn_nodes s n) b \<and>
           is_ok (fst (try_vote_for_proposal two_chain (vn_nodes s n) b None))"
  shows "vn_reachable CH VV sign host F config
    (s\<lparr>vn_nodes := (\<lambda>n. if n \<in> set ns then snd (try_vote_for_proposal two_chain (vn_nodes s n) b None)
                         else vn_nodes s n),
       vn_sent := (\<lambda>n. sign n b) ` set ns \<union> vn_sent s\<rparr>)"
  using assms(2,3)
proof (induction ns)
  case Nil
  then show ?case using assms(1) by simp
next
  case (Cons n ns)
  let ?s = "s\<lparr>vn_nodes := (\<lambda>n. if n \<in> set ns then snd (try_vote_for_proposal two_chain (vn_nodes s n) b None)
      else vn_nodes s n), vn_sent := (\<lambda>n. sign n b) ` set ns \<union> vn_sent s\<rparr>"
  let ?s' = "s\<lparr>vn_nodes := (\<lambda>m. if m \<in> set (n # ns)
        then snd (try_vote_for_proposal two_chain (vn_nodes s m) b None) else vn_nodes s m),
      vn_sent := (\<lambda>n. sign n b) ` set (n # ns) \<union> vn_sent s\<rparr>"
  have reach: "vn_reachable CH VV sign host F config ?s" using Cons by simp
  have n: "vn_nodes ?s n = vn_nodes s n" "n \<notin> F" "host (vn_nodes s n) b"
    "is_ok (fst (try_vote_for_proposal two_chain (vn_nodes s n) b None))"
    using Cons.prems by simp_all
  have step: "vn_step CH VV sign host F ?s
      (?s\<lparr>vn_nodes := (vn_nodes ?s)(n := snd (try_vote_for_proposal two_chain (vn_nodes s n) b None)),
          vn_sent := insert (sign n b) (vn_sent ?s)\<rparr>)"
    using vote [of n F host ?s b None "fst (try_vote_for_proposal two_chain (vn_nodes s n) b None)"
        "snd (try_vote_for_proposal two_chain (vn_nodes s n) b None)" CH VV sign] n by simp
  have "?s\<lparr>vn_nodes := (vn_nodes ?s)(n := snd (try_vote_for_proposal two_chain (vn_nodes s n) b None)),
      vn_sent := insert (sign n b) (vn_sent ?s)\<rparr> = ?s'"
    by (simp add: fun_eq_iff)
  with step have "vn_step CH VV sign host F ?s ?s'" by (simp only:)
  with reach show ?case by (rule rtranclp.rtrancl_into_rtrancl)
qed

text \<open>A node receives votes that were sent; the last one completes a quorum.\<close>

abbreviation rm_receive ::
    "('n, 'h, 's, 'g) chain \<Rightarrow> ('n, 'h, 's, 'g) validator_verifier \<Rightarrow>
     (two_chain_rules, 'n, 'h, 's) round_manager \<Rightarrow> ('n, 'h, 's) vote list \<Rightarrow>
     (two_chain_rules, 'n, 'h, 's) round_manager" where
  "rm_receive CH VV rm vs \<equiv> rm_run CH two_chain VV rm (map VoteMsg vs)"

lemma rm_run_append: "rm_run CH SR VV rm (xs @ ys) = rm_run CH SR VV (rm_run CH SR VV rm xs) ys"
  by (induction xs arbitrary: rm) simp_all

lemma reach_deliveries:
  assumes "vn_reachable CH VV sign host F config s" and "n \<notin> F" and "set vs \<subseteq> vn_sent s"
  shows "\<exists>C. vn_certs s \<subseteq> C \<and> vn_reachable CH VV sign host F config
    (s\<lparr>vn_nodes := (vn_nodes s)(n := rm_receive CH VV (vn_nodes s n) vs), vn_certs := C\<rparr>)"
  using assms(3)
proof (induction vs rule: rev_induct)
  case Nil
  then show ?case using assms(1) by auto
next
  case (snoc v vs)
  let ?rm = "rm_receive CH VV (vn_nodes s n) vs"
  have "set vs \<subseteq> vn_sent s" using snoc.prems by simp
  from snoc.IH [OF this] obtain C where C: "vn_certs s \<subseteq> C"
    "vn_reachable CH VV sign host F config (s\<lparr>vn_nodes := (vn_nodes s)(n := ?rm), vn_certs := C\<rparr>)"
    by blast
  let ?C = "if fst (rm_process_vote CH two_chain ?rm v VV) = Inr QuorumCompleted
    then insert (n, vote_round v, vote_block_id v) C else C"
  have "vn_step CH VV sign host F (s\<lparr>vn_nodes := (vn_nodes s)(n := ?rm), vn_certs := C\<rparr>)
      (s\<lparr>vn_nodes := (vn_nodes s)(n := rm_receive CH VV (vn_nodes s n) (vs @ [v])), vn_certs := ?C\<rparr>)"
    using deliver [of n F CH v VV "s\<lparr>vn_nodes := (vn_nodes s)(n := ?rm), vn_certs := C\<rparr>"
        "fst (rm_process_vote CH two_chain ?rm v VV)" "snd (rm_process_vote CH two_chain ?rm v VV)" sign host]
      assms(2) snoc.prems by (simp add: rm_run_append cong: if_cong)
  from rtranclp.rtrancl_into_rtrancl [OF C(2) this] show ?case
    by (rule_tac exI [of _ ?C], rule_tac conjI) (use C(1) in \<open>auto simp del: fun_upd_apply\<close>)
qed

lemma reach_certificate:
  assumes "vn_reachable CH VV sign host F config s" and "n \<notin> F" and "set (v # vs) \<subseteq> vn_sent s"
    and "fst (rm_process_vote CH two_chain (rm_receive CH VV (vn_nodes s n) vs) v VV) = Inr QuorumCompleted"
  shows "\<exists>C. insert (n, vote_round v, vote_block_id v) (vn_certs s) \<subseteq> C \<and>
    vn_reachable CH VV sign host F config
      (s\<lparr>vn_nodes := (vn_nodes s)(n := rm_receive CH VV (vn_nodes s n) (vs @ [v])), vn_certs := C\<rparr>)"
proof -
  let ?rm = "rm_receive CH VV (vn_nodes s n) vs"
  have "set vs \<subseteq> vn_sent s" using assms(3) by simp
  from reach_deliveries [OF assms(1,2) this] obtain C where C: "vn_certs s \<subseteq> C"
    "vn_reachable CH VV sign host F config (s\<lparr>vn_nodes := (vn_nodes s)(n := ?rm), vn_certs := C\<rparr>)"
    by blast
  have "vn_step CH VV sign host F (s\<lparr>vn_nodes := (vn_nodes s)(n := ?rm), vn_certs := C\<rparr>)
      (s\<lparr>vn_nodes := (vn_nodes s)(n := rm_receive CH VV (vn_nodes s n) (vs @ [v])),
         vn_certs := insert (n, vote_round v, vote_block_id v) C\<rparr>)"
    using deliver [of n F CH v VV "s\<lparr>vn_nodes := (vn_nodes s)(n := ?rm), vn_certs := C\<rparr>"
        "Inr QuorumCompleted" "snd (rm_process_vote CH two_chain ?rm v VV)" sign host]
      assms(2-4) by (simp add: rm_run_append prod_eq_iff)
  from rtranclp.rtrancl_into_rtrancl [OF C(2) this] show ?thesis
    using insert_mono [OF C(1)] by blast
qed

lemma votes_cast:
  assumes "vn_reachable CH VV sign host F config s" and "distinct ns"
    and "\<And>n. n \<in> set ns \<Longrightarrow> n \<notin> F \<and> host (vn_nodes s n) b \<and>
           is_ok (fst (try_vote_for_proposal two_chain (vn_nodes s n) b None))"
  obtains s' where "vn_reachable CH VV sign host F config s'"
    "\<And>n. vn_nodes s' n = (if n \<in> set ns
        then snd (try_vote_for_proposal two_chain (vn_nodes s n) b None) else vn_nodes s n)"
    "vn_sent s' = (\<lambda>n. sign n b) ` set ns \<union> vn_sent s" "vn_certs s' = vn_certs s"
  using reach_votes [OF assms] by (rule that) simp_all

lemma certificate_formed:
  assumes "vn_reachable CH VV sign host F config s" and "n \<notin> F" and "set (v # vs) \<subseteq> vn_sent s"
    and "fst (rm_process_vote CH two_chain (rm_receive CH VV (vn_nodes s n) vs) v VV) = Inr QuorumCompleted"
  obtains s' where "vn_reachable CH VV sign host F config s'"
    "vn_nodes s' = (vn_nodes s)(n := rm_receive CH VV (vn_nodes s n) (vs @ [v]))"
    "vn_sent s' = vn_sent s" "insert (n, vote_round v, vote_block_id v) (vn_certs s) \<subseteq> vn_certs s'"
proof -
  from reach_certificate [OF assms] obtain C where
    "insert (n, vote_round v, vote_block_id v) (vn_certs s) \<subseteq> C"
    "vn_reachable CH VV sign host F config
      (s\<lparr>vn_nodes := (vn_nodes s)(n := rm_receive CH VV (vn_nodes s n) (vs @ [v])), vn_certs := C\<rparr>)"
    by blast
  then show ?thesis by (intro that [of "s\<lparr>vn_nodes := (vn_nodes s)(n := rm_receive CH VV (vn_nodes s n)
      (vs @ [v])), vn_certs := C\<rparr>"]) simp_all
qed

section \<open>Votes that arrive in any order\<close>

text \<open>
  What the round manager relies on in a host: \<open>aggregate_signatures\<close> succeeds on the signatures
  of verified votes of different known validators for one block, and \<open>from_votes\<close> on verified
  votes for one block with such an aggregate, both only where the verifier finds a quorum of
  voting power. Nothing is assumed of other votes and signatures: there both may fail, as the
  traits document.
\<close>

definition verified_for ::
    "('n, 'h, 's, 'g) chain \<Rightarrow> ('n, 'h, 's, 'g) validator_verifier \<Rightarrow> round \<Rightarrow> 'h \<Rightarrow>
     ('n, 'h, 's) vote list \<Rightarrow> bool" where
  "verified_for CH VV r h vs \<longleftrightarrow>
     (\<forall>v \<in> set vs. ch_vote_verify CH v VV = Inr () \<and> vote_round v = r \<and> vote_block_id v = h)"

definition one_per_voter ::
    "('n, 'h, 's, 'g) validator_verifier \<Rightarrow> ('n, 'h, 's) vote list \<Rightarrow> bool" where
  "one_per_voter VV ws \<longleftrightarrow>
     distinct (map vote_author ws) \<and> vote_author ` set ws \<subseteq> known VV \<and>
     is_ok (vv_check_voting_power VV (map vote_author ws) True)"

locale certifying_host = bft_verifier VV
  for VV :: "('n, 'h, 's, 'g) validator_verifier" +
  fixes CH :: "('n, 'h, 's, 'g) chain"
  assumes aggregates: "verified_for CH VV r h ws \<Longrightarrow> one_per_voter VV ws \<Longrightarrow>
      is_ok (vv_aggregate_signatures VV (map vote_signature ws))"
    and certifies: "verified_for CH VV r h vs \<Longrightarrow> set ws \<subseteq> set vs \<Longrightarrow> one_per_voter VV ws \<Longrightarrow>
      vv_aggregate_signatures VV (map vote_signature ws) = Inr g \<Longrightarrow> is_ok (ch_from_votes CH vs g)"
begin

lemma quorum_certifies:
  assumes "pv_check_quorum pv (r, h) VV" and "verified_for CH VV r h (pv_get_votes pv r h)"
  obtains g qc where "sa_aggregate (sa_add_votes VV sa_new (pv_get_votes pv r h)) VV = Inr g"
    "ch_from_votes CH (pv_get_votes pv r h) g = Inr qc"
proof -
  let ?vs = "pv_get_votes pv r h" and ?sa = "sa_add_votes VV sa_new (pv_get_votes pv r h)"
  obtain ws where ws: "set ws \<subseteq> set ?vs" "distinct (map vote_author ws)" "vote_author ` set ws \<subseteq> known VV"
    "sa_signers ?sa = map vote_author ws" "sa_signature_iter ?sa = map vote_signature ws"
    by (rule aggregated_votes)
  have "is_ok (sa_check_quorum ?sa VV)"
    using assms(1) by (auto simp: pv_check_quorum_def pv_get_votes_def split: option.splits)
  with ws have one: "one_per_voter VV ws" by (simp add: one_per_voter_def sa_check_quorum_def)
  have "verified_for CH VV r h ws" using assms(2) ws(1) by (auto simp: verified_for_def)
  from aggregates [OF this one] obtain g where "vv_aggregate_signatures VV (map vote_signature ws) = Inr g"
    by (auto simp: is_ok_iff)
  with certifies [OF assms(2) ws(1) one this] show ?thesis
    by (auto simp: is_ok_iff sa_aggregate_def ws(5) intro: that)
qed

text \<open>A valid vote of the epoch that is neither old nor known either completes a certificate or is
  filed and nothing else changes.\<close>

lemma process_new_vote:
  assumes "rm_inv rm" "ch_vote_verify CH v VV = Inr ()"
    and "verified_for CH VV (vote_round v) (vote_block_id v)
           (pv_get_votes (rm_pending_votes rm) (vote_round v) (vote_block_id v))"
    and "li_epoch (vote_ledger_info v) = rm_epoch rm" "rm_round rm \<le> vote_round v"
    and "\<not> pv_is_duplicate (rm_pending_votes rm) v"
  defines "pv \<equiv> pv_file (rm_pending_votes rm) v"
  shows "if pv_check_quorum pv (vote_round v, vote_block_id v) VV
         then fst (rm_process_vote CH two_chain rm v VV) = Inr QuorumCompleted
         else rm_process_vote CH two_chain rm v VV = (Inr Accepted, rm\<lparr>rm_pending_votes := pv\<rparr>)"
proof -
  have inv: "pv_inv (rm_pending_votes rm)" "pv_current_round (rm_pending_votes rm) \<le> vote_round v"
    using assms(1,5) by (simp_all add: rm_inv_def rm_round_def)
  have ep: "li_epoch (vote_ledger_info v) = rs_epoch (rm_round_state rm)"
    using assms(4) by (simp add: rm_epoch_def)
  note add = pv_add_vote_new [OF inv assms(6), of VV, folded pv_def]
  show ?thesis
  proof (cases "pv_check_quorum pv (vote_round v, vote_block_id v) VV")
    case True
    have "verified_for CH VV (vote_round v) (vote_block_id v)
        (pv_get_votes pv (vote_round v) (vote_block_id v))"
      using assms(2,3,6) inv(1)
      by (auto simp: verified_for_def pv_def set_pv_get_votes pv_inv_file pv_abs_file)
    from quorum_certifies [OF True this] obtain g qc where
      "sa_aggregate (sa_add_votes VV sa_new (pv_get_votes pv (vote_round v) (vote_block_id v))) VV = Inr g"
      "ch_from_votes CH (pv_get_votes pv (vote_round v) (vote_block_id v)) g = Inr qc" .
    from process_vote_quorum_aux [OF assms(1,2) ep _ this tcr.obs_qc_ok] add True show ?thesis by simp
  next
    case False
    then show ?thesis using add assms(2) ep by (simp add: rm_process_vote_def rs_is_current_epoch_def Let_def)
  qed
qed

text \<open>As long as no certificate is formed, the table of the block holds the votes received.\<close>

lemma receive_uncertified:
  assumes "rm_inv rm" "distinct (map vote_signature vs)"
    and "verified_for CH VV r h vs" "\<And>v. v \<in> set vs \<Longrightarrow> li_epoch (vote_ledger_info v) = rm_epoch rm"
    and "rm_round rm \<le> r" "pv_get_votes (rm_pending_votes rm) r h = []"
    and none: "\<And>k. k < length vs \<Longrightarrow>
           fst (rm_process_vote CH two_chain (rm_receive CH VV rm (take k vs)) (vs ! k) VV) \<noteq> Inr QuorumCompleted"
  shows "let rm' = rm_receive CH VV rm vs
         in rm_inv rm' \<and> rm_round rm' = rm_round rm \<and> rm_epoch rm' = rm_epoch rm \<and>
            set (pv_get_votes (rm_pending_votes rm') r h) = set vs \<and>
            (vs \<noteq> [] \<longrightarrow> \<not> pv_check_quorum (rm_pending_votes rm') (r, h) VV)"
  using assms(2-4) none
proof (induction vs rule: rev_induct)
  case Nil
  then show ?case using assms(1,6) by simp
next
  case (snoc v vs)
  define rm' where "rm' = rm_receive CH VV rm vs"
  have "fst (rm_process_vote CH two_chain (rm_receive CH VV rm (take k vs)) (vs ! k) VV) \<noteq> Inr QuorumCompleted"
    if "k < length vs" for k
    using snoc.prems(4) [of k] that by (simp add: nth_append)
  with snoc.IH snoc.prems have rm': "rm_inv rm'" "rm_round rm' = rm_round rm" "rm_epoch rm' = rm_epoch rm"
    "set (pv_get_votes (rm_pending_votes rm') r h) = set vs"
    by (simp_all add: Let_def rm'_def verified_for_def)
  have v: "ch_vote_verify CH v VV = Inr ()" "vote_round v = r" "vote_block_id v = h"
    "li_epoch (vote_ledger_info v) = rm_epoch rm"
    using snoc.prems(2) snoc.prems(3) [of v] by (simp_all add: verified_for_def)
  have held: "verified_for CH VV (vote_round v) (vote_block_id v)
      (pv_get_votes (rm_pending_votes rm') (vote_round v) (vote_block_id v))"
    using snoc.prems(2) rm'(4) by (simp add: verified_for_def v)
  have inv: "pv_inv (rm_pending_votes rm')" using rm'(1) by (simp add: rm_inv_def)
  have nodup: "\<not> pv_is_duplicate (rm_pending_votes rm') v"
  proof
    assume "pv_is_duplicate (rm_pending_votes rm') v"
    then obtain w where "w \<in> set vs" "vote_signature w = vote_signature v"
      using rm'(4) v unfolding set_pv_get_votes [OF inv] pv_is_duplicate_def by blast
    then show False using snoc.prems(1) by (auto simp: image_iff)
  qed
  let ?pv = "pv_file (rm_pending_votes rm') v"
  have "fst (rm_process_vote CH two_chain rm' v VV) \<noteq> Inr QuorumCompleted"
    using snoc.prems(4) [of "length vs"] by (simp add: rm'_def)
  then have step: "rm_process_vote CH two_chain rm' v VV = (Inr Accepted, rm'\<lparr>rm_pending_votes := ?pv\<rparr>)"
    "\<not> pv_check_quorum ?pv (r, h) VV"
    using process_new_vote [OF rm'(1) v(1) held _ _ nodup] v rm'(2,3) assms(5) by (auto split: if_splits)
  have "set (pv_get_votes ?pv r h) = insert v (set vs)"
    using rm'(4) v unfolding set_pv_get_votes [OF inv] set_pv_get_votes [OF pv_inv_file [OF inv]]
      pv_abs_file [OF inv nodup] by auto
  moreover have "rm_receive CH VV rm (vs @ [v]) = rm'\<lparr>rm_pending_votes := ?pv\<rparr>"
    using step(1) by (simp add: rm_run_append rm'_def)
  moreover have "rm_inv (rm'\<lparr>rm_pending_votes := ?pv\<rparr>)"
    using rm'(1) inv by (simp add: rm_inv_def pv_inv_file)
  ultimately show ?case
    using rm'(2,3) step(2) by (simp add: Let_def rm_round_def rm_epoch_def)
qed

text \<open>So the vote that brings the power of the quorum is answered with a certificate.\<close>

lemma delivered_quorum:
  assumes "rm_inv rm" "distinct (map vote_signature vs)"
    and "verified_for CH VV r h vs" "\<And>v. v \<in> set vs \<Longrightarrow> li_epoch (vote_ledger_info v) = rm_epoch rm"
    and "rm_round rm \<le> r" "pv_get_votes (rm_pending_votes rm) r h = []" "length vs \<le> 2 ^ 64"
    and "unat (vv_quorum_voting_power VV) \<le> exact_power VV (vote_author ` set vs \<inter> known VV)"
  shows "\<exists>k < length vs.
    fst (rm_process_vote CH two_chain (rm_receive CH VV rm (take k vs)) (vs ! k) VV) = Inr QuorumCompleted"
proof (rule ccontr)
  assume "\<not> ?thesis"
  then have "fst (rm_process_vote CH two_chain (rm_receive CH VV rm (take k vs)) (vs ! k) VV) \<noteq>
      Inr QuorumCompleted" if "k < length vs" for k
    using that by blast
  note fin = receive_uncertified [OF assms(1-6) this, unfolded Let_def]
  let ?pv = "rm_pending_votes (rm_receive CH VV rm vs)"
  have authors: "pv_authors VV ?pv r h = vote_author ` set vs \<inter> known VV"
    using fin by (auto simp: pv_authors_def)
  have "vs \<noteq> []"
    using assms(8) two_thirds by (auto simp: exact_power_def)
  moreover from this have "hm_get (pv_votes ?pv) (r, h) \<noteq> None"
    using fin by (metis empty_set option.simps(4) pv_get_votes_def set_empty2)
  moreover have "card (pv_authors VV ?pv r h) \<le> 2 ^ 64"
    unfolding authors using card_mono [of "vote_author ` set vs" "vote_author ` set vs \<inter> known VV"]
      card_image_le [of "set vs" vote_author] card_length [of vs] assms(7) by simp
  ultimately show False
    using fin assms(8) pv_check_quorum_iff_card [of ?pv r h] by (simp add: authors)
qed

end

text \<open>Four validators of the crate's mock chain, whose votes for a block are \<open>mock_vote\<close>s.\<close>

abbreviation four_validators :: "(u8, u8, u8, unit) validator_verifier" where
  "four_validators \<equiv> mvs_verifier (make_validator_set [1, 1, 1, 1])"

definition mock_sign :: "u8 \<Rightarrow> (u8, u8, u8) block \<Rightarrow> (u8, u8, u8) vote" where
  "mock_sign n b = mock_vote n (blk_id b) (blk_round b)"

lemma mock_sign_fields:
  "vote_author (mock_sign n b) = n" "vote_round (mock_sign n b) = blk_round b"
  "vote_block_id (mock_sign n b) = blk_id b"
  by (simp_all add: mock_sign_def mock_vote_fields)

lemma validator_network_make:
  assumes "length ps \<le> 256" and "F \<subseteq> known (mvs_verifier (make_validator_set ps))"
    and "3 * exact_power (mvs_verifier (make_validator_set ps)) F \<le> (\<Sum>p\<leftarrow>ps. unat p)"
    and "\<And>n b. vote_author (sign n b) = n \<and> vote_round (sign n b) = blk_round b \<and>
           vote_block_id (sign n b) = blk_id b"
  shows "validator_network (mvs_verifier (make_validator_set ps)) sign F"
proof -
  let ?K = "known (mvs_verifier (make_validator_set ps))"
  have "card ?K \<le> CARD(u8)" by (intro card_mono) auto
  then have "card ?K \<le> 2 ^ 64" by (simp add: card_word)
  then show ?thesis
    using assms make_validator_set_known(2) [OF assms(1)]
    by (intro validator_network.intro bft_verifier_make validator_network_axioms.intro) simp_all
qed

interpretation mvn: validator_network "mvs_verifier (make_validator_set (take 256 ps))" mock_sign "{}"
  for ps
  by (rule validator_network_make) (simp_all add: mock_sign_fields exact_power_def)

text \<open>A host whose votes carry the block they are for and whose certificates are for the block of
  their votes; the other methods are the mock chain's.\<close>

definition block_vote :: "u8 \<Rightarrow> (u8, u8, u8) block \<Rightarrow> (u8, u8, u8) vote" where
  "block_vote n b =
     (mock_sign n b)\<lparr>vote_vote_data :=
        \<lparr>vd_proposed_block = blk_metadata b, vd_parent_block = mock_genesis_metadata\<rparr>\<rparr>"

definition block_chain :: "(u8, u8, u8, unit) chain" where
  "block_chain =
     mock_chain\<lparr>ch_from_votes := \<lambda>votes _.
       case votes of [] \<Rightarrow> Inl (Msg ''no votes'')
       | v # _ \<Rightarrow> Inr (mock_qc_with_metadata (vd_proposed_block (vote_vote_data v)) (vote_block_id v))\<rparr>"

text \<open>A host that checks what it is given: it verifies votes with the verifier, which refuses unknown
  authors, and certifies no empty and no mixed list of votes.\<close>

definition checking_chain :: "(u8, u8, u8, unit) chain" where
  "checking_chain =
     \<lparr>ch_verify_signature = (\<lambda>_. Inr ()), ch_vote_verify = (\<lambda>v VV. vv_verify_vote VV v),
      ch_from_votes = (\<lambda>votes _.
        case votes of [] \<Rightarrow> Inl (Msg ''no votes'')
        | v # vs \<Rightarrow>
            if list_all (\<lambda>w. vote_round w = vote_round v \<and> vote_block_id w = vote_block_id v) vs
            then Inr (mock_qc_with_metadata (vd_proposed_block (vote_vote_data v)) (vote_block_id v))
            else Inl (Msg ''votes for different blocks''))\<rparr>"

lemma one_per_voter_not_Nil: "bft_verifier VV \<Longrightarrow> one_per_voter VV ws \<Longrightarrow> ws \<noteq> []"
proof
  assume bv: "bft_verifier VV" and "one_per_voter VV ws" "ws = []"
  then have "vv_quorum_voting_power VV \<le> sum_u128 []"
    using quorum_check.check_iff [of VV "[]"] by (simp add: one_per_voter_def bft_verifier_def List.map_filter_simps)
  then show False
    using bft_verifier.two_thirds [OF bv] by (simp add: sum_u128_def word_le_nat_alt)
qed

lemma certifying_host_make:
  assumes "length ps \<le> 256"
    and "\<And>r h v vs g. verified_for CH (mvs_verifier (make_validator_set ps)) r h (v # vs) \<Longrightarrow>
           is_ok (ch_from_votes CH (v # vs) g)"
  shows "certifying_host (mvs_verifier (make_validator_set ps)) CH"
proof -
  let ?VV = "mvs_verifier (make_validator_set ps)"
  have bv: "bft_verifier ?VV" by (rule bft_verifier_make [OF assms(1)])
  have "is_ok (ch_from_votes CH vs g)"
    if "verified_for CH ?VV r h vs" "set ws \<subseteq> set vs" "one_per_voter ?VV ws" for r h vs ws g
    using that assms(2) one_per_voter_not_Nil [OF bv that(3)] by (cases vs) auto
  then show ?thesis
    by (intro certifying_host.intro bv certifying_host_axioms.intro) (simp add: mvs_verifier_def, blast)
qed

interpretation mch: certifying_host "mvs_verifier (make_validator_set (take 256 ps))" mock_chain for ps
  by (rule certifying_host_make) (simp_all add: mock_chain_def)

interpretation cch: certifying_host "mvs_verifier (make_validator_set (take 256 ps))" checking_chain for ps
  by (rule certifying_host_make) (auto simp: checking_chain_def verified_for_def list_all_iff)

lemmas network_eval = rm_eval rm_run.simps rm_step.simps
  mock_sign_def block_vote_def block_chain_def mock_chain_def
  mock_vote_def mock_vote_with_signature_def mock_block_def mock_metadata_def mock_genesis_metadata_def
  mock_qc_new_def mock_qc_with_metadata_def mock_ledger_info_def
  mvs_verifier_def make_validator_set_def mvs_new_def mvs_get_voting_power_def
  mvs_check_voting_power_def mv_new_def

lemma block_vote_fields:
  "vote_author (block_vote n b) = n" "vote_round (block_vote n b) = blk_round b"
  "vote_block_id (block_vote n b) = blk_id b"
  by (simp_all add: block_vote_def mock_sign_fields)

lemma fresh_new: "fresh_round (rm_new config (sr_new e)) b \<longleftrightarrow> 0 < blk_round b"
  by (simp add: fresh_round_def rm_new_def sr_new_def)

lemma try_vote_new_ok:
  "is_ok (fst (try_vote_for_proposal two_chain (rm_new config (sr_new e)) b None)) \<longleftrightarrow> 0 < blk_round b"
  by (simp add: try_vote_ok_iff rm_new_def sr_new_def)

section \<open>Runs of four validators\<close>

text \<open>The runs below: validators vote for a block, and a node receives the votes of three.\<close>

abbreviation voted_for ::
    "(u8, u8, u8) block \<Rightarrow> (two_chain_rules, u8, u8, u8) round_manager" where
  "voted_for b \<equiv> snd (try_vote_for_proposal two_chain (rm_new rmc_default (sr_new 0)) b None)"

abbreviation block_a :: "(u8, u8, u8) block" where
  "block_a \<equiv> mock_block [] (mock_metadata 0 5 1 0 0)"

abbreviation block_b :: "(u8, u8, u8) block" where
  "block_b \<equiv> mock_block [] (mock_metadata 0 5 2 0 0)"

lemma blocks_ab: "blk_round block_a = 5" "blk_round block_b = 5" "blk_id block_a = 4" "blk_id block_b = 7"
  by (simp_all add: mock_block_def mock_metadata_def)

lemma node_0_certifies_a:
  "fst (rm_process_vote mock_chain two_chain
     (rm_receive mock_chain four_validators (voted_for block_a) [mock_sign 0 block_a, mock_sign 1 block_a])
     (mock_sign 2 block_a) four_validators) = Inr QuorumCompleted"
  by (simp add: network_eval)

lemma node_3_certifies_b:
  "fst (rm_process_vote mock_chain two_chain
     (rm_receive mock_chain four_validators (voted_for block_b) [mock_sign 1 block_b, mock_sign 2 block_b])
     (mock_sign 3 block_b) four_validators) = Inr QuorumCompleted"
  by (simp add: network_eval)

lemma fork_run:
  "\<exists>s. vn_reachable mock_chain four_validators mock_sign any_proposal {} rmc_default s \<and>
     (0, 5, blk_id block_a) \<in> vn_certs s \<and> (3, 5, blk_id block_b) \<in> vn_certs s"
proof -
  let ?reach = "vn_reachable mock_chain four_validators mock_sign any_proposal {} rmc_default"
  let ?ask = "\<lambda>rm b. try_vote_for_proposal two_chain rm b None"
  obtain s1 where s1: "?reach s1" "\<And>n. vn_nodes s1 n = (if n \<in> set [0, 1, 2] then voted_for block_a
        else rm_new rmc_default (sr_new 0))"
      "vn_sent s1 = (\<lambda>n. mock_sign n block_a) ` set [0, 1, 2]"
    by (rule votes_cast [of mock_chain four_validators mock_sign any_proposal "{}" rmc_default
          "vn_init rmc_default" "[0, 1, 2]" block_a])
      (auto simp: any_proposal_def vn_init_def try_vote_new_ok blocks_ab)
  have "is_ok (fst (?ask (vn_nodes s1 n) block_b))" for n
    by (simp add: s1(2) same_round_double_vote try_vote_new_ok blocks_ab)
  then obtain s2 where s2: "?reach s2" "\<And>n. vn_nodes s2 n = (if n \<in> set [1, 2, 3]
        then snd (?ask (vn_nodes s1 n) block_b) else vn_nodes s1 n)"
      "vn_sent s2 = (\<lambda>n. mock_sign n block_b) ` set [1, 2, 3] \<union> vn_sent s1"
    by (rule_tac votes_cast [OF s1(1), of "[1, 2, 3]" block_b]) (auto simp: any_proposal_def)
  obtain s3 where s3: "?reach s3" "vn_nodes s3 3 = voted_for block_b"
    "vn_sent s3 = vn_sent s2" "(0, 5, blk_id block_a) \<in> vn_certs s3"
    by (rule certificate_formed [OF s2(1), of 0 "mock_sign 2 block_a" "[mock_sign 0 block_a, mock_sign 1 block_a]"])
      (use node_0_certifies_a in \<open>auto simp: s1 s2 mock_sign_fields blocks_ab\<close>)
  obtain s4 where "?reach s4" "(3, 5, blk_id block_b) \<in> vn_certs s4" "vn_certs s3 \<subseteq> vn_certs s4"
    by (rule certificate_formed [OF s3(1), of 3 "mock_sign 3 block_b" "[mock_sign 1 block_b, mock_sign 2 block_b]"])
      (use node_3_certifies_b in \<open>auto simp: s1 s2 s3 mock_sign_fields blocks_ab\<close>)
  with s3(4) show ?thesis by (intro exI [of _ s4]) auto
qed

lemma node_3_certifies_a:
  "fst (rm_process_vote mock_chain two_chain
     (rm_receive mock_chain four_validators (rm_new rmc_default (sr_new 0)) [mock_sign 0 block_a, mock_sign 1 block_a])
     (mock_sign 2 block_a) four_validators) = Inr QuorumCompleted"
  by (simp add: network_eval)

lemma agreement_run:
  "\<exists>s. vn_reachable mock_chain four_validators mock_sign fresh_round {} rmc_default s \<and>
     (0, 5, blk_id block_a) \<in> vn_certs s \<and> (3, 5, blk_id block_a) \<in> vn_certs s"
proof -
  let ?reach = "vn_reachable mock_chain four_validators mock_sign fresh_round {} rmc_default"
  obtain s1 where s1: "?reach s1" "\<And>n. vn_nodes s1 n = (if n \<in> set [0, 1, 2] then voted_for block_a
        else rm_new rmc_default (sr_new 0))"
      "vn_sent s1 = (\<lambda>n. mock_sign n block_a) ` set [0, 1, 2]"
    by (rule votes_cast [of mock_chain four_validators mock_sign fresh_round "{}" rmc_default
          "vn_init rmc_default" "[0, 1, 2]" block_a])
      (auto simp: fresh_new vn_init_def try_vote_new_ok blocks_ab)
  obtain s2 where s2: "?reach s2" "vn_nodes s2 3 = rm_new rmc_default (sr_new 0)"
    "vn_sent s2 = vn_sent s1" "(0, 5, blk_id block_a) \<in> vn_certs s2"
    by (rule certificate_formed [OF s1(1), of 0 "mock_sign 2 block_a" "[mock_sign 0 block_a, mock_sign 1 block_a]"])
      (use node_0_certifies_a in \<open>auto simp: s1 mock_sign_fields blocks_ab\<close>)
  obtain s3 where "?reach s3" "(3, 5, blk_id block_a) \<in> vn_certs s3" "vn_certs s2 \<subseteq> vn_certs s3"
    by (rule certificate_formed [OF s2(1), of 3 "mock_sign 2 block_a" "[mock_sign 0 block_a, mock_sign 1 block_a]"])
      (use node_3_certifies_a in \<open>auto simp: s1 s2 mock_sign_fields blocks_ab\<close>)
  with s2(4) show ?thesis by (intro exI [of _ s3]) auto
qed

text \<open>Two blocks on top of the genesis block, of rounds 1 and 2, and a child of each.\<close>

abbreviation block_1 :: "(u8, u8, u8) block" where
  "block_1 \<equiv> mock_block [] (mock_metadata 0 1 0 0 0)"

abbreviation child_1 :: "(u8, u8, u8) block" where
  "child_1 \<equiv> mock_block [] (mock_metadata 0 2 0 1 0)"

abbreviation block_2 :: "(u8, u8, u8) block" where
  "block_2 \<equiv> mock_block [] (mock_metadata 0 2 1 0 0)"

abbreviation child_2 :: "(u8, u8, u8) block" where
  "child_2 \<equiv> mock_block [] (mock_metadata 0 3 4 3 0)"

lemma blocks_12:
  "blk_round block_1 = 1" "blk_round block_2 = 2" "blk_id block_1 = 1" "blk_id block_2 = 3"
  "blk_parent_id block_1 = 0" "blk_parent_id block_2 = 0"
  by (simp_all add: mock_block_def mock_metadata_def)

lemma node_0_commits_block_1:
  defines "rm \<equiv> rm_receive block_chain four_validators (voted_for block_1)
                 [block_vote 0 block_1, block_vote 1 block_1]"
  shows "fst (rm_process_vote block_chain two_chain rm (block_vote 2 block_1) four_validators) =
           Inr QuorumCompleted"
    and "should_commit (rm_safety_rules (snd (rm_process_vote block_chain two_chain rm
           (block_vote 2 block_1) four_validators))) child_1 = Some (blk_id block_1)"
  unfolding rm_def by (simp_all add: network_eval should_commit_def)

lemma node_3_commits_block_2:
  defines "rm \<equiv> rm_receive block_chain four_validators
                 (snd (try_vote_for_proposal two_chain (voted_for block_1) block_2 None))
                 [block_vote 1 block_2, block_vote 2 block_2]"
  shows "fst (rm_process_vote block_chain two_chain rm (block_vote 3 block_2) four_validators) =
           Inr QuorumCompleted"
    and "should_commit (rm_safety_rules (snd (rm_process_vote block_chain two_chain rm
           (block_vote 3 block_2) four_validators))) child_2 = Some (blk_id block_2)"
  unfolding rm_def by (simp_all add: network_eval should_commit_def)

section \<open>Properties\<close>

text \<open>C1: in every state that a network of validators running this code can reach, whatever order the
  calls and the messages take and whatever the faulty validators send, the round managers are
  consistent, every vote in a table was sent by its author or comes from a faulty validator,
  and no correct validator will vote below a vote it has sent. If two nodes have certified
  two blocks, then some correct known validator has sent a vote for each of them.\<close>

theorem certificates_need_common_voter:
  assumes "validator_network VV sign F"
    and "vn_reachable CH VV sign host F config s"
  shows "vn_inv VV F s \<and>
    (\<forall>n r h n' r' h'. (n, r, h) \<in> vn_certs s \<and> (n', r', h') \<in> vn_certs s \<longrightarrow>
       (\<exists>v \<in> vn_sent s. \<exists>v' \<in> vn_sent s.
          vote_author v = vote_author v' \<and> vote_author v \<in> known VV - F \<and>
          vote_round v = r \<and> vote_block_id v = h \<and> vote_round v' = r' \<and> vote_block_id v' = h'))"
proof (intro conjI allI impI)
  show "vn_inv VV F s" by (rule validator_network.vn_inv_reachable [OF assms])
next
  fix n r h n' r' h' assume "(n, r, h) \<in> vn_certs s \<and> (n', r', h') \<in> vn_certs s"
  then show "\<exists>v \<in> vn_sent s. \<exists>v' \<in> vn_sent s.
      vote_author v = vote_author v' \<and> vote_author v \<in> known VV - F \<and>
      vote_round v = r \<and> vote_block_id v = h \<and> vote_round v' = r' \<and> vote_block_id v' = h'"
    by (elim conjE) (rule validator_network.certificates_share_sender [OF assms], assumption+,
        rule_tac x = v in bexI, rule_tac x = v' in bexI, simp_all)
qed

text \<open>Four validators that have certified two blocks of round 5: validators 1 and 2 are common.\<close>

theorem certificates_need_common_voter_witness:
  "\<exists>s. vn_reachable mock_chain four_validators mock_sign any_proposal {} rmc_default s \<and>
     (0, 5, 4) \<in> vn_certs s \<and> (3, 5, 7) \<in> vn_certs s \<and> vn_inv four_validators {} s \<and>
     (\<exists>v \<in> vn_sent s. \<exists>v' \<in> vn_sent s. vote_author v = vote_author v' \<and>
        vote_author v \<in> known four_validators \<and> vote_round v = 5 \<and> vote_block_id v = 4 \<and>
        vote_round v' = 5 \<and> vote_block_id v' = 7)"
proof -
  obtain s where s: "vn_reachable mock_chain four_validators mock_sign any_proposal {} rmc_default s"
    "(0, 5, 4) \<in> vn_certs s" "(3, 5, 7) \<in> vn_certs s"
    using fork_run by (auto simp: blocks_ab)
  have net: "validator_network four_validators mock_sign {}"
    using mvn.validator_network_axioms [of "[1, 1, 1, 1]"] by simp
  note c = certificates_need_common_voter [OF net s(1)]
  have "\<exists>v \<in> vn_sent s. \<exists>v' \<in> vn_sent s. vote_author v = vote_author v' \<and>
        vote_author v \<in> known four_validators - {} \<and> vote_round v = 5 \<and> vote_block_id v = 4 \<and>
        vote_round v' = 5 \<and> vote_block_id v' = 7"
    using c [THEN conjunct2, rule_format, OF conjI [OF s(2,3)]] .
  with s c [THEN conjunct1] show ?thesis by (intro exI [of _ s]) simp
qed

text \<open>C2: agreement within a round, for a host that asks for votes only above the last voted round:
  no two nodes ever certify different blocks of one round.\<close>

theorem one_certified_block_per_round:
  assumes "validator_network VV sign F"
    and "vn_reachable CH VV sign fresh_round F config s"
    and "(n, r, h) \<in> vn_certs s" and "(n', r, h') \<in> vn_certs s"
  shows "h = h'"
proof -
  obtain v v' where "v \<in> vn_sent s" "v' \<in> vn_sent s" "vote_author v = vote_author v'"
    "vote_round v = r" "vote_block_id v = h" "vote_round v' = r" "vote_block_id v' = h'"
    by (rule validator_network.certificates_share_sender [OF assms])
  moreover have "v = v'"
    using validator_network.fresh_votes_unique [OF assms(1,2), of v v'] calculation by simp
  ultimately show ?thesis by simp
qed

theorem one_certified_block_per_round_witness:
  "\<exists>s h h'. vn_reachable mock_chain four_validators mock_sign fresh_round {} rmc_default s \<and>
     (0, 5, h) \<in> vn_certs s \<and> (3, 5, h') \<in> vn_certs s \<and> h = h'"
proof -
  obtain s where s: "vn_reachable mock_chain four_validators mock_sign fresh_round {} rmc_default s"
    "(0, 5, blk_id block_a) \<in> vn_certs s" "(3, 5, blk_id block_a) \<in> vn_certs s"
    using agreement_run by blast
  have net: "validator_network four_validators mock_sign {}"
    using mvn.validator_network_axioms [of "[1, 1, 1, 1]"] by simp
  from one_certified_block_per_round [OF net s] s show ?thesis by blast
qed

text \<open>C36: a fork among correct validators: with four validators of equal power, none of them faulty, a
  host that asks for a vote on every proposal, and the crate's own mock chain, the code reaches
  a state in which two nodes have certified two different blocks of round 5. Validators 1 and
  2 voted for both.\<close>

theorem fork_reachable:
  "\<exists>s. vn_reachable mock_chain four_validators mock_sign any_proposal {} rmc_default s \<and>
     (0, 5, blk_id block_a) \<in> vn_certs s \<and> (3, 5, blk_id block_b) \<in> vn_certs s \<and>
     blk_id block_a \<noteq> blk_id block_b"
  using fork_run by (auto simp: blocks_ab)

text \<open>C37: conflicting commits among correct validators that never vote twice in a round: with four
  correct validators, a host that asks for votes only above the last voted round, and
  certificates for the block that was voted for, the code reaches a state in which
  \<open>should_commit\<close> names a certified block of round 1 at node 0, for a proposal of round 2, and
  a certified block of round 2 at node 3, for a proposal of round 3, although both blocks are
  children of the genesis block. The votes in round 2 ignore the certificate of round 1.\<close>

theorem conflicting_commits_reachable:
  "\<exists>s. vn_reachable block_chain four_validators block_vote fresh_round {} rmc_default s \<and>
     (0, 1, blk_id block_1) \<in> vn_certs s \<and> (3, 2, blk_id block_2) \<in> vn_certs s \<and>
     should_commit (rm_safety_rules (vn_nodes s 0)) child_1 = Some (blk_id block_1) \<and>
     should_commit (rm_safety_rules (vn_nodes s 3)) child_2 = Some (blk_id block_2) \<and>
     blk_parent_id block_1 = blk_parent_id block_2 \<and> blk_id block_1 \<noteq> blk_id block_2"
proof -
  let ?reach = "vn_reachable block_chain four_validators block_vote fresh_round {} rmc_default"
  let ?ask = "\<lambda>rm b. try_vote_for_proposal two_chain rm b None"
  obtain s1 where s1: "?reach s1" "\<And>n. vn_nodes s1 n = (if n \<in> set [0, 1, 2, 3] then voted_for block_1
        else rm_new rmc_default (sr_new 0))"
      "vn_sent s1 = (\<lambda>n. block_vote n block_1) ` set [0, 1, 2, 3]"
    by (rule votes_cast [of block_chain four_validators block_vote fresh_round "{}" rmc_default
          "vn_init rmc_default" "[0, 1, 2, 3]" block_1])
      (auto simp: fresh_new vn_init_def try_vote_new_ok blocks_12)
  obtain s2 where s2: "?reach s2" "vn_sent s2 = vn_sent s1" "(0, 1, blk_id block_1) \<in> vn_certs s2"
    "\<And>n. n \<noteq> 0 \<Longrightarrow> vn_nodes s2 n = vn_nodes s1 n"
    "should_commit (rm_safety_rules (vn_nodes s2 0)) child_1 = Some (blk_id block_1)"
    by (rule certificate_formed [OF s1(1), of 0 "block_vote 2 block_1" "[block_vote 0 block_1, block_vote 1 block_1]"])
      (use node_0_commits_block_1 in \<open>auto simp: s1 block_vote_fields blocks_12\<close>)
  have "ss_last_voted_round (sr_state (rm_safety_rules (voted_for block_1))) = 1"
    by (subst tcr.try_vote_ok_voted(1)) (simp_all add: try_vote_new_ok blocks_12)
  then have ok: "fresh_round (voted_for block_1) block_2 \<and> is_ok (fst (?ask (voted_for block_1) block_2))"
    by (simp add: try_vote_ok_iff fresh_round_def blocks_12)
  obtain s3 where s3: "?reach s3" "\<And>n. vn_nodes s3 n = (if n \<in> set [1, 2, 3]
        then snd (?ask (vn_nodes s2 n) block_2) else vn_nodes s2 n)"
      "vn_sent s3 = (\<lambda>n. block_vote n block_2) ` set [1, 2, 3] \<union> vn_sent s2" "vn_certs s3 = vn_certs s2"
    by (rule votes_cast [OF s2(1), of "[1, 2, 3]" block_2]) (use ok in \<open>auto simp: s1 s2\<close>)
  obtain s4 where "?reach s4" "(3, 2, blk_id block_2) \<in> vn_certs s4" "vn_certs s3 \<subseteq> vn_certs s4"
    "vn_nodes s4 0 = vn_nodes s2 0"
    "should_commit (rm_safety_rules (vn_nodes s4 3)) child_2 = Some (blk_id block_2)"
    by (rule certificate_formed [OF s3(1), of 3 "block_vote 3 block_2" "[block_vote 1 block_2, block_vote 2 block_2]"])
      (use node_3_commits_block_2 in \<open>auto simp: s1 s2 s3 block_vote_fields blocks_12\<close>)
  with s2(3,5) s3(4) show ?thesis by (intro exI [of _ s4]) (auto simp: blocks_12)
qed

text \<open>C3: a quorum of votes certifies its block whatever the order of arrival: when a consistent round
  manager that holds no vote for a block receives, in any order, verified votes of its epoch for
  it with different signatures whose known authors together have the quorum's power, then one
  of them is answered \<open>QuorumCompleted\<close>. The verifier has a two-thirds quorum, and the host
  aggregates and certifies verified votes of a quorum for one block; on anything else it may
  fail.\<close>

theorem delivered_quorum_certifies:
  assumes "certifying_host VV CH" "rm_inv rm" "distinct (map vote_signature vs)"
    and "verified_for CH VV r h vs" "\<And>v. v \<in> set vs \<Longrightarrow> li_epoch (vote_ledger_info v) = rm_epoch rm"
    and "rm_round rm \<le> r" "pv_get_votes (rm_pending_votes rm) r h = []" "length vs \<le> 2 ^ 64"
    and "unat (vv_quorum_voting_power VV) \<le> exact_power VV (vote_author ` set vs \<inter> known VV)"
  shows "\<exists>k < length vs.
    fst (rm_process_vote CH two_chain (rm_receive CH VV rm (take k vs)) (vs ! k) VV) = Inr QuorumCompleted"
  by (rule certifying_host.delivered_quorum [OF assms])

theorem delivered_quorum_certifies_witness:
  "\<exists>k < 4. fst (rm_process_vote checking_chain two_chain
     (rm_receive checking_chain four_validators (rm_new rmc_default (sr_new 0))
       (take k (map (\<lambda>n. mock_vote n 7 3) [2, 0, 3, 1])))
     (map (\<lambda>n. mock_vote n 7 3) [2, 0, 3, 1] ! k) four_validators) = Inr QuorumCompleted"
proof -
  let ?vs = "map (\<lambda>n. mock_vote n 7 3) [2, 0, 3, 1 :: u8]"
    and ?rm = "rm_new rmc_default (sr_new 0) :: (two_chain_rules, u8, u8, u8) round_manager"
  have host: "certifying_host four_validators checking_chain"
    using cch.certifying_host_axioms [of "[1, 1, 1, 1]"] by simp
  have K: "known four_validators = {0, 1, 2, 3}"
    using make_validator_set_known(1) [of "[1, 1, 1, 1]"] by (simp add: lessThan_Suc numeral_eq_Suc insert_commute)
  have p: "exact_power four_validators (vote_author ` set ?vs \<inter> known four_validators) = 4"
    using make_validator_set_known(2) [of "[1, 1, 1, 1]"] by (simp add: K mock_vote_fields insert_commute)
  have bv: "bft_verifier four_validators" by (rule bft_verifier_make) simp
  have "unat (vv_quorum_voting_power four_validators) = 3"
    using bft_verifier.two_thirds [OF bv] make_validator_set_known(2) [of "[1, 1, 1, 1]"] by simp
  with p have q: "unat (vv_quorum_voting_power four_validators) \<le>
      exact_power four_validators (vote_author ` set ?vs \<inter> known four_validators)" by simp
  have ok: "verified_for checking_chain four_validators 3 7 ?vs"
    by (simp add: verified_for_def checking_chain_def network_eval)
  have "\<exists>k < length ?vs. fst (rm_process_vote checking_chain two_chain
      (rm_receive checking_chain four_validators ?rm (take k ?vs)) (?vs ! k) four_validators) = Inr QuorumCompleted"
    by (rule delivered_quorum_certifies [OF host rm_inv_new _ ok _ _ _ _ q])
      (auto simp: mock_vote_def mock_vote_with_signature_def mock_ledger_info_def rm_epoch_def
        rm_round_def rm_new_def rs_new_def pv_new_def pv_get_votes_def)
  then show ?thesis by (simp add: numeral_eq_Suc)
qed

end
