(* ===== verification/Tests_Safety.thy ===== *)
theory Tests_Safety
  imports Test_Eval Recovery
begin

text \<open>
  The unit tests of \<open>safety_rules/state.rs\<close>, \<open>safety_rules/two_chain.rs\<close>,
  \<open>timeout/two_chain.rs\<close> and \<open>safety_rules/recovery.rs\<close>.
\<close>

section \<open>state.rs\<close>

definition ss_test_safety_state_creation :: bool where
  "ss_test_safety_state_creation =
     (let s = ss_new 1 5 10 8 3
     in ss_epoch s = 1 \<and> ss_last_voted_round s = 5 \<and> ss_preferred_round s = 10 \<and>
     ss_one_chain_round s = 8 \<and> ss_highest_timeout_round s = 3)"

definition ss_test_can_vote_in_round :: bool where
  "ss_test_can_vote_in_round =
     (let s = ss_new 0 5 10 8 3
     in can_vote_in_round s 5 \<and> can_vote_in_round s 6 \<and> \<not> can_vote_in_round s 4)"

definition ss_test_update_one_chain_round :: bool where
  "ss_test_update_one_chain_round =
     (let s = ss_new 0 0 0 5 0;
     (updated, s1) = update_one_chain_round s 10;
     (updated', s2) = update_one_chain_round s1 8
     in updated \<and> ss_one_chain_round s1 = 10 \<and> \<not> updated' \<and> ss_one_chain_round s2 = 10)"

definition ss_test_new_epoch :: bool where
  "ss_test_new_epoch =
     (let s = ss_new_epoch (ss_new 1 10 20 15 5) 2
     in ss_epoch s = 2 \<and> ss_last_voted_round s = 0 \<and> ss_preferred_round s = 20 \<and>
     ss_one_chain_round s = 0 \<and> ss_highest_timeout_round s = 0)"

definition ss_test_display :: bool where
  "ss_test_display =
     (let display = ss_fmt (ss_new 1 5 10 8 3)
     in str_contains display ''epoch = 1'' \<and> str_contains display ''last_voted_round = 5'')"

lemma safety_state_tests:
  "ss_test_safety_state_creation"
  "ss_test_can_vote_in_round"
  "ss_test_update_one_chain_round"
  "ss_test_new_epoch"
  "ss_test_display"
  by code_simp+

section \<open>two\_chain.rs\<close>

text \<open>The block and certificate types of the tests; a hash is a round, a signature carries
  nothing.\<close>

definition tsr_metadata :: "u64 \<Rightarrow> u64 \<Rightarrow> u64 \<Rightarrow> (u64, u64) block_metadata" where
  "tsr_metadata e r p =
     \<lparr>bm_epoch = e, bm_round = r, bm_author = 0, bm_parent_id = p, bm_timestamp = 0\<rparr>"

definition tsr_block :: "u64 \<Rightarrow> u64 \<Rightarrow> u64 \<Rightarrow> (u64, u64) block_metadata \<Rightarrow> (u64, u64, unit) block" where
  "tsr_block e r pr m =
     \<lparr>blk_id = r, blk_metadata = m, blk_transactions = [], blk_signature = Some (),
      blk_parent_id = pr, blk_is_genesis = (e = 0 \<and> r = 0), blk_is_nil = True\<rparr>"

definition tsr_new_genesis :: "(u64, u64, unit) block" where
  "tsr_new_genesis = tsr_block 0 0 0 (tsr_metadata 0 0 0)"

definition tsr_qc :: "(u64, u64) block_metadata \<Rightarrow> u64 \<Rightarrow> (u64, u64) quorum_cert" where
  "tsr_qc m b = \<lparr>qc_certified_block = m, qc_block_id = b\<rparr>"

definition sr_test_safety_rules_new :: bool where
  "sr_test_safety_rules_new =
     (let state = ss_safety_state (sr_state (sr_new 0))
     in st_epoch state = 0 \<and> st_last_voted_round state = 0)"

definition sr_test_safe_to_vote_normal_progression :: bool where
  "sr_test_safe_to_vote_normal_progression =
     (is_ok (safe_to_vote (sr_new 0) (tsr_block 0 5 4 (tsr_metadata 0 5 4)) None))"

definition sr_test_safe_to_vote_normal_progression_always_passes :: bool where
  "sr_test_safe_to_vote_normal_progression_always_passes =
     (is_ok (safe_to_vote (sr_new 0) (tsr_block 0 10 5 (tsr_metadata 0 10 5)) None))"

definition sr_test_safe_to_timeout_normal :: bool where
  "sr_test_safe_to_timeout_normal =
     (is_ok (safe_to_timeout (sr_with_state (ss_new 0 0 0 3 0)) 4 3 (None :: unit two_chain_timeout_cert option)))"

definition sr_test_safe_to_timeout_unsafe :: bool where
  "sr_test_safe_to_timeout_unsafe =
     (is_err (safe_to_timeout (sr_with_state (ss_new 0 0 0 5 0)) 4 3 (None :: unit two_chain_timeout_cert option)))"

definition sr_test_record_vote :: bool where
  "sr_test_record_vote =
     (let (r1, sr1) = record_vote (sr_new 0) 5; (r2, sr2) = record_vote sr1 3
     in is_ok r1 \<and> st_last_voted_round (ss_safety_state (sr_state sr1)) = 5 \<and> is_err r2)"

definition sr_test_observe_qc :: bool where
  "sr_test_observe_qc =
     (is_ok (fst (observe_qc (sr_new 0) (tsr_qc (tsr_metadata 0 5 4) 5))))"

definition sr_test_record_timeout :: bool where
  "sr_test_record_timeout =
     (let sr1 = record_timeout (sr_new 0) 10; sr2 = record_timeout sr1 15
     in st_highest_timeout_round (ss_safety_state (sr_state sr1)) = 10 \<and>
     st_highest_timeout_round (ss_safety_state (sr_state sr2)) = 15)"

definition sr_test_safety_rules_with_state :: bool where
  "sr_test_safety_rules_with_state =
     (let state = ss_safety_state (sr_state (sr_with_state (ss_new 5 10 10 8 7)))
     in st_epoch state = 5 \<and> st_last_voted_round state = 10 \<and> st_one_chain_round state = 8)"

definition sr_test_observe_tc :: bool where
  "sr_test_observe_tc =
     (let (r, sr) = observe_tc (sr_new 0) (tc_new 0 10 5 8 (to_new 0 10 5) ()); state = ss_safety_state (sr_state sr)
     in is_ok r \<and> st_highest_timeout_round state = 10 \<and> st_one_chain_round state = 5)"

definition sr_test_should_commit :: bool where
  "sr_test_should_commit =
     (let sr = sr_new 0; sr = sr\<lparr>sr_state := snd (update_one_chain_round (sr_state sr) 5)\<rparr>
     in should_commit sr (tsr_block 0 6 5 (tsr_metadata 0 6 5)) = Some 5)"

definition sr_test_should_commit_no_commit :: bool where
  "sr_test_should_commit_no_commit =
     (should_commit (sr_new 0) (tsr_block 0 1 0 (tsr_metadata 0 1 0)) = Some 0)"

definition sr_test_should_commit_different_round :: bool where
  "sr_test_should_commit_different_round =
     (let sr = sr_new 0; sr = sr\<lparr>sr_state := snd (update_one_chain_round (sr_state sr) 5)\<rparr>
     in should_commit sr (tsr_block 0 7 6 (tsr_metadata 0 7 6)) = None)"

definition sr_test_should_commit_genesis :: bool where
  "sr_test_should_commit_genesis =
     (should_commit (sr_new 0) (tsr_block 0 0 0 (tsr_metadata 0 0 0)) = None)"

definition sr_test_record_vote_error_message :: bool where
  "sr_test_record_vote_error_message =
     (let (r1, sr1) = record_vote (sr_new 0) 10; (r2, sr2) = record_vote sr1 5
     in is_ok r1 \<and> is_err r2 \<and>
     err_msg r2 (\<lambda>m. str_contains m ''Cannot record vote'' \<and> str_contains m ''5'' \<and> str_contains m ''10''))"

definition sr_test_safe_to_vote_with_timeout_cert :: bool where
  "sr_test_safe_to_vote_with_timeout_cert =
     (is_ok (safe_to_vote (sr_new 0) (tsr_block 0 11 10 (tsr_metadata 0 11 10)) (Some (tc_new 0 10 8 5 (to_new 0 10 8) ()))))"

definition sr_test_observe_qc_updates_preferred_round :: bool where
  "sr_test_observe_qc_updates_preferred_round =
     (let (r1, sr1) = observe_qc (sr_new 0) (tsr_qc (tsr_metadata 0 5 4) 5);
     (r2, sr2) = observe_qc sr1 (tsr_qc (tsr_metadata 0 6 5) 6)
     in is_ok r1 \<and> ss_one_chain_round (sr_state sr1) = 5 \<and> is_ok r2 \<and>
     ss_one_chain_round (sr_state sr2) = 6 \<and> ss_preferred_round (sr_state sr2) = 6)"

definition sr_test_safe_to_vote_with_overflow_qc_round :: bool where
  "sr_test_safe_to_vote_with_overflow_qc_round =
     (is_ok (safe_to_vote (sr_new 0) (tsr_block 0 u64_MAX u64_MAX (tsr_metadata 0 u64_MAX u64_MAX)) None))"

definition sr_test_safe_to_timeout_with_tc_overflow :: bool where
  "sr_test_safe_to_timeout_with_tc_overflow =
     (returned (safe_to_timeout (sr_with_state (ss_new 0 0 0 (u64_MAX - 10) 0)) u64_MAX (u64_MAX - 1)
     (Some (tc_new 0 u64_MAX (u64_MAX - 1) (u64_MAX - 2) (to_new 0 u64_MAX (u64_MAX - 1)) ()))))"

definition sr_test_safe_to_timeout_normal_case_with_tc :: bool where
  "sr_test_safe_to_timeout_normal_case_with_tc =
     (is_ok (safe_to_timeout (sr_new 0) 11 9 (Some (tc_new 0 10 9 8 (to_new 0 10 9) ()))))"

definition sr_test_safe_to_timeout_tc_round_progression :: bool where
  "sr_test_safe_to_timeout_tc_round_progression =
     (is_ok (safe_to_timeout (sr_new 0) 11 9 (Some (tc_new 0 10 5 0 (to_new 0 10 5) ()))))"

lemmas two_chain_tests_defs =
  sr_test_safety_rules_new_def sr_test_safe_to_vote_normal_progression_def
  sr_test_safe_to_vote_normal_progression_always_passes_def sr_test_safe_to_timeout_normal_def
  sr_test_safe_to_timeout_unsafe_def sr_test_record_vote_def sr_test_observe_qc_def
  sr_test_record_timeout_def sr_test_safety_rules_with_state_def sr_test_observe_tc_def
  sr_test_should_commit_def sr_test_should_commit_no_commit_def
  sr_test_should_commit_different_round_def sr_test_should_commit_genesis_def
  sr_test_record_vote_error_message_def sr_test_safe_to_vote_with_timeout_cert_def
  sr_test_observe_qc_updates_preferred_round_def sr_test_safe_to_vote_with_overflow_qc_round_def
  sr_test_safe_to_timeout_with_tc_overflow_def sr_test_safe_to_timeout_normal_case_with_tc_def
  sr_test_safe_to_timeout_tc_round_progression_def

lemma two_chain_tests:
  "sr_test_safety_rules_new"
  "sr_test_safe_to_vote_normal_progression"
  "sr_test_safe_to_vote_normal_progression_always_passes"
  "sr_test_safe_to_timeout_normal"
  "sr_test_safe_to_timeout_unsafe"
  "sr_test_record_vote"
  "sr_test_observe_qc"
  "sr_test_record_timeout"
  "sr_test_safety_rules_with_state"
  "sr_test_observe_tc"
  "sr_test_should_commit"
  "sr_test_should_commit_no_commit"
  "sr_test_should_commit_different_round"
  "sr_test_should_commit_genesis"
  "sr_test_record_vote_error_message"
  "sr_test_safe_to_vote_with_timeout_cert"
  "sr_test_observe_qc_updates_preferred_round"
  "sr_test_safe_to_vote_with_overflow_qc_round"
  "sr_test_safe_to_timeout_with_tc_overflow"
  "sr_test_safe_to_timeout_normal_case_with_tc"
  "sr_test_safe_to_timeout_tc_round_progression"
  by (simp_all add: two_chain_tests_defs sr_eval kit_eval show_eval observe_tc_def should_commit_def tsr_block_def tsr_metadata_def tsr_qc_def tsr_new_genesis_def
      tc_new_def to_new_def Let_def checked_add_def saturating_sub_def)

definition sr_test_safe_to_vote_with_tc_overflow :: bool where
  "sr_test_safe_to_vote_with_tc_overflow =
     (returned (safe_to_vote (sr_new 0) (tsr_block 0 u64_MAX (u64_MAX - 1) (tsr_metadata 0 u64_MAX (u64_MAX - 1))) (Some (tc_new 0 u64_MAX (u64_MAX - 1) (u64_MAX - 2) (to_new 0 u64_MAX (u64_MAX - 1)) ()))))"

lemma two_chain_overflow_test:
  "sr_test_safe_to_vote_with_tc_overflow"
  by (simp add: sr_test_safe_to_vote_with_tc_overflow_def safe_to_vote_def safe_to_vote_impl_def next_round_eq
    tsr_block_def tsr_metadata_def tc_new_def returned_def Let_def)+

section \<open>timeout/two\_chain.rs\<close>

definition to_test_timeout_creation :: bool where
  "to_test_timeout_creation =
     (let t = to_new 0 5 4 in to_epoch t = 0 \<and> to_round t = 5 \<and> to_hqc_round t = 4)"

definition to_test_timeout_verify_valid :: bool where
  "to_test_timeout_verify_valid =
     (is_ok (to_verify (to_new 0 5 4)))"

definition to_test_timeout_verify_invalid :: bool where
  "to_test_timeout_verify_invalid =
     (is_err (to_verify (to_new 0 5 5)))"

definition to_test_tc_allows_advance :: bool where
  "to_test_tc_allows_advance =
     (tc_allows_advance (tc_new 0 5 4 0 (to_new 0 5 4) ()))"

definition to_test_tc_effective_hqc_round :: bool where
  "to_test_tc_effective_hqc_round =
     (tc_effective_hqc_round (tc_new 0 10 5 8 (to_new 0 10 5) ()) = 8)"

definition to_test_timeout_default :: bool where
  "to_test_timeout_default =
     (to_epoch to_default = 0 \<and> to_round to_default = 0 \<and> to_hqc_round to_default = 0)"

definition to_test_timeout_verify_error_message :: bool where
  "to_test_timeout_verify_error_message =
     (let r = to_verify (to_new 1 3 5)
     in is_err r \<and> err_msg r (\<lambda>m. str_contains m ''hqc_round'' \<and> str_contains m ''5'' \<and> str_contains m ''3''))"

definition to_test_timeout_partial_eq :: bool where
  "to_test_timeout_partial_eq =
     (to_new 1 5 4 = to_new 1 5 4 \<and> to_new 1 5 4 \<noteq> to_new 1 5 3)"

definition to_test_tc_verify_valid :: bool where
  "to_test_tc_verify_valid =
     (is_ok (tc_verify (tc_new 0 10 5 8 (to_new 0 10 5) ())))"

definition to_test_tc_verify_invalid_hqc_round :: bool where
  "to_test_tc_verify_invalid_hqc_round =
     (let r = tc_verify (tc_new 0 5 5 0 (to_new 0 5 5) ())
     in is_err r \<and> err_msg r (\<lambda>m. str_contains m ''hqc_round'' \<or> str_contains m ''round''))"

definition to_test_tc_verify_invalid_highest_tc_round :: bool where
  "to_test_tc_verify_invalid_highest_tc_round =
     (let r = tc_verify (tc_new 0 5 3 5 (to_new 0 5 3) ())
     in is_err r \<and> err_msg r (\<lambda>m. str_contains m ''Invalid TC'' \<and> str_contains m ''highest_tc_round''))"

definition to_test_tc_allows_advance_with_highest_tc_round :: bool where
  "to_test_tc_allows_advance_with_highest_tc_round =
     (tc_allows_advance (tc_new 0 10 3 9 (to_new 0 10 3) ()))"

definition to_test_tc_does_not_allow_advance :: bool where
  "to_test_tc_does_not_allow_advance =
     (\<not> tc_allows_advance (tc_new 0 10 3 7 (to_new 0 10 3) ()))"

definition to_test_tc_effective_hqc_round_uses_hqc_round :: bool where
  "to_test_tc_effective_hqc_round_uses_hqc_round =
     (tc_effective_hqc_round (tc_new 0 10 8 5 (to_new 0 10 8) ()) = 8)"

definition to_test_tc_timeout_accessor :: bool where
  "to_test_tc_timeout_accessor =
     (let t = to_new 1 10 9; tc = tc_new 1 10 9 0 t ()
     in tc_timeout tc = t \<and> to_round (tc_timeout tc) = 10)"

definition to_test_timeout_trait_impl_timeout_certificate :: bool where
  "to_test_timeout_trait_impl_timeout_certificate =
     (let tc = tc_new 1 10 9 0 (to_new 1 10 9) ()
     in tc_round tc = 10 \<and> tc_epoch tc = 1 \<and> tc_hqc_round tc = 9 \<and> tc_highest_tc_round tc = 0)"

definition to_test_timeout_new_zero_values :: bool where
  "to_test_timeout_new_zero_values =
     (let t = to_new 0 0 0
     in to_epoch t = 0 \<and> to_round t = 0 \<and> to_hqc_round t = 0 \<and> is_err (to_verify t))"

definition to_test_timeout_with_epoch :: bool where
  "to_test_timeout_with_epoch =
     (let t = to_new 10 5 4 in to_epoch t = 10 \<and> is_ok (to_verify t))"

definition to_test_tc_with_nonzero_epoch :: bool where
  "to_test_tc_with_nonzero_epoch =
     (let tc = tc_new 5 10 9 0 (to_new 5 10 9) () in tc_epoch tc = 5 \<and> tc_round tc = 10)"

definition to_test_tc_all_fields_distinct :: bool where
  "to_test_tc_all_fields_distinct =
     (let tc = tc_new 3 20 15 12 (to_new 3 20 15) ()
     in tc_epoch tc = 3 \<and> tc_round tc = 20 \<and> tc_hqc_round tc = 15 \<and> tc_highest_tc_round tc = 12 \<and>
     to_round (tc_timeout tc) = 20)"

definition to_test_timeout_partial_eq_different_epoch :: bool where
  "to_test_timeout_partial_eq_different_epoch =
     (to_new 1 5 4 \<noteq> to_new 2 5 4)"

definition to_test_timeout_partial_eq_different_round :: bool where
  "to_test_timeout_partial_eq_different_round =
     (to_new 1 5 4 \<noteq> to_new 1 6 4)"

definition to_test_timeout_partial_eq_different_hqc_round :: bool where
  "to_test_timeout_partial_eq_different_hqc_round =
     (to_new 1 5 4 \<noteq> to_new 1 5 3)"

definition to_test_tc_verify_both_checks_fail :: bool where
  "to_test_tc_verify_both_checks_fail =
     (is_err (tc_verify (tc_new 0 5 5 5 (to_new 0 5 5) ())))"

definition to_test_tc_effective_hqc_round_equal :: bool where
  "to_test_tc_effective_hqc_round_equal =
     (tc_effective_hqc_round (tc_new 0 10 8 8 (to_new 0 10 8) ()) = 8)"

lemmas timeout_tests_defs =
  to_test_timeout_creation_def to_test_timeout_verify_valid_def
  to_test_timeout_verify_invalid_def to_test_tc_allows_advance_def
  to_test_tc_effective_hqc_round_def to_test_timeout_default_def
  to_test_timeout_verify_error_message_def to_test_timeout_partial_eq_def
  to_test_tc_verify_valid_def to_test_tc_verify_invalid_hqc_round_def
  to_test_tc_verify_invalid_highest_tc_round_def
  to_test_tc_allows_advance_with_highest_tc_round_def to_test_tc_does_not_allow_advance_def
  to_test_tc_effective_hqc_round_uses_hqc_round_def to_test_tc_timeout_accessor_def
  to_test_timeout_trait_impl_timeout_certificate_def to_test_timeout_new_zero_values_def
  to_test_timeout_with_epoch_def to_test_tc_with_nonzero_epoch_def
  to_test_tc_all_fields_distinct_def to_test_timeout_partial_eq_different_epoch_def
  to_test_timeout_partial_eq_different_round_def
  to_test_timeout_partial_eq_different_hqc_round_def to_test_tc_verify_both_checks_fail_def
  to_test_tc_effective_hqc_round_equal_def

lemma timeout_tests:
  "to_test_timeout_creation"
  "to_test_timeout_verify_valid"
  "to_test_timeout_verify_invalid"
  "to_test_tc_allows_advance"
  "to_test_tc_effective_hqc_round"
  "to_test_timeout_default"
  "to_test_timeout_verify_error_message"
  "to_test_timeout_partial_eq"
  "to_test_tc_verify_valid"
  "to_test_tc_verify_invalid_hqc_round"
  "to_test_tc_verify_invalid_highest_tc_round"
  "to_test_tc_allows_advance_with_highest_tc_round"
  "to_test_tc_does_not_allow_advance"
  "to_test_tc_effective_hqc_round_uses_hqc_round"
  "to_test_tc_timeout_accessor"
  "to_test_timeout_trait_impl_timeout_certificate"
  "to_test_timeout_new_zero_values"
  "to_test_timeout_with_epoch"
  "to_test_tc_with_nonzero_epoch"
  "to_test_tc_all_fields_distinct"
  "to_test_timeout_partial_eq_different_epoch"
  "to_test_timeout_partial_eq_different_round"
  "to_test_timeout_partial_eq_different_hqc_round"
  "to_test_tc_verify_both_checks_fail"
  "to_test_tc_effective_hqc_round_equal"
  by (simp_all add: timeout_tests_defs kit_eval show_eval to_new_def to_default_def to_verify_def tc_new_def tc_verify_def tc_allows_advance_def tc_effective_hqc_round_def)

section \<open>recovery.rs\<close>

text \<open>The storage of the tests; \<open>bincode\<close> reads back what it wrote, as the tests rely on.\<close>

abbreviation msto ::
    "(mock_storage, (u8, u8, u8) block, (u8, u8) quorum_cert, u8, SafetyStateData) consensus_storage" where
  "msto \<equiv> mock_consensus_storage Inr"

lemma msto_code: "msto = mock_consensus_storage Inr" ..

definition rec_test_load_safety_rules_no_state :: bool where
  "rec_test_load_safety_rules_no_state =
     (on_ok (load_safety_rules msto ms_new 0) (\<lambda>sr. ss_epoch (sr_state sr) = 0))"

definition rec_test_load_safety_rules_with_state :: bool where
  "rec_test_load_safety_rules_with_state =
     (on_ok (load_safety_rules msto (ms_with_state (ss_new 5 10 10 9 0)) 0)
     (\<lambda>sr. ss_epoch (sr_state sr) = 5 \<and> ss_last_voted_round (sr_state sr) = 10))"

definition rec_test_load_safety_rules_storage_error :: bool where
  "rec_test_load_safety_rules_storage_error =
     (on_err (load_safety_rules msto (ms_with_error ms_new) 0)
     (\<lambda>e. str_contains (recovery_error_fmt e) ''Storage error''))"

definition rec_test_persist_safety_state :: bool where
  "rec_test_persist_safety_state =
     (let (r, storage) = persist_safety_state msto ms_new (ss_new 3 7 7 6 0)
     in is_ok r \<and> on_some (ms_state storage) (\<lambda>s. ss_epoch s = 3))"

definition rec_test_persist_safety_state_error :: bool where
  "rec_test_persist_safety_state_error =
     (on_err (fst (persist_safety_state msto (ms_with_error ms_new) (ss_new 0 0 0 0 0)))
     (\<lambda>e. str_contains (recovery_error_fmt e) ''Storage error''))"

definition rec_test_load_safety_rules_invalid_epoch :: bool where
  "rec_test_load_safety_rules_invalid_epoch =
     (on_err (load_safety_rules msto (ms_with_state (ss_new (u64_MAX - 500) 10 10 9 0)) 0)
     (\<lambda>e. str_contains (recovery_error_fmt e) ''Validation'' \<or> str_contains (recovery_error_fmt e) ''epoch''))"

definition rec_test_load_safety_rules_invariant_violation :: bool where
  "rec_test_load_safety_rules_invariant_violation =
     (on_err (load_safety_rules msto (ms_with_state (ss_new 5 10 8 10 0)) 0) (\<lambda>e. recovery_error_fmt e \<noteq> []))"

definition rec_test_load_safety_rules_preferred_round_too_far :: bool where
  "rec_test_load_safety_rules_preferred_round_too_far =
     (on_err (load_safety_rules msto (ms_with_state (ss_new 5 10 150 9 0)) 0) (\<lambda>e. recovery_error_fmt e \<noteq> []))"

definition rec_test_load_safety_rules_epoch_at_threshold :: bool where
  "rec_test_load_safety_rules_epoch_at_threshold =
     (on_ok (load_safety_rules msto (ms_with_state (ss_new (u64_MAX - 1000) 10 10 9 0)) 0) (\<lambda>sr. ss_epoch (sr_state sr) = u64_MAX - 1000))"

definition rec_test_load_safety_rules_preferred_round_at_threshold :: bool where
  "rec_test_load_safety_rules_preferred_round_at_threshold =
     (is_ok (load_safety_rules msto (ms_with_state (ss_new 5 10 110 9 0)) 0))"

definition rec_test_load_safety_rules_new_state_with_epoch :: bool where
  "rec_test_load_safety_rules_new_state_with_epoch =
     (on_ok (load_safety_rules msto ms_new 5)
     (\<lambda>sr. ss_epoch (sr_state sr) = 5 \<and> ss_last_voted_round (sr_state sr) = 0 \<and> ss_one_chain_round (sr_state sr) = 0))"

definition rec_test_load_safety_rules_with_timeout_round :: bool where
  "rec_test_load_safety_rules_with_timeout_round =
     (on_ok (load_safety_rules msto (ms_with_state (ss_new 5 10 10 9 7)) 0) (\<lambda>sr. ss_highest_timeout_round (sr_state sr) = 7))"

definition rec_test_persist_safety_state_high_rounds :: bool where
  "rec_test_persist_safety_state_high_rounds =
     (let (r, storage) = persist_safety_state msto ms_new (ss_new 1000 10000 10000 9999 5000)
     in is_ok r \<and> on_some (ms_state storage) (\<lambda>s. ss_epoch s = 1000 \<and> ss_last_voted_round s = 10000))"

definition rec_test_recovery_error_no_state_display :: bool where
  "rec_test_recovery_error_no_state_display =
     (recovery_error_fmt NoState = ''No safety state found in storage'')"

definition rec_test_recovery_error_storage_display :: bool where
  "rec_test_recovery_error_storage_display =
     (recovery_error_fmt (Storage ''disk full'') = ''Storage error: disk full'')"

definition rec_test_recovery_error_deserialization_display :: bool where
  "rec_test_recovery_error_deserialization_display =
     (recovery_error_fmt (Deserialization ''invalid json'') = ''Failed to deserialize safety state: invalid json'')"

definition rec_test_recovery_error_validation_display :: bool where
  "rec_test_recovery_error_validation_display =
     (recovery_error_fmt (Validation ''epoch overflow'') = ''Safety state validation failed: epoch overflow'')"

definition rec_test_storage_save_block :: bool where
  "rec_test_storage_save_block =
     (is_ok (fst (cst_save_block msto ms_new (mock_block [] mock_genesis_metadata))))"

definition rec_test_storage_get_block :: bool where
  "rec_test_storage_get_block =
     (cst_get_block msto ms_new 0 = Inr None)"

definition rec_test_storage_save_quorum_cert :: bool where
  "rec_test_storage_save_quorum_cert =
     (is_ok (fst (cst_save_quorum_cert msto ms_new (mock_qc_new 0))))"

definition rec_test_storage_get_quorum_cert :: bool where
  "rec_test_storage_get_quorum_cert =
     (cst_get_quorum_cert msto ms_new 0 = Inr None)"

definition rec_test_storage_prune :: bool where
  "rec_test_storage_prune =
     (is_ok (fst (cst_prune msto ms_new 100)))"

definition rec_test_get_safety_state_with_storage_error :: bool where
  "rec_test_get_safety_state_with_storage_error =
     (on_err (cst_get_safety_state msto (ms_with_error ms_new)) (\<lambda>m. str_contains m ''Storage error''))"

lemmas recovery_tests_defs =
  rec_test_load_safety_rules_no_state_def rec_test_load_safety_rules_with_state_def
  rec_test_load_safety_rules_storage_error_def rec_test_persist_safety_state_def
  rec_test_persist_safety_state_error_def rec_test_load_safety_rules_invalid_epoch_def
  rec_test_load_safety_rules_invariant_violation_def
  rec_test_load_safety_rules_preferred_round_too_far_def
  rec_test_load_safety_rules_epoch_at_threshold_def
  rec_test_load_safety_rules_preferred_round_at_threshold_def
  rec_test_load_safety_rules_new_state_with_epoch_def
  rec_test_load_safety_rules_with_timeout_round_def
  rec_test_persist_safety_state_high_rounds_def rec_test_recovery_error_no_state_display_def
  rec_test_recovery_error_storage_display_def
  rec_test_recovery_error_deserialization_display_def
  rec_test_recovery_error_validation_display_def rec_test_storage_save_block_def
  rec_test_storage_get_block_def rec_test_storage_save_quorum_cert_def
  rec_test_storage_get_quorum_cert_def rec_test_storage_prune_def
  rec_test_get_safety_state_with_storage_error_def

lemma recovery_tests:
  "rec_test_load_safety_rules_no_state"
  "rec_test_load_safety_rules_with_state"
  "rec_test_load_safety_rules_storage_error"
  "rec_test_persist_safety_state"
  "rec_test_persist_safety_state_error"
  "rec_test_load_safety_rules_invalid_epoch"
  "rec_test_load_safety_rules_invariant_violation"
  "rec_test_load_safety_rules_preferred_round_too_far"
  "rec_test_load_safety_rules_epoch_at_threshold"
  "rec_test_load_safety_rules_preferred_round_at_threshold"
  "rec_test_load_safety_rules_new_state_with_epoch"
  "rec_test_load_safety_rules_with_timeout_round"
  "rec_test_persist_safety_state_high_rounds"
  "rec_test_recovery_error_no_state_display"
  "rec_test_recovery_error_storage_display"
  "rec_test_recovery_error_deserialization_display"
  "rec_test_recovery_error_validation_display"
  "rec_test_storage_save_block"
  "rec_test_storage_get_block"
  "rec_test_storage_save_quorum_cert"
  "rec_test_storage_get_quorum_cert"
  "rec_test_storage_prune"
  "rec_test_get_safety_state_with_storage_error"
  by (simp_all add: recovery_tests_defs kit_eval sr_new_def sr_with_state_def ss_new_def load_safety_rules_def persist_safety_state_def validate_safety_state_def
      ms_new_def ms_with_state_def ms_with_error_def mock_save_def mock_get_def mock_consensus_storage_def)

end
