(* ===== verification/Tests_Votes.thy ===== *)
theory Tests_Votes
  imports Test_Eval Codec
begin

text \<open>
  The unit tests of \<open>crypto/signature_aggregator.rs\<close>, \<open>votes/pending_votes.rs\<close> and
  \<open>state/round_state.rs\<close>, on the vote, verifier and block types of those tests.
\<close>

section \<open>signature\_aggregator.rs\<close>

text \<open>A verifier that gives every signer a power of 100; ids and signatures are bytes.\<close>

definition tsa_verifier :: "u128 \<Rightarrow> u128 \<Rightarrow> (u8, unit, u8, unit) validator_verifier" where
  "tsa_verifier total_power quorum_threshold =
     \<lparr>vv_verify_vote = (\<lambda>_. Inr ()), vv_verify_block = (\<lambda>_. Inr ()),
      vv_get_voting_power = (\<lambda>_. Some 100), vv_total_voting_power = total_power,
      vv_quorum_voting_power = quorum_threshold,
      vv_check_voting_power = (\<lambda>signers check_quorum.
        let power = foldl (\<lambda>p _. p + 100) 0 signers
        in if check_quorum \<and> power < quorum_threshold
           then Inl (TooLittleVotingPower power quorum_threshold) else Inr ()),
      vv_aggregate_signatures = (\<lambda>_. Inr ())\<rparr>"

text \<open>A sequence of calls of \<open>add_signature\<close>.\<close>

abbreviation tsa_add :: "(u8, u8) signature_aggregator \<Rightarrow> (u8 \<times> u8 \<times> u64) list \<Rightarrow> (u8, u8) signature_aggregator" where
  "tsa_add \<equiv> foldl (\<lambda>sa (i, s, p). sa_add_signature sa i s p)"

definition sa_test_signature_aggregator_new :: bool where
  "sa_test_signature_aggregator_new =
     (let sa = (sa_new :: (u8, u8) signature_aggregator) in sa_voting_power sa = 0 \<and> sa_signer_count sa = 0 \<and> \<not> sa_has_signed sa 1)"

definition sa_test_signature_aggregator_add_signature :: bool where
  "sa_test_signature_aggregator_add_signature =
     (let sa = tsa_add sa_new [(1, 1, 100)]
     in sa_voting_power sa = 100 \<and> sa_signer_count sa = 1 \<and> sa_has_signed sa 1 \<and> sa_get_signature sa 1 = Some 1)"

definition sa_test_signature_aggregator_duplicate_signer :: bool where
  "sa_test_signature_aggregator_duplicate_signer =
     (let sa = tsa_add sa_new [(1, 1, 100), (1, 2, 100)]
     in sa_voting_power sa = 100 \<and> sa_signer_count sa = 1)"

definition sa_test_signature_aggregator_multiple_signers :: bool where
  "sa_test_signature_aggregator_multiple_signers =
     (let sa = tsa_add sa_new [(1, 1, 100), (2, 2, 150), (3, 3, 200)]
     in sa_voting_power sa = 450 \<and> sa_signer_count sa = 3)"

definition sa_test_signature_aggregator_check_quorum :: bool where
  "sa_test_signature_aggregator_check_quorum =
     (let verifier = tsa_verifier 400 267; sa = tsa_add sa_new [(1, 1, 100), (2, 2, 100)];
     sa' = tsa_add sa [(3, 3, 100)]
     in \<not> is_ok (sa_check_quorum sa verifier) \<and> is_ok (sa_check_quorum sa' verifier))"

definition sa_test_signature_aggregator_clear :: bool where
  "sa_test_signature_aggregator_clear =
     (let sa = sa_clear (tsa_add sa_new [(1, 1, 100), (2, 2, 100)])
     in sa_voting_power sa = 0 \<and> sa_signer_count sa = 0 \<and> \<not> sa_has_signed sa 1)"

definition sa_test_signature_aggregator_aggregate :: bool where
  "sa_test_signature_aggregator_aggregate =
     (let sa = tsa_add sa_new [(1, 1, 100), (2, 2, 100), (3, 3, 100)]
     in is_ok (sa_aggregate sa (tsa_verifier 400 267)))"

definition sa_test_signature_aggregator_default :: bool where
  "sa_test_signature_aggregator_default =
     (let sa = (sa_new :: (u8, u8) signature_aggregator) in sa_voting_power sa = 0 \<and> sa_signer_count sa = 0)"

lemmas signature_aggregator_tests_defs =
  sa_test_signature_aggregator_new_def sa_test_signature_aggregator_add_signature_def
  sa_test_signature_aggregator_duplicate_signer_def
  sa_test_signature_aggregator_multiple_signers_def
  sa_test_signature_aggregator_check_quorum_def sa_test_signature_aggregator_clear_def
  sa_test_signature_aggregator_aggregate_def sa_test_signature_aggregator_default_def

lemma signature_aggregator_tests:
  "sa_test_signature_aggregator_new"
  "sa_test_signature_aggregator_add_signature"
  "sa_test_signature_aggregator_duplicate_signer"
  "sa_test_signature_aggregator_multiple_signers"
  "sa_test_signature_aggregator_check_quorum"
  "sa_test_signature_aggregator_clear"
  "sa_test_signature_aggregator_aggregate"
  "sa_test_signature_aggregator_default"
  by (simp_all add: signature_aggregator_tests_defs sa_eval tsa_verifier_def)

section \<open>pending\_votes.rs\<close>

text \<open>Votes whose block ids and authors are 32-byte arrays, and a verifier with a quorum of 267.\<close>

definition tpv_metadata :: "(array32, array32) block_metadata" where
  "tpv_metadata =
     \<lparr>bm_epoch = 0, bm_round = 0, bm_author = array32_replicate 0, bm_parent_id = array32_replicate 0,
      bm_timestamp = 0\<rparr>"

definition tpv_vote_data :: "(array32, array32) vote_data" where
  "tpv_vote_data = \<lparr>vd_proposed_block = tpv_metadata, vd_parent_block = tpv_metadata\<rparr>"

definition tpv_commit_info :: "array32 commit_info" where
  "tpv_commit_info =
     \<lparr>ci_block_id = array32_replicate 0, ci_round = 0, ci_epoch = 0, ci_version = 0, ci_timestamp = 0\<rparr>"

definition tpv_ledger_info :: "array32 ledger_info" where
  "tpv_ledger_info =
     \<lparr>li_commit_info = tpv_commit_info, li_epoch = 0, li_round = 0, li_accumulated_state = array32_replicate 0\<rparr>"

definition tpv_vote :: "u64 \<Rightarrow> array32 \<Rightarrow> u8 \<Rightarrow> array32 \<Rightarrow> (array32, array32, u8) vote" where
  "tpv_vote r block_id signature author =
     \<lparr>vote_vote_data = tpv_vote_data, vote_author = author, vote_ledger_info = tpv_ledger_info,
      vote_signature = signature, vote_block_id = block_id, vote_round = r\<rparr>"

definition tpv_create_vote :: "u64 \<Rightarrow> u8 \<Rightarrow> u8 \<Rightarrow> (array32, array32, u8) vote" where
  "tpv_create_vote r byte sig_byte =
     tpv_vote r (array32_replicate byte) sig_byte (array32_replicate sig_byte)"

definition tpv_verifier :: "(array32, array32, u8, unit) validator_verifier" where
  "tpv_verifier =
     \<lparr>vv_verify_vote = (\<lambda>_. Inr ()), vv_verify_block = (\<lambda>_. Inr ()),
      vv_get_voting_power = (\<lambda>_. Some 100), vv_total_voting_power = 400, vv_quorum_voting_power = 267,
      vv_check_voting_power = (\<lambda>signers check_quorum.
        let power = foldl (\<lambda>p _. p + 100) 0 signers
        in if check_quorum \<and> power < 267 then Inl (TooLittleVotingPower power 267) else Inr ()),
      vv_aggregate_signatures = (\<lambda>_. Inr ())\<rparr>"

abbreviation tpv_add ::
    "(array32, array32, u8) pending_votes \<Rightarrow> (array32, array32, u8) vote list \<Rightarrow>
     vote_reception_result list \<times> (array32, array32, u8) pending_votes" where
  "tpv_add \<equiv> run_each (\<lambda>pv v. pv_add_vote pv v tpv_verifier)"

definition pv_test_pending_votes_new :: bool where
  "pv_test_pending_votes_new =
     (let pv = (pv_new 10 :: (array32, array32, u8) pending_votes) in pv_current_round pv = 0 \<and> pv_total_votes pv = 0)"

definition pv_test_pending_votes_add_vote :: bool where
  "pv_test_pending_votes_add_vote =
     (let (r, pv) = pv_add_vote (pv_new 10) (tpv_create_vote 0 1 1) tpv_verifier
     in r = Accepted \<and> pv_total_votes pv = 1)"

definition pv_test_pending_votes_duplicate :: bool where
  "pv_test_pending_votes_duplicate =
     (let v = tpv_create_vote 0 1 1; (rs, pv) = tpv_add (pv_new 10) [v, v]
     in rs ! 1 = Rejected VS_Rejected)"

definition pv_test_pending_votes_old_round :: bool where
  "pv_test_pending_votes_old_round =
     (fst (pv_add_vote (pv_set_round (pv_new 10) 5) (tpv_create_vote 3 1 1) tpv_verifier) = OldRound)"

definition pv_test_pending_votes_set_round_cleanup :: bool where
  "pv_test_pending_votes_set_round_cleanup =
     (let (rs, pv) = tpv_add (pv_new 3)
     [tpv_create_vote r b b. r \<leftarrow> [0, 1, 2], b \<leftarrow> [0, 1, 2]]
     in pv_total_votes pv = 9 \<and> pv_vote_count (pv_set_round pv 5) 0 (array32_replicate 0) = 0)"

definition pv_test_pending_votes_vote_count :: bool where
  "pv_test_pending_votes_vote_count =
     (let block_id = array32_replicate 1;
     (rs, pv) = tpv_add (pv_new 10) [tpv_vote 0 block_id i (array32_replicate i). i \<leftarrow> [0, 1, 2]]
     in pv_vote_count pv 0 block_id = 3)"

definition pv_test_aggregated_voting_power :: bool where
  "pv_test_aggregated_voting_power =
     (let (rs, pv) = tpv_add (pv_new 10) [tpv_create_vote 0 1 i. i \<leftarrow> [0, 1, 2]]
     in pv_aggregated_voting_power pv 0 (array32_replicate 1) tpv_verifier = 300)"

definition pv_test_aggregated_voting_power_no_votes :: bool where
  "pv_test_aggregated_voting_power_no_votes =
     (pv_aggregated_voting_power (pv_new 10) 0 (array32_replicate 1) tpv_verifier = 0)"

definition pv_test_can_form_quorum :: bool where
  "pv_test_can_form_quorum =
     (let (rs, pv) = tpv_add (pv_new 10) [tpv_create_vote 0 1 i. i \<leftarrow> [0, 1]];
     (r, pv') = pv_add_vote pv (tpv_create_vote 0 1 2) tpv_verifier; block_id = array32_replicate 1
     in \<not> pv_can_form_quorum pv 0 block_id tpv_verifier \<and> pv_can_form_quorum pv' 0 block_id tpv_verifier)"

definition pv_test_quorum_with_voting_power :: bool where
  "pv_test_quorum_with_voting_power =
     (fst (tpv_add (pv_new 10) [tpv_create_vote 0 1 i. i \<leftarrow> [0, 1, 2]]) =
     [Accepted, Accepted, QuorumCompleted])"

lemmas pending_votes_tests_defs =
  pv_test_pending_votes_new_def pv_test_pending_votes_add_vote_def
  pv_test_pending_votes_duplicate_def pv_test_pending_votes_old_round_def
  pv_test_pending_votes_set_round_cleanup_def pv_test_pending_votes_vote_count_def
  pv_test_aggregated_voting_power_def pv_test_aggregated_voting_power_no_votes_def
  pv_test_can_form_quorum_def pv_test_quorum_with_voting_power_def

lemma pending_votes_tests:
  "pv_test_pending_votes_new"
  "pv_test_pending_votes_add_vote"
  "pv_test_pending_votes_duplicate"
  "pv_test_pending_votes_old_round"
  "pv_test_pending_votes_set_round_cleanup"
  "pv_test_pending_votes_vote_count"
  "pv_test_aggregated_voting_power"
  "pv_test_aggregated_voting_power_no_votes"
  "pv_test_can_form_quorum"
  "pv_test_quorum_with_voting_power"
  by (simp_all add: pending_votes_tests_defs pv_eval tpv_create_vote_def tpv_vote_def tpv_verifier_def)

section \<open>round\_state.rs\<close>

definition trs_metadata :: "(array32, array32) block_metadata" where
  "trs_metadata =
     \<lparr>bm_epoch = 0, bm_round = 0, bm_author = array32_replicate 0, bm_parent_id = array32_replicate 0,
      bm_timestamp = 0\<rparr>"

definition trs_block :: "(array32, array32, unit) block" where
  "trs_block =
     \<lparr>blk_id = array32_replicate 0, blk_metadata = trs_metadata, blk_transactions = [],
      blk_signature = Some (), blk_parent_id = array32_replicate 0, blk_is_genesis = False,
      blk_is_nil = False\<rparr>"

definition trs_qc :: "(array32, array32) quorum_cert" where
  "trs_qc = \<lparr>qc_certified_block = trs_metadata, qc_block_id = array32_replicate 0\<rparr>"

abbreviation trs_new :: "round_state_config \<Rightarrow> (array32, array32, unit) round_state" where
  "trs_new \<equiv> rs_new"

definition rs_test_round_state_initialization :: bool where
  "rs_test_round_state_initialization =
     (let rs = trs_new rsc_default
     in rs_epoch rs = 0 \<and> rs_round rs = 0 \<and> rs_proposed_block rs = None)"

definition rs_test_round_state_advance :: bool where
  "rs_test_round_state_advance =
     (let rs = rs_advance_round (trs_new rsc_default)
     in rs_round rs = 1 \<and> rs_proposed_block rs = None)"

definition rs_test_round_state_set_round :: bool where
  "rs_test_round_state_set_round =
     (let rs = rs_set_proposed_block (trs_new rsc_default) trs_block; rs' = rs_set_round rs 5
     in rs_proposed_block rs \<noteq> None \<and> rs_round rs' = 5 \<and> rs_proposed_block rs' = None)"

definition rs_test_round_state_buffered_round :: bool where
  "rs_test_round_state_buffered_round =
     (let rs = trs_new \<lparr>rsc_initial_epoch = 0, rsc_initial_round = 5, rsc_max_buffered_rounds = 3\<rparr>
     in rs_is_buffered_round rs 6 \<and> rs_is_buffered_round rs 8 \<and> \<not> rs_is_buffered_round rs 9 \<and>
     \<not> rs_is_buffered_round rs 5)"

definition rs_test_round_state_is_current_round :: bool where
  "rs_test_round_state_is_current_round =
     (let rs = trs_new rsc_default
     in rs_is_current_round rs 0 \<and> \<not> rs_is_current_round rs 1 \<and> \<not> rs_is_current_round rs 100)"

definition rs_test_round_state_is_current_epoch :: bool where
  "rs_test_round_state_is_current_epoch =
     (let rs = trs_new rsc_default
     in rs_is_current_epoch rs 0 \<and> \<not> rs_is_current_epoch rs 1 \<and> \<not> rs_is_current_epoch rs 100)"

definition rs_test_round_state_set_epoch :: bool where
  "rs_test_round_state_set_epoch =
     (let rs = trs_new \<lparr>rsc_initial_epoch = 0, rsc_initial_round = 5, rsc_max_buffered_rounds = 3\<rparr>;
     rs = rs_set_quorum_cert (rs_set_proposed_block rs trs_block) trs_qc; rs = rs_set_epoch rs 10
     in rs_epoch rs = 10 \<and> rs_round rs = 5 \<and> rs_proposed_block rs = None \<and> rs_quorum_cert rs = None)"

definition rs_test_round_state_quorum_cert :: bool where
  "rs_test_round_state_quorum_cert =
     (let rs = trs_new rsc_default; rs' = rs_set_quorum_cert rs trs_qc
     in rs_quorum_cert rs = None \<and> rs_quorum_cert rs' \<noteq> None)"

definition rs_test_round_state_set_quorum_cert :: bool where
  "rs_test_round_state_set_quorum_cert =
     (let rs = rs_set_quorum_cert (trs_new rsc_default) trs_qc; rs' = rs_set_quorum_cert rs trs_qc
     in rs_quorum_cert rs \<noteq> None \<and> rs_quorum_cert rs' \<noteq> None)"

definition rs_test_round_state_config_default :: bool where
  "rs_test_round_state_config_default =
     (rsc_initial_epoch rsc_default = 0 \<and> rsc_initial_round rsc_default = 0 \<and>
     rsc_max_buffered_rounds rsc_default = 10)"

definition rs_test_round_state_with_custom_initial_values :: bool where
  "rs_test_round_state_with_custom_initial_values =
     (let rs = trs_new \<lparr>rsc_initial_epoch = 5, rsc_initial_round = 10, rsc_max_buffered_rounds = 3\<rparr>
     in rs_epoch rs = 5 \<and> rs_round rs = 10 \<and> rs_is_current_epoch rs 5 \<and> rs_is_current_round rs 10)"

definition rs_test_round_state_advance_multiple_rounds :: bool where
  "rs_test_round_state_advance_multiple_rounds =
     (let r1 = rs_advance_round (trs_new rsc_default); r2 = rs_advance_round r1; r3 = rs_advance_round r2
     in rs_round r1 = 1 \<and> rs_round r2 = 2 \<and> rs_round r3 = 3)"

definition rs_test_round_state_proposed_block :: bool where
  "rs_test_round_state_proposed_block =
     (let rs = trs_new rsc_default; rs' = rs_set_proposed_block rs trs_block
     in rs_proposed_block rs = None \<and> on_some (rs_proposed_block rs') (\<lambda>b. blk_id b = blk_id trs_block))"

lemmas round_state_tests_defs =
  rs_test_round_state_initialization_def rs_test_round_state_advance_def
  rs_test_round_state_set_round_def rs_test_round_state_buffered_round_def
  rs_test_round_state_is_current_round_def rs_test_round_state_is_current_epoch_def
  rs_test_round_state_set_epoch_def rs_test_round_state_quorum_cert_def
  rs_test_round_state_set_quorum_cert_def rs_test_round_state_config_default_def
  rs_test_round_state_with_custom_initial_values_def
  rs_test_round_state_advance_multiple_rounds_def rs_test_round_state_proposed_block_def

lemma round_state_tests:
  "rs_test_round_state_initialization"
  "rs_test_round_state_advance"
  "rs_test_round_state_set_round"
  "rs_test_round_state_buffered_round"
  "rs_test_round_state_is_current_round"
  "rs_test_round_state_is_current_epoch"
  "rs_test_round_state_set_epoch"
  "rs_test_round_state_quorum_cert"
  "rs_test_round_state_set_quorum_cert"
  "rs_test_round_state_config_default"
  "rs_test_round_state_with_custom_initial_values"
  "rs_test_round_state_advance_multiple_rounds"
  "rs_test_round_state_proposed_block"
  by (simp_all add: round_state_tests_defs rs_new_def rs_set_round_def rs_set_epoch_def rs_set_proposed_block_def rs_set_quorum_cert_def
      rs_advance_round_def rs_is_current_round_def rs_is_current_epoch_def rs_is_buffered_round_def
      rsc_default_def GENESIS_EPOCH_def GENESIS_ROUND_def on_some_def)

end
