(* ===== verification/Tests_Rounds.thy ===== *)
theory Tests_Rounds
  imports Test_Eval
begin

text \<open>
  The unit tests of \<open>round_manager/mod.rs\<close>, on the block, vote and verifier types of those tests.
\<close>

section \<open>Blocks, votes and the verifier of the tests\<close>

definition trm_metadata :: "u64 \<Rightarrow> u64 \<Rightarrow> (u8, u8) block_metadata" where
  "trm_metadata e r =
     \<lparr>bm_epoch = e, bm_round = r, bm_author = 0, bm_parent_id = 0, bm_timestamp = 0\<rparr>"

definition trm_block :: "u64 \<Rightarrow> u64 \<Rightarrow> (u8, u8) block_metadata \<Rightarrow> (u8, u8, u8) block" where
  "trm_block e r m =
     \<lparr>blk_id = 0, blk_metadata = m, blk_transactions = [], blk_signature = Some 0, blk_parent_id = 0,
      blk_is_genesis = (e = 0 \<and> r = 0), blk_is_nil = False\<rparr>"

definition trm_qc :: "(u8, u8) quorum_cert" where
  "trm_qc = \<lparr>qc_certified_block = trm_metadata 0 0, qc_block_id = 0\<rparr>"

definition trm_vote_data :: "(u8, u8) vote_data" where
  "trm_vote_data = \<lparr>vd_proposed_block = trm_metadata 0 0, vd_parent_block = trm_metadata 0 0\<rparr>"

definition trm_ledger_info :: "u64 \<Rightarrow> u64 \<Rightarrow> u8 ledger_info" where
  "trm_ledger_info e r =
     \<lparr>li_commit_info =
        \<lparr>ci_block_id = 0, ci_round = 0, ci_epoch = 0, ci_version = 0, ci_timestamp = 0\<rparr>,
      li_epoch = e, li_round = r, li_accumulated_state = 0\<rparr>"

definition trm_vote :: "u64 \<Rightarrow> u8 \<Rightarrow> u8 \<Rightarrow> u8 ledger_info \<Rightarrow> (u8, u8, u8) vote" where
  "trm_vote r signature author_id li =
     \<lparr>vote_vote_data = trm_vote_data, vote_author = author_id, vote_ledger_info = li,
      vote_signature = signature, vote_block_id = 0, vote_round = r\<rparr>"

definition trm_create_vote_with_sig :: "u64 \<Rightarrow> u64 \<Rightarrow> u8 \<Rightarrow> (u8, u8, u8) vote" where
  "trm_create_vote_with_sig e r sig = trm_vote r sig sig (trm_ledger_info e r)"

definition trm_verifier :: "(u8, u8, u8, unit) validator_verifier" where
  "trm_verifier =
     \<lparr>vv_verify_vote = (\<lambda>_. Inr ()), vv_verify_block = (\<lambda>_. Inr ()),
      vv_get_voting_power = (\<lambda>_. Some 100), vv_total_voting_power = 400, vv_quorum_voting_power = 267,
      vv_check_voting_power = (\<lambda>signers check_quorum.
        let power = foldl (\<lambda>p _. p + 100) 0 signers
        in if check_quorum \<and> power < 267 then Inl (TooLittleVotingPower power 267) else Inr ()),
      vv_aggregate_signatures = (\<lambda>_. Inr ())\<rparr>"

text \<open>What the types compute: signatures and votes always verify, and every certificate is the
  same one.\<close>

definition trm_chain :: "(u8, u8, u8, unit) chain" where
  "trm_chain =
     \<lparr>ch_verify_signature = (\<lambda>_. Inr ()), ch_vote_verify = (\<lambda>_ _. Inr ()),
      ch_from_votes = (\<lambda>_ _. Inr trm_qc)\<rparr>"

definition trm_safety_rules :: two_chain_rules where
  "trm_safety_rules = sr_new 0"

abbreviation trm_new :: "(two_chain_rules, u8, u8, u8) round_manager" where
  "trm_new \<equiv> rm_new rmc_default trm_safety_rules"

abbreviation trm_try_vote ::
    "(two_chain_rules, u8, u8, u8) round_manager \<Rightarrow> (u8, u8, u8) block \<Rightarrow>
     unit res \<times> (two_chain_rules, u8, u8, u8) round_manager" where
  "trm_try_vote rm b \<equiv> try_vote_for_proposal two_chain rm b None"

abbreviation trm_process_vote ::
    "(two_chain_rules, u8, u8, u8) round_manager \<Rightarrow> (u8, u8, u8) vote \<Rightarrow>
     vote_reception_result res \<times> (two_chain_rules, u8, u8, u8) round_manager" where
  "trm_process_vote rm v \<equiv> rm_process_vote trm_chain two_chain rm v trm_verifier"

abbreviation trm_last_voted :: "(two_chain_rules, u8, u8, u8) round_manager \<Rightarrow> u64" where
  "trm_last_voted rm \<equiv> st_last_voted_round (srt_state (two_chain :: (two_chain_rules, u8 two_chain_timeout_cert, u8, u8, u8) safety_rules) (rm_safety_rules rm))"

abbreviation trm_timeout ::
    "(two_chain_rules, u8, u8, u8) round_manager \<Rightarrow> unit res \<times> (two_chain_rules, u8, u8, u8) round_manager" where
  "trm_timeout rm \<equiv> rm_process_timeout two_chain rm NoQuorum"

section \<open>The tests\<close>

definition rm_test_round_manager_new :: bool where
  "rm_test_round_manager_new =
     (rm_round trm_new = 0 \<and> rm_epoch trm_new = 0)"

definition rm_test_round_manager_start_round :: bool where
  "rm_test_round_manager_start_round =
     (let (r, rm) = rm_start_round trm_new 5 in is_ok r \<and> rm_round rm = 5)"

definition rm_test_round_manager_process_timeout :: bool where
  "rm_test_round_manager_process_timeout =
     (let (r, rm) = trm_timeout trm_new in is_ok r \<and> rm_round rm = 1)"

definition rm_test_round_manager_process_proposal :: bool where
  "rm_test_round_manager_process_proposal =
     (fst (rm_process_proposal trm_chain trm_new (trm_block 0 0 (trm_metadata 0 0))) = Inr PP_Accepted)"

definition rm_test_quorum_certificate_formation :: bool where
  "rm_test_quorum_certificate_formation =
     (let (rs, rm) = run_each trm_process_vote trm_new (map (trm_create_vote_with_sig 0 0) [0, 1, 2])
     in rs ! 0 = Inr Accepted \<and> rs ! 1 = Inr Accepted \<and> is_ok (rs ! 2) \<and>
     pv_vote_count (rm_pending_votes rm) 0 0 = 0)"

definition rm_test_no_quorum_with_insufficient_votes :: bool where
  "rm_test_no_quorum_with_insufficient_votes =
     (let (rs, rm) = run_each trm_process_vote trm_new (map (trm_create_vote_with_sig 0 0) [0, 1])
     in list_all is_ok rs \<and> pv_vote_count (rm_pending_votes rm) 0 0 = 2)"

definition rm_test_has_quorum_certificate :: bool where
  "rm_test_has_quorum_certificate =
     (let (rs, rm) = run_each trm_process_vote trm_new (map (trm_create_vote_with_sig 0 0) [0, 1, 2]); (r, rm') = rm_start_round rm 1
     in \<not> has_quorum_certificate trm_new 0 0 \<and> list_all is_ok rs \<and> is_ok r \<and> has_quorum_certificate rm' 0 0)"

definition rm_test_vote_rejection_after_quorum :: bool where
  "rm_test_vote_rejection_after_quorum =
     (let (rs, rm) = run_each trm_process_vote trm_new (map (trm_create_vote_with_sig 0 0) [0, 1, 2]); (r, rm') = trm_timeout rm
     in list_all is_ok rs \<and> is_ok r \<and>
     fst (trm_process_vote rm' (trm_create_vote_with_sig 0 0 3)) = Inr OldRound)"

definition rm_test_integration_full_consensus_flow :: bool where
  "rm_test_integration_full_consensus_flow =
     (let (r0, rm0) = rm_start_round trm_new 0; (r1, rm1) = rm_process_proposal trm_chain rm0 (trm_block 0 0 (trm_metadata 0 0));
     (rs, rm2) = run_each trm_process_vote rm1 (map (trm_create_vote_with_sig 0 0) [0, 1, 2]); (r3, rm3) = trm_timeout rm2
     in is_ok r0 \<and> r1 = Inr PP_Accepted \<and> rs ! 0 = Inr Accepted \<and> rs ! 1 = Inr Accepted \<and> is_ok (rs ! 2) \<and>
     is_ok r3 \<and> rm_round rm3 = 1 \<and> has_quorum_certificate rm3 0 0)"

definition rm_test_try_vote_for_proposal_success :: bool where
  "rm_test_try_vote_for_proposal_success =
     (let (r, rm) = trm_try_vote trm_new (trm_block 0 1 (trm_metadata 0 1))
     in is_ok r \<and> trm_last_voted rm = 1)"

definition rm_test_try_vote_for_proposal_old_round_rejection :: bool where
  "rm_test_try_vote_for_proposal_old_round_rejection =
     (let (r1, rm1) = trm_try_vote trm_new (trm_block 0 1 (trm_metadata 0 1)); (r2, rm2) = trm_try_vote rm1 (trm_block 0 0 (trm_metadata 0 0))
     in is_ok r1 \<and> trm_last_voted rm1 = 1 \<and> is_err r2 \<and>
     err_msg r2 (\<lambda>m. str_contains m ''already voted''))"

definition rm_test_process_vote_epoch_mismatch :: bool where
  "rm_test_process_vote_epoch_mismatch =
     (fst (trm_process_vote trm_new (trm_vote 0 0 0 (trm_ledger_info 5 0))) = Inr (Rejected VS_Rejected))"

definition rm_test_try_vote_for_proposal_with_timeout_cert :: bool where
  "rm_test_try_vote_for_proposal_with_timeout_cert =
     (let (r, rm) = trm_try_vote trm_new (trm_block 0 1 (trm_metadata 0 1))
     in is_ok r \<and> trm_last_voted rm = 1)"

definition rm_test_try_vote_for_proposal_same_round_twice :: bool where
  "rm_test_try_vote_for_proposal_same_round_twice =
     (let (r1, rm1) = trm_try_vote trm_new (trm_block 0 1 (trm_metadata 0 1)); (r2, rm2) = trm_try_vote rm1 (trm_block 0 1 (trm_metadata 0 1))
     in is_ok r1 \<and> trm_last_voted rm1 = 1 \<and> is_ok r2)"

definition rm_test_process_vote_current_epoch_accepted :: bool where
  "rm_test_process_vote_current_epoch_accepted =
     (fst (trm_process_vote trm_new (trm_create_vote_with_sig 0 0 0)) = Inr Accepted)"

definition rm_test_round_manager_config_default :: bool where
  "rm_test_round_manager_config_default =
     (rmc_max_buffered_rounds rmc_default = 10 \<and> rmc_round_timeout_ms rmc_default = 5000 \<and>
     rmc_max_pending_votes rmc_default = 1000)"

definition rm_test_process_proposal_old_round :: bool where
  "rm_test_process_proposal_old_round =
     (fst (rm_process_proposal trm_chain (snd (rm_start_round trm_new 5)) (trm_block 0 3 (trm_metadata 0 3))) = Inr PP_OldRound)"

definition rm_test_process_proposal_future_round :: bool where
  "rm_test_process_proposal_future_round =
     (fst (rm_process_proposal trm_chain trm_new (trm_block 0 10 (trm_metadata 0 10))) = Inr PP_FutureRound)"

lemmas round_manager_tests_defs =
  rm_test_round_manager_new_def rm_test_round_manager_start_round_def
  rm_test_round_manager_process_timeout_def rm_test_round_manager_process_proposal_def
  rm_test_quorum_certificate_formation_def rm_test_no_quorum_with_insufficient_votes_def
  rm_test_has_quorum_certificate_def rm_test_vote_rejection_after_quorum_def
  rm_test_integration_full_consensus_flow_def rm_test_try_vote_for_proposal_success_def
  rm_test_try_vote_for_proposal_old_round_rejection_def rm_test_process_vote_epoch_mismatch_def
  rm_test_try_vote_for_proposal_with_timeout_cert_def
  rm_test_try_vote_for_proposal_same_round_twice_def
  rm_test_process_vote_current_epoch_accepted_def rm_test_round_manager_config_default_def
  rm_test_process_proposal_old_round_def rm_test_process_proposal_future_round_def

lemma round_manager_tests:
  "rm_test_round_manager_new"
  "rm_test_round_manager_start_round"
  "rm_test_round_manager_process_timeout"
  "rm_test_round_manager_process_proposal"
  "rm_test_quorum_certificate_formation"
  "rm_test_no_quorum_with_insufficient_votes"
  "rm_test_has_quorum_certificate"
  "rm_test_vote_rejection_after_quorum"
  "rm_test_integration_full_consensus_flow"
  "rm_test_try_vote_for_proposal_success"
  "rm_test_try_vote_for_proposal_old_round_rejection"
  "rm_test_process_vote_epoch_mismatch"
  "rm_test_try_vote_for_proposal_with_timeout_cert"
  "rm_test_try_vote_for_proposal_same_round_twice"
  "rm_test_process_vote_current_epoch_accepted"
  "rm_test_round_manager_config_default"
  "rm_test_process_proposal_old_round"
  "rm_test_process_proposal_future_round"
  by (simp_all add: round_manager_tests_defs rm_eval kit_eval trm_metadata_def trm_block_def trm_qc_def trm_vote_data_def trm_ledger_info_def
      trm_vote_def trm_create_vote_with_sig_def trm_verifier_def trm_chain_def trm_safety_rules_def)

end
