(* ===== verification/Tests_Liveness.thy ===== *)
theory Tests_Liveness
  imports Test_Kit Pacemaker Proposer Epoch_Manager
begin

text \<open>
  The unit tests of \<open>liveness/pacemaker.rs\<close>, \<open>liveness/proposer.rs\<close>, the trait
  \<open>ProposerElection\<close> and \<open>epoch_manager/mod.rs\<close>, with exact rationals in place of \<open>f64\<close>.
\<close>

section \<open>pacemaker.rs\<close>

lemma rat_u32_max: "(unsigned (- 1 :: u32) :: rat) = 4294967295"
proof -
  have "unat (- 1 :: u32) = 4294967295" by (simp add: unsigned_minus_1_eq_mask mask_eq_exp_minus_1)
  then show ?thesis by (metis of_nat_numeral of_nat_unat)
qed

lemmas pm_eval =
  eis_new_def eis_fixed_def eis_get_round_duration_def rat_f64_def rat_u32_max from_millis_def
  as_millis_u64_def as_u32_def pmc_default_def pmc_new_def pmc_base_duration_def pm_new_def pm_can_enter_round_def
  pm_enter_new_round_def pm_record_ordered_round_def pm_current_round_timeout_def pm_check_timeout_def
  pm_reset_def pmb_new_def pmb_base_duration_ms_def pmb_exponent_base_def pmb_max_exponent_def
  pmb_initial_round_def pmb_build_exponential_def nre_new_def saturating_sub_def Let_def
  on_ok_def is_err_def returned_def

definition tpm_pacemaker :: "(rat exponential_strategy, rat) pacemaker res" where
  "tpm_pacemaker =
     (case eis_fixed rat_f64 (from_millis 100) of
        Inl e \<Rightarrow> Inl e
      | Inr strategy \<Rightarrow>
          Inr (pm_new strategy
            \<lparr>pmc_base_duration_ms = 100, pmc_exponent_base = 2, pmc_max_exponent = 4, pmc_initial_round = 1\<rparr>))"

lemma tpm_pacemaker_eq:
  "tpm_pacemaker =
     Inr \<lparr>pm_interval_strategy = \<lparr>eis_base_ms = 100, eis_exponent_base = 1, eis_max_exponent = 0\<rparr>,
          pm_highest_ordered_round = 0, pm_current_round = 1,
          pm_config = \<lparr>pmc_base_duration_ms = 100, pmc_exponent_base = 2, pmc_max_exponent = 4,
                        pmc_initial_round = 1\<rparr>\<rparr>"
  by (simp add: tpm_pacemaker_def pm_eval)

abbreviation tpm_enter ::
    "(rat exponential_strategy, rat) pacemaker \<Rightarrow> u64 \<Rightarrow>
     new_round_event res \<times> (rat exponential_strategy, rat) pacemaker" where
  "tpm_enter \<equiv> pm_enter_new_round (eis_get_round_duration rat_f64)"

definition pm_test_pacemaker_creation :: bool where
  "pm_test_pacemaker_creation =
     (on_ok tpm_pacemaker (\<lambda>pm. pm_current_round pm = 1 \<and> pm_highest_ordered_round pm = 0))"

definition pm_test_enter_new_round :: bool where
  "pm_test_enter_new_round =
     (on_ok tpm_pacemaker (\<lambda>pm. let (r, pm') = tpm_enter pm 2
     in on_ok r (\<lambda>event. nre_round event = 2 \<and> nre_timeout_duration event = from_millis 100) \<and> pm_current_round pm' = 2))"

definition pm_test_cannot_enter_past_round :: bool where
  "pm_test_cannot_enter_past_round =
     (on_ok tpm_pacemaker (\<lambda>pm. is_err (fst (tpm_enter pm 1))))"

definition pm_test_record_ordered_round :: bool where
  "pm_test_record_ordered_round =
     (on_ok tpm_pacemaker (\<lambda>pm. let (r, pm') = pm_record_ordered_round pm 1 in is_ok r \<and> pm_highest_ordered_round pm' = 1))"

definition pm_test_exponential_interval :: bool where
  "pm_test_exponential_interval =
     (on_ok (eis_new rat_f64 (from_millis 100) 2 4) (\<lambda>s. eis_get_round_duration rat_f64 s 0 = from_millis 100 \<and>
     eis_get_round_duration rat_f64 s 1 = from_millis 200 \<and>
     eis_get_round_duration rat_f64 s 2 = from_millis 400 \<and>
     eis_get_round_duration rat_f64 s 3 = from_millis 800))"

definition pm_test_exponential_interval_capped :: bool where
  "pm_test_exponential_interval_capped =
     (on_ok (eis_new rat_f64 (from_millis 100) 2 2) (\<lambda>s. eis_get_round_duration rat_f64 s 10 = from_millis 400))"

definition pm_test_pacemaker_builder :: bool where
  "pm_test_pacemaker_builder =
     (on_ok (pmb_build_exponential rat_f64 (pmb_initial_round (pmb_max_exponent (pmb_exponent_base (pmb_base_duration_ms (pmb_new rat_f64) 500) 3) 5) 2))
     (\<lambda>pm. pm_current_round pm = 2 \<and> pm_highest_ordered_round pm = 1))"

definition pm_test_pacemaker_config_default :: bool where
  "pm_test_pacemaker_config_default =
     (let c = pmc_default rat_f64
     in pmc_base_duration_ms c = 1000 \<and> pmc_exponent_base c = 2 \<and> pmc_max_exponent c = 8 \<and> pmc_initial_round c = 1)"

definition pm_test_pacemaker_config_new :: bool where
  "pm_test_pacemaker_config_new =
     (let c = pmc_new 2000 (3 :: rat) 10 5
     in pmc_base_duration_ms c = 2000 \<and> pmc_exponent_base c = 3 \<and> pmc_max_exponent c = 10 \<and> pmc_initial_round c = 5)"

definition pm_test_pacemaker_config_base_duration :: bool where
  "pm_test_pacemaker_config_base_duration =
     (pmc_base_duration (pmc_new 5000 (2 :: rat) 8 1) = from_millis 5000)"

definition pm_test_exponential_interval_fixed :: bool where
  "pm_test_exponential_interval_fixed =
     (on_ok (eis_fixed rat_f64 (from_millis 200)) (\<lambda>s. eis_get_round_duration rat_f64 s 0 = from_millis 200 \<and>
     eis_get_round_duration rat_f64 s 100 = from_millis 200))"

definition pm_test_pacemaker_can_enter_round :: bool where
  "pm_test_pacemaker_can_enter_round =
     (on_ok tpm_pacemaker (\<lambda>pm. pm_can_enter_round pm 2 \<and> pm_can_enter_round pm 100 \<and> \<not> pm_can_enter_round pm 1 \<and> \<not> pm_can_enter_round pm 0))"

definition pm_test_record_ordered_round_error :: bool where
  "pm_test_record_ordered_round_error =
     (on_ok tpm_pacemaker (\<lambda>pm. let (r1, pm1) = pm_record_ordered_round pm 5; (r2, pm2) = pm_record_ordered_round pm1 3;
     (r3, pm3) = pm_record_ordered_round pm2 5
     in is_ok r1 \<and> is_err r2 \<and> is_err r3))"

definition pm_test_current_round_timeout :: bool where
  "pm_test_current_round_timeout =
     (on_ok tpm_pacemaker (\<lambda>pm. let (r, pm') = tpm_enter pm 10
     in pm_current_round_timeout (eis_get_round_duration rat_f64) pm = from_millis 100 \<and> is_ok r \<and>
     pm_current_round_timeout (eis_get_round_duration rat_f64) pm' = from_millis 100))"

definition pm_test_check_timeout :: bool where
  "pm_test_check_timeout =
     (on_ok tpm_pacemaker (\<lambda>pm. \<not> pm_check_timeout pm (100 * 1000000000) \<and> \<not> pm_check_timeout pm (from_millis 0)))"

definition pm_test_pacemaker_reset :: bool where
  "pm_test_pacemaker_reset =
     (on_ok tpm_pacemaker (\<lambda>pm. let (r1, pm1) = tpm_enter pm 10; (r2, pm2) = pm_record_ordered_round pm1 5; pm3 = pm_reset pm2 1
     in is_ok r1 \<and> is_ok r2 \<and> pm_current_round pm3 = 1 \<and> pm_highest_ordered_round pm3 = 0))"

definition pm_test_pacemaker_reset_round_zero :: bool where
  "pm_test_pacemaker_reset_round_zero =
     (on_ok tpm_pacemaker (\<lambda>pm. let pm' = pm_reset pm 0 in pm_current_round pm' = 0 \<and> pm_highest_ordered_round pm' = 0))"

definition pm_test_pacemaker_interval_strategy :: bool where
  "pm_test_pacemaker_interval_strategy =
     (on_ok tpm_pacemaker (\<lambda>pm. eis_get_round_duration rat_f64 (pm_interval_strategy pm) 0 = from_millis 100))"

definition pm_test_exponential_interval_assertion_max_exponent :: bool where
  "pm_test_exponential_interval_assertion_max_exponent =
     (\<not> returned (eis_new rat_f64 (from_millis 100) 2 32))"

definition pm_test_new_round_event_new :: bool where
  "pm_test_new_round_event_new =
     (let event = nre_new 5 (NR_Timeout 2) (from_millis 500)
     in nre_round event = 5 \<and> nre_timeout_duration event = from_millis 500)"

definition pm_test_enter_new_round_with_qc_reason :: bool where
  "pm_test_enter_new_round_with_qc_reason =
     (on_ok tpm_pacemaker (\<lambda>pm. let (r, pm1) = pm_record_ordered_round pm 1
     in is_ok r \<and> on_ok (fst (tpm_enter pm1 2)) (\<lambda>event. nre_reason event = NR_QuorumCertificate)))"

definition pm_test_enter_new_round_with_timeout_reason :: bool where
  "pm_test_enter_new_round_with_timeout_reason =
     (on_ok tpm_pacemaker (\<lambda>pm. on_ok (fst (tpm_enter pm 10)) (\<lambda>event. nre_reason event = NR_Timeout 9)))"

definition pm_test_pacemaker_builder_default :: bool where
  "pm_test_pacemaker_builder_default =
     (on_ok (pmb_build_exponential rat_f64 (pmb_new rat_f64))
     (\<lambda>pm. pm_current_round pm = 1 \<and> pm_highest_ordered_round pm = 0))"

definition pm_test_pacemaker_builder_chaining :: bool where
  "pm_test_pacemaker_builder_chaining =
     (on_ok (pmb_build_exponential rat_f64 (pmb_max_exponent (pmb_exponent_base (pmb_base_duration_ms (pmb_new rat_f64) 100) (3 / 2)) 3))
     (\<lambda>pm. pm_current_round pm = 1))"

definition pm_test_exponential_interval_large_multiplier :: bool where
  "pm_test_exponential_interval_large_multiplier =
     (on_ok (eis_new rat_f64 (from_millis 1) 2 10) (\<lambda>s. 0 < eis_get_round_duration rat_f64 s 5 div 1000000))"

definition pm_test_pacemaker_initial_round_zero :: bool where
  "pm_test_pacemaker_initial_round_zero =
     (on_ok (eis_fixed rat_f64 (from_millis 100)) (\<lambda>s.
     let pm = pm_new s (pmc_new 100 (2 :: rat) 4 0) in pm_current_round pm = 0 \<and> pm_highest_ordered_round pm = 0))"

lemmas pacemaker_tests_defs =
  pm_test_pacemaker_creation_def pm_test_enter_new_round_def pm_test_cannot_enter_past_round_def
  pm_test_record_ordered_round_def pm_test_exponential_interval_def
  pm_test_exponential_interval_capped_def pm_test_pacemaker_builder_def
  pm_test_pacemaker_config_default_def pm_test_pacemaker_config_new_def
  pm_test_pacemaker_config_base_duration_def pm_test_exponential_interval_fixed_def
  pm_test_pacemaker_can_enter_round_def pm_test_record_ordered_round_error_def
  pm_test_current_round_timeout_def pm_test_check_timeout_def pm_test_pacemaker_reset_def
  pm_test_pacemaker_reset_round_zero_def pm_test_pacemaker_interval_strategy_def
  pm_test_exponential_interval_assertion_max_exponent_def pm_test_new_round_event_new_def
  pm_test_enter_new_round_with_qc_reason_def pm_test_enter_new_round_with_timeout_reason_def
  pm_test_pacemaker_builder_default_def pm_test_pacemaker_builder_chaining_def
  pm_test_exponential_interval_large_multiplier_def pm_test_pacemaker_initial_round_zero_def

lemma pacemaker_tests:
  "pm_test_pacemaker_creation"
  "pm_test_enter_new_round"
  "pm_test_cannot_enter_past_round"
  "pm_test_record_ordered_round"
  "pm_test_exponential_interval"
  "pm_test_exponential_interval_capped"
  "pm_test_pacemaker_builder"
  "pm_test_pacemaker_config_default"
  "pm_test_pacemaker_config_new"
  "pm_test_pacemaker_config_base_duration"
  "pm_test_exponential_interval_fixed"
  "pm_test_pacemaker_can_enter_round"
  "pm_test_record_ordered_round_error"
  "pm_test_current_round_timeout"
  "pm_test_check_timeout"
  "pm_test_pacemaker_reset"
  "pm_test_pacemaker_reset_round_zero"
  "pm_test_pacemaker_interval_strategy"
  "pm_test_exponential_interval_assertion_max_exponent"
  "pm_test_new_round_event_new"
  "pm_test_enter_new_round_with_qc_reason"
  "pm_test_enter_new_round_with_timeout_reason"
  "pm_test_pacemaker_builder_default"
  "pm_test_pacemaker_builder_chaining"
  "pm_test_exponential_interval_large_multiplier"
  "pm_test_pacemaker_initial_round_zero"
  by (simp_all add: pacemaker_tests_defs tpm_pacemaker_eq pm_eval power_divide)

definition pm_test_new_round_reason_display :: bool where
  "pm_test_new_round_reason_display =
     (new_round_reason_fmt NR_QuorumCertificate = ''QCReady'' \<and>
     new_round_reason_fmt (NR_Timeout 5) = ''Timeout(rounds_since_ordered=5)'')"

lemma pacemaker_display_test:
  "pm_test_new_round_reason_display"
  by code_simp+

section \<open>proposer.rs\<close>

lemmas pe_eval =
  rr_new_def rr_num_validators_def rr_get_validator_def rr_get_valid_proposer_def rr_election_def
  wp_new_def select_weighted_proposer_def wp_get_valid_proposer_def wp_election_def
  rt_new_def rt_update_reputation_def rt_record_success_def rt_record_failure_def rt_get_reputation_def
  rt_reset_def pei_new_def pei_without_reputation_def pei_election_def pec_default_def
  vec_get_def usize_of_nat_def sum_u128_def as_u128_def fl_clamp_def rat_f64_def
  hm_collect_def hm_empty_def hm_get_def hm_insert_def Let_def

abbreviation trr :: "proposer_election_config \<Rightarrow> u8 round_robin_proposer" where
  "trr \<equiv> rr_new [1, 2, 3]"

abbreviation twp :: "proposer_election_config \<Rightarrow> u8 weighted_proposer" where
  "twp \<equiv> wp_new [(1, 30), (2, 70)]"

definition pe_test_round_robin_proposer :: bool where
  "pe_test_round_robin_proposer =
     (rr_get_valid_proposer (trr pec_default) 1 = Inr (Some 1) \<and>
     rr_get_valid_proposer (trr pec_default) 2 = Inr (Some 2) \<and>
     rr_get_valid_proposer (trr pec_default) 3 = Inr (Some 3) \<and>
     rr_get_valid_proposer (trr pec_default) 4 = Inr (Some 1))"

definition pe_test_reputation_tracker :: bool where
  "pe_test_reputation_tracker =
     (let t = rt_new [1, 2, 3 :: u8] (1 / 2); t1 = rt_record_success rat_f64 t 1;
     t2 = rt_record_failure rat_f64 t1 1; t3 = rt_reset t2
     in rt_get_reputation t 1 = 1 / 2 \<and> 1 / 2 < rt_get_reputation t1 1 \<and> rt_get_reputation t2 1 < 6 / 10 \<and>
     rt_get_reputation t3 1 = 1 / 2)"

definition pe_test_proposer_election_config_default :: bool where
  "pe_test_proposer_election_config_default =
     (pec_num_validators pec_default = 4 \<and> pec_initial_round pec_default = 1)"

definition pe_test_round_robin_empty_validators :: bool where
  "pe_test_round_robin_empty_validators =
     (rr_get_valid_proposer (rr_new ([] :: u8 list) pec_default) 1 = Inr None)"

definition pe_test_round_robin_before_initial_round :: bool where
  "pe_test_round_robin_before_initial_round =
     (let e = trr \<lparr>pec_num_validators = 3, pec_initial_round = 5\<rparr>
     in rr_get_valid_proposer e 3 = Inr None \<and> rr_get_valid_proposer e 4 = Inr None \<and>
     rr_get_valid_proposer e 5 = Inr (Some 1))"

definition pe_test_round_robin_num_validators :: bool where
  "pe_test_round_robin_num_validators =
     (rr_num_validators (trr pec_default) = 3)"

definition pe_test_round_robin_get_validator :: bool where
  "pe_test_round_robin_get_validator =
     (rr_get_validator (trr pec_default) 0 = Some 1 \<and>
     rr_get_validator (trr pec_default) 1 = Some 2 \<and>
     rr_get_validator (trr pec_default) 2 = Some 3 \<and>
     rr_get_validator (trr pec_default) 3 = None \<and>
     rr_get_validator (trr pec_default) 100 = None)"

definition pe_test_weighted_proposer_empty_validators :: bool where
  "pe_test_weighted_proposer_empty_validators =
     (wp_get_valid_proposer (wp_new ([] :: (u8 \<times> u64) list) pec_default) 1 = Inr None)"

definition pe_test_weighted_proposer_before_initial_round :: bool where
  "pe_test_weighted_proposer_before_initial_round =
     (let e = twp \<lparr>pec_num_validators = 2, pec_initial_round = 10\<rparr>
     in wp_get_valid_proposer e 5 = Inr None \<and> on_ok (wp_get_valid_proposer e 10) (\<lambda>p. p \<noteq> None))"

definition pe_test_weighted_proposer_participation_ratio :: bool where
  "pe_test_weighted_proposer_participation_ratio =
     (pe_participation_ratio (wp_election rat_f64 (twp pec_default)) 1 = 1 \<and>
     pe_participation_ratio (wp_election rat_f64 (twp pec_default)) 100 = 1)"

definition pe_test_reputation_tracker_unknown_validator :: bool where
  "pe_test_reputation_tracker_unknown_validator =
     (rt_get_reputation (rt_new [1 :: u8] (1 / 2 :: rat)) 99 = 1 / 2)"

definition pe_test_reputation_tracker_new_validator_after_tracking :: bool where
  "pe_test_reputation_tracker_new_validator_after_tracking =
     (let t = rt_record_failure rat_f64 (rt_new [1 :: u8] (1 / 2)) 99; rep = rt_get_reputation t 99;
     t' = rt_record_success rat_f64 t 88; rep2 = rt_get_reputation t' 88
     in rep < 1 / 2 \<and> 0 \<le> rep \<and> 1 / 2 < rep2 \<and> rep2 \<le> 1)"

definition pe_test_proposer_election_impl_new :: bool where
  "pe_test_proposer_election_impl_new =
     (let base = rr_election rat_f64 (rr_new [1, 2 :: u8] pec_default); rep = rt_new [1, 2] (1 / 2)
     in pe_get_valid_proposer (pei_election (pei_new base (Some rep))) 1 = Inr (Some 1))"

definition pe_test_proposer_election_impl_without_reputation :: bool where
  "pe_test_proposer_election_impl_without_reputation =
     (let base = rr_election rat_f64 (rr_new [1, 2 :: u8] pec_default)
     in pe_get_valid_proposer (pei_election (pei_without_reputation base)) 1 = Inr (Some 1))"

definition pe_test_proposer_election_impl_get_valid_proposer :: bool where
  "pe_test_proposer_election_impl_get_valid_proposer =
     (let e = pei_election (pei_without_reputation (rr_election rat_f64 (trr pec_default)))
     in pe_get_valid_proposer e 1 = Inr (Some 1) \<and>
     pe_get_valid_proposer e 2 = Inr (Some 2) \<and>
     pe_get_valid_proposer e 3 = Inr (Some 3) \<and>
     pe_get_valid_proposer e 4 = Inr (Some 1))"

definition pe_test_proposer_election_impl_voting_power_participation :: bool where
  "pe_test_proposer_election_impl_voting_power_participation =
     (pe_participation_ratio (pei_election (pei_without_reputation (wp_election rat_f64 (twp pec_default)))) 1 = 1)"

definition pe_test_weighted_proposer_fallback :: bool where
  "pe_test_weighted_proposer_fallback =
     (let e = wp_new [(1 :: u8, 1)] pec_default
     in wp_get_valid_proposer e 1 = Inr (Some 1) \<and> wp_get_valid_proposer e 1000 = Inr (Some 1))"

definition pe_test_round_robin_large_round :: bool where
  "pe_test_round_robin_large_round =
     (rr_get_valid_proposer (trr pec_default) 1000000 = Inr (Some 1))"

lemmas proposer_tests_defs =
  pe_test_round_robin_proposer_def pe_test_reputation_tracker_def
  pe_test_proposer_election_config_default_def pe_test_round_robin_empty_validators_def
  pe_test_round_robin_before_initial_round_def pe_test_round_robin_num_validators_def
  pe_test_round_robin_get_validator_def pe_test_weighted_proposer_empty_validators_def
  pe_test_weighted_proposer_before_initial_round_def
  pe_test_weighted_proposer_participation_ratio_def
  pe_test_reputation_tracker_unknown_validator_def
  pe_test_reputation_tracker_new_validator_after_tracking_def
  pe_test_proposer_election_impl_new_def pe_test_proposer_election_impl_without_reputation_def
  pe_test_proposer_election_impl_get_valid_proposer_def
  pe_test_proposer_election_impl_voting_power_participation_def
  pe_test_weighted_proposer_fallback_def pe_test_round_robin_large_round_def

lemma proposer_tests:
  "pe_test_round_robin_proposer"
  "pe_test_reputation_tracker"
  "pe_test_proposer_election_config_default"
  "pe_test_round_robin_empty_validators"
  "pe_test_round_robin_before_initial_round"
  "pe_test_round_robin_num_validators"
  "pe_test_round_robin_get_validator"
  "pe_test_weighted_proposer_empty_validators"
  "pe_test_weighted_proposer_before_initial_round"
  "pe_test_weighted_proposer_participation_ratio"
  "pe_test_reputation_tracker_unknown_validator"
  "pe_test_reputation_tracker_new_validator_after_tracking"
  "pe_test_proposer_election_impl_new"
  "pe_test_proposer_election_impl_without_reputation"
  "pe_test_proposer_election_impl_get_valid_proposer"
  "pe_test_proposer_election_impl_voting_power_participation"
  "pe_test_weighted_proposer_fallback"
  "pe_test_round_robin_large_round"
  by (simp_all add: proposer_tests_defs pe_eval on_ok_def)

section \<open>The trait ProposerElection\<close>

definition tpt_election :: "(u8, rat) proposer_election" where
  "tpt_election =
     \<lparr>pe_get_valid_proposer = (\<lambda>r. Inr (if 0 < r then Some 1 else None)),
      pe_participation_ratio = (\<lambda>r. if 0 < r then 1 else 0)\<rparr>"

definition pt_test_is_valid_proposer :: bool where
  "pt_test_is_valid_proposer =
     (pe_is_valid_proposer tpt_election 1 1 = Inr True \<and> pe_is_valid_proposer tpt_election 2 1 = Inr False)"

definition pt_test_proposer_info :: bool where
  "pt_test_proposer_info =
     (on_ok (pe_get_proposer_info tpt_election 1) (\<lambda>info.
     pi_proposer info = Some 1 \<and> pi_participation_ratio info = 1 \<and> pi_has_proposer info \<and> pi_is_healthy rat_f64 info))"

definition pt_test_proposer_info_no_proposer :: bool where
  "pt_test_proposer_info_no_proposer =
     (on_ok (pe_get_proposer_info tpt_election 0) (\<lambda>info.
     pi_proposer info = None \<and> \<not> pi_has_proposer info \<and> \<not> pi_is_healthy rat_f64 info))"

lemmas proposer_trait_tests_defs =
  pt_test_is_valid_proposer_def pt_test_proposer_info_def pt_test_proposer_info_no_proposer_def

lemma proposer_trait_tests:
  "pt_test_is_valid_proposer"
  "pt_test_proposer_info"
  "pt_test_proposer_info_no_proposer"
  by (simp_all add: proposer_trait_tests_defs tpt_election_def pe_is_valid_proposer_def pe_get_proposer_info_def pi_has_proposer_def
      pi_is_healthy_def rat_f64_def on_ok_def)

section \<open>epoch\_manager/mod.rs\<close>

abbreviation tem :: epoch_manager where
  "tem \<equiv> em_new emc_default"

definition em_test_epoch_manager_new :: bool where
  "em_test_epoch_manager_new =
     (em_epoch tem = 0)"

definition em_test_epoch_state_new :: bool where
  "em_test_epoch_state_new =
     (es_epoch (es_new 5 12345) = 5 \<and> es_start_time (es_new 5 12345) = 12345)"

definition em_test_start_new_epoch :: bool where
  "em_test_start_new_epoch =
     (let (r1, em1) = em_start_new_epoch 0 tem 1; (r2, em2) = em_start_new_epoch 0 em1 2
     in is_ok r1 \<and> em_epoch em1 = 1 \<and> is_ok r2 \<and> em_epoch em2 = 2)"

definition em_test_start_new_epoch_rejects_old :: bool where
  "em_test_start_new_epoch_rejects_old =
     (let (r1, em1) = em_start_new_epoch 0 tem 1
     in is_ok r1 \<and> fst (em_start_new_epoch 0 em1 0) = Inl (OldEpoch 1 0))"

definition em_test_start_new_epoch_rejects_skip :: bool where
  "em_test_start_new_epoch_rejects_skip =
     (fst (em_start_new_epoch 0 tem 2) = Inl (SkippedEpoch 0 2))"

definition em_test_force_next_epoch :: bool where
  "em_test_force_next_epoch =
     (let (r1, em1) = em_force_next_epoch 0 tem; (r2, em2) = em_force_next_epoch 0 em1
     in is_ok r1 \<and> em_epoch em1 = 1 \<and> is_ok r2 \<and> em_epoch em2 = 2)"

lemma epoch_manager_tests:
  "em_test_epoch_manager_new"
  "em_test_epoch_state_new"
  "em_test_start_new_epoch"
  "em_test_start_new_epoch_rejects_old"
  "em_test_start_new_epoch_rejects_skip"
  "em_test_force_next_epoch"
  by code_simp+

definition em_test_epoch_transition_error_display :: bool where
  "em_test_epoch_transition_error_display =
     (epoch_transition_error_fmt (OldEpoch 5 3) = ''Cannot transition to epoch 3: already at epoch 5'' \<and>
     epoch_transition_error_fmt (SkippedEpoch 1 3) = ''Cannot skip epochs: current=1, proposed=3'')"

lemma epoch_manager_display_test:
  "em_test_epoch_transition_error_display"
  by code_simp+

end
