(* ===== verification/Tests_Engine.thy ===== *)
theory Tests_Engine
  imports Test_Eval Runtime
begin

text \<open>
  The unit tests of \<open>consensus/mod.rs\<close> and \<open>consensus/runtime.rs\<close>, on the mock blocks and votes and
  on the proposer elections and the verifier of those tests.
\<close>

section \<open>The engine\<close>

definition tcs_election :: "u8 list \<Rightarrow> (u8, rat) proposer_election" where
  "tcs_election validators =
     \<lparr>pe_get_valid_proposer = (\<lambda>r. if validators = [] then Inr None
        else Inr (vec_get validators (r mod usize_of_nat (length validators)))),
      pe_participation_ratio = (\<lambda>_. 1)\<rparr>"

definition tcs_author_ops :: "u8 hash_ops" where
  "tcs_author_ops =
     \<lparr>hash_zero = 0, hash_from_bytes = (\<lambda>bs. Inr (case vec_get bs 0 of Some b \<Rightarrow> b | None \<Rightarrow> 0)),
      hash_as_bytes = (\<lambda>_. [])\<rparr>"

definition make_qc :: "u64 \<Rightarrow> u64 \<Rightarrow> u8 \<Rightarrow> (u8, u8) quorum_cert" where
  "make_qc rnd epoch block_id =
     mock_qc_with_metadata (mock_metadata epoch rnd 0 block_id (rnd * 1000)) block_id"

definition tcs_verifier :: "(u8, u8, u8, unit) validator_verifier" where
  "tcs_verifier =
     \<lparr>vv_verify_vote = (\<lambda>_. Inr ()), vv_verify_block = (\<lambda>_. Inr ()),
      vv_get_voting_power = (\<lambda>_. Some 1), vv_total_voting_power = 100, vv_quorum_voting_power = 67,
      vv_check_voting_power = (\<lambda>_ _. Inr ()), vv_aggregate_signatures = (\<lambda>_. Inr ())\<rparr>"

text \<open>The builder as most tests use it, with and without an own id, and what it returns.\<close>

abbreviation tcs_builder :: "(u8, rat) consensus_builder" where
  "tcs_builder \<equiv> cb_set_proposer_election (cb_new rat_f64) (tcs_election [1, 2])"

abbreviation tcs_build :: "(u8, rat) consensus_builder \<Rightarrow> (u8, u8, u8, u8, rat) consensus res" where
  "tcs_build \<equiv> cb_build rat_f64"

definition tcs_engine :: "(u8, rat) proposer_election \<Rightarrow> u8 option \<Rightarrow> (u8, u8, u8, u8, rat) consensus" where
  "tcs_engine pe i =
     \<lparr>cs_config = cc_default rat_f64, cs_state = Bootstrapping,
      cs_round_manager = rm_new rmc_default (sr_new 0),
      cs_pacemaker = pm_new \<lparr>eis_base_ms = 1000, eis_exponent_base = 2, eis_max_exponent = 8\<rparr>
        (pmc_default rat_f64),
      cs_proposer_election = pe, cs_pipeline = pl_new plc_default,
      cs_epoch_manager = em_new \<lparr>emc_initial_epoch = 0, emc_auto_transition = False\<rparr>,
      cs_self_validator_id = i\<rparr>"

lemma build_eq:
  "tcs_build (cb_set_proposer_election (cb_new rat_f64) pe) = Inr (tcs_engine pe None)"
  "tcs_build (cb_set_self_validator_id (cb_set_proposer_election (cb_new rat_f64) pe) i) =
     Inr (tcs_engine pe (Some i))"
  by (simp_all add: cb_build_def cb_new_def cb_set_proposer_election_def cb_set_self_validator_id_def
      cs_new_def cc_default_def eis_new_default tcs_engine_def Let_def)

lemmas cs_eval =
  cs_start_def cs_stop_def cs_round_def cs_epoch_def cs_get_highest_quorum_cert_def
  cs_process_proposal_def cs_process_vote_def cs_process_qc_def cs_process_timeout_def
  cs_generate_proposal_def not_running_def tcs_engine_def rm_new_def rm_round_def rs_new_def
  rsc_default_def rmc_default_def GENESIS_EPOCH_def GENESIS_ROUND_def em_epoch_def em_new_def es_new_def
  pe_get_proposer_info_def tcs_election_def vec_get_def usize_of_nat_def saturating_sub_def
  pm_new_def pmc_default_def pm_enter_new_round_def pm_can_enter_round_def pm_record_ordered_round_def Let_def

definition cs_test_consensus_state_display :: bool where
  "cs_test_consensus_state_display =
     (consensus_state_fmt Running = ''running'' \<and> consensus_state_fmt Stopped = ''stopped'')"

definition cs_test_consensus_config_default :: bool where
  "cs_test_consensus_config_default =
     (cc_initial_round (cc_default rat_f64) = 1 \<and> cc_initial_epoch (cc_default rat_f64) = 0)"

definition cs_test_consensus_builder :: bool where
  "cs_test_consensus_builder =
     (on_ok (tcs_build tcs_builder) (\<lambda>c. cs_state c = Bootstrapping))"

definition cs_test_consensus_start_stop :: bool where
  "cs_test_consensus_start_stop =
     (on_ok (tcs_build tcs_builder) (\<lambda>c. let (r1, c1) = cs_start c; (r2, c2) = cs_stop c1
     in is_ok r1 \<and> cs_state c1 = Running \<and> is_ok r2 \<and> cs_state c2 = Stopped))"

definition cs_test_consensus_start_twice_fails :: bool where
  "cs_test_consensus_start_twice_fails =
     (on_ok (tcs_build tcs_builder) (\<lambda>c. let (r1, c1) = cs_start c; (r2, c2) = cs_start c1
     in is_ok r1 \<and> is_err r2))"

definition cs_test_consensus_getters :: bool where
  "cs_test_consensus_getters =
     (on_ok (tcs_build tcs_builder) (\<lambda>c. cs_epoch c = 0 \<and> cs_round c = 0))"

definition cs_test_consensus_get_highest_quorum_cert_none :: bool where
  "cs_test_consensus_get_highest_quorum_cert_none =
     (on_ok (tcs_build tcs_builder) (\<lambda>c. cs_get_highest_quorum_cert c = None))"

definition cs_test_process_proposal_not_running :: bool where
  "cs_test_process_proposal_not_running =
     (on_ok (tcs_build tcs_builder) (\<lambda>c. on_ok (fst (cs_process_proposal mock_chain c mock_block_genesis)) (\<lambda>result.
     \<not> pres_accepted result \<and> on_some (pres_reason result) (\<lambda>m. str_contains m ''Not in running state''))))"

definition cs_test_stop_when_not_running :: bool where
  "cs_test_stop_when_not_running =
     (on_ok (tcs_build tcs_builder) (\<lambda>c. err_msg (fst (cs_stop c)) (\<lambda>m. str_contains m ''Cannot stop consensus'')))"

definition cs_test_start_when_running_fails :: bool where
  "cs_test_start_when_running_fails =
     (on_ok (tcs_build tcs_builder) (\<lambda>c. let (r1, c1) = cs_start c
     in is_ok r1 \<and> err_msg (fst (cs_start c1)) (\<lambda>m. str_contains m ''Cannot start consensus'')))"

definition cs_test_process_vote_not_running :: bool where
  "cs_test_process_vote_not_running =
     (on_ok (tcs_build (cb_set_self_validator_id tcs_builder 1)) (\<lambda>c. err_msg (fst (cs_process_vote mock_chain c (mock_vote 1 2 5) tcs_verifier))
     (\<lambda>m. str_contains m ''Not in running state'')))"

definition cs_test_process_qc_not_running :: bool where
  "cs_test_process_qc_not_running =
     (on_ok (tcs_build tcs_builder) (\<lambda>c. err_msg (fst (cs_process_qc c (make_qc 0 1 0)))
     (\<lambda>m. str_contains m ''Not in running state'')))"

definition cs_test_process_timeout_not_running :: bool where
  "cs_test_process_timeout_not_running =
     (on_ok (tcs_build tcs_builder) (\<lambda>c. err_msg (fst (cs_process_timeout rat_f64 c 5))
     (\<lambda>m. str_contains m ''Not in running state'')))"

definition cs_test_generate_proposal_not_running :: bool where
  "cs_test_generate_proposal_not_running =
     (on_ok (tcs_build (cb_set_self_validator_id tcs_builder 1)) (\<lambda>c. err_msg (cs_generate_proposal c)
     (\<lambda>m. str_contains m ''Not in running state'')))"

definition cs_test_generate_proposal_not_proposer :: bool where
  "cs_test_generate_proposal_not_proposer =
     (on_ok (tcs_build (cb_set_self_validator_id tcs_builder 1)) (\<lambda>c. let (r, c1) = cs_start c
     in is_ok r \<and> on_ok (cs_generate_proposal c1) (\<lambda>p. p = None)))"

definition cs_test_generate_proposal_no_parent_qc :: bool where
  "cs_test_generate_proposal_no_parent_qc =
     (on_ok (tcs_build (cb_set_self_validator_id tcs_builder 1)) (\<lambda>c. let (r, c1) = cs_start c
     in is_ok r \<and> on_ok (cs_generate_proposal c1) (\<lambda>p. p = None)))"

definition cs_test_process_qc_running :: bool where
  "cs_test_process_qc_running =
     (on_ok (tcs_build tcs_builder) (\<lambda>c. let (r, c1) = cs_start c
     in is_ok r \<and> returned (fst (cs_process_qc c1 (make_qc 1 1 0)))))"

definition cs_test_process_timeout_running :: bool where
  "cs_test_process_timeout_running =
     (on_ok (tcs_build tcs_builder) (\<lambda>c. let (r, c1) = cs_start c
     in is_ok r \<and> is_ok (fst (cs_process_timeout rat_f64 c1 5))))"

definition cs_test_consensus_state_display_all :: bool where
  "cs_test_consensus_state_display_all =
     (map consensus_state_fmt [Bootstrapping, Running, CatchingUp, Stopping, Stopped] =
     [''bootstrapping'', ''running'', ''catching_up'', ''stopping'', ''stopped''])"

definition cs_test_consensus_builder_with_validator_id :: bool where
  "cs_test_consensus_builder_with_validator_id =
     (on_ok (tcs_build (cb_set_self_validator_id tcs_builder 1)) (\<lambda>c. let (r, c1) = cs_start c
     in is_ok r \<and> returned (cs_generate_proposal c1)))"

definition cs_test_stop_from_catching_up :: bool where
  "cs_test_stop_from_catching_up =
     (on_ok (tcs_build tcs_builder) (\<lambda>c. let (r, c1) = cs_stop (c\<lparr>cs_state := CatchingUp\<rparr>)
     in is_ok r \<and> cs_state c1 = Stopped))"

definition cs_test_consensus_config_new :: bool where
  "cs_test_consensus_config_new =
     (let config = cc_new 5 2 (pmc_default rat_f64) rmc_default plc_default
     in cc_initial_round config = 5 \<and> cc_initial_epoch config = 2 \<and> cc_max_rounds_per_epoch config = 1000)"

lemmas consensus_tests_defs =
  cs_test_consensus_state_display_def cs_test_consensus_config_default_def
  cs_test_consensus_builder_def cs_test_consensus_start_stop_def
  cs_test_consensus_start_twice_fails_def cs_test_consensus_getters_def
  cs_test_consensus_get_highest_quorum_cert_none_def cs_test_process_proposal_not_running_def
  cs_test_stop_when_not_running_def cs_test_start_when_running_fails_def
  cs_test_process_vote_not_running_def cs_test_process_qc_not_running_def
  cs_test_process_timeout_not_running_def cs_test_generate_proposal_not_running_def
  cs_test_generate_proposal_not_proposer_def cs_test_generate_proposal_no_parent_qc_def
  cs_test_process_qc_running_def cs_test_process_timeout_running_def
  cs_test_consensus_state_display_all_def cs_test_consensus_builder_with_validator_id_def
  cs_test_stop_from_catching_up_def cs_test_consensus_config_new_def

lemma consensus_tests:
  "cs_test_consensus_state_display"
  "cs_test_consensus_config_default"
  "cs_test_consensus_builder"
  "cs_test_consensus_start_stop"
  "cs_test_consensus_start_twice_fails"
  "cs_test_consensus_getters"
  "cs_test_consensus_get_highest_quorum_cert_none"
  "cs_test_process_proposal_not_running"
  "cs_test_stop_when_not_running"
  "cs_test_start_when_running_fails"
  "cs_test_process_vote_not_running"
  "cs_test_process_qc_not_running"
  "cs_test_process_timeout_not_running"
  "cs_test_generate_proposal_not_running"
  "cs_test_generate_proposal_not_proposer"
  "cs_test_generate_proposal_no_parent_qc"
  "cs_test_process_qc_running"
  "cs_test_process_timeout_running"
  "cs_test_consensus_state_display_all"
  "cs_test_consensus_builder_with_validator_id"
  "cs_test_stop_from_catching_up"
  "cs_test_consensus_config_new"
  by (simp_all add: consensus_tests_defs build_eq cs_eval kit_eval cc_default_def cc_new_def)

definition cs_test_consensus_builder_missing_proposer :: bool where
  "cs_test_consensus_builder_missing_proposer =
     (err_msg (tcs_build (cb_new rat_f64)) (\<lambda>m. str_contains m ''Proposer election strategy required''))"

definition cs_test_consensus_builder_with_config :: bool where
  "cs_test_consensus_builder_with_config =
     (on_ok (tcs_build (cb_set_proposer_election (cb_set_config (cb_new rat_f64)
     ((cc_default rat_f64)\<lparr>cc_initial_round := 10, cc_initial_epoch := 5\<rparr>)) (tcs_election [1, 2]))) (\<lambda>c. cs_epoch c = 5))"

lemmas consensus_config_test_defs =
  cs_test_consensus_builder_missing_proposer_def cs_test_consensus_builder_with_config_def

lemma consensus_config_test:
  "cs_test_consensus_builder_missing_proposer"
  "cs_test_consensus_builder_with_config"
  by (simp_all add: consensus_config_test_defs cb_build_def cb_new_def cb_set_config_def
      cb_set_proposer_election_def cs_new_def cc_default_def eis_new_default kit_eval cs_epoch_def em_epoch_def em_new_def es_new_def Let_def)

section \<open>The runtime\<close>

definition trt_election :: "(u8, rat) proposer_election" where
  "trt_election = \<lparr>pe_get_valid_proposer = (\<lambda>_. Inr (Some 1)), pe_participation_ratio = (\<lambda>_. 1)\<rparr>"

definition crt_test_runtime_config_default :: bool where
  "crt_test_runtime_config_default =
     (rtc_process_interval_ms rtc_default = 100 \<and> rtc_max_concurrent_tasks rtc_default = 10)"

definition crt_test_runtime_config_new :: bool where
  "crt_test_runtime_config_new =
     (let config = rtc_new 50 5 2000 2048
     in rtc_process_interval_ms config = 50 \<and> rtc_max_concurrent_tasks config = 5 \<and>
     rtc_network_timeout_ms config = 2000 \<and> rtc_network_buffer_size config = 2048)"

definition crt_test_execution_result :: bool where
  "crt_test_execution_result =
     (er_is_success er_success \<and> \<not> er_is_success (er_failed ''test error'') \<and>
     \<not> er_is_success er_timeout \<and> \<not> er_is_success (er_skipped ''test skip''))"

definition crt_test_network_message_display :: bool where
  "crt_test_network_message_display =
     (str_contains (network_message_fmt (NM_Proposal mock_block_genesis)) ''Proposal'')"

definition crt_test_runtime_new :: bool where
  "crt_test_runtime_new =
     (on_ok (tcs_build (cb_set_proposer_election (cb_new rat_f64) trt_election)) (\<lambda>c. let rt = crt_new c rtc_default
     in \<not> crt_is_running rt \<and> crt_pending_message_count rt = 0))"

definition crt_test_runtime_add_message :: bool where
  "crt_test_runtime_add_message =
     (on_ok (tcs_build (cb_set_proposer_election (cb_new rat_f64) trt_election)) (\<lambda>c.
     crt_pending_message_count (crt_add_network_message (crt_new c rtc_default) (NM_Proposal mock_block_genesis)) = 1))"

definition crt_test_runtime_start_stop :: bool where
  "crt_test_runtime_start_stop =
     (on_ok (tcs_build (cb_set_proposer_election (cb_new rat_f64) trt_election)) (\<lambda>c. let (r1, rt1) = crt_start (crt_new c rtc_default); (r2, rt2) = crt_shutdown rt1
     in is_ok r1 \<and> crt_is_running rt1 \<and> is_ok r2 \<and> \<not> crt_is_running rt2))"

definition crt_test_runtime_getters :: bool where
  "crt_test_runtime_getters =
     (on_ok (tcs_build (cb_set_proposer_election (cb_new rat_f64) trt_election)) (\<lambda>c. let rt = crt_new c rtc_default
     in crt_epoch rt = 0 \<and> crt_round rt = 0 \<and> crt_active_task_count rt = 0))"

lemmas runtime_tests_defs =
  crt_test_runtime_config_default_def crt_test_runtime_config_new_def
  crt_test_execution_result_def crt_test_network_message_display_def crt_test_runtime_new_def
  crt_test_runtime_add_message_def crt_test_runtime_start_stop_def crt_test_runtime_getters_def

lemma runtime_tests:
  "crt_test_runtime_config_default"
  "crt_test_runtime_config_new"
  "crt_test_execution_result"
  "crt_test_network_message_display"
  "crt_test_runtime_new"
  "crt_test_runtime_add_message"
  "crt_test_runtime_start_stop"
  "crt_test_runtime_getters"
  by (simp_all add: runtime_tests_defs build_eq cs_eval kit_eval er_success_def er_failed_def er_timeout_def er_skipped_def rtc_default_def
      rtc_new_def crt_new_def crt_add_network_message_def crt_pending_message_count_def crt_start_def crt_shutdown_def
      crt_epoch_def crt_round_def crt_active_task_count_def)

end
