(* ===== verification/Tests_Services.thy ===== *)
theory Tests_Services
  imports Test_Eval Proposal State_Sync Reconfig Network
begin

text \<open>
  The unit tests of \<open>pipeline/mod.rs\<close>, \<open>proposal/generator.rs\<close>, \<open>consensus/state_sync.rs\<close>,
  \<open>consensus/reconfig.rs\<close> and \<open>network/mod.rs\<close>.
\<close>

section \<open>The pipeline\<close>

definition pl_test_stage_ordering :: bool where
  "pl_test_stage_ordering =
     (stage_next Receiving = Some Validation \<and> stage_next Validation = Some Processing \<and>
     stage_next Processing = Some Commit_stage \<and> stage_next Commit_stage = None)"

definition pl_test_stage_display :: bool where
  "pl_test_stage_display =
     (stage_fmt Validation = ''validation'')"

definition pl_test_stage_result :: bool where
  "pl_test_stage_result =
     (should_continue sres_continue_to_next \<and> \<not> should_continue (sres_stop ''test'') \<and>
     \<not> should_continue (sres_skip ''test''))"

definition pl_test_pipeline_config :: bool where
  "pl_test_pipeline_config =
     (plc_stage_timeout_ms plc_default = 5000 \<and> plc_max_concurrent plc_default = 10 \<and>
     plc_validate_immediately plc_default)"

definition pl_test_pipeline :: bool where
  "pl_test_pipeline =
     (let (r, pl) = pl_process_block (pl_new plc_default) mock_block_genesis
     in on_ok r pl_is_completed \<and> ps_total_processed (pl_stats pl) = 4 \<and> ps_stage_counts (pl_stats pl) ! 0 = 1)"

definition pl_test_pipeline_builder :: bool where
  "pl_test_pipeline_builder =
     (let config = pl_config (plb_build (plb_parallel_processing (plb_validate_immediately
     (plb_max_concurrent (plb_stage_timeout_ms plb_new 1000) 5) False) True))
     in plc_stage_timeout_ms config = 1000 \<and> plc_max_concurrent config = 5 \<and>
     \<not> plc_validate_immediately config \<and> plc_parallel_processing config)"

definition pl_test_pipeline_reset :: bool where
  "pl_test_pipeline_reset =
     (pl_current_stage (pl_reset ((pl_new plc_default)\<lparr>pl_current_stage := Commit_stage\<rparr>)) = Receiving)"

definition pl_test_stage_name :: bool where
  "pl_test_stage_name =
     (map stage_name [Receiving, Validation, Processing, Commit_stage] =
     [''receiving'', ''validation'', ''processing'', ''commit''])"

definition pl_test_pipeline_config_stage_timeout :: bool where
  "pl_test_pipeline_config_stage_timeout =
     (as_millis_u64 (plc_stage_timeout plc_default) = 5000)"

definition pl_test_pipeline_result_constructors :: bool where
  "pl_test_pipeline_result_constructors =
     (pl_is_completed PL_Completed \<and> pl_final_stage PL_Completed = None \<and>
     (let stopped = PL_Stopped Validation ''invalid'' in \<not> pl_is_completed stopped \<and> pl_final_stage stopped = Some Validation) \<and>
     (let skipped = PL_Skipped Processing ''old'' in \<not> pl_is_completed skipped \<and> pl_final_stage skipped = Some Processing))"

definition pl_test_process_vote :: bool where
  "pl_test_process_vote =
     (on_ok (fst (pl_process_vote (pl_new plc_default) (mock_vote 0 0 0))) pl_is_completed)"

definition pl_test_process_qc :: bool where
  "pl_test_process_qc =
     (on_ok (fst (pl_process_qc (pl_new plc_default))) pl_is_completed)"

definition pl_test_process_all_stages :: bool where
  "pl_test_process_all_stages =
     (let (r, pl) = pl_process_block (pl_new plc_default) mock_block_genesis
     in on_ok r pl_is_completed \<and> ps_stage_counts (pl_stats pl) = [1, 1, 1, 1])"

definition pl_test_pipeline_builder_default :: bool where
  "pl_test_pipeline_builder_default =
     (let config = pl_config (plb_build plb_default)
     in plc_stage_timeout_ms config = 5000 \<and> plc_max_concurrent config = 10)"

definition pl_test_pipeline_builder_all_methods :: bool where
  "pl_test_pipeline_builder_all_methods =
     (let config = pl_config (plb_build (plb_parallel_processing (plb_validate_immediately
     (plb_max_concurrent (plb_stage_timeout_ms plb_new 2000) 5) False) True))
     in plc_stage_timeout_ms config = 2000 \<and> plc_max_concurrent config = 5 \<and>
     \<not> plc_validate_immediately config \<and> plc_parallel_processing config)"

definition pl_test_pipeline_current_stage_accessor :: bool where
  "pl_test_pipeline_current_stage_accessor =
     (pl_current_stage (pl_new plc_default) = Receiving)"

definition pl_test_pipeline_stats_accessor :: bool where
  "pl_test_pipeline_stats_accessor =
     (let stats = pl_stats (pl_new plc_default)
     in ps_total_processed stats = 0 \<and> ps_failed stats = 0 \<and> ps_skipped stats = 0)"

lemmas pipeline_tests_defs =
  pl_test_stage_ordering_def pl_test_stage_display_def pl_test_stage_result_def
  pl_test_pipeline_config_def pl_test_pipeline_def pl_test_pipeline_builder_def
  pl_test_pipeline_reset_def pl_test_stage_name_def pl_test_pipeline_config_stage_timeout_def
  pl_test_pipeline_result_constructors_def pl_test_process_vote_def pl_test_process_qc_def
  pl_test_process_all_stages_def pl_test_pipeline_builder_default_def
  pl_test_pipeline_builder_all_methods_def pl_test_pipeline_current_stage_accessor_def
  pl_test_pipeline_stats_accessor_def

lemma pipeline_tests:
  "pl_test_stage_ordering"
  "pl_test_stage_display"
  "pl_test_stage_result"
  "pl_test_pipeline_config"
  "pl_test_pipeline"
  "pl_test_pipeline_builder"
  "pl_test_pipeline_reset"
  "pl_test_stage_name"
  "pl_test_pipeline_config_stage_timeout"
  "pl_test_pipeline_result_constructors"
  "pl_test_process_vote"
  "pl_test_process_qc"
  "pl_test_process_all_stages"
  "pl_test_pipeline_builder_default"
  "pl_test_pipeline_builder_all_methods"
  "pl_test_pipeline_current_stage_accessor"
  "pl_test_pipeline_stats_accessor"
  by (simp_all add: pipeline_tests_defs kit_eval stage_fmt_def sres_continue_to_next_def sres_stop_def sres_skip_def plc_default_def plc_stage_timeout_def
      from_millis_def as_millis_u64_def ps_default_def pl_new_def pl_reset_def pl_process_block_def pl_loop.simps ps_count_def
      process_vote_at_stage_def pl_process_vote_def pl_process_qc_def plb_new_def plb_default_def plb_stage_timeout_ms_def
      plb_max_concurrent_def plb_validate_immediately_def plb_parallel_processing_def plb_build_def Let_def)

section \<open>The proposal generator\<close>

definition tpg_hash_ops :: "u8 hash_ops" where
  "tpg_hash_ops =
     \<lparr>hash_zero = 0,
      hash_from_bytes = (\<lambda>bs. case bs of [] \<Rightarrow> Inl (Msg ''Empty bytes'') | b # _ \<Rightarrow> Inr b),
      hash_as_bytes = (\<lambda>_. [])\<rparr>"

definition tpg_node_id_ops :: "u8 node_id_ops" where
  "tpg_node_id_ops = \<lparr>nid_from_bytes = (\<lambda>_. Inr 0), nid_as_bytes = (\<lambda>_. [])\<rparr>"

definition tpg_metadata :: "u64 \<Rightarrow> u64 \<Rightarrow> u8 \<Rightarrow> u8 \<Rightarrow> u64 \<Rightarrow> (u8, u8) block_metadata" where
  "tpg_metadata e r a p ts =
     \<lparr>bm_epoch = e, bm_round = r, bm_author = a, bm_parent_id = p, bm_timestamp = ts\<rparr>"

definition tpg_block :: "u8 transaction list \<Rightarrow> (u8, u8) block_metadata \<Rightarrow> (u8, u8, unit) block" where
  "tpg_block txns m =
     \<lparr>blk_id = xor (ucast (bm_round m)) (bm_author m), blk_metadata = m, blk_transactions = txns,
      blk_signature = None, blk_parent_id = bm_parent_id m, blk_is_genesis = False, blk_is_nil = False\<rparr>"

definition tpg_qc_new :: "(u8, u8) quorum_cert" where
  "tpg_qc_new = \<lparr>qc_certified_block = tpg_metadata 0 0 0 0 0, qc_block_id = 0\<rparr>"

definition tpg_transaction :: "u8 transaction" where
  "tpg_transaction = \<lparr>tx_hash = 0, tx_size = 100\<rparr>"

definition pg_test_proposal_generator_new :: bool where
  "pg_test_proposal_generator_new =
     (let generator = pg_new prc_default (1 :: u8)
     in pg_config generator = prc_default \<and> pg_author_id generator = 1)"

definition pg_test_proposal_generator_generate_proposal :: bool where
  "pg_test_proposal_generator_generate_proposal =
     (\<forall>now. on_ok (pg_generate_proposal now (pg_new prc_default 1) tpg_qc_new 5 2 [tpg_transaction, tpg_transaction]
     (\<lambda>gen r e parent_id timestamp txns. tpg_block txns (tpg_metadata e r (pg_author_id gen) parent_id timestamp)))
     (\<lambda>proposal. bm_epoch (blk_metadata proposal) = 2 \<and> bm_round (blk_metadata proposal) = 5 \<and>
     bm_author (blk_metadata proposal) = 1 \<and> length (blk_transactions proposal) = 2))"

definition pg_test_proposal_config_default :: bool where
  "pg_test_proposal_config_default =
     (prc_max_block_txns prc_default = 10000 \<and> prc_max_block_bytes prc_default = 10 * 1024 * 1024 \<and>
     prc_include_timestamp prc_default)"

definition pg_test_proposal_generator_update_config :: bool where
  "pg_test_proposal_generator_update_config =
     (let config = prc_default\<lparr>prc_max_block_txns := 5000, prc_include_timestamp := False\<rparr>;
     generator = pg_update_config (pg_new prc_default (1 :: u8)) config
     in prc_max_block_txns (pg_config generator) = 5000 \<and> \<not> prc_include_timestamp (pg_config generator))"

lemmas proposal_generator_tests_defs =
  pg_test_proposal_generator_new_def pg_test_proposal_generator_generate_proposal_def
  pg_test_proposal_config_default_def pg_test_proposal_generator_update_config_def

lemma proposal_generator_tests:
  "pg_test_proposal_generator_new"
  "pg_test_proposal_generator_generate_proposal"
  "pg_test_proposal_config_default"
  "pg_test_proposal_generator_update_config"
  by (simp_all add: proposal_generator_tests_defs kit_eval prc_default_def pg_new_def pg_generate_proposal_def pg_update_config_def tpg_metadata_def tpg_block_def
      tpg_qc_new_def tpg_transaction_def Let_def)

section \<open>State synchronisation\<close>

definition ssy_create_test_block :: "u64 \<Rightarrow> (u8, u8, u8) block" where
  "ssy_create_test_block r = mock_block [] (mock_metadata 1 r 1 (ucast (r - 1)) (r * 1000))"

abbreviation tsy_new :: "(u8, u8, u8) state_sync" where
  "tsy_new \<equiv> ssy_new ssc_default 50"

abbreviation tsy_response :: "u64 list \<Rightarrow> (u8, u8, u8) sync_response" where
  "tsy_response rounds \<equiv> srp_new (map ssy_create_test_block rounds) 1 False"

abbreviation tsy_file :: "u64 \<Rightarrow> (u8, u8, u8) state_sync \<Rightarrow> (u8, u8, u8) state_sync" where
  "tsy_file r s \<equiv> s\<lparr>ssy_received_blocks := hm_insert r (ssy_create_test_block r) (ssy_received_blocks s)\<rparr>"

definition ssy_test_state_sync_config_default :: bool where
  "ssy_test_state_sync_config_default =
     (ssc_max_batch_size ssc_default = 100 \<and> ssc_sync_timeout_ms ssc_default = 5000 \<and>
     ssc_max_retries ssc_default = 3)"

definition ssy_test_sync_status :: bool where
  "ssy_test_sync_status =
     (\<not> sy_is_in_progress SY_Idle \<and> \<not> sy_is_completed SY_Idle \<and> \<not> sy_is_failed SY_Idle \<and>
     (let status = SY_InProgress 100 50 50
     in sy_is_in_progress status \<and> sy_target_round status = Some 100 \<and> sy_current_round status = Some 50) \<and>
     sy_is_completed (SY_Completed 100) \<and> sy_is_failed (SY_Failed ''test error''))"

definition ssy_test_sync_request :: bool where
  "ssy_test_sync_request =
     (let request = srq_new 100 50 1
     in srq_covers_round request 75 \<and> \<not> srq_covers_round request 49 \<and> \<not> srq_covers_round request 101 \<and>
     srq_round_count request = 51)"

definition ssy_test_sync_response :: bool where
  "ssy_test_sync_response =
     (let response = tsy_response [10, 11, 12]
     in \<not> srp_is_empty response \<and> srp_len response = 3 \<and> srp_highest_round response = Some 12 \<and>
     srp_lowest_round response = Some 10 \<and> is_ok (srp_verify_sequential response) \<and>
     is_err (srp_verify_sequential (tsy_response [10, 15])))"

definition ssy_test_state_sync_new :: bool where
  "ssy_test_state_sync_new =
     (ssy_status tsy_new = SY_Idle \<and> ssy_current_round tsy_new = 50 \<and>
     ssy_highest_known_round tsy_new = None \<and> \<not> ssy_needs_sync tsy_new)"

definition ssy_test_state_sync_start :: bool where
  "ssy_test_state_sync_start =
     (let (r, s) = ssy_start_sync tsy_new 100 1
     in is_ok r \<and> sy_is_in_progress (ssy_status s) \<and> length (ssy_pending_requests s) = 1)"

definition ssy_test_state_sync_already_caught_up :: bool where
  "ssy_test_state_sync_already_caught_up =
     (let (r, s) = ssy_start_sync tsy_new 40 1 in is_ok r \<and> sy_is_completed (ssy_status s))"

definition ssy_test_state_sync_double_start_fails :: bool where
  "ssy_test_state_sync_double_start_fails =
     (let (r, s) = ssy_start_sync tsy_new 100 1 in is_ok r \<and> is_err (fst (ssy_start_sync s 200 1)))"

definition ssy_test_state_sync_add_response :: bool where
  "ssy_test_state_sync_add_response =
     (let (r1, s1) = ssy_start_sync tsy_new 100 1; (r2, s2) = ssy_add_sync_response s1 (tsy_response [51, 52, 53])
     in is_ok r1 \<and> is_ok r2 \<and> ssy_pending_block_count s2 = 3 \<and>
     ssy_has_block s2 51 \<and> ssy_has_block s2 52 \<and> ssy_has_block s2 53)"

definition ssy_test_state_sync_ready_blocks :: bool where
  "ssy_test_state_sync_ready_blocks =
     (let (r1, s1) = ssy_start_sync tsy_new 100 1; (r2, s2) = ssy_add_sync_response s1 (tsy_response [51, 52, 53]);
     (ready, s3) = ssy_ready_blocks s2
     in is_ok r1 \<and> is_ok r2 \<and> map blk_round ready = [51, 52, 53] \<and> ssy_current_round s3 = 53)"

definition ssy_test_state_sync_gap_in_ready_blocks :: bool where
  "ssy_test_state_sync_gap_in_ready_blocks =
     (let (r1, s1) = ssy_start_sync tsy_new 100 1; (ready, s2) = ssy_ready_blocks (tsy_file 53 (tsy_file 51 s1))
     in is_ok r1 \<and> map blk_round ready = [51] \<and> ssy_current_round s2 = 51 \<and> ssy_has_block s2 53)"

definition ssy_test_state_sync_needs_sync :: bool where
  "ssy_test_state_sync_needs_sync =
     (let s = ssy_update_highest_known_round tsy_new 100; (r, s1) = ssy_start_sync s 100 1
     in ssy_needs_sync s \<and> is_ok r \<and> \<not> ssy_needs_sync s1)"

definition ssy_test_state_sync_cancel :: bool where
  "ssy_test_state_sync_cancel =
     (let (r, s) = ssy_start_sync tsy_new 100 1
     in is_ok r \<and> sy_is_in_progress (ssy_status s) \<and> ssy_status (ssy_cancel s) = SY_Idle \<and>
     ssy_pending_block_count (ssy_cancel s) = 0)"

definition ssy_test_state_sync_reset :: bool where
  "ssy_test_state_sync_reset =
     (let (r, s) = ssy_start_sync (ssy_update_highest_known_round tsy_new 100) 100 1; s1 = ssy_reset (tsy_file 51 s)
     in is_ok r \<and> ssy_status s1 = SY_Idle \<and> ssy_pending_block_count s1 = 0 \<and> ssy_highest_known_round s1 = None)"

lemmas state_sync_tests_defs =
  ssy_test_state_sync_config_default_def ssy_test_sync_status_def ssy_test_sync_request_def
  ssy_test_sync_response_def ssy_test_state_sync_new_def ssy_test_state_sync_start_def
  ssy_test_state_sync_already_caught_up_def ssy_test_state_sync_double_start_fails_def
  ssy_test_state_sync_add_response_def ssy_test_state_sync_ready_blocks_def
  ssy_test_state_sync_gap_in_ready_blocks_def ssy_test_state_sync_needs_sync_def
  ssy_test_state_sync_cancel_def ssy_test_state_sync_reset_def

lemma state_sync_tests:
  "ssy_test_state_sync_config_default"
  "ssy_test_sync_status"
  "ssy_test_sync_request"
  "ssy_test_sync_response"
  "ssy_test_state_sync_new"
  "ssy_test_state_sync_start"
  "ssy_test_state_sync_already_caught_up"
  "ssy_test_state_sync_double_start_fails"
  "ssy_test_state_sync_add_response"
  "ssy_test_state_sync_ready_blocks"
  "ssy_test_state_sync_gap_in_ready_blocks"
  "ssy_test_state_sync_needs_sync"
  "ssy_test_state_sync_cancel"
  "ssy_test_state_sync_reset"
  by (simp_all add: state_sync_tests_defs kit_eval hm_eval ssc_default_def srq_new_def srq_covers_round_def srq_round_count_def srp_new_def srp_is_empty_def
      srp_len_def srp_highest_round_def srp_lowest_round_def srp_verify_sequential_def ssy_new_def ssy_start_sync_def
      ssy_add_sync_response_def ssy_ready_blocks_def ready_loop.simps ssy_update_highest_known_round_def ssy_needs_sync_def
      ssy_cancel_def ssy_reset_def ssy_pending_block_count_def ssy_has_block_def ssy_create_test_block_def
      mock_block_def mock_metadata_def)

section \<open>Reconfiguration\<close>

definition trh_author_ops :: "u8 hash_ops" where
  "trh_author_ops =
     \<lparr>hash_zero = 0, hash_from_bytes = (\<lambda>bs. Inr (case vec_get bs 0 of Some b \<Rightarrow> b | None \<Rightarrow> 0)),
      hash_as_bytes = (\<lambda>_. [])\<rparr>"

definition trh_election :: "(u8, rat) proposer_election" where
  "trh_election = \<lparr>pe_get_valid_proposer = (\<lambda>_. Inr (Some 1)), pe_participation_ratio = (\<lambda>_. 1)\<rparr>"

definition create_test_validator_set :: "u64 \<Rightarrow> u8 \<Rightarrow> u8 validator_set" where
  "create_test_validator_set epoch n =
     vs_new epoch (foldl (\<lambda>m i. hm_insert (of_nat i) 100 m) hm_empty [0..<unat n])"

abbreviation trh_new :: "(u8, rat) reconfig_handler" where
  "trh_new \<equiv> rh_new rcc_default (em_new \<lparr>emc_initial_epoch = 1, emc_auto_transition = False\<rparr>)"

definition rh_test_reconfig_config_default :: bool where
  "rh_test_reconfig_config_default =
     (rcc_preparation_window rcc_default = 5 \<and> rcc_verify_signatures rcc_default \<and>
     rcc_reconfig_timeout_ms rcc_default = 30000)"

definition rh_test_reconfig_status :: bool where
  "rh_test_reconfig_status =
     (\<not> rc_is_in_progress RC_Idle \<and> \<not> rc_is_completed RC_Idle \<and> \<not> rc_is_failed RC_Idle \<and>
     (let status = RC_Preparing 1 2
     in rc_is_in_progress status \<and> rc_current_epoch status = Some 1 \<and> rc_new_epoch status = Some 2) \<and>
     (let status = RC_Completed 2 100
     in rc_is_completed status \<and> rc_current_epoch status = Some 2 \<and> rc_new_epoch status = Some 2))"

definition rh_test_validator_set :: bool where
  "rh_test_validator_set =
     (let s = vs_new 1 (hm_insert (3 :: u8) 150 (hm_insert 2 200 (hm_insert 1 100 hm_empty)))
     in vs_len s = 3 \<and> \<not> vs_is_empty s \<and> vs_get_voting_power s 1 = Some 100 \<and> vs_total_voting_power s = 450 \<and>
     vs_contains s 2 \<and> \<not> vs_contains s 99 \<and> \<not> vs_has_quorum s [1, 2] \<and> vs_has_quorum s [1, 2, 3])"

definition rh_test_reconfig_handler_new :: bool where
  "rh_test_reconfig_handler_new =
     (rh_status trh_new = RC_Idle \<and> rh_current_epoch trh_new = 1 \<and>
     rh_current_validator_set trh_new = None \<and> rh_pending_event_count trh_new = 0)"

definition rh_test_prepare_reconfig :: bool where
  "rh_test_prepare_reconfig =
     (let (r1, h1) = rh_prepare_reconfig trh_new 2; (r2, h2) = rh_prepare_reconfig h1 3
     in is_ok r1 \<and> rc_is_in_progress (rh_status h1) \<and> is_err r2 \<and> is_err (fst (rh_prepare_reconfig (rh_cancel h2) 3)))"

definition rh_test_set_validator_set :: bool where
  "rh_test_set_validator_set =
     (on_some (rh_validator_set (rh_set_validator_set trh_new 2 (create_test_validator_set 2 4)) 2)
     (\<lambda>s. vs_len s = 4))"

definition rh_test_begin_reconfig :: bool where
  "rh_test_begin_reconfig =
     (let (r0, h0) = rh_begin_reconfig trh_new (create_test_validator_set 2 4);
     (r1, h1) = rh_prepare_reconfig h0 2; (r2, h2) = rh_begin_reconfig h1 (create_test_validator_set 2 4);
     (r3, h3) = rh_prepare_reconfig (rh_cancel h2) 2; (r4, h4) = rh_begin_reconfig h3 (vs_new 2 hm_empty)
     in is_err r0 \<and> is_ok r1 \<and> is_ok r2 \<and> is_ok r3 \<and> is_err r4)"

definition rh_test_complete_reconfig :: bool where
  "rh_test_complete_reconfig =
     (\<forall>now. let (r1, h1) = rh_prepare_reconfig trh_new 2; (r2, h2) = rh_begin_reconfig h1 (create_test_validator_set 2 4);
     (r3, h3) = rh_complete_reconfig now (rh_update_progress h2 4)
     in is_ok r1 \<and> is_ok r2 \<and> is_ok r3 \<and> rh_current_epoch h3 = 2 \<and> rh_status h3 = RC_Idle)"

definition rh_test_should_reconfigure :: bool where
  "rh_test_should_reconfigure =
     (\<not> rh_should_reconfigure trh_new 90 100 \<and> rh_should_reconfigure trh_new 96 100 \<and>
     rh_should_reconfigure trh_new 100 100)"

definition rh_test_pending_events :: bool where
  "rh_test_pending_events =
     (let h1 = rh_add_event trh_new (NewEpoch 2 100); (events, h2) = rh_take_pending_events h1
     in rh_pending_event_count trh_new = 0 \<and> rh_pending_event_count h1 = 1 \<and> length events = 1 \<and>
     rh_pending_event_count h2 = 0)"

definition rh_test_cancel :: bool where
  "rh_test_cancel =
     (let (r, h) = rh_prepare_reconfig trh_new 2
     in is_ok r \<and> rc_is_in_progress (rh_status h) \<and> rh_status (rh_cancel h) = RC_Idle \<and>
     rh_pending_event_count (rh_cancel h) = 0)"

definition rh_test_update_progress :: bool where
  "rh_test_update_progress =
     (let (r1, h1) = rh_prepare_reconfig trh_new 2; (r2, h2) = rh_begin_reconfig h1 (create_test_validator_set 2 10)
     in is_ok r1 \<and> is_ok r2 \<and>
     (case rh_status (rh_update_progress h2 5) of RC_InProgress _ processed _ \<Rightarrow> processed = 5 | _ \<Rightarrow> False))"

lemmas reconfig_tests_defs =
  rh_test_reconfig_config_default_def rh_test_reconfig_status_def rh_test_validator_set_def
  rh_test_reconfig_handler_new_def rh_test_prepare_reconfig_def rh_test_set_validator_set_def
  rh_test_begin_reconfig_def rh_test_complete_reconfig_def rh_test_should_reconfigure_def
  rh_test_pending_events_def rh_test_cancel_def rh_test_update_progress_def

lemma reconfig_tests:
  "rh_test_reconfig_config_default"
  "rh_test_reconfig_status"
  "rh_test_validator_set"
  "rh_test_reconfig_handler_new"
  "rh_test_prepare_reconfig"
  "rh_test_set_validator_set"
  "rh_test_begin_reconfig"
  "rh_test_complete_reconfig"
  "rh_test_should_reconfigure"
  "rh_test_pending_events"
  "rh_test_cancel"
  "rh_test_update_progress"
  by (simp_all add: reconfig_tests_defs kit_eval hm_eval rcc_default_def vs_new_def vs_len_def vs_is_empty_def vs_get_voting_power_def vs_contains_def
      vs_quorum_threshold_def vs_has_quorum_def sum_u128_def List.map_filter_simps usize_of_nat_def rh_new_def
      rh_current_epoch_def rh_validator_set_def rh_current_validator_set_def rh_pending_event_count_def rh_prepare_reconfig_def
      rh_cancel_def rh_set_validator_set_def rh_begin_reconfig_def rh_complete_reconfig_def rh_update_progress_def
      rh_should_reconfigure_def rh_add_event_def rh_take_pending_events_def em_epoch_def em_new_def es_new_def
      em_start_new_epoch_def create_test_validator_set_def upt_rec)

section \<open>Message handlers\<close>

type_synonym tnet_message = "((u8, u8, u8) block, (u8, u8, u8) vote) net_message"

abbreviation tsm_process :: "tnet_message \<Rightarrow> process_result res \<times> simple_message_handler" where
  "tsm_process \<equiv> smh_process_message (smh_new nwc_default)"

definition net_test_process_result :: bool where
  "net_test_process_result =
     (pr_is_success pr_success \<and> \<not> pr_is_success (pr_validation_failed ''test'') \<and>
     \<not> pr_is_success (pr_ignored ''test'') \<and> \<not> pr_is_success (pr_needs_action ''test''))"

definition net_test_message_handler_stats :: bool where
  "net_test_message_handler_stats =
     (let stats = mhs_record_needs_action (mhs_record_ignored (mhs_record_validation_failure (mhs_record_success mhs_new)))
     in mhs_total_processed stats = 4 \<and> mhs_successful stats = 1 \<and> mhs_validation_failures stats = 1 \<and>
     mhs_ignored stats = 1 \<and> mhs_needs_action stats = 1)"

definition net_test_simple_message_handler :: bool where
  "net_test_simple_message_handler =
     (let (r, h) = tsm_process (Net_Proposal mock_block_genesis)
     in on_ok r pr_is_success \<and> mhs_total_processed (smh_stats h) = 1 \<and> mhs_successful (smh_stats h) = 1)"

definition net_test_message_router :: bool where
  "net_test_message_router =
     (mr_get_message_type (Net_Timeout 10 :: tnet_message) = ''timeout'')"

definition net_test_network_message_display :: bool where
  "net_test_network_message_display =
     (net_message_fmt (Net_Timeout 10 :: tnet_message) = ''Timeout(round=10)'')"

definition net_test_network_message_display_proposal :: bool where
  "net_test_network_message_display_proposal =
     (net_message_fmt (Net_Proposal mock_block_genesis :: tnet_message) = ''Proposal'')"

definition net_test_network_message_display_vote :: bool where
  "net_test_network_message_display_vote =
     (net_message_fmt (Net_Vote (mock_vote 0 0 0) :: tnet_message) = ''Vote'')"

definition net_test_network_message_display_sync_request :: bool where
  "net_test_network_message_display_sync_request =
     (net_message_fmt (Net_SyncRequest 5 :: tnet_message) = ''SyncRequest(round=5)'')"

definition net_test_network_message_display_sync_response :: bool where
  "net_test_network_message_display_sync_response =
     (net_message_fmt (Net_SyncResponse [] :: tnet_message) = ''SyncResponse(count=0)'')"

definition net_test_network_message_display_epoch_change :: bool where
  "net_test_network_message_display_epoch_change =
     (net_message_fmt (Net_EpochChange 2 :: tnet_message) = ''EpochChange(epoch=2)'')"

definition net_test_simple_message_handler_with_validation_disabled :: bool where
  "net_test_simple_message_handler_with_validation_disabled =
     (on_ok (fst (smh_process_message (smh_new (nwc_default\<lparr>nwc_validate_immediately := False\<rparr>))
     (Net_Proposal mock_block_genesis :: tnet_message))) pr_is_success)"

definition net_test_simple_message_handler_vote :: bool where
  "net_test_simple_message_handler_vote =
     (on_ok (fst (tsm_process (Net_Vote (mock_vote 0 0 0)))) pr_is_success)"

definition net_test_simple_message_handler_timeout :: bool where
  "net_test_simple_message_handler_timeout =
     (let (r, h) = tsm_process (Net_Timeout 5)
     in on_ok r (\<lambda>x. \<not> pr_is_success x) \<and> mhs_needs_action (smh_stats h) = 1)"

definition net_test_simple_message_handler_sync_request :: bool where
  "net_test_simple_message_handler_sync_request =
     (on_ok (fst (tsm_process (Net_SyncRequest 10))) (\<lambda>x. \<not> pr_is_success x))"

definition net_test_simple_message_handler_sync_response :: bool where
  "net_test_simple_message_handler_sync_response =
     (on_ok (fst (tsm_process (Net_SyncResponse []))) pr_is_success)"

definition net_test_simple_message_handler_epoch_change :: bool where
  "net_test_simple_message_handler_epoch_change =
     (on_ok (fst (tsm_process (Net_EpochChange 2))) (\<lambda>x. \<not> pr_is_success x))"

definition net_test_message_router_get_message_type_vote :: bool where
  "net_test_message_router_get_message_type_vote =
     (mr_get_message_type (Net_Vote (mock_vote 0 0 0) :: tnet_message) = ''vote'')"

definition net_test_message_router_get_message_type_sync_request :: bool where
  "net_test_message_router_get_message_type_sync_request =
     (mr_get_message_type (Net_SyncRequest 5 :: tnet_message) = ''sync_request'')"

definition net_test_message_router_get_message_type_sync_response :: bool where
  "net_test_message_router_get_message_type_sync_response =
     (mr_get_message_type (Net_SyncResponse [] :: tnet_message) = ''sync_response'')"

definition net_test_message_router_get_message_type_epoch_change :: bool where
  "net_test_message_router_get_message_type_epoch_change =
     (mr_get_message_type (Net_EpochChange 1 :: tnet_message) = ''epoch_change'')"

definition net_test_message_router_route_message :: bool where
  "net_test_message_router_route_message =
     (mr_route_message (mr_new nwc_default :: simple_message_handler message_router) (Net_Timeout 10 :: tnet_message) = Inr None)"

definition net_test_network_config_default :: bool where
  "net_test_network_config_default =
     (nwc_max_message_size nwc_default = 10 * 1024 * 1024 \<and> nwc_network_timeout_ms nwc_default = 5000 \<and>
     nwc_max_pending_syncs nwc_default = 10 \<and> nwc_validate_immediately nwc_default)"

lemmas network_tests_defs =
  net_test_process_result_def net_test_message_handler_stats_def
  net_test_simple_message_handler_def net_test_message_router_def
  net_test_network_message_display_def net_test_network_message_display_proposal_def
  net_test_network_message_display_vote_def net_test_network_message_display_sync_request_def
  net_test_network_message_display_sync_response_def
  net_test_network_message_display_epoch_change_def
  net_test_simple_message_handler_with_validation_disabled_def
  net_test_simple_message_handler_vote_def net_test_simple_message_handler_timeout_def
  net_test_simple_message_handler_sync_request_def
  net_test_simple_message_handler_sync_response_def
  net_test_simple_message_handler_epoch_change_def
  net_test_message_router_get_message_type_vote_def
  net_test_message_router_get_message_type_sync_request_def
  net_test_message_router_get_message_type_sync_response_def
  net_test_message_router_get_message_type_epoch_change_def
  net_test_message_router_route_message_def net_test_network_config_default_def

lemma network_tests:
  "net_test_process_result"
  "net_test_message_handler_stats"
  "net_test_simple_message_handler"
  "net_test_message_router"
  "net_test_network_message_display"
  "net_test_network_message_display_proposal"
  "net_test_network_message_display_vote"
  "net_test_network_message_display_sync_request"
  "net_test_network_message_display_sync_response"
  "net_test_network_message_display_epoch_change"
  "net_test_simple_message_handler_with_validation_disabled"
  "net_test_simple_message_handler_vote"
  "net_test_simple_message_handler_timeout"
  "net_test_simple_message_handler_sync_request"
  "net_test_simple_message_handler_sync_response"
  "net_test_simple_message_handler_epoch_change"
  "net_test_message_router_get_message_type_vote"
  "net_test_message_router_get_message_type_sync_request"
  "net_test_message_router_get_message_type_sync_response"
  "net_test_message_router_get_message_type_epoch_change"
  "net_test_message_router_route_message"
  "net_test_network_config_default"
  by (simp_all add: network_tests_defs kit_eval show_eval hm_eval pr_success_def pr_validation_failed_def pr_ignored_def pr_needs_action_def mhs_new_def
      mhs_record_success_def mhs_record_validation_failure_def mhs_record_ignored_def mhs_record_needs_action_def
      smh_new_def smh_process_message_def validate_message_def nwc_default_def mr_new_def mr_register_handler_def
      mr_route_message_def)

end
