(* ===== verification/Tests_Dag.thy ===== *)
theory Tests_Dag
  imports Test_Eval Codec Dag_Driver
begin

text \<open>
  The unit tests of \<open>dag/types.rs\<close>, \<open>dag/testing.rs\<close>, \<open>dag/store.rs\<close>, \<open>dag/ordering.rs\<close> and
  \<open>dag/driver.rs\<close>.
\<close>

section \<open>Node identifiers, payloads, nodes and certificates\<close>

text \<open>Epochs and rounds of these tests read eight big-endian bytes, authors and hashes the first byte.\<close>

definition tdt_round_ops :: "u64 hash_ops" where
  "tdt_round_ops =
     \<lparr>hash_zero = 0,
      hash_from_bytes = (\<lambda>bs. Inr (foldl (\<lambda>n b. 256 * n + ucast b) 0
        (if length bs = 8 then bs else replicate 8 0))),
      hash_as_bytes = (\<lambda>_. [])\<rparr>"

definition tdt_epoch_ops :: "u64 hash_ops" where
  "tdt_epoch_ops =
     \<lparr>hash_zero = 0,
      hash_from_bytes = (\<lambda>bs. Inr (foldl (\<lambda>n b. 256 * n + ucast b) 0
        (if length bs = 8 then bs else replicate 8 0))),
      hash_as_bytes = (\<lambda>_. [])\<rparr>"

definition tdt_author_ops :: "u8 hash_ops" where
  "tdt_author_ops =
     \<lparr>hash_zero = 0, hash_from_bytes = (\<lambda>bs. Inr (case vec_get bs 0 of Some b \<Rightarrow> b | None \<Rightarrow> 0)),
      hash_as_bytes = (\<lambda>_. [])\<rparr>"

definition tdt_hash_ops :: "u8 hash_ops" where
  "tdt_hash_ops =
     \<lparr>hash_zero = 0, hash_from_bytes = (\<lambda>bs. Inr (case vec_get bs 0 of Some b \<Rightarrow> b | None \<Rightarrow> 0)),
      hash_as_bytes = (\<lambda>_. [])\<rparr>"

abbreviation tdt_id :: "u64 \<Rightarrow> u64 \<Rightarrow> u8 \<Rightarrow> (u64, u64, u8) dag_node_id" where
  "tdt_id \<equiv> dni_new"

abbreviation tdt_metadata :: "((u64, u64, u8) dag_node_id, u8) dag_node_metadata" where
  "tdt_metadata \<equiv> dnm_new (tdt_id 1 1 1) 100 1"

abbreviation tdt_less :: "(u64, u64, u8) dag_node_id \<Rightarrow> (u64, u64, u8) dag_node_id \<Rightarrow> bool" where
  "tdt_less x y \<equiv> dni_partial_cmp x y = Some Less"

definition dt_test_dag_node_id_creation :: bool where
  "dt_test_dag_node_id_creation =
     (let i = tdt_id 1 2 3 in dni_epoch i = 1 \<and> dni_round i = 2 \<and> dni_author i = 3)"

definition dt_test_dag_node_id_ord :: bool where
  "dt_test_dag_node_id_ord =
     (tdt_less (tdt_id 1 1 1) (tdt_id 1 2 1))"

definition dt_test_parent_certificates_empty :: bool where
  "dt_test_parent_certificates_empty =
     (let parents = pc_empty :: ((u64, u64, u8) dag_node_id, u8) dag_node_metadata parent_certificates
     in pc_is_empty parents \<and> pc_len parents = 0)"

definition dt_test_parent_certificates_add :: bool where
  "dt_test_parent_certificates_add =
     (pc_is_empty (pc_new [] :: ((u64, u64, u8) dag_node_id, u8) dag_node_metadata parent_certificates) \<and>
     (let parents = pc_add (pc_new []) tdt_metadata in pc_len parents = 1 \<and> \<not> pc_is_empty parents))"

definition dt_test_dag_payload_empty :: bool where
  "dt_test_dag_payload_empty =
     (let payload = dp_empty (hash_zero tdt_hash_ops) in dp_is_empty payload \<and> dp_size payload = 0)"

definition dt_test_dag_payload_hash :: bool where
  "dt_test_dag_payload_hash =
     (let payload = dp_new [1, 2, 3] (42 :: u8) in dp_hash payload = 42 \<and> \<not> dp_is_empty payload \<and> dp_size payload = 3)"

definition dt_test_dag_node_metadata_impl :: bool where
  "dt_test_dag_node_metadata_impl =
     (let i = tdt_id 5 10 3; metadata = dnm_new i 12345 (99 :: u8)
     in dnm_node_id metadata = i \<and> dnm_timestamp metadata = 12345 \<and> dnm_digest metadata = 99)"

definition dt_test_parent_certificates_iter :: bool where
  "dt_test_parent_certificates_iter =
     (let parents = pc_parents (pc_new [tdt_metadata])
     in list_all (\<lambda>p. dnm_timestamp p = 100) parents \<and> length parents = 1)"

definition dt_test_parent_certificates_parents :: bool where
  "dt_test_parent_certificates_parents =
     (let parents = pc_parents (pc_new [tdt_metadata]) in length parents = 1 \<and> dnm_timestamp (parents ! 0) = 100)"

definition dt_test_parent_certificates_add_via_trait :: bool where
  "dt_test_parent_certificates_add_via_trait =
     (pc_len (pc_add (pc_new []) tdt_metadata) = 1)"

definition dt_test_dag_node_impl :: bool where
  "dt_test_dag_node_impl =
     (let node = dn_new tdt_metadata (dp_new [1, 2] (42 :: u8)) (pc_empty :: unit parent_certificates)
     in dnm_timestamp (dn_metadata node) = 100 \<and> dp_hash (dn_payload node) = 42)"

definition dt_test_node_certificate_impl :: bool where
  "dt_test_node_certificate_impl =
     (let cert = nc_new tdt_metadata (42 :: u8)
     in dnm_timestamp (nc_metadata cert) = 100 \<and> nc_signatures cert = 42)"

definition dt_test_certified_node_impl :: bool where
  "dt_test_certified_node_impl =
     (let node = dn_new tdt_metadata (dp_new [1, 2] (42 :: u8)) (pc_empty :: unit parent_certificates);
     certified = cn_new node (nc_new tdt_metadata (99 :: u8))
     in nc_signatures (cn_certificate certified) = 99)"

definition dt_test_dag_vote_impl :: bool where
  "dt_test_dag_vote_impl =
     (let v = dv_new tdt_metadata (42 :: u8) in dnm_timestamp (dv_metadata v) = 100 \<and> dv_signature v = 42)"

definition dt_test_dag_node_id_display :: bool where
  "dt_test_dag_node_id_display =
     (let display = dni_fmt show_u64 show_u64 (\<lambda>a. show_nat (unat a)) (tdt_id 5 10 3)
     in str_contains display ''epoch=5'' \<and> str_contains display ''round=10'' \<and> str_contains display ''author=3'')"

definition dt_test_dag_node_id_partial_ord_different_rounds :: bool where
  "dt_test_dag_node_id_partial_ord_different_rounds =
     (dni_partial_cmp (tdt_id 1 5 1) (tdt_id 1 10 1) = Some Less \<and>
     dni_partial_cmp (tdt_id 1 10 1) (tdt_id 1 5 1) = Some Greater)"

definition dt_test_dag_node_id_partial_ord_same_round :: bool where
  "dt_test_dag_node_id_partial_ord_same_round =
     (dni_partial_cmp (tdt_id 1 5 1) (tdt_id 1 5 2) = Some Equal)"

definition dt_test_dag_node_id_cmp :: bool where
  "dt_test_dag_node_id_cmp =
     (dni_cmp (tdt_id 1 5 1) (tdt_id 1 10 1) = Less \<and> dni_cmp (tdt_id 1 10 1) (tdt_id 1 5 1) = Greater)"

lemmas dag_types_tests_defs =
  dt_test_dag_node_id_creation_def dt_test_dag_node_id_ord_def
  dt_test_parent_certificates_empty_def dt_test_parent_certificates_add_def
  dt_test_dag_payload_empty_def dt_test_dag_payload_hash_def dt_test_dag_node_metadata_impl_def
  dt_test_parent_certificates_iter_def dt_test_parent_certificates_parents_def
  dt_test_parent_certificates_add_via_trait_def dt_test_dag_node_impl_def
  dt_test_node_certificate_impl_def dt_test_certified_node_impl_def dt_test_dag_vote_impl_def
  dt_test_dag_node_id_display_def dt_test_dag_node_id_partial_ord_different_rounds_def
  dt_test_dag_node_id_partial_ord_same_round_def dt_test_dag_node_id_cmp_def

lemma dag_types_tests:
  "dt_test_dag_node_id_creation"
  "dt_test_dag_node_id_ord"
  "dt_test_parent_certificates_empty"
  "dt_test_parent_certificates_add"
  "dt_test_dag_payload_empty"
  "dt_test_dag_payload_hash"
  "dt_test_dag_node_metadata_impl"
  "dt_test_parent_certificates_iter"
  "dt_test_parent_certificates_parents"
  "dt_test_parent_certificates_add_via_trait"
  "dt_test_dag_node_impl"
  "dt_test_node_certificate_impl"
  "dt_test_certified_node_impl"
  "dt_test_dag_vote_impl"
  "dt_test_dag_node_id_display"
  "dt_test_dag_node_id_partial_ord_different_rounds"
  "dt_test_dag_node_id_partial_ord_same_round"
  "dt_test_dag_node_id_cmp"
  by (simp_all add: dag_types_tests_defs kit_eval show_eval dni_new_def dnm_new_def dp_new_def dp_empty_def dp_is_empty_def dp_size_def pc_new_def pc_empty_def
      pc_add_def pc_len_def pc_is_empty_def dn_new_def nc_new_def cn_new_def dv_new_def dni_partial_cmp_eq dni_cmp_def
      dni_fmt_def Let_def)

section \<open>The node builder\<close>

definition dg_test_test_round_all_trait_methods :: bool where
  "dg_test_test_round_all_trait_methods =
     (hash_zero test_round_ops = 0 \<and> hash_as_bytes test_round_ops 42 = [] \<and> show_u64 42 = ''42'' \<and>
     (10 :: u64) < 20 \<and> (10 :: u64) \<le> 10)"

definition dg_test_test_author_all_trait_methods :: bool where
  "dg_test_test_author_all_trait_methods =
     (hash_zero test_author_ops = 0 \<and> hash_as_bytes test_author_ops 42 = [] \<and>
     show_nat (unat (42 :: u8)) = ''42'')"

definition dg_test_test_epoch_all_trait_methods :: bool where
  "dg_test_test_epoch_all_trait_methods =
     (hash_zero test_epoch_ops = 0 \<and> hash_as_bytes test_epoch_ops 42 = [] \<and> show_u64 42 = ''42'' \<and>
     (10 :: u64) < 20 \<and> (10 :: u64) \<le> 10)"

definition dg_test_test_node_builder_chaining :: bool where
  "dg_test_test_node_builder_chaining =
     (let node = tnb_build (tnb_set_timestamp (tnb_set_author (tnb_set_round (tnb_set_epoch tnb_new 2) 15) 7) 5000); node_id = test_id node
     in dni_epoch node_id = 2 \<and> dni_round node_id = 15 \<and> dni_author node_id = 7 \<and>
     dnm_timestamp (dn_metadata (cn_node node)) = 5000)"

definition dg_test_test_node_builder_default :: bool where
  "dg_test_test_node_builder_default =
     (let node = tnb_build tnb_default; node_id = test_id node
     in dni_epoch node_id = 1 \<and> dni_round node_id = 1 \<and> dni_author node_id = 1 \<and>
     dnm_timestamp (dn_metadata (cn_node node)) = 0)"

definition dg_test_create_test_dag_multiple_rounds :: bool where
  "dg_test_create_test_dag_multiple_rounds =
     (let nodes = create_test_dag 3 (create_test_authors 2)
     in length nodes = 6 \<and> dni_round (test_id (nodes ! 0)) = 1 \<and> dni_round (test_id (nodes ! 2)) = 2 \<and>
     dni_round (test_id (nodes ! 4)) = 3)"

definition dg_test_create_test_dag_single_author :: bool where
  "dg_test_create_test_dag_single_author =
     (let nodes = create_test_dag 5 (create_test_authors 1)
     in length nodes = 5 \<and> list_all (\<lambda>node. dni_author (test_id node) = 1) nodes)"

definition dg_test_create_test_authors_count :: bool where
  "dg_test_create_test_authors_count =
     (length (create_test_authors 3) = 3 \<and> length (create_test_authors 10) = 10)"

definition dg_test_test_node_id_components :: bool where
  "dg_test_test_node_id_components =
     (let i = dni_new 5 10 7 :: test_node_id in dni_epoch i = 5 \<and> dni_round i = 10 \<and> dni_author i = 7)"

definition dg_test_test_metadata_type :: bool where
  "dg_test_test_metadata_type =
     (let i = dni_new 1 5 3 :: test_node_id; metadata = dnm_new i 12345 5 :: test_metadata
     in dnm_node_id metadata = i \<and> dnm_timestamp metadata = 12345 \<and> dnm_round metadata = 5)"

definition dg_test_test_payload_type :: bool where
  "dg_test_test_payload_type =
     (length (dp_data (dp_new [] (10 :: u64))) = 0)"

definition dg_test_test_parents_type :: bool where
  "dg_test_test_parents_type =
     (pc_is_empty (pc_empty :: test_metadata parent_certificates))"

definition dg_test_test_certificate_type :: bool where
  "dg_test_test_certificate_type =
     (dni_round (dnm_node_id (nc_metadata (cn_certificate (tnb_build (tnb_set_author (tnb_set_round (tnb_set_epoch tnb_new 1) 5) 3))))) = 5)"

definition dg_test_test_certified_node_type :: bool where
  "dg_test_test_certified_node_type =
     (let node = tnb_build (tnb_set_author (tnb_set_round (tnb_set_epoch tnb_new 1) 5) 3)
     in dni_round (test_id node) = 5 \<and> dni_round (dnm_node_id (nc_metadata (cn_certificate node))) = 5)"

definition dg_test_test_types_zero_values :: bool where
  "dg_test_test_types_zero_values =
     (hash_zero test_round_ops = 0 \<and> hash_zero test_author_ops = 0 \<and> hash_zero test_epoch_ops = 0 \<and>
     (dni_new (hash_zero test_epoch_ops) (hash_zero test_round_ops) (hash_zero test_author_ops) :: test_node_id) = dni_new 0 0 0)"

definition dg_test_create_test_dag_timestamps :: bool where
  "dg_test_create_test_dag_timestamps =
     (let nodes = create_test_dag 2 (create_test_authors 2)
     in dnm_timestamp (dn_metadata (cn_node (nodes ! 0))) = 1000 \<and> dnm_timestamp (dn_metadata (cn_node (nodes ! 1))) = 1001)"

definition dg_test_create_test_authors_sequence :: bool where
  "dg_test_create_test_authors_sequence =
     (create_test_authors 5 = [1, 2, 3, 4, 5])"

lemmas dag_testing_tests_defs =
  dg_test_test_round_all_trait_methods_def dg_test_test_author_all_trait_methods_def
  dg_test_test_epoch_all_trait_methods_def dg_test_test_node_builder_chaining_def
  dg_test_test_node_builder_default_def dg_test_create_test_dag_multiple_rounds_def
  dg_test_create_test_dag_single_author_def dg_test_create_test_authors_count_def
  dg_test_test_node_id_components_def dg_test_test_metadata_type_def
  dg_test_test_payload_type_def dg_test_test_parents_type_def dg_test_test_certificate_type_def
  dg_test_test_certified_node_type_def dg_test_test_types_zero_values_def
  dg_test_create_test_dag_timestamps_def dg_test_create_test_authors_sequence_def

lemma dag_testing_tests:
  "dg_test_test_round_all_trait_methods"
  "dg_test_test_author_all_trait_methods"
  "dg_test_test_epoch_all_trait_methods"
  "dg_test_test_node_builder_chaining"
  "dg_test_test_node_builder_default"
  "dg_test_create_test_dag_multiple_rounds"
  "dg_test_create_test_dag_single_author"
  "dg_test_create_test_authors_count"
  "dg_test_test_node_id_components"
  "dg_test_test_metadata_type"
  "dg_test_test_payload_type"
  "dg_test_test_parents_type"
  "dg_test_test_certificate_type"
  "dg_test_test_certified_node_type"
  "dg_test_test_types_zero_values"
  "dg_test_create_test_dag_timestamps"
  "dg_test_create_test_authors_sequence"
  by (simp_all add: dag_testing_tests_defs show_eval test_round_ops_def test_author_ops_def test_epoch_ops_def tnb_new_def tnb_default_def tnb_set_epoch_def
      tnb_set_round_def tnb_set_author_def tnb_set_timestamp_def tnb_build_def create_test_dag_def create_test_authors_def
      dni_new_def dnm_new_def dnm_round_def dp_new_def pc_empty_def pc_is_empty_def dn_new_def nc_new_def cn_new_def
      upt_rec Let_def)

section \<open>The store\<close>

definition tds_create_test_node ::
    "u64 \<Rightarrow> u8 \<Rightarrow> (test_node, (test_metadata, u8) node_certificate) certified_node" where
  "tds_create_test_node r a =
     (let node_id = dni_new r r a;
          metadata = dnm_new node_id 0 r;
          payload = dp_new [] r;
          parents = pc_empty;
          node = dn_new metadata payload parents;
          cert = nc_new (dn_metadata node) a
      in cn_new node cert)"

definition tds_ops :: "(u64, u8, (test_node, (test_metadata, u8) node_certificate) certified_node) dag_ops" where
  "tds_ops =
     \<lparr>do_node_id = (\<lambda>n. dnm_node_id (dn_metadata (cn_node n))),
      do_debug_round = (\<lambda>r. ''TestRound('' @ show_u64 r @ '')''),
      do_debug_author = (\<lambda>a. ''TestAuthor('' @ show_nat (unat a) @ '')'')\<rparr>"

abbreviation tds_new ::
    "(u64, u8, (test_node, (test_metadata, u8) node_certificate) certified_node) in_mem_dag" where
  "tds_new \<equiv> dag_new [1, 2, 3] dsc_default"

abbreviation tds_add ::
    "(u64, u8, (test_node, (test_metadata, u8) node_certificate) certified_node) in_mem_dag \<Rightarrow>
     u64 \<times> u8 \<Rightarrow>
     unit res \<times> (u64, u8, (test_node, (test_metadata, u8) node_certificate) certified_node) in_mem_dag" where
  "tds_add dag \<equiv> \<lambda>(r, a). dag_add_node tds_ops dag (tds_create_test_node r a)"

definition ds_test_dag_store_new :: bool where
  "ds_test_dag_store_new =
     (dag_is_empty tds_new \<and> dag_num_authors tds_new = 3 \<and> dag_len tds_new = 0)"

definition ds_test_dag_store_add_node :: bool where
  "ds_test_dag_store_add_node =
     (let (r, store) = tds_add tds_new (1, 1)
     in is_ok r \<and> \<not> dag_is_empty store \<and> dag_len store = 1)"

definition ds_test_dag_store_get_node :: bool where
  "ds_test_dag_store_get_node =
     (let (r, store) = tds_add tds_new (1, 1)
     in is_ok r \<and> dag_get_node store 1 1 \<noteq> None)"

definition ds_test_dag_store_get_round :: bool where
  "ds_test_dag_store_get_round =
     (let (rs, store) = run_each tds_add tds_new [(1, 1), (1, 2), (2, 1)]
     in list_all is_ok rs \<and> length (dag_get_round store 1) = 2 \<and> length (dag_get_round store 2) = 1)"

definition ds_test_dag_store_exists :: bool where
  "ds_test_dag_store_exists =
     (let (r, store) = tds_add tds_new (1, 1)
     in is_ok r \<and> dag_exists store 1 1 \<and> \<not> dag_exists store 1 2 \<and> \<not> dag_exists store 2 1)"

definition ds_test_dag_store_mark_ordered :: bool where
  "ds_test_dag_store_mark_ordered =
     (let (r1, s1) = tds_add tds_new (1, 1); (r2, s2) = dag_mark_ordered tds_ops s1 1 1
     in is_ok r1 \<and> on_some (dag_get_node_status s1 1 1) (\<lambda>s. \<not> is_ordered s) \<and> is_ok r2 \<and>
     on_some (dag_get_node_status s2 1 1) is_ordered)"

definition ds_test_dag_store_add_duplicate_fails :: bool where
  "ds_test_dag_store_add_duplicate_fails =
     (let (r, store) = tds_add tds_new (1, 1)
     in is_ok r \<and> is_err (fst (tds_add store (1, 1))))"

definition ds_test_dag_store_unknown_author_fails :: bool where
  "ds_test_dag_store_unknown_author_fails =
     (is_err (fst (tds_add (dag_new [1, 2] dsc_default) (1, 3))))"

definition ds_test_dag_store_clear :: bool where
  "ds_test_dag_store_clear =
     (let (rs, store) = run_each tds_add tds_new [(1, 1), (2, 2)]
     in list_all is_ok rs \<and> dag_len store = 2 \<and> dag_is_empty (dag_clear store))"

lemmas dag_store_tests_defs =
  ds_test_dag_store_new_def ds_test_dag_store_add_node_def ds_test_dag_store_get_node_def
  ds_test_dag_store_get_round_def ds_test_dag_store_exists_def
  ds_test_dag_store_mark_ordered_def ds_test_dag_store_add_duplicate_fails_def
  ds_test_dag_store_unknown_author_fails_def ds_test_dag_store_clear_def

lemma dag_store_tests:
  "ds_test_dag_store_new"
  "ds_test_dag_store_add_node"
  "ds_test_dag_store_get_node"
  "ds_test_dag_store_get_round"
  "ds_test_dag_store_exists"
  "ds_test_dag_store_mark_ordered"
  "ds_test_dag_store_add_duplicate_fails"
  "ds_test_dag_store_unknown_author_fails"
  "ds_test_dag_store_clear"
  by (simp_all add: dag_store_tests_defs kit_eval hm_eval hm_collect_def dag_new_def dsc_default_def dag_num_authors_def dag_is_empty_def dag_len_def
      dag_add_node_def dag_get_node_status_def get_node_status dag_exists_def dag_get_round_def dag_mark_ordered_def dag_clear_def
      bt_get_def round_nodes_def List.map_filter_simps mark_as_ordered_def tds_ops_def tds_create_test_node_def dni_new_def
      dnm_new_def dn_new_def nc_new_def cn_new_def numeral_3_eq_3)

section \<open>Ordering\<close>

abbreviation tor_rule :: "u64 \<Rightarrow> (u64, u8, test_certified_node) order_rule" where
  "tor_rule r \<equiv> orl_new (dag_new [1, 2] dsc_default) (rra_election (rra_new [1, 2])) r oc_default"

definition or_test_order_rule_new :: bool where
  "or_test_order_rule_new =
     (orl_lowest_unordered_round (tor_rule 5) = 5)"

definition or_test_order_rule_lowest_unordered_round :: bool where
  "or_test_order_rule_lowest_unordered_round =
     (orl_lowest_unordered_round (tor_rule 10) = 10 \<and> orl_lowest_unordered_round (tor_rule 20) = 20)"

definition or_test_order_rule_process_new_node :: bool where
  "or_test_order_rule_process_new_node =
     (fst (orl_process_new_node (tor_rule 5) (tnb_build (tnb_set_author (tnb_set_round (tnb_set_epoch tnb_new 1) 5) 1))) = Inr None)"

definition or_test_order_rule_process_all :: bool where
  "or_test_order_rule_process_all =
     (fst (orl_process_all (tor_rule 5)) = Inr [])"

definition or_test_order_rule_try_order_from_round :: bool where
  "or_test_order_rule_try_order_from_round =
     (fst (orl_try_order_from_round (tor_rule 5) 10) = Inr None)"

definition or_test_order_rule_find_anchor_with_enough_votes :: bool where
  "or_test_order_rule_find_anchor_with_enough_votes =
     (orl_find_anchor_with_enough_votes (tor_rule 5) 10 = Inr None)"

definition or_test_order_rule_order_anchor :: bool where
  "or_test_order_rule_order_anchor =
     (fst (orl_order_anchor (tor_rule 5) (tnb_build (tnb_set_author (tnb_set_round (tnb_set_epoch tnb_new 1) 5) 1))) = Inr [])"

definition or_test_order_rule_create_commit_event :: bool where
  "or_test_order_rule_create_commit_event =
     (let event = orl_create_commit_event (tor_rule 5) []
     in length (ce_parents event) = 0 \<and> length (ce_failed_authors event) = 0)"

definition or_test_order_rule_can_trigger_ordering :: bool where
  "or_test_order_rule_can_trigger_ordering =
     (\<not> orl_can_trigger_ordering (tor_rule 5) 5 \<and> \<not> orl_can_trigger_ordering (tor_rule 5) 10)"

definition or_test_order_rule_compare_rounds :: bool where
  "or_test_order_rule_compare_rounds =
     (orl_compare_rounds (tor_rule 5) 5 5 = Equal \<and> orl_compare_rounds (tor_rule 5) 5 10 = Equal)"

definition or_test_order_rule_next_round :: bool where
  "or_test_order_rule_next_round =
     (orl_next_round (tor_rule 5) 5 = 5 \<and> orl_next_round (tor_rule 5) 10 = 10)"

definition or_test_round_robin_get_author_index :: bool where
  "or_test_round_robin_get_author_index =
     (let election = rra_new [1, 2, 3 :: u8]
     in rra_get_author_index election 1 = Some 0 \<and> rra_get_author_index election 2 = Some 1 \<and>
     rra_get_author_index election 3 = Some 2 \<and> rra_get_author_index election 99 = None)"

lemmas dag_ordering_tests_defs =
  or_test_order_rule_new_def or_test_order_rule_lowest_unordered_round_def
  or_test_order_rule_process_new_node_def or_test_order_rule_process_all_def
  or_test_order_rule_try_order_from_round_def
  or_test_order_rule_find_anchor_with_enough_votes_def or_test_order_rule_order_anchor_def
  or_test_order_rule_create_commit_event_def or_test_order_rule_can_trigger_ordering_def
  or_test_order_rule_compare_rounds_def or_test_order_rule_next_round_def
  or_test_round_robin_get_author_index_def

lemma dag_ordering_tests:
  "or_test_order_rule_new"
  "or_test_order_rule_lowest_unordered_round"
  "or_test_order_rule_process_new_node"
  "or_test_order_rule_process_all"
  "or_test_order_rule_try_order_from_round"
  "or_test_order_rule_find_anchor_with_enough_votes"
  "or_test_order_rule_order_anchor"
  "or_test_order_rule_create_commit_event"
  "or_test_order_rule_can_trigger_ordering"
  "or_test_order_rule_compare_rounds"
  "or_test_order_rule_next_round"
  "or_test_round_robin_get_author_index"
  by (simp_all add: dag_ordering_tests_defs orl_new_def orl_process_new_node_def orl_process_all_def orl_try_order_from_round_def orl_find_anchor_with_enough_votes_def
      orl_order_anchor_def orl_create_commit_event_def ce_new_def orl_can_trigger_ordering_def orl_compare_rounds_def
      orl_next_round_def rra_new_def rra_get_author_index_def Let_def)

section \<open>The driver\<close>

definition tdd_election :: "(u64, u8) anchor_election" where
  "tdd_election = \<lparr>ae_get_anchor = (\<lambda>_. Inr 1)\<rparr>"

abbreviation tdd_new :: "u64 \<Rightarrow> (u64, u8, test_certified_node) dag_driver" where
  "tdd_new r \<equiv> dd_new [1, 2, 3] tdd_election r ddc_default"

abbreviation tdd_enter ::
    "(u64, u8, test_certified_node) dag_driver \<Rightarrow> u64 \<Rightarrow> unit res \<times> (u64, u8, test_certified_node) dag_driver" where
  "tdd_enter \<equiv> dd_enter_new_round (\<lambda>r. ''TestRound('' @ show_u64 r @ '')'')"

definition dd_test_dag_driver_config_default :: bool where
  "dd_test_dag_driver_config_default =
     (ddc_window_size ddc_default = 100 \<and> ddc_anchor_interval ddc_default = 2 \<and>
     ddc_max_concurrent_rounds ddc_default = 10)"

definition dd_test_dag_driver_enter_new_round :: bool where
  "dd_test_dag_driver_enter_new_round =
     (let (r1, d1) = tdd_enter (tdd_new 1) 2; (r2, d2) = tdd_enter d1 5
     in is_ok r1 \<and> dd_current_round d1 = 2 \<and> is_ok r2 \<and> dd_current_round d2 = 5 \<and> is_err (fst (tdd_enter d2 3)))"

definition dd_test_dag_driver_get_strong_links :: bool where
  "dd_test_dag_driver_get_strong_links =
     (length (dd_get_strong_links (tdd_new 1) 1) = 0 \<and> length (dd_get_strong_links (tdd_new 1) 10) = 0)"

definition dd_test_dag_driver_create_proposal :: bool where
  "dd_test_dag_driver_create_proposal =
     (is_ok (dd_create_proposal (tdd_new 1)))"

definition dd_test_dag_driver_add_pending :: bool where
  "dd_test_dag_driver_add_pending =
     (let d1 = dd_add_pending (tdd_new 1) (tnb_build (tnb_set_author (tnb_set_round tnb_new 1) 1)); d2 = dd_add_pending d1 (tnb_build (tnb_set_author (tnb_set_round tnb_new 1) 2))
     in dd_pending_count (tdd_new 1) = 0 \<and> dd_pending_count d1 = 1 \<and> dd_pending_count d2 = 2)"

definition dd_test_dag_driver_process_pending :: bool where
  "dd_test_dag_driver_process_pending =
     (let d = dd_add_pending (dd_add_pending (tdd_new 1) (tnb_build (tnb_set_author (tnb_set_round tnb_new 1) 1))) (tnb_build (tnb_set_author (tnb_set_round tnb_new 1) 2));
     (r, d') = dd_process_pending d
     in dd_pending_count d = 2 \<and> is_ok r \<and> dd_pending_count d' = 0)"

definition dd_test_dag_driver_process_pending_when_processing :: bool where
  "dd_test_dag_driver_process_pending_when_processing =
     (let d = dd_add_pending (tdd_new 1) (tnb_build (tnb_set_author (tnb_set_round tnb_new 1) 1));
     (r, d') = dd_process_pending (d\<lparr>dd_is_processing := True\<rparr>)
     in dd_pending_count d = 1 \<and> is_ok r \<and> dd_pending_count d' = 1)"

definition dd_test_dag_driver_prune :: bool where
  "dd_test_dag_driver_prune =
     (is_ok (fst (dd_prune (tdd_new 1))))"

definition dd_test_dag_driver_current_round :: bool where
  "dd_test_dag_driver_current_round =
     (dd_current_round (tdd_new 42) = 42)"

definition dd_test_dag_driver_with_custom_start_round :: bool where
  "dd_test_dag_driver_with_custom_start_round =
     (dd_current_round (tdd_new 100) = 100 \<and> dd_pending_count (tdd_new 100) = 0)"

definition dd_test_dag_driver_multiple_rounds :: bool where
  "dd_test_dag_driver_multiple_rounds =
     (let (rs, d) = run_each tdd_enter (tdd_new 1) [2, 3, 4]
     in list_all is_ok rs \<and> dd_current_round d = 4)"

lemmas dag_driver_tests_defs =
  dd_test_dag_driver_config_default_def dd_test_dag_driver_enter_new_round_def
  dd_test_dag_driver_get_strong_links_def dd_test_dag_driver_create_proposal_def
  dd_test_dag_driver_add_pending_def dd_test_dag_driver_process_pending_def
  dd_test_dag_driver_process_pending_when_processing_def dd_test_dag_driver_prune_def
  dd_test_dag_driver_current_round_def dd_test_dag_driver_with_custom_start_round_def
  dd_test_dag_driver_multiple_rounds_def

lemma dag_driver_tests:
  "dd_test_dag_driver_config_default"
  "dd_test_dag_driver_enter_new_round"
  "dd_test_dag_driver_get_strong_links"
  "dd_test_dag_driver_create_proposal"
  "dd_test_dag_driver_add_pending"
  "dd_test_dag_driver_process_pending"
  "dd_test_dag_driver_process_pending_when_processing"
  "dd_test_dag_driver_prune"
  "dd_test_dag_driver_current_round"
  "dd_test_dag_driver_with_custom_start_round"
  "dd_test_dag_driver_multiple_rounds"
  by (simp_all add: dag_driver_tests_defs kit_eval ddc_default_def dd_new_def dd_enter_new_round_def dd_get_strong_links_def dd_create_proposal_def dd_add_pending_def
      dd_pending_count_def dd_process_pending_def dd_prune_def dag_new_def dag_get_round_def bt_get_def Let_def)

end
