(* ===== verification/Tests_Mocks.thy ===== *)
theory Tests_Mocks
  imports Test_Eval Codec
begin

text \<open>
  The unit tests of the mock implementations (\<open>testing/\<close>), of \<open>types.rs\<close> and of the traits.
\<close>

section \<open>Hashes, signatures and keys\<close>

definition mt_test_mock_hash_zero :: bool where
  "mt_test_mock_hash_zero =
     (hash_zero mock_hash_ops = 0)"

definition mt_test_mock_hash_from_bytes :: bool where
  "mt_test_mock_hash_from_bytes =
     (on_ok (hash_from_bytes mock_hash_ops [42]) (\<lambda>h. h = 42))"

definition mt_test_mock_hash_from_bytes_empty :: bool where
  "mt_test_mock_hash_from_bytes_empty =
     (is_err (hash_from_bytes mock_hash_ops []))"

definition mt_test_mock_signature_to_bytes :: bool where
  "mt_test_mock_signature_to_bytes =
     (sig_to_bytes mock_signature_ops 42 = [42])"

definition mt_test_mock_signature_from_bytes :: bool where
  "mt_test_mock_signature_from_bytes =
     (on_ok (sig_from_bytes mock_signature_ops [42]) (\<lambda>s. s = 42))"

definition mt_test_mock_signature_verify :: bool where
  "mt_test_mock_signature_verify =
     (is_ok (sig_verify mock_signature_ops 0 [] ()))"

definition mt_test_mock_signature_aggregate :: bool where
  "mt_test_mock_signature_aggregate =
     (is_ok (sig_aggregate mock_signature_ops [1, 2, 3]))"

definition mt_test_mock_node_id_from_bytes :: bool where
  "mt_test_mock_node_id_from_bytes =
     (on_ok (nid_from_bytes mock_node_id_ops [99]) (\<lambda>i. i = 99))"

definition mt_test_mock_node_id_from_bytes_empty :: bool where
  "mt_test_mock_node_id_from_bytes_empty =
     (is_err (nid_from_bytes mock_node_id_ops []))"

definition mt_test_mock_node_id_as_bytes :: bool where
  "mt_test_mock_node_id_as_bytes =
     (nid_as_bytes mock_node_id_ops 42 = [])"

definition mt_test_mock_hash_inner :: bool where
  "mt_test_mock_hash_inner =
     (mock_hash_inner 123 = 123)"

definition mt_test_mock_signature_from_bytes_empty :: bool where
  "mt_test_mock_signature_from_bytes_empty =
     (is_err (sig_from_bytes mock_signature_ops []))"

definition mt_test_mock_public_key_to_bytes :: bool where
  "mt_test_mock_public_key_to_bytes =
     (pk_to_bytes mock_public_key_ops () = [])"

definition mt_test_mock_public_key_from_bytes :: bool where
  "mt_test_mock_public_key_from_bytes =
     (is_ok (pk_from_bytes mock_public_key_ops [1, 2, 3]))"

lemmas mock_types_tests_defs =
  mt_test_mock_hash_zero_def mt_test_mock_hash_from_bytes_def
  mt_test_mock_hash_from_bytes_empty_def mt_test_mock_signature_to_bytes_def
  mt_test_mock_signature_from_bytes_def mt_test_mock_signature_verify_def
  mt_test_mock_signature_aggregate_def mt_test_mock_node_id_from_bytes_def
  mt_test_mock_node_id_from_bytes_empty_def mt_test_mock_node_id_as_bytes_def
  mt_test_mock_hash_inner_def mt_test_mock_signature_from_bytes_empty_def
  mt_test_mock_public_key_to_bytes_def mt_test_mock_public_key_from_bytes_def

lemma mock_types_tests:
  "mt_test_mock_hash_zero"
  "mt_test_mock_hash_from_bytes"
  "mt_test_mock_hash_from_bytes_empty"
  "mt_test_mock_signature_to_bytes"
  "mt_test_mock_signature_from_bytes"
  "mt_test_mock_signature_verify"
  "mt_test_mock_signature_aggregate"
  "mt_test_mock_node_id_from_bytes"
  "mt_test_mock_node_id_from_bytes_empty"
  "mt_test_mock_node_id_as_bytes"
  "mt_test_mock_hash_inner"
  "mt_test_mock_signature_from_bytes_empty"
  "mt_test_mock_public_key_to_bytes"
  "mt_test_mock_public_key_from_bytes"
  by (simp_all add: mock_types_tests_defs kit_eval mock_hash_ops_def mock_hash_from_bytes_def mock_hash_inner_def mock_node_id_ops_def mock_signature_ops_def
      mock_sig_from_bytes_def mock_public_key_ops_def)

section \<open>Blocks and certificates\<close>

definition mb_test_mock_block_metadata_new :: bool where
  "mb_test_mock_block_metadata_new =
     (let metadata = mock_metadata 1 2 3 4 5
     in bm_epoch metadata = 1 \<and> bm_round metadata = 2 \<and> bm_author metadata = 3 \<and> bm_parent_id metadata = 4 \<and>
     bm_timestamp metadata = 5)"

definition mb_test_mock_block_metadata_genesis :: bool where
  "mb_test_mock_block_metadata_genesis =
     (let metadata = mock_genesis_metadata
     in bm_epoch metadata = 0 \<and> bm_round metadata = 0 \<and> bm_author metadata = 0 \<and> bm_parent_id metadata = 0 \<and>
     bm_timestamp metadata = 0)"

definition mb_test_mock_block_new :: bool where
  "mb_test_mock_block_new =
     (let metadata = mock_metadata 1 2 3 4 5; b = mock_block [mock_transaction, mock_transaction] metadata
     in blk_metadata b = metadata \<and> length (blk_transactions b) = 2 \<and> bm_epoch (blk_metadata b) = 1 \<and> blk_round b = 2)"

definition mb_test_mock_block_genesis :: bool where
  "mb_test_mock_block_genesis =
     (blk_is_genesis mock_block_genesis \<and> length (blk_transactions mock_block_genesis) = 0)"

definition mb_test_mock_block_id_derivation :: bool where
  "mb_test_mock_block_id_derivation =
     (blk_id (mock_block [] (mock_metadata 1 5 3 4 0)) = 6)"

definition mb_test_mock_quorum_cert_new :: bool where
  "mb_test_mock_quorum_cert_new =
     (qc_block_id (mock_qc_new 42) = 42)"

definition mb_test_mock_quorum_cert_default :: bool where
  "mb_test_mock_quorum_cert_default =
     (qc_block_id mock_qc_default = 0)"

definition mb_test_mock_transaction :: bool where
  "mb_test_mock_transaction =
     (tx_size mock_transaction = 100 \<and> tx_hash mock_transaction = 0)"

definition mb_test_mock_quorum_cert_with_metadata :: bool where
  "mb_test_mock_quorum_cert_with_metadata =
     (let metadata = mock_metadata 1 2 3 4 5; qc = mock_qc_with_metadata metadata 42
     in qc_block_id qc = 42 \<and> qc_certified_block qc = metadata)"

definition mb_test_mock_quorum_cert_from_votes :: bool where
  "mb_test_mock_quorum_cert_from_votes =
     (is_ok (ch_from_votes mock_chain [mock_vote 1 0 0] ()))"

definition mb_test_mock_block_is_nil :: bool where
  "mb_test_mock_block_is_nil =
     (\<not> blk_is_nil mock_block_genesis)"

definition mb_test_mock_block_new_genesis :: bool where
  "mb_test_mock_block_new_genesis =
     (blk_is_genesis mock_block_genesis)"

definition mb_test_mock_block_parent_id :: bool where
  "mb_test_mock_block_parent_id =
     (blk_parent_id (mock_block [] (mock_metadata 1 2 3 99 5)) = 99)"

definition mb_test_mock_block_verify_signature :: bool where
  "mb_test_mock_block_verify_signature =
     (is_ok (ch_verify_signature mock_chain mock_block_genesis))"

definition mb_test_mock_block_signature_none :: bool where
  "mb_test_mock_block_signature_none =
     (blk_signature mock_block_genesis = None)"

lemmas mock_block_tests_defs =
  mb_test_mock_block_metadata_new_def mb_test_mock_block_metadata_genesis_def
  mb_test_mock_block_new_def mb_test_mock_block_genesis_def mb_test_mock_block_id_derivation_def
  mb_test_mock_quorum_cert_new_def mb_test_mock_quorum_cert_default_def
  mb_test_mock_transaction_def mb_test_mock_quorum_cert_with_metadata_def
  mb_test_mock_quorum_cert_from_votes_def mb_test_mock_block_is_nil_def
  mb_test_mock_block_new_genesis_def mb_test_mock_block_parent_id_def
  mb_test_mock_block_verify_signature_def mb_test_mock_block_signature_none_def

lemma mock_block_tests:
  "mb_test_mock_block_metadata_new"
  "mb_test_mock_block_metadata_genesis"
  "mb_test_mock_block_new"
  "mb_test_mock_block_genesis"
  "mb_test_mock_block_id_derivation"
  "mb_test_mock_quorum_cert_new"
  "mb_test_mock_quorum_cert_default"
  "mb_test_mock_transaction"
  "mb_test_mock_quorum_cert_with_metadata"
  "mb_test_mock_quorum_cert_from_votes"
  "mb_test_mock_block_is_nil"
  "mb_test_mock_block_new_genesis"
  "mb_test_mock_block_parent_id"
  "mb_test_mock_block_verify_signature"
  "mb_test_mock_block_signature_none"
  by (simp_all add: mock_block_tests_defs mock_metadata_def mock_genesis_metadata_def mock_block_def mock_block_genesis_def mock_transaction_def mock_qc_new_def
      mock_qc_with_metadata_def mock_chain_def Let_def)

section \<open>Validators and votes\<close>

definition mv_test_mock_validator_new :: bool where
  "mv_test_mock_validator_new =
     (mv_id (mv_new 1 100) = 1 \<and> mv_voting_power (mv_new 1 100) = 100)"

definition mv_test_mock_validator_set_new :: bool where
  "mv_test_mock_validator_set_new =
     (let s = mvs_new [mv_new 0 100, mv_new 1 150, mv_new 2 200]
     in mvs_len s = 3 \<and> mvs_total_voting_power s = 450 \<and> mvs_quorum_threshold s = 301)"

definition mv_test_mock_validator_set_quorum_calculation :: bool where
  "mv_test_mock_validator_set_quorum_calculation =
     (let s = mvs_new [mv_new 0 100, mv_new 1 100, mv_new 2 100] in mvs_total_voting_power s = 300 \<and> mvs_quorum_threshold s = 201)"

definition mv_test_mock_validator_set_get_validator :: bool where
  "mv_test_mock_validator_set_get_validator =
     (let s = mvs_new [mv_new 0 100, mv_new 1 150]
     in mvs_get_validator s 0 \<noteq> None \<and> mvs_get_validator s 1 \<noteq> None \<and> mvs_get_validator s 2 = None)"

definition mv_test_mock_validator_set_check_voting_power :: bool where
  "mv_test_mock_validator_set_check_voting_power =
     (let s = mvs_verifier (mvs_new [mv_new 0 100, mv_new 1 100, mv_new 2 100])
     in \<not> is_ok (vv_check_voting_power s [0, 1] True) \<and> is_ok (vv_check_voting_power s [0, 1, 2] True) \<and>
     is_ok (vv_check_voting_power s [0] False))"

definition mv_test_mock_validator_set_verify_vote :: bool where
  "mv_test_mock_validator_set_verify_vote =
     (let s = mvs_verifier (mvs_new [mv_new 0 100, mv_new 1 100])
     in is_ok (vv_verify_vote s (mock_vote 0 0 0)) \<and> is_err (vv_verify_vote s (mock_vote 99 0 0)))"

definition mv_test_mock_validator_set_is_empty :: bool where
  "mv_test_mock_validator_set_is_empty =
     (mvs_is_empty (mvs_new []) \<and> \<not> mvs_is_empty (mvs_new [mv_new 0 100]))"

definition mv_test_mock_validator_set_validator_ids :: bool where
  "mv_test_mock_validator_set_validator_ids =
     (length (mvs_validator_ids (mvs_new [mv_new 0 100, mv_new 1 150])) = 2)"

definition mv_test_mock_validator_set_verify_block :: bool where
  "mv_test_mock_validator_set_verify_block =
     (is_ok (vv_verify_block (mvs_verifier (mvs_new [mv_new 0 100])) mock_block_genesis))"

definition mv_test_mock_validator_set_get_voting_power :: bool where
  "mv_test_mock_validator_set_get_voting_power =
     (let s = mvs_verifier (mvs_new [mv_new 0 100, mv_new 1 150])
     in vv_get_voting_power s 0 = Some 100 \<and> vv_get_voting_power s 1 = Some 150 \<and> vv_get_voting_power s 99 = None)"

definition mv_test_mock_validator_set_total_voting_power_trait :: bool where
  "mv_test_mock_validator_set_total_voting_power_trait =
     (vv_total_voting_power (mvs_verifier (mvs_new [mv_new 0 100, mv_new 1 150])) = 250)"

definition mv_test_mock_validator_set_quorum_voting_power :: bool where
  "mv_test_mock_validator_set_quorum_voting_power =
     (vv_quorum_voting_power (mvs_verifier (mvs_new [mv_new 0 100, mv_new 1 150])) = 167)"

definition mv_test_mock_validator_set_aggregate_signatures :: bool where
  "mv_test_mock_validator_set_aggregate_signatures =
     (is_ok (vv_aggregate_signatures (mvs_verifier (mvs_new [mv_new 0 100])) [1, 2]))"

lemmas mock_validator_tests_defs =
  mv_test_mock_validator_new_def mv_test_mock_validator_set_new_def
  mv_test_mock_validator_set_quorum_calculation_def mv_test_mock_validator_set_get_validator_def
  mv_test_mock_validator_set_check_voting_power_def mv_test_mock_validator_set_verify_vote_def
  mv_test_mock_validator_set_is_empty_def mv_test_mock_validator_set_validator_ids_def
  mv_test_mock_validator_set_verify_block_def mv_test_mock_validator_set_get_voting_power_def
  mv_test_mock_validator_set_total_voting_power_trait_def
  mv_test_mock_validator_set_quorum_voting_power_def
  mv_test_mock_validator_set_aggregate_signatures_def

lemma mock_validator_tests:
  "mv_test_mock_validator_new"
  "mv_test_mock_validator_set_new"
  "mv_test_mock_validator_set_quorum_calculation"
  "mv_test_mock_validator_set_get_validator"
  "mv_test_mock_validator_set_check_voting_power"
  "mv_test_mock_validator_set_verify_vote"
  "mv_test_mock_validator_set_is_empty"
  "mv_test_mock_validator_set_validator_ids"
  "mv_test_mock_validator_set_verify_block"
  "mv_test_mock_validator_set_get_voting_power"
  "mv_test_mock_validator_set_total_voting_power_trait"
  "mv_test_mock_validator_set_quorum_voting_power"
  "mv_test_mock_validator_set_aggregate_signatures"
  by (simp_all add: mock_validator_tests_defs kit_eval hm_eval mv_new_def mvs_new_def mvs_len_def mvs_is_empty_def mvs_get_validator_def mvs_validator_ids_def
      mvs_get_voting_power_def mvs_check_voting_power_def mvs_verifier_def usize_of_nat_def mock_vote_def mock_vote_with_signature_def)

definition mvs_test_make_validator_set :: bool where
  "mvs_test_make_validator_set =
     (let s = make_validator_set [100, 150, 200, 250] in mvs_len s = 4 \<and> mvs_total_voting_power s = 700)"

definition mvs_test_make_validator_set_empty :: bool where
  "mvs_test_make_validator_set_empty =
     (let s = make_validator_set [] in mvs_len s = 0 \<and> mvs_total_voting_power s = 0)"

definition mvs_test_make_validator_set_single :: bool where
  "mvs_test_make_validator_set_single =
     (let s = make_validator_set [1000] in mvs_len s = 1 \<and> mvs_total_voting_power s = 1000)"

lemmas make_validator_set_tests_defs =
  mvs_test_make_validator_set_def mvs_test_make_validator_set_empty_def
  mvs_test_make_validator_set_single_def

lemma make_validator_set_tests:
  "mvs_test_make_validator_set"
  "mvs_test_make_validator_set_empty"
  "mvs_test_make_validator_set_single"
  by (simp_all add: make_validator_set_tests_defs hm_eval make_validator_set_def mv_new_def mvs_new_def mvs_len_def usize_of_nat_def)

definition mo_test_mock_vote_new :: bool where
  "mo_test_mock_vote_new =
     (let v = mock_vote 1 2 5 in vote_author v = 1 \<and> vote_block_id v = 2 \<and> vote_round v = 5)"

definition mo_test_mock_vote_with_signature :: bool where
  "mo_test_mock_vote_with_signature =
     (vote_signature (mock_vote_with_signature 1 2 5 99) = 99)"

definition mo_test_mock_vote_default_signature :: bool where
  "mo_test_mock_vote_default_signature =
     (vote_signature (mock_vote 5 0 0) = 5)"

definition mo_test_mock_vote_verify :: bool where
  "mo_test_mock_vote_verify =
     (is_ok (ch_vote_verify mock_chain (mock_vote 1 2 5) (mvs_verifier (mvs_new [mv_new 1 100]))))"

definition mo_test_mock_ledger_info_epoch :: bool where
  "mo_test_mock_ledger_info_epoch =
     (li_epoch mock_ledger_info = 0)"

definition mo_test_mock_ledger_info_round :: bool where
  "mo_test_mock_ledger_info_round =
     (li_round mock_ledger_info = 0)"

definition mo_test_mock_commit_info_block_id :: bool where
  "mo_test_mock_commit_info_block_id =
     (ci_block_id mock_commit_info = 0)"

definition mo_test_mock_commit_info_epoch :: bool where
  "mo_test_mock_commit_info_epoch =
     (ci_epoch mock_commit_info = 0)"

definition mo_test_mock_commit_info_round :: bool where
  "mo_test_mock_commit_info_round =
     (ci_round mock_commit_info = 0)"

definition mo_test_mock_commit_info_version :: bool where
  "mo_test_mock_commit_info_version =
     (ci_version mock_commit_info = 0)"

definition mo_test_mock_commit_info_timestamp :: bool where
  "mo_test_mock_commit_info_timestamp =
     (ci_timestamp mock_commit_info = 0)"

lemmas mock_vote_tests_defs =
  mo_test_mock_vote_new_def mo_test_mock_vote_with_signature_def
  mo_test_mock_vote_default_signature_def mo_test_mock_vote_verify_def
  mo_test_mock_ledger_info_epoch_def mo_test_mock_ledger_info_round_def
  mo_test_mock_commit_info_block_id_def mo_test_mock_commit_info_epoch_def
  mo_test_mock_commit_info_round_def mo_test_mock_commit_info_version_def
  mo_test_mock_commit_info_timestamp_def

lemma mock_vote_tests:
  "mo_test_mock_vote_new"
  "mo_test_mock_vote_with_signature"
  "mo_test_mock_vote_default_signature"
  "mo_test_mock_vote_verify"
  "mo_test_mock_ledger_info_epoch"
  "mo_test_mock_ledger_info_round"
  "mo_test_mock_commit_info_block_id"
  "mo_test_mock_commit_info_epoch"
  "mo_test_mock_commit_info_round"
  "mo_test_mock_commit_info_version"
  "mo_test_mock_commit_info_timestamp"
  by (simp_all add: mock_vote_tests_defs mock_vote_def mock_vote_with_signature_def mock_chain_def mock_ledger_info_def Let_def)

section \<open>Basic types and traits\<close>

definition ty_test_timeout_reason_display :: bool where
  "ty_test_timeout_reason_display =
     (map timeout_reason_fmt [NoQuorum, SlowLeader, NetworkDelay, ResourceConstraints] =
     [''no_quorum'', ''slow_leader'', ''network_delay'', ''resource_constraints''])"

definition ty_test_constants :: bool where
  "ty_test_constants =
     (GENESIS_ROUND = 0 \<and> GENESIS_EPOCH = 0)"

lemmas types_tests_defs =
  ty_test_timeout_reason_display_def ty_test_constants_def

lemma types_tests:
  "ty_test_timeout_reason_display"
  "ty_test_constants"
  by (simp_all add: types_tests_defs GENESIS_ROUND_def GENESIS_EPOCH_def)

definition co_test_node_id_roundtrip :: bool where
  "co_test_node_id_roundtrip =
     (let bytes = replicate 32 1
     in on_ok (nid_from_bytes test_node_id_ops bytes) (\<lambda>i. nid_as_bytes test_node_id_ops i = bytes))"

definition co_test_hash_zero :: bool where
  "co_test_hash_zero =
     (hash_as_bytes test_hash_ops (hash_zero test_hash_ops) = replicate 32 0)"

definition co_test_hash_roundtrip :: bool where
  "co_test_hash_roundtrip =
     (let bytes = replicate 32 42
     in on_ok (hash_from_bytes test_hash_ops bytes) (\<lambda>h. hash_as_bytes test_hash_ops h = bytes))"

lemmas core_tests_defs =
  co_test_node_id_roundtrip_def co_test_hash_zero_def co_test_hash_roundtrip_def

lemma core_tests:
  "co_test_node_id_roundtrip"
  "co_test_hash_zero"
  "co_test_hash_roundtrip"
  by (simp_all add: core_tests_defs kit_eval test_node_id_ops_def tni_from_bytes_def tni_as_bytes_def test_hash_ops_def th_zero_def th_from_bytes_def
      th_as_bytes_def Let_def)

definition ttx_transaction :: "u8 list \<Rightarrow> array32 transaction" where
  "ttx_transaction d = \<lparr>tx_hash = array32_replicate 0, tx_size = usize_of_nat (length d)\<rparr>"

definition tx_test_transaction :: bool where
  "tx_test_transaction =
     (tx_size (ttx_transaction [1, 2, 3]) = 3)"

lemmas transaction_test_defs =
  tx_test_transaction_def

lemma transaction_test:
  "tx_test_transaction"
  by (simp_all add: transaction_test_defs ttx_transaction_def usize_of_nat_def)

definition nv_test_validator_set :: bool where
  "nv_test_validator_set =
     (let s = test_validator_set [\<lparr>vi_id = array32_replicate 1, vi_public_key = [1, 2, 3], vi_voting_power = 100\<rparr>,
     \<lparr>vi_id = array32_replicate 2, vi_public_key = [4, 5, 6], vi_voting_power = 200\<rparr>]
     in vsv_total_voting_power s = 300 \<and> vsv_quorum_threshold s = 201)"

lemmas validator_set_trait_test_defs =
  nv_test_validator_set_def

lemma validator_set_trait_test:
  "nv_test_validator_set"
  by (simp_all add: validator_set_trait_test_defs test_validator_set_def tvs_total_voting_power_def tvs_quorum_threshold_def Let_def)

definition sv_test_state_view :: bool where
  "sv_test_state_view =
     (on_ok (svw_get mock_state_view [116, 101, 115, 116]) (\<lambda>v. v = None) \<and>
     on_ok (svw_get_multi mock_state_view [[1], [2]]) (\<lambda>vs. length vs = 2))"

lemmas state_view_test_defs =
  sv_test_state_view_def

lemma state_view_test:
  "sv_test_state_view"
  by (simp_all add: state_view_test_defs kit_eval mock_state_view_def)

definition cd_test_commit_decision :: bool where
  "cd_test_commit_decision =
     (let no_commit = NoCommit :: u64 commit_decision; commit = Commit (123 :: u64)
     in \<not> is_commit no_commit \<and> is_commit commit \<and> committed_id commit = Some 123 \<and> committed_id no_commit = None)"

lemmas commit_decision_test_defs =
  cd_test_commit_decision_def

lemma commit_decision_test:
  "cd_test_commit_decision"
  by (simp_all add: commit_decision_test_defs Let_def)

definition da_test_dag_error_display :: bool where
  "da_test_dag_error_display =
     (dag_error_fmt NodeNotFound = ''Node not found in DAG'' \<and>
     dag_error_fmt InvalidNodeStructure = ''Invalid node structure'')"

definition da_test_dag_error_into_anyhow :: bool where
  "da_test_dag_error_into_anyhow =
     (str_contains (dag_error_fmt NodeNotFound) ''Node not found'')"

definition da_test_dag_error_display_all_variants :: bool where
  "da_test_dag_error_display_all_variants =
     (map dag_error_fmt [NodeNotFound, InvalidNodeStructure, InvalidParents, CertificateVerificationFailed,
     InsufficientVotingPower, InvalidRound, NodeAlreadyExists] =
     [''Node not found in DAG'', ''Invalid node structure'', ''Invalid parent certificates'', ''Certificate verification failed'',
     ''Insufficient voting power for quorum'', ''Invalid round number'', ''Node already exists''])"

lemma dag_trait_tests:
  "da_test_dag_error_display"
  "da_test_dag_error_into_anyhow"
  "da_test_dag_error_display_all_variants"
  by code_simp+

end
