(* ===== verification/Tests_Integration.thy ===== *)
theory Tests_Integration
  imports Test_Eval Quorum_Safety
begin

text \<open>
  The integration tests of the safety core: \<open>tests/quorum_safety.rs\<close>,
  \<open>tests/safety_comprehensive.rs\<close> and the safety part of \<open>tests/consensus_integration.rs\<close>, on the mock chain.
\<close>

section \<open>quorum\_safety.rs\<close>

text \<open>The validator set that the tests build from a list of powers, a sequence of calls of
  \<open>add_signature\<close>, and \<open>check_voting_power\<close> with the quorum check.\<close>

abbreviation qs_set :: "u64 list \<Rightarrow> mock_validator_set" where
  "qs_set ps \<equiv> mvs_new (map (\<lambda>(i, p). mv_new (of_nat i) p) (enumerate 0 ps))"

abbreviation qs_add :: "(u8 \<times> u8 \<times> u64) list \<Rightarrow> (u8, u8) signature_aggregator" where
  "qs_add \<equiv> foldl (\<lambda>sa (i, s, p). sa_add_signature sa i s p) sa_new"

abbreviation qs_check :: "mock_validator_set \<Rightarrow> u8 list \<Rightarrow> bool" where
  "qs_check s signers \<equiv> is_ok (mvs_check_voting_power s signers True)"

lemma qs_replicate: "replicate (numeral k) x = x # replicate (pred_numeral k) x"
  by (simp add: numeral_eq_Suc)

lemma tests_upt:
  "[Suc 0..<21] = [1, 2, 3, 4, 5, 6, 7, 8, 9, 10, 11, 12, 13, 14, 15, 16, 17, 18, 19, 20]"
  "[Suc 0..<11] = [1, 2, 3, 4, 5, 6, 7, 8, 9, 10]" "[0..<11] = [0, 1, 2, 3, 4, 5, 6, 7, 8, 9, 10]"
  by code_simp+

definition qs_test_quorum_threshold_calculation :: bool where
  "qs_test_quorum_threshold_calculation =
     (list_all (\<lambda>(ps, total, quorum). mvs_total_voting_power (qs_set ps) = total \<and> mvs_quorum_threshold (qs_set ps) = quorum)
     [(replicate 3 100, 300, 201), (replicate 4 100, 400, 267), (replicate 10 50, 500, 334), (replicate 10 100, 1000, 667)])"

definition qs_test_quorum_rejection_insufficient_power :: bool where
  "qs_test_quorum_rejection_insufficient_power =
     (let verifier = qs_set (replicate 4 100)
     in list_all (\<lambda>signers. \<not> qs_check verifier signers) [[0], [0, 1]])"

definition qs_test_quorum_acceptance_sufficient_power :: bool where
  "qs_test_quorum_acceptance_sufficient_power =
     (let verifier = qs_set (replicate 4 100)
     in list_all (qs_check verifier) [[0, 1, 2], [0, 1, 2, 3]])"

definition qs_test_duplicate_votes_not_counted :: bool where
  "qs_test_duplicate_votes_not_counted =
     (let sa = qs_add [(0, 1, 100)]; sa' = sa_add_signature sa 0 2 100
     in sa_voting_power sa = 100 \<and> sa_signer_count sa = 1 \<and>
     sa_voting_power sa' = 100 \<and> sa_signer_count sa' = 1 \<and> sa_has_signed sa' 0)"

definition qs_test_voting_power_accumulation :: bool where
  "qs_test_voting_power_accumulation =
     (let sa = qs_add [(0, 0, 150), (1, 1, 200), (2, 2, 250)]
     in sa_voting_power sa = 600 \<and> sa_signer_count sa = 3)"

definition qs_test_empty_aggregator_zero_power :: bool where
  "qs_test_empty_aggregator_zero_power =
     (let sa = qs_add []
     in sa_voting_power sa = 0 \<and> sa_signer_count sa = 0 \<and> \<not> sa_has_signed sa 0)"

definition qs_test_quorum_threshold_edge_cases :: bool where
  "qs_test_quorum_threshold_edge_cases =
     (let verifier = qs_set (replicate 3 100)
     in \<not> qs_check verifier [0, 1] \<and> qs_check verifier [0, 1, 2])"

definition qs_test_zero_voting_power_validators :: bool where
  "qs_test_zero_voting_power_validators =
     (let sa = qs_add [(0, 0, 0), (1, 1, 100)]
     in sa_voting_power sa = 100 \<and> sa_signer_count sa = 2)"

definition qs_test_signature_aggregation_preserves_signers :: bool where
  "qs_test_signature_aggregation_preserves_signers =
     (let signers = sa_signers (qs_add [(0, 0, 100), (1, 1, 150), (2, 2, 200)])
     in length signers = 3 \<and> 0 \<in> set signers \<and> 1 \<in> set signers \<and> 2 \<in> set signers)"

definition qs_test_voting_power_bounded_by_total :: bool where
  "qs_test_voting_power_bounded_by_total =
     (let powers = [100, 150, 200, 250]; total = mvs_total_voting_power (qs_set powers);
     sigs = map (\<lambda>(i, p). (of_nat i, of_nat i, p)) (enumerate 0 powers)
     in list_all (\<lambda>n. sa_voting_power (qs_add (take n sigs)) \<le> total) [1, 2, 3, 4])"

definition qs_test_single_validator_cannot_form_quorum :: bool where
  "qs_test_single_validator_cannot_form_quorum =
     (let verifier = qs_set [100, 150, 200, 250]
     in list_all (\<lambda>i. \<not> qs_check verifier [i]) [0, 1, 2, 3])"

lemmas quorum_safety_tests_defs =
  qs_test_quorum_threshold_calculation_def qs_test_quorum_rejection_insufficient_power_def
  qs_test_quorum_acceptance_sufficient_power_def qs_test_duplicate_votes_not_counted_def
  qs_test_voting_power_accumulation_def qs_test_empty_aggregator_zero_power_def
  qs_test_quorum_threshold_edge_cases_def qs_test_zero_voting_power_validators_def
  qs_test_signature_aggregation_preserves_signers_def qs_test_voting_power_bounded_by_total_def
  qs_test_single_validator_cannot_form_quorum_def

lemma quorum_safety_tests:
  "qs_test_quorum_threshold_calculation"
  "qs_test_quorum_rejection_insufficient_power"
  "qs_test_quorum_acceptance_sufficient_power"
  "qs_test_duplicate_votes_not_counted"
  "qs_test_voting_power_accumulation"
  "qs_test_empty_aggregator_zero_power"
  "qs_test_quorum_threshold_edge_cases"
  "qs_test_zero_voting_power_validators"
  "qs_test_signature_aggregation_preserves_signers"
  "qs_test_voting_power_bounded_by_total"
  "qs_test_single_validator_cannot_form_quorum"
  by (simp_all add: quorum_safety_tests_defs sa_eval mvs_new_def mv_new_def mvs_check_voting_power_def mvs_get_voting_power_def qs_replicate)

definition qs_test_quorum_threshold_monotonic :: bool where
  "qs_test_quorum_threshold_monotonic =
     list_all (\<lambda>count. 1 < count \<longrightarrow>
         mvs_quorum_threshold (qs_set (replicate (count - 1) 100)) \<le> mvs_quorum_threshold (qs_set (replicate count 100)))
       [1..<21]"

lemma quorum_threshold_monotonic_test: "qs_test_quorum_threshold_monotonic"
  by (simp add: qs_test_quorum_threshold_monotonic_def tests_upt mvs_new_def mv_new_def qs_replicate hm_eval)

section \<open>safety\_comprehensive.rs\<close>

definition sc_make_block :: "u64 \<Rightarrow> u64 \<Rightarrow> u8 \<Rightarrow> u8 \<Rightarrow> (u8, u8, u8) block" where
  "sc_make_block r e author parent = mock_block [] (mock_metadata e r author parent (r * 1000))"

definition sc_make_qc :: "u64 \<Rightarrow> u64 \<Rightarrow> u8 \<Rightarrow> (u8, u8) quorum_cert" where
  "sc_make_qc r e b = mock_qc_with_metadata (mock_metadata e r b b (r * 1000)) b"

text \<open>Certificates observed one after the other, each call \<open>unwrap\<close>ped, before an assertion.\<close>

abbreviation sc_observed ::
    "two_chain_rules \<Rightarrow> (u8, u8) quorum_cert list \<Rightarrow> (two_chain_rules \<Rightarrow> bool) \<Rightarrow> bool" where
  "sc_observed sr qcs P \<equiv>
     (case run_each observe_qc sr qcs of (rs, sr') \<Rightarrow> list_all is_ok rs \<and> P sr')"

abbreviation sc_safe :: "two_chain_rules \<Rightarrow> (u8, u8, u8) block \<Rightarrow> bool" where
  "sc_safe sr b \<equiv> is_ok (safe_to_vote sr b None)"

abbreviation sc_timeout :: "two_chain_rules \<Rightarrow> u64 \<Rightarrow> u64 \<Rightarrow> unit res" where
  "sc_timeout sr r q \<equiv> safe_to_timeout sr r q (None :: u8 two_chain_timeout_cert option)"

definition sc_test_safe_to_vote_normal_progression :: bool where
  "sc_test_safe_to_vote_normal_progression =
     (sc_observed (sr_new 1) [sc_make_qc 4 1 4] (\<lambda>sr. sc_safe sr (sc_make_block 5 1 1 4)))"

definition sc_test_safe_to_vote_consecutive_rounds :: bool where
  "sc_test_safe_to_vote_consecutive_rounds =
     (sc_safe (sr_new 1) (sc_make_block 10 1 1 9))"

definition sc_test_safe_to_timeout_normal :: bool where
  "sc_test_safe_to_timeout_normal =
     (sc_observed (sr_new 1) [sc_make_qc 3 1 3] (\<lambda>sr. is_ok (sc_timeout sr 4 3)))"

definition sc_test_unsafe_to_timeout_qc_below_one_chain :: bool where
  "sc_test_unsafe_to_timeout_qc_below_one_chain =
     (sc_observed (sr_new 1) [sc_make_qc 5 1 5] (\<lambda>sr. is_err (sc_timeout sr 6 3)))"

definition sc_test_safe_to_timeout_qc_equals_one_chain :: bool where
  "sc_test_safe_to_timeout_qc_equals_one_chain =
     (sc_observed (sr_new 1) [sc_make_qc 5 1 5] (\<lambda>sr. is_ok (sc_timeout sr 6 5)))"

definition sc_test_commit_with_two_chain :: bool where
  "sc_test_commit_with_two_chain =
     (let genesis = sc_make_block 0 1 0 0; b1 = sc_make_block 1 1 1 (blk_id genesis); b2 = sc_make_block 2 1 1 (blk_id b1)
     in sc_observed (sr_new 1) [sc_make_qc 1 1 (blk_id b1)] (\<lambda>sr. should_commit sr b2 = Some (blk_id b1)))"

definition sc_test_no_commit_without_two_chain :: bool where
  "sc_test_no_commit_without_two_chain =
     (let genesis = sc_make_block 0 1 0 0; b1 = sc_make_block 1 1 1 (blk_id genesis); b2 = sc_make_block 2 1 1 (blk_id b1)
     in sc_observed (sr_new 1) [sc_make_qc 2 1 (blk_id b2)] (\<lambda>sr. should_commit sr b1 = None))"

definition sc_test_commit_from_genesis :: bool where
  "sc_test_commit_from_genesis =
     (let genesis = sc_make_block 0 1 0 0; b1 = sc_make_block 1 1 1 (blk_id genesis); b2 = sc_make_block 2 1 1 (blk_id b1)
     in sc_observed (sr_new 1) [sc_make_qc 1 1 (blk_id b1)] (\<lambda>sr. should_commit sr b2 = Some (blk_id b1)))"

definition sc_test_three_chain_commits_middle :: bool where
  "sc_test_three_chain_commits_middle =
     (let genesis = sc_make_block 0 1 0 0; b1 = sc_make_block 1 1 1 (blk_id genesis); b2 = sc_make_block 2 1 1 (blk_id b1);
     b3 = sc_make_block 3 1 1 (blk_id b2); qc1 = sc_make_qc 1 1 (blk_id b1); qc2 = sc_make_qc 2 1 (blk_id b2)
     in sc_observed (sr_new 1) [qc1, qc2, sc_make_qc 3 1 (blk_id b3)] (\<lambda>_. True) \<and>
     sc_observed (sr_new 1) [qc1, qc2] (\<lambda>sr. should_commit sr b3 = Some (blk_id b2)))"

definition sc_test_double_vote_prevention :: bool where
  "sc_test_double_vote_prevention =
     (let (r1, s1) = record_vote (sr_new 1) 10; (r2, s2) = record_vote s1 5;
     (r3, s3) = record_vote s2 10; (r4, s4) = record_vote s3 15
     in is_ok r1 \<and> ss_last_voted_round (sr_state s1) = 10 \<and> is_err r2 \<and> is_ok r3 \<and>
     is_ok r4 \<and> ss_last_voted_round (sr_state s4) = 15)"

definition sc_test_qc_updates_one_chain_round :: bool where
  "sc_test_qc_updates_one_chain_round =
     (ss_one_chain_round (sr_state (sr_new 1)) = 0 \<and>
     sc_observed (sr_new 1) [sc_make_qc 3 1 3] (\<lambda>sr. ss_one_chain_round (sr_state sr) = 3 \<and>
     sc_observed sr [sc_make_qc 7 1 7] (\<lambda>sr. ss_one_chain_round (sr_state sr) = 7 \<and>
     sc_observed sr [sc_make_qc 5 1 5] (\<lambda>sr. ss_one_chain_round (sr_state sr) = 7))))"

definition sc_test_state_recovery :: bool where
  "sc_test_state_recovery =
     (let s = sr_state (sr_with_state (ss_new 5 100 100 98 50))
     in ss_epoch s = 5 \<and> ss_last_voted_round s = 100 \<and> ss_preferred_round s = 100 \<and>
     ss_one_chain_round s = 98 \<and> ss_highest_timeout_round s = 50)"

definition sc_test_safety_state_invariants :: bool where
  "sc_test_safety_state_invariants =
     (let s = ss_new 1 10 10 8 5; s2 = snd (update_preferred_round s 15); s3 = snd (update_one_chain_round s2 12)
     in ss_one_chain_round s \<le> ss_preferred_round s \<and> ss_preferred_round s2 = 15 \<and> ss_one_chain_round s3 = 12)"

definition sc_test_preferred_round_monotonicity :: bool where
  "sc_test_preferred_round_monotonicity =
     (let s = ss_new 1 0 5 3 0; s1 = snd (update_preferred_round s 10); s2 = snd (update_preferred_round s1 8)
     in ss_preferred_round s1 = 10 \<and> ss_preferred_round s2 = 10)"

definition sc_test_one_chain_round_monotonicity :: bool where
  "sc_test_one_chain_round_monotonicity =
     (let s = ss_new 1 0 3 3 0; s1 = snd (update_one_chain_round s 5); s2 = snd (update_one_chain_round s1 2)
     in ss_one_chain_round s1 = 5 \<and> ss_one_chain_round s2 = 5)"

definition sc_test_epoch_transition :: bool where
  "sc_test_epoch_transition =
     (let (r1, s1) = record_vote (sr_new 1) 10; sr2 = sr_with_state (ss_new 2 0 0 0 0)
     in sc_safe (sr_new 1) (sc_make_block 10 1 1 9) \<and> is_ok r1 \<and>
     sc_safe sr2 (sc_make_block 1 2 1 0) \<and> ss_epoch (sr_state sr2) = 2)"

definition sc_test_epochs_maintain_separate_state :: bool where
  "sc_test_epochs_maintain_separate_state =
     (ss_epoch (sr_state (sr_new 1)) = 1 \<and> ss_epoch (sr_state (sr_new 2)) = 2)"

definition sc_test_vote_same_round_idempotent :: bool where
  "sc_test_vote_same_round_idempotent =
     (let (rs, sr) = run_each record_vote (sr_new 1) [5, 5, 5]
     in list_all is_ok rs \<and> ss_last_voted_round (sr_state sr) = 5)"

definition sc_test_large_round_numbers :: bool where
  "sc_test_large_round_numbers =
     (sc_observed (sr_new 1) [sc_make_qc 999999 1 1]
     (\<lambda>sr. sc_safe sr (mock_block [] (mock_metadata 1 1000000 1 0 1000))))"

definition sc_test_genesis_round :: bool where
  "sc_test_genesis_round =
     (should_commit (sr_new 1) (sc_make_block 0 1 0 0) = None)"

definition sc_test_voting_with_uninitialized_state :: bool where
  "sc_test_voting_with_uninitialized_state =
     (sc_observed (sr_new 1) [sc_make_qc 0 1 0] (\<lambda>sr. sc_safe sr (sc_make_block 1 1 1 0)))"

lemmas safety_comprehensive_tests_defs =
  sc_test_safe_to_vote_normal_progression_def sc_test_safe_to_vote_consecutive_rounds_def
  sc_test_safe_to_timeout_normal_def sc_test_unsafe_to_timeout_qc_below_one_chain_def
  sc_test_safe_to_timeout_qc_equals_one_chain_def sc_test_commit_with_two_chain_def
  sc_test_no_commit_without_two_chain_def sc_test_commit_from_genesis_def
  sc_test_three_chain_commits_middle_def sc_test_double_vote_prevention_def
  sc_test_qc_updates_one_chain_round_def sc_test_state_recovery_def
  sc_test_safety_state_invariants_def sc_test_preferred_round_monotonicity_def
  sc_test_one_chain_round_monotonicity_def sc_test_epoch_transition_def
  sc_test_epochs_maintain_separate_state_def sc_test_vote_same_round_idempotent_def
  sc_test_large_round_numbers_def sc_test_genesis_round_def
  sc_test_voting_with_uninitialized_state_def

lemma safety_comprehensive_tests:
  "sc_test_safe_to_vote_normal_progression"
  "sc_test_safe_to_vote_consecutive_rounds"
  "sc_test_safe_to_timeout_normal"
  "sc_test_unsafe_to_timeout_qc_below_one_chain"
  "sc_test_safe_to_timeout_qc_equals_one_chain"
  "sc_test_commit_with_two_chain"
  "sc_test_no_commit_without_two_chain"
  "sc_test_commit_from_genesis"
  "sc_test_three_chain_commits_middle"
  "sc_test_double_vote_prevention"
  "sc_test_qc_updates_one_chain_round"
  "sc_test_state_recovery"
  "sc_test_safety_state_invariants"
  "sc_test_preferred_round_monotonicity"
  "sc_test_one_chain_round_monotonicity"
  "sc_test_epoch_transition"
  "sc_test_epochs_maintain_separate_state"
  "sc_test_vote_same_round_idempotent"
  "sc_test_large_round_numbers"
  "sc_test_genesis_round"
  "sc_test_voting_with_uninitialized_state"
  by (simp_all add: safety_comprehensive_tests_defs sr_eval kit_eval sc_make_block_def sc_make_qc_def mock_block_def mock_metadata_def mock_qc_with_metadata_def should_commit_def hm_eval tests_upt)

text \<open>The bodies of the loops of the next two tests.\<close>

definition sc_vote_round :: "two_chain_rules \<Rightarrow> u64 \<Rightarrow> bool \<times> two_chain_rules" where
  "sc_vote_round sr r =
     (case record_vote sr r of
        (res, sr') \<Rightarrow> (sc_safe sr (sc_make_block r 1 1 (ucast (r - 1))) \<and> is_ok res, sr'))"

definition sc_block :: "u64 \<Rightarrow> (u8, u8, u8) block" where
  "sc_block r = sc_make_block r 1 1 (ucast (saturating_sub r 1))"

definition sc_observe_round :: "two_chain_rules \<Rightarrow> u64 \<Rightarrow> bool \<times> two_chain_rules" where
  "sc_observe_round sr r =
     (case observe_qc sr (sc_make_qc r 1 (blk_id (sc_block r))) of
        (res, sr') \<Rightarrow> (is_ok res \<and> ss_one_chain_round (sr_state sr') = r, sr'))"

definition sc_commit_round :: "two_chain_rules \<Rightarrow> u64 \<Rightarrow> bool \<times> two_chain_rules" where
  "sc_commit_round sr r =
     (case observe_qc sr (sc_make_qc r 1 (blk_id (sc_block r))) of
        (res, sr') \<Rightarrow> (is_ok res \<and> (r < 10 \<longrightarrow> should_commit sr' (sc_block (r + 1)) \<noteq> None), sr'))"

definition sc_test_consecutive_rounds :: bool where
  "sc_test_consecutive_rounds =
     (let (rs, sr) = run_each sc_vote_round (sr_new 1) (map of_nat [1..<21])
      in list_all id rs \<and> ss_last_voted_round (sr_state sr) = 20)"

definition sc_test_multiple_consecutive_qcs :: bool where
  "sc_test_multiple_consecutive_qcs =
     (let (rs, _) = run_each sc_observe_round (sr_new 1) (map of_nat [0..<11]);
          (rs', _) = run_each sc_commit_round (sr_new 1) (map of_nat [1..<11])
      in list_all id rs \<and> list_all id rs')"

text \<open>A loop over increasing rounds whose body answers \<open>True\<close> and moves a round of the state to
  the one it was called with.\<close>

lemma run_each_increasing:
  assumes "\<And>st x. x \<in> set xs \<Longrightarrow> g st \<le> x \<Longrightarrow> fst (f st x) \<and> g (snd (f st x)) = x"
    and "sorted xs" and "\<And>x. x \<in> set xs \<Longrightarrow> g st \<le> x"
  shows "list_all id (fst (run_each f st xs)) \<and> g (snd (run_each f st xs)) = last (g st # xs)"
  using assms by (induction xs arbitrary: st) (auto simp: case_prod_beta)

lemma sc_vote_round_ok:
  "0 < r \<Longrightarrow> ss_last_voted_round (sr_state sr) \<le> r \<Longrightarrow>
   fst (sc_vote_round sr r) \<and> ss_last_voted_round (sr_state (snd (sc_vote_round sr r))) = r"
  by (auto simp: sc_vote_round_def safe_to_vote_ok_iff record_vote_def sc_make_block_def mock_block_def
      mock_metadata_def Let_def)

lemma sc_observe_ok:
  "ss_one_chain_round (sr_state sr) \<le> r \<Longrightarrow>
   is_ok (fst (observe_qc sr (sc_make_qc r e b))) \<and>
   ss_one_chain_round (sr_state (snd (observe_qc sr (sc_make_qc r e b)))) = r"
  by (simp add: observe_qc_ok tcr.obs_qc_one_chain [unfolded two_chain_def, simplified] sc_make_qc_def
      mock_qc_with_metadata_def mock_metadata_def qc_round_def)

lemma safety_loop_tests:
  "sc_test_consecutive_rounds"
  "sc_test_multiple_consecutive_qcs"
proof -
  have "list_all id (fst (run_each sc_vote_round (sr_new 1) (map of_nat [1..<21]))) \<and>
      ss_last_voted_round (sr_state (snd (run_each sc_vote_round (sr_new 1) (map of_nat [1..<21])))) =
        last (ss_last_voted_round (sr_state (sr_new 1)) # map of_nat [1..<21])"
    by (rule run_each_increasing) (auto simp: tests_upt sr_new_def sc_vote_round_ok)
  then show "sc_test_consecutive_rounds"
    by (simp add: sc_test_consecutive_rounds_def case_prod_beta) (simp add: tests_upt)
  have "list_all id (fst (run_each sc_observe_round (sr_new 1) (map of_nat [0..<11])))"
    by (rule run_each_increasing [where g = "\<lambda>sr. ss_one_chain_round (sr_state sr)", THEN conjunct1])
      (auto simp: tests_upt sr_new_def sc_observe_round_def case_prod_beta sc_observe_ok)
  moreover have "list_all id (fst (run_each sc_commit_round (sr_new 1) (map of_nat [1..<11])))"
    by (rule run_each_increasing [where g = "\<lambda>sr. ss_one_chain_round (sr_state sr)", THEN conjunct1])
      (auto simp: tests_upt sr_new_def sc_commit_round_def case_prod_beta sc_observe_ok should_commit_def
        sc_block_def sc_make_block_def mock_block_def mock_metadata_def Let_def)
  ultimately show "sc_test_multiple_consecutive_qcs"
    by (simp add: sc_test_multiple_consecutive_qcs_def case_prod_beta)
qed

section \<open>consensus\_integration.rs\<close>

definition ci_create_test_block :: "u64 \<Rightarrow> u64 \<Rightarrow> u8 \<Rightarrow> (u8, u8, u8) block" where
  "ci_create_test_block r e author = mock_block [] (mock_metadata e r author (ucast (r - 1)) (r * 1000))"

definition ci_test_safety_state_persistence_across_restart :: bool where
  "ci_test_safety_state_persistence_across_restart =
     (let (r1, s1) = record_vote (sr_new 1) 5; sr2 = sr_with_state (sr_state s1);
     (r2, s2) = record_vote sr2 3; (r3, s3) = record_vote s2 6
     in is_ok r1 \<and> ss_last_voted_round (sr_state sr2) = 5 \<and> ss_epoch (sr_state sr2) = 1 \<and> is_err r2 \<and> is_ok r3)"

definition ci_test_two_chain_commit_rule_enforcement :: bool where
  "ci_test_two_chain_commit_rule_enforcement =
     (let (r1, s1) = record_vote (sr_new 1) 5
     in sc_safe (sr_new 1) (ci_create_test_block 5 1 1) \<and> is_ok r1 \<and> ss_last_voted_round (sr_state s1) = 5)"

definition ci_test_double_vote_prevention :: bool where
  "ci_test_double_vote_prevention =
     (let (r1, s1) = record_vote (sr_new 1) 5; (r2, s2) = record_vote s1 5
     in sc_safe (sr_new 1) (ci_create_test_block 5 1 1) \<and> is_ok r1 \<and> is_ok r2)"

definition ci_test_one_chain_round_progression :: bool where
  "ci_test_one_chain_round_progression =
     (ss_one_chain_round (snd (update_one_chain_round (ss_new 1 0 3 3 0) 5)) = 5)"

definition ci_test_preferred_round_progression :: bool where
  "ci_test_preferred_round_progression =
     (let s1 = snd (update_preferred_round (ss_new 1 0 5 3 0) 10); s2 = snd (update_preferred_round s1 8)
     in ss_preferred_round s1 = 10 \<and> ss_preferred_round s2 = 10)"

definition ci_test_safety_state_invariants :: bool where
  "ci_test_safety_state_invariants =
     (let s = ss_new 1 10 10 8 5
     in ss_one_chain_round s \<le> ss_preferred_round s \<and> 0 \<le> ss_highest_timeout_round s)"

lemmas consensus_integration_tests_defs =
  ci_test_safety_state_persistence_across_restart_def
  ci_test_two_chain_commit_rule_enforcement_def ci_test_double_vote_prevention_def
  ci_test_one_chain_round_progression_def ci_test_preferred_round_progression_def
  ci_test_safety_state_invariants_def

lemma consensus_integration_tests:
  "ci_test_safety_state_persistence_across_restart"
  "ci_test_two_chain_commit_rule_enforcement"
  "ci_test_double_vote_prevention"
  "ci_test_one_chain_round_progression"
  "ci_test_preferred_round_progression"
  "ci_test_safety_state_invariants"
  by (simp_all add: consensus_integration_tests_defs sr_eval kit_eval ci_create_test_block_def mock_block_def mock_metadata_def hm_eval)

end
