(* ===== verification/Spec2Isabelle.thy ===== *)
theory Spec2Isabelle
  imports Prelude Base_Types Traits Codec Safety_State Timeout_Cert Two_Chain Mocks Recovery Round_State
    Sig_Aggregator Pending_Votes Quorum_Safety Round_Manager Pacemaker Proposer Epoch_Manager Pipeline
    Proposal Consensus Runtime State_Sync Reconfig Dag_Types Dag_Store Dag_Runs Dag_Driver
    Network Test_Kit Test_Eval Validators Tests_Safety Tests_Votes Tests_Rounds Tests_Liveness
    Tests_Engine Tests_Services Tests_Dag Tests_Mocks Tests_Integration
begin

text \<open>
  A verification of \<open>aptosbft\<close>, a consensus library in the AptosBFT style: the crate
  \<open>consensus-traits\<close> (the interfaces a host chain implements) and the crate \<open>consensus-core\<close>
  (safety rules, vote collection, round management, liveness, reconfiguration, state
  synchronisation and a DAG store).

  \<^bold>\<open>The program and its parts.\<close> A host chain supplies blocks, votes, certificates and a
  \<open>ValidatorVerifier\<close>. A \<open>RoundManager\<close> (\<open>round_manager/mod.rs\<close>) receives proposals, votes and
  timeouts; it files votes in \<open>PendingVotes\<close> (\<open>votes/pending_votes.rs\<close>), asks a
  \<open>SignatureAggregator\<close> (\<open>crypto/signature_aggregator.rs\<close>) whether they reach a quorum, forms
  a certificate and shows it to the safety rules (\<open>safety_rules/two_chain.rs\<close>), which decide
  when a node may vote, time out and commit, over a safety state (\<open>safety_rules/state.rs\<close>)
  that \<open>safety_rules/recovery.rs\<close> saves and restores. The engine (\<open>consensus/mod.rs\<close>) wraps a
  round manager, a pipeline (\<open>pipeline/mod.rs\<close>) and a proposer election
  (\<open>liveness/proposer.rs\<close>); a runtime (\<open>consensus/runtime.rs\<close>) feeds it with network messages.
  A pacemaker (\<open>liveness/pacemaker.rs\<close>), epochs (\<open>epoch_manager/mod.rs\<close>), reconfiguration
  (\<open>consensus/reconfig.rs\<close>), state synchronisation (\<open>consensus/state_sync.rs\<close>), the message
  handlers (\<open>network/mod.rs\<close>) and a DAG (\<open>dag/\<close>) stand beside it.

  \<^bold>\<open>Theories.\<close> In the order in which they build on each other:

  \<^item> \<open>Prelude\<close>: machine words (\<open>u64\<close> is \<open>64 word\<close>; \<open>+\<close> wraps as in a release build, \<open>checked_add\<close>
    and \<open>saturating_sub\<close> are written out), vectors, hash maps as association lists, decimal
    rendering; \<open>Base_Types\<close>: \<open>types.rs\<close>, errors (\<open>Msg\<close> for a returned error, \<open>Panic\<close> for a
    panic), durations, the clock and floating point as parameters.
  \<^item> \<open>Traits\<close>: \<open>consensus-traits\<close>. A trait whose methods only read is a record of their values
    (a block, a vote, a certificate), a trait with behaviour is a record of functions
    (\<open>validator_verifier\<close>, \<open>safety_rules\<close>, \<open>chain\<close>, \<open>proposer_election\<close>, \<open>consensus_storage\<close>) that
    the generic code takes as an argument. \<open>Mocks\<close>: the crate's own implementations of these
    traits (\<open>testing/\<close>), on which the witnesses run. \<open>Codec\<close>: the byte conversions of hashes,
    node ids, signatures and keys (locales \<open>byte_codec\<close>, \<open>fixed_width_codec\<close>), the validator set
    and the state view of the tests.
  \<^item> \<open>Safety_State\<close>, \<open>Timeout_Cert\<close>, \<open>Two_Chain\<close>: the safety state, timeout certificates and the
    two-chain rules. Lemmas: the rules equal their documented form over unbounded numbers;
    every operation is monotone; the commit rule of the code, and how it departs from the
    documented one; the locale \<open>safety_rules_laws\<close> states what a
    client relies on and is interpreted as \<open>tcr\<close>.
  \<^item> \<open>Recovery\<close>: validation, loading and saving of the safety state; the locale
    \<open>safety_storage\<close> (interpreted as \<open>ms\<close>) and when a restart accepts what was saved.
  \<^item> \<open>Round_State\<close>, \<open>Sig_Aggregator\<close>, \<open>Pending_Votes\<close>, \<open>Quorum_Safety\<close>: the round state, the
    aggregator, the vote table and quorums. Lemmas: the table refines a set of votes; a
    quorum is reached exactly when the exact power of the distinct authors is; two quorums
    share a correct voter (locales \<open>quorum_check\<close>, \<open>weighted_quorum\<close>, \<open>bft_verifier\<close>).
  \<^item> \<open>Round_Manager\<close>: every handler, an invariant over all runs, monotone votes, forming a
    certificate, timeouts.
  \<^item> \<open>Pacemaker\<close>, \<open>Proposer\<close>, \<open>Epoch_Manager\<close>, \<open>Pipeline\<close>, \<open>Proposal\<close>: liveness parts. Lemmas:
    rounds announced between resets increase, the back-off is capped, elections are fair and proportional
    (locale \<open>cyclic_election\<close>), a validator's reputation is a function of its own proposals
    (locale \<open>reputation_laws\<close>), epochs advance by one, the pipeline's counters are functions of the blocks
    and votes processed.
  \<^item> \<open>Consensus\<close>, \<open>Runtime\<close>: the engine and its message loop, with invariants over all runs, the
    equality of batch and one-by-one processing, and what a drained queue leaves behind.
  \<^item> \<open>State_Sync\<close>, \<open>Reconfig\<close>: what is ready after a response, round trips, and the quorums of a
    validator set; both state machines refine an inductive relation (\<open>sy_next\<close> on the status of
    a synchronisation, \<open>rc_next\<close> on epoch and status of a reconfiguration), whose reachable
    states are described by rule induction.
  \<^item> \<open>Dag_Types\<close>, \<open>Dag_Store\<close>, \<open>Dag_Driver\<close>: the DAG's data, the store as a refinement of a map
    (locale \<open>node_store\<close>), the driver and the ordering rule. \<open>Dag_Runs\<close>: the store over all
    sequences of its operations. \<open>Network\<close>: the message handlers.
  \<^item> \<open>Validators\<close>: a network of nodes that all run the round manager, as an inductive step
    relation over the votes that were sent, with faulty validators of at most a third of the
    power; the host chain's signing of votes and its choice of proposals are parameters
    (locale \<open>validator_network\<close>, interpreted as \<open>mvn\<close>). Lemmas, by rule induction over the
    reachable states: every counted vote was sent; two certificates have a common correct
    voter; one certified block per round if the host asks for votes only above the last voted
    round; a delivered quorum certifies its block in any order, at a host that certifies
    verified quorums (locale \<open>certifying_host\<close>, interpreted on the mock chain as \<open>mch\<close> and on a
    host that checks its votes as \<open>cch\<close>). Two runs show what the
    voting guard and the voting rule of the code permit: a fork within a round, and
    conflicting commits although nobody votes twice in a round.
  \<^item> \<open>Test_Kit\<close>, \<open>Test_Eval\<close>, \<open>Tests_Safety\<close>, \<open>Tests_Votes\<close>, \<open>Tests_Rounds\<close>, \<open>Tests_Liveness\<close>,
    \<open>Tests_Engine\<close>, \<open>Tests_Services\<close>, \<open>Tests_Dag\<close>, \<open>Tests_Mocks\<close>: the repository's unit tests,
    and in \<open>Tests_Integration\<close> the integration tests of quorums and safety rules, translated assertion by assertion over the model and proved to pass; they tie the
    definitions to the behaviour that the repository checks of its code. A test that only
    calls an accessor, clones, hashes or prints with \<open>Debug\<close> is left out. What a test reads of
    the system clock is universally quantified.

  The theorems below span components: two conflicting quorums in the tables of two nodes, a
  vote before and after a restart, and the pacemaker after the runtime drained its queue.

  \<^bold>\<open>Correspondence.\<close> A struct is a record with the struct's fields under a prefix
  (\<open>PendingVotes\<close> is \<open>pending_votes\<close> with fields \<open>pv_votes\<close>, \<open>pv_current_round\<close>, \<open>pv_max_rounds\<close>),
  a method is a definition with the same prefix (\<open>add_vote\<close> is \<open>pv_add_vote\<close>), a method on
  \<open>&mut self\<close> returns its result and the new value, also when it fails. Error messages are
  modelled as strings. Iteration over a hash map is in insertion order; no theorem depends
  on that order except through the multiset or set of the entries.

  \<^bold>\<open>Bounds and termination.\<close> No definition uses fuel: the loops that are not structural
  (\<open>ready_loop\<close>, \<open>pl_loop\<close>, \<open>crt_process_pending_messages\<close>, decimal rendering) are functions with
  a termination proof, and the theorems about them are unconditional or state the result.
  Hypotheses such as \<open>pv_vote_count \<dots> \<le> 2 ^ 64\<close> say that a collection fits in memory: a \<open>Vec\<close>
  or \<open>HashMap\<close> has at most \<open>usize::MAX\<close> entries.

  \<^bold>\<open>Not modelled.\<close> Text written to standard output; \<open>Debug\<close> output other than what ends up in
  an error message; serialisation (\<open>bincode\<close> is a parameter of the storage of the tests); the
  interleaving of \<open>async\<close> calls: \<open>ConsensusNetwork\<close>, \<open>ConsensusStorage\<close> and \<open>StateComputer\<close> are
  records of state-passing functions, and nothing in the repository implements the first and
  the last; the integration tests under \<open>tests/\<close> that repeat what unit tests check. The
  network of \<open>Validators\<close> has no clock: its steps are calls in any order. Getters that return a field are the field's
  selector. Floating-point arithmetic is a record of operations, instantiated by rational
  numbers in witnesses.
\<close>

section \<open>Two quorums\<close>

text \<open>C8: when the vote tables of two nodes complete quorums, for the same or for different blocks
  and rounds, some validator outside any set with at most a third of the voting power has
  votes in both: a fork within a round needs a correct validator that votes twice. The
  verifier is any whose quorum is two thirds of the known power plus one.\<close>

theorem conflicting_quorums_share_correct_voter:
  assumes "bft_verifier VV" and "pv_inv pv" and "pv_inv pv'"
    and "pv_add_vote pv v VV = (QuorumCompleted, pv1)"
    and "pv_add_vote pv' v' VV = (QuorumCompleted, pv1')"
    and "pv_vote_count pv1 (vote_round v) (vote_block_id v) \<le> 2 ^ 64"
    and "pv_vote_count pv1' (vote_round v') (vote_block_id v') \<le> 2 ^ 64"
    and "F \<subseteq> known VV" and "3 * exact_power VV F \<le> exact_power VV (known VV)"
  shows "\<exists>w \<in> insert v (pv_abs pv). \<exists>w' \<in> insert v' (pv_abs pv').
           vote_author w = vote_author w' \<and> vote_author w \<notin> F \<and>
           vote_round w = vote_round v \<and> vote_block_id w = vote_block_id v \<and>
           vote_round w' = vote_round v' \<and> vote_block_id w' = vote_block_id v'"
proof -
  note q = add_vote_completes [OF assms(2,4)] and q' = add_vote_completes [OF assms(3,5)]
  from bft_verifier.tables_share_correct [OF assms(1,6) q(1) assms(7) q'(1) assms(8,9)]
  show ?thesis by (simp add: q(2) q'(2)) blast
qed

text \<open>Four validators; both nodes hear of votes 0, 1, 2 and 1, 2, 3 for two blocks of round 3.\<close>

theorem conflicting_quorums_share_correct_voter_witness:
  "let VV = mvs_verifier (make_validator_set [1, 1, 1, 1]);
       table = (\<lambda>b. foldl (\<lambda>pv a. snd (pv_add_vote pv (mock_vote a b 3) VV)) (pv_new 10))
   in \<exists>w \<in> insert (mock_vote 2 7 3) (pv_abs (table 7 [0, 1])).
      \<exists>w' \<in> insert (mock_vote 3 8 3) (pv_abs (table 8 [1, 2])).
        vote_author w = vote_author w' \<and> vote_author w \<noteq> 2 \<and>
        vote_block_id w = 7 \<and> vote_block_id w' = 8"
proof -
  let ?VV = "mvs_verifier (make_validator_set [1, 1, 1, 1])"
  let ?t = "\<lambda>b. foldl (\<lambda>pv a. snd (pv_add_vote pv (mock_vote a b 3) ?VV)) (pv_new 10)"
  let ?r = "pv_add_vote (?t 7 [0, 1]) (mock_vote 2 7 3) ?VV"
    and ?r' = "pv_add_vote (?t 8 [1, 2]) (mock_vote 3 8 3) ?VV"
  have bv: "bft_verifier ?VV" by (rule bft_verifier_make) simp
  have "fst ?r = QuorumCompleted" "fst ?r' = QuorumCompleted" by code_simp+
  then have r: "?r = (QuorumCompleted, snd ?r)" and r': "?r' = (QuorumCompleted, snd ?r')"
    by (simp_all add: prod_eq_iff)
  have "pv_vote_count (snd ?r) 3 7 = 3" "pv_vote_count (snd ?r') 3 8 = 3" by code_simp+
  then have n: "pv_vote_count (snd ?r) (vote_round (mock_vote 2 7 3)) (vote_block_id (mock_vote 2 7 3)) \<le> 2 ^ 64"
    and n': "pv_vote_count (snd ?r') (vote_round (mock_vote 3 8 3)) (vote_block_id (mock_vote 3 8 3)) \<le> 2 ^ 64"
    by (simp_all add: mock_vote_fields)
  have inv: "pv_inv (?t b as)" for b as
    by (induction as rule: rev_induct) (simp_all add: pv_inv_add_vote)
  have "vv_get_voting_power ?VV 2 = Some 1" by code_simp
  then have F: "{2} \<subseteq> known ?VV" "3 * exact_power ?VV {2} \<le> exact_power ?VV (known ?VV)"
    using make_validator_set_known(2) [of "[1, 1, 1, 1]"]
    by (simp_all add: dom_def exact_power_def [of _ "{2}"])
  from conflicting_quorums_share_correct_voter [OF bv inv inv r r' n n' F]
  show ?thesis unfolding Let_def mock_vote_fields by blast
qed

section \<open>A vote before and after a restart\<close>

text \<open>C10: a restart does not let a node vote backwards: when a round manager has voted for a block,
  its safety state is saved at some later time, and a new round manager is started on the
  state loaded from the storage, then no handler sequence makes it vote for a block of a
  lower round. The storage is any that returns what was last saved.\<close>

theorem restart_keeps_votes:
  assumes "safety_storage S"
    and "is_ok (fst (try_vote_for_proposal two_chain rm b tc))"
    and "rm1 = rm_run CH two_chain VV (snd (try_vote_for_proposal two_chain rm b tc)) evs"
    and "persist_safety_state S st (sr_state (rm_safety_rules rm1)) = (Inr (), st')"
    and "load_safety_rules S st' e = Inr sr"
    and "blk_round b' < blk_round b"
  shows "\<not> is_ok (fst (try_vote_for_proposal two_chain
            (rm_run CH' two_chain VV' (rm_new config sr) evs') b' tc'))"
proof -
  have "sr_state sr = sr_state (rm_safety_rules rm1)"
    using safety_storage.load_after_persist [OF assms(1,4), of e] assms(5)
    by (auto simp: sr_with_state_def split: sum.splits)
  moreover have "blk_round b \<le> ss_last_voted_round (sr_state (rm_safety_rules rm1))"
    using tcr.try_vote_ok_voted(1) [OF assms(2)] assms(3)
      tcr.run_voted_mono [of "snd (try_vote_for_proposal two_chain rm b tc)" CH VV evs] by simp
  moreover have "ss_last_voted_round (sr_state sr) \<le> ss_last_voted_round
      (sr_state (rm_safety_rules (rm_run CH' two_chain VV' (rm_new config sr) evs')))"
    using tcr.run_voted_mono [of "rm_new config sr" CH' VV' evs'] by (simp add: rm_new_def)
  ultimately show ?thesis using assms(6) by (auto simp: try_vote_ok_iff)
qed

theorem restart_keeps_votes_witness:
  "let rm = rm_new rmc_default (sr_new 0) :: (two_chain_rules, u8, u8, u8) round_manager;
       rm1 = snd (try_vote_for_proposal two_chain rm (mock_block [] (mock_metadata 0 5 1 0 0)) None);
       S = mock_consensus_storage Inr;
       st = snd (persist_safety_state S \<lparr>ms_state = None, ms_should_fail = False\<rparr>
              (sr_state (rm_safety_rules rm1)))
   in \<exists>sr. load_safety_rules S st 0 = Inr sr \<and>
        \<not> is_ok (fst (try_vote_for_proposal two_chain
            (rm_new rmc_default sr :: (two_chain_rules, u8, u8, u8) round_manager)
            (mock_block [] (mock_metadata 0 3 1 0 0)) None))"
proof -
  let ?rm = "rm_new rmc_default (sr_new 0) :: (two_chain_rules, u8, u8, u8) round_manager"
    and ?b = "mock_block [] (mock_metadata 0 5 1 0 0)" and ?S = "mock_consensus_storage Inr"
    and ?b' = "mock_block [] (mock_metadata 0 3 1 0 0)" and ?VV = "mvs_verifier (make_validator_set [1])"
  let ?rm1 = "rm_run mock_chain two_chain ?VV (snd (try_vote_for_proposal two_chain ?rm ?b None)) []"
  let ?r = "persist_safety_state ?S \<lparr>ms_state = None, ms_should_fail = False\<rparr>
    (sr_state (rm_safety_rules ?rm1))"
  have ok: "is_ok (fst (try_vote_for_proposal two_chain ?rm ?b None))"
    by (simp add: try_vote_ok_iff rm_new_def sr_new_def mock_block_def mock_metadata_def)
  have p: "?r = (Inr (), snd ?r)"
    by (simp add: persist_safety_state_def mock_consensus_storage_def mock_save_def)
  have "sr_state (rm_safety_rules ?rm1) = (sr_state (sr_new 0))\<lparr>ss_last_voted_round := 5\<rparr>"
    by (simp add: try_vote_for_proposal_def rm_new_def sr_new_def mock_block_def mock_metadata_def
        two_chain_def ss_safety_state_def safe_to_vote_def safe_to_vote_impl_def next_round_eq
        saturating_sub_def record_vote_def Let_def)
  then have l: "load_safety_rules ?S (snd ?r) 0 = Inr (sr_with_state (sr_state (rm_safety_rules ?rm1)))"
    using ms.load_after_persist [OF p, of 0] validate_ok_iff [of "sr_state (rm_safety_rules ?rm1)"]
    by (simp add: sr_new_def)
  have lt: "blk_round ?b' < blk_round ?b" by (simp add: mock_block_def mock_metadata_def)
  show ?thesis
    using restart_keeps_votes [OF ms.safety_storage_axioms ok refl p l lt, of mock_chain ?VV
        rmc_default "[]" None] l
    by (simp add: Let_def)
qed

section \<open>What a runtime does to its pacemaker\<close>

text \<open>C28: draining the message queue of a running runtime changes nothing of the engine but two rounds
  of its pacemaker: the current round becomes the highest of itself and the rounds after the
  timed-out ones, the highest ordered round the highest of itself and the certified rounds.
  So neither the order nor the repetition of messages matters, and proposals, votes and
  synchronisation messages in the queue have no effect.\<close>

theorem drained_queue_sets_pacemaker:
  assumes "cs_state (crt_consensus rt) = Running"
  shows "crt_consensus (snd (crt_process_pending_messages F rt)) =
           (let c = crt_consensus rt; pm = cs_pacemaker c; ms = set (crt_pending_messages rt)
            in c\<lparr>cs_pacemaker := pm\<lparr>
                 pm_current_round := Max (insert (pm_current_round pm) {r + 1 | r. NM_Timeout r \<in> ms}),
                 pm_highest_ordered_round :=
                   Max (insert (pm_highest_ordered_round pm) {qc_round qc | qc. NM_QuorumCertificate qc \<in> ms})\<rparr>\<rparr>)"
  using handle_all_pacemaker [OF assms, of F "crt_pending_messages rt"]
  by (simp add: process_pending_eq foldl_max_Max set_entered_rounds set_ordered_rounds Let_def)

theorem drained_queue_sets_pacemaker_witness:
  "\<exists>c. mock_engine 0 = Inr c \<and>
     (let rt = foldl crt_add_network_message (snd (crt_start (crt_new c rtc_default)))
                 [NM_Timeout 5, NM_QuorumCertificate (mock_qc_with_metadata (mock_metadata 0 3 1 0 0) 0),
                  NM_Timeout 2, NM_Vote (mock_vote 1 1 1)];
          pm = cs_pacemaker (crt_consensus (snd (crt_process_pending_messages rat_f64 rt)))
      in pm_current_round pm = 6 \<and> pm_highest_ordered_round pm = 3)"
proof -
  let ?ms = "[NM_Timeout 5, NM_QuorumCertificate (mock_qc_with_metadata (mock_metadata 0 3 1 0 0) 0),
    NM_Timeout 2, NM_Vote (mock_vote 1 1 1)]"
  obtain c :: "(u8, u8, u8, u8, rat) consensus" where c: "mock_engine 0 = Inr c"
    and st: "cs_state c = Bootstrapping"
    and pm: "pm_current_round (cs_pacemaker c) = 1" "pm_highest_ordered_round (cs_pacemaker c) = 0"
    by (simp add: mock_engine_eq pm_new_def pmc_default_def Let_def saturating_sub_def)
  define rt where "rt = foldl crt_add_network_message (snd (crt_start (crt_new c rtc_default))) ?ms"
  have rt: "crt_consensus rt = c\<lparr>cs_state := Running\<rparr>" "crt_pending_messages rt = ?ms"
    by (simp_all add: rt_def crt_add_network_message_def crt_start_def crt_new_def cs_start_def st)
  have sets: "{r + 1 | r. NM_Timeout r \<in> set (crt_pending_messages rt)} = {6, 3}"
    "{qc_round qc | qc. NM_QuorumCertificate qc \<in> set (crt_pending_messages rt)} = {3}"
    by (auto simp: rt qc_round_def mock_qc_with_metadata_def mock_metadata_def intro: exI [of _ 5] exI [of _ 2])
  let ?pm = "cs_pacemaker (crt_consensus (snd (crt_process_pending_messages rat_f64 rt)))"
  have "pm_current_round ?pm = 6 \<and> pm_highest_ordered_round ?pm = 3"
    using drained_queue_sets_pacemaker [of rt rat_f64] by (simp add: sets rt(1) pm Let_def)
  with c show ?thesis unfolding rt_def Let_def by blast
qed

end
